(* ===== verification/Prelude.thy ===== *)
theory Prelude
  imports Main "HOL-Library.Word" "HOL-Library.Multiset" "HOL-Library.Sublist"
begin

text \<open>
  What every theory of the development shares: Go's \<open>error\<close> values and results, unrendered
  messages, bytes, the big-endian encoding of numbers, and the decimal rendering and parsing of
  \<^verbatim>\<open>math/big\<close> integers (the part of the standard library the daemon uses for storage keys and for
  gRPC headers).
\<close>

section \<open>Bytes, messages, errors\<close>

type_synonym byte = "8 word"
type_synonym bytes = "byte list"

text \<open>
  The Ethereum address \<^verbatim>\<open>[20]byte\<close> and the group id \<^verbatim>\<open>[32]byte\<close> are fixed-size arrays, compared
  bytewise: words of the same number of bits.
\<close>

type_synonym Address = "160 word"
type_synonym bytes32 = "256 word"

text \<open>
  A message is kept the way the code builds it and is not rendered: the format string with its
  arguments, or a concatenation. Only the storage keys (below) need their rendering.
\<close>

datatype message =
    Lit string
  | IntArg int
  | BytesArg bytes
  | AddressArg Address
  | Bytes32Arg bytes32
  | StringsArg "string list"
  | Sprintf message "message list"
  | Concat message message

text \<open>
  The gRPC status codes the daemon returns. \<open>Code n\<close> is a code the daemon numbers itself.
\<close>

datatype codes_Code =
    codes_InvalidArgument
  | codes_Internal
  | codes_Unauthenticated
  | codes_FailedPrecondition
  | codes_ResourceExhausted
  | Code nat

record Status =
  status_code :: codes_Code
  status_message :: message

text \<open>
  \<^verbatim>\<open>PaymentErrorCode\<close> is an \<^verbatim>\<open>int\<close> with four named values; code that switches on it has a default
  branch, so the type is kept open.
\<close>

type_synonym PaymentErrorCode = int

definition Internal :: PaymentErrorCode where "Internal = 1"
definition Unauthenticated :: PaymentErrorCode where "Unauthenticated = 2"
definition FailedPrecondition :: PaymentErrorCode where "FailedPrecondition = 3"
definition IncorrectNonce :: PaymentErrorCode where "IncorrectNonce = 4"

lemmas payment_error_codes =
  Internal_def Unauthenticated_def FailedPrecondition_def IncorrectNonce_def

record PaymentError =
  error_Code :: PaymentErrorCode
  error_Message :: message

text \<open>
  A non-nil \<^verbatim>\<open>error\<close>: a plain error (\<^verbatim>\<open>errors.New\<close>, \<^verbatim>\<open>fmt.Errorf\<close>, or what a library returned), a
  \<^verbatim>\<open>*PaymentError\<close>, or the error of a gRPC status. The dynamic type matters: the payment handler
  asks for it with a type assertion.
\<close>

datatype error =
    Error message
  | PaymentErr PaymentError
  | StatusErr Status

type_synonym 'a result = "error + 'a"

text \<open>\<open>NewPaymentError code format args\<close> renders the format with its arguments.\<close>

definition NewPaymentError :: "PaymentErrorCode \<Rightarrow> message \<Rightarrow> message list \<Rightarrow> error" where
  "NewPaymentError code format msg =
     PaymentErr \<lparr>error_Code = code, error_Message = Sprintf format msg\<rparr>"

definition errors_New :: "string \<Rightarrow> error" where
  "errors_New s = Error (Lit s)"

definition fmt_Errorf :: "string \<Rightarrow> message list \<Rightarrow> error" where
  "fmt_Errorf format args = Error (Sprintf (Lit format) args)"

text \<open>The \<^verbatim>\<open>Error()\<close> method: the text of an error. For a \<^verbatim>\<open>*PaymentError\<close> it is its message.\<close>

fun error_text :: "error \<Rightarrow> message" where
  "error_text (Error m) = m"
| "error_text (PaymentErr p) = error_Message p"
| "error_text (StatusErr s) = status_message s"

lemma NewPaymentError_neq_Error [simp]:
  "NewPaymentError c f a \<noteq> Error m" "Error m \<noteq> NewPaymentError c f a"
  by (simp_all add: NewPaymentError_def)

text \<open>A Go call that may panic: it returns, or it panics with a description.\<close>

datatype 'a go = Returns 'a | Panics message

text \<open>The runtime panic of a nil pointer dereference.\<close>

definition nil_dereference :: message where
  "nil_dereference = Lit ''invalid memory address or nil pointer dereference''"

text \<open>
  \<open>result_rules\<close> collects the inversion lemmas of the storage and service operations;
  \<open>handler_defs\<close> the definitions of the request handlers, unfolded together in proofs about them.
\<close>

named_theorems result_rules \<open>inversion of operations that returned without error\<close>
named_theorems handler_defs \<open>definitions of request handlers\<close>

section \<open>Lists\<close>

lemma append_sep_inject:
  "c \<notin> set xs \<Longrightarrow> c \<notin> set ys \<Longrightarrow> xs @ c # us = ys @ c # vs \<longleftrightarrow> xs = ys \<and> us = vs"
proof (induction xs arbitrary: ys)
  case Nil
  then show ?case by (cases ys) auto
next
  case (Cons x xs)
  then show ?case by (cases ys) auto
qed

lemma distinct_map_removed:
  assumes "distinct (map f (xs @ y # ys))" "x \<in> set (xs @ ys)"
  shows "f x \<noteq> f y"
proof
  assume "f x = f y"
  with assms(2) have "f y \<in> f ` set xs \<union> f ` set ys" by (metis UnCI UnE image_eqI set_append)
  with assms(1) show False by auto
qed

end
