(* ===== verification/BigInt.thy ===== *)
theory BigInt
  imports Prelude
begin

text \<open>
  The part of the standard package \<^verbatim>\<open>math/big\<close> the daemon relies on. A \<^verbatim>\<open>*big.Int\<close> is an \<open>int\<close>;
  \<open>show_int\<close> is its decimal rendering (\<^verbatim>\<open>%v\<close>), \<open>UnmarshalText\<close> the parser used on gRPC headers and
  command-line flags, \<open>SetBytes\<close> the big-endian reading, \<open>Int64\<close> the low 64 bits. The rendering and
  the parser are mutually inverse, so rendered numbers are injective; this is what keeps the storage
  keys of different channels apart.
\<close>

section \<open>Decimal rendering\<close>

definition digit_char :: "nat \<Rightarrow> char" where
  "digit_char d = char_of (48 + d)"

fun show_nat :: "nat \<Rightarrow> string" where
  "show_nat n = (if n < 10 then [digit_char n] else show_nat (n div 10) @ [digit_char (n mod 10)])"

declare show_nat.simps [simp del]

definition show_int :: "int \<Rightarrow> string" where
  "show_int i = (if i < 0 then CHR ''-'' # show_nat (nat (- i)) else show_nat (nat i))"

section \<open>Parsing\<close>

definition digit_value :: "char \<Rightarrow> nat option" where
  "digit_value c =
     (let n = of_char c :: nat in
      if 48 \<le> n \<and> n \<le> 57 then Some (n - 48)
      else if 97 \<le> n \<and> n \<le> 122 then Some (n - 97 + 10)
      else if 65 \<le> n \<and> n \<le> 90 then Some (n - 65 + 10)
      else None)"

text \<open>Digits of a base up to the end of the text; a character that is no digit is a leftover, which fails.\<close>

fun scan_digits :: "nat \<Rightarrow> nat \<Rightarrow> string \<Rightarrow> nat option" where
  "scan_digits b acc [] = Some acc"
| "scan_digits b acc (c # cs) =
     (case digit_value c of
        None \<Rightarrow> None
      | Some d \<Rightarrow> if d < b then scan_digits b (acc * b + d) cs else None)"

text \<open>Base 0: the prefix chooses the base, as in Go literals (\<^verbatim>\<open>0x\<close>, \<^verbatim>\<open>0b\<close>, a leading \<^verbatim>\<open>0\<close> for octal).\<close>

definition scan_nat :: "string \<Rightarrow> nat option" where
  "scan_nat s =
     (case s of
        [] \<Rightarrow> None
      | c # cs \<Rightarrow>
          if c \<noteq> CHR ''0'' then scan_digits 10 0 s
          else (case cs of
                  [] \<Rightarrow> Some 0
                | x # ds \<Rightarrow>
                    if x = CHR ''x'' \<or> x = CHR ''X'' then (if ds = [] then None else scan_digits 16 0 ds)
                    else if x = CHR ''b'' \<or> x = CHR ''B'' then (if ds = [] then None else scan_digits 2 0 ds)
                    else scan_digits 8 0 cs))"

definition UnmarshalText :: "string \<Rightarrow> int option" where
  "UnmarshalText s =
     (case s of
        [] \<Rightarrow> None
      | c # cs \<Rightarrow>
          if c = CHR ''-'' then map_option (\<lambda>n. - int n) (scan_nat cs)
          else if c = CHR ''+'' then map_option int (scan_nat cs)
          else map_option int (scan_nat s))"

section \<open>Rendering and parsing are inverse\<close>

lemma of_char_digit_char: "d < 10 \<Longrightarrow> (of_char (digit_char d) :: nat) = 48 + d"
  by (simp add: digit_char_def)

lemma digit_value_digit_char [simp]: "d < 10 \<Longrightarrow> digit_value (digit_char d) = Some d"
  by (simp add: digit_value_def of_char_digit_char)

lemma digit_char_eq_iff: "d < 10 \<Longrightarrow> digit_char d = c \<longleftrightarrow> (of_char c :: nat) = 48 + d"
  by (metis of_char_digit_char of_char_eq_iff)

lemma scan_digits_append:
  "scan_digits b acc (xs @ ys) =
     (case scan_digits b acc xs of None \<Rightarrow> None | Some a \<Rightarrow> scan_digits b a ys)"
  by (induction b acc xs rule: scan_digits.induct) (auto split: option.splits)

lemma scan_digits_show_nat: "scan_digits 10 0 (show_nat n) = Some n"
proof (induction n rule: show_nat.induct)
  case (1 n)
  show ?case
  proof (cases "n < 10")
    case True
    then show ?thesis by (simp add: show_nat.simps)
  next
    case False
    with 1 have "scan_digits 10 0 (show_nat (n div 10)) = Some (n div 10)" by simp
    with False show ?thesis
      by (subst show_nat.simps) (simp add: scan_digits_append div_mult_mod_eq)
  qed
qed

lemma show_nat_digits: "c \<in> set (show_nat n) \<Longrightarrow> \<exists>d < 10. c = digit_char d"
proof (induction n rule: show_nat.induct)
  case (1 n)
  show ?case
  proof (cases "n < 10")
    case True
    with "1.prems" show ?thesis by (auto simp: show_nat.simps)
  next
    case False
    with "1.prems" consider "c \<in> set (show_nat (n div 10))" | "c = digit_char (n mod 10)"
      by (subst (asm) show_nat.simps) auto
    then show ?thesis
    proof cases
      case 1
      with "1.IH" False show ?thesis by simp
    next
      case 2
      then show ?thesis by (intro exI [of _ "n mod 10"]) simp
    qed
  qed
qed

lemma show_nat_nonempty [simp]: "show_nat n \<noteq> []"
  by (subst show_nat.simps) simp

lemma show_nat_hd: "0 < n \<Longrightarrow> hd (show_nat n) \<noteq> CHR ''0''"
proof (induction n rule: show_nat.induct)
  case (1 n)
  show ?case
  proof (cases "n < 10")
    case True
    with "1.prems" show ?thesis by (simp add: show_nat.simps digit_char_eq_iff)
  next
    case False
    with "1.IH" have "hd (show_nat (n div 10)) \<noteq> CHR ''0''" by simp
    with False show ?thesis by (subst show_nat.simps) simp
  qed
qed

lemma show_nat_0: "show_nat 0 = ''0''"
  by (simp add: show_nat.simps digit_char_eq_iff)

lemma scan_nat_show_nat: "scan_nat (show_nat n) = Some n"
proof (cases "n = 0")
  case True
  then show ?thesis by (simp add: show_nat_0 scan_nat_def)
next
  case False
  then obtain c cs where s: "show_nat n = c # cs" and c: "c \<noteq> CHR ''0''"
    using show_nat_hd [of n] by (cases "show_nat n") auto
  then have "scan_nat (show_nat n) = scan_digits 10 0 (show_nat n)"
    by (simp add: scan_nat_def)
  then show ?thesis by (simp add: scan_digits_show_nat)
qed

lemma digit_char_not_sign: "d < 10 \<Longrightarrow> digit_char d \<noteq> CHR ''-''" "d < 10 \<Longrightarrow> digit_char d \<noteq> CHR ''+''"
  by (simp_all add: digit_char_eq_iff)

lemma show_nat_hd_no_sign:
  "show_nat n = c # cs \<Longrightarrow> c \<noteq> CHR ''-''" "show_nat n = c # cs \<Longrightarrow> c \<noteq> CHR ''+''"
  using show_nat_digits [of c n] by (auto simp: digit_char_not_sign)

lemma UnmarshalText_show_int: "UnmarshalText (show_int i) = Some i"
proof (cases "i < 0")
  case True
  then show ?thesis by (simp add: show_int_def UnmarshalText_def scan_nat_show_nat)
next
  case False
  obtain c cs where s: "show_nat (nat i) = c # cs" by (cases "show_nat (nat i)") auto
  then have "c \<noteq> CHR ''-''" and "c \<noteq> CHR ''+''"
    using show_nat_hd_no_sign [OF s] by simp_all
  then have "UnmarshalText (show_nat (nat i)) = map_option int (scan_nat (show_nat (nat i)))"
    by (simp add: UnmarshalText_def s)
  then show ?thesis using False by (simp add: show_int_def scan_nat_show_nat)
qed

lemma show_int_inject [simp]: "show_int i = show_int j \<longleftrightarrow> i = j"
  by (metis UnmarshalText_show_int option.inject)

lemma show_int_chars:
  "c \<in> set (show_int i) \<Longrightarrow> c = CHR ''-'' \<or> (\<exists>d < 10. c = digit_char d)"
  by (auto simp: show_int_def dest: show_nat_digits split: if_splits)

lemma slash_notin_show_int [simp]: "CHR ''/'' \<notin> set (show_int i)"
  by (auto dest!: show_int_chars simp: digit_char_eq_iff eq_commute [of "CHR ''/''"])

lemma comma_notin_show_int [simp]: "CHR '','' \<notin> set (show_int i)"
  by (auto dest!: show_int_chars simp: digit_char_eq_iff eq_commute [of "CHR '',''"])

section \<open>Bytes\<close>

text \<open>\<open>be_bytes k v\<close>: the \<open>k\<close> low bytes of \<open>v\<close>, most significant first.\<close>

fun be_bytes :: "nat \<Rightarrow> nat \<Rightarrow> bytes" where
  "be_bytes 0 v = []"
| "be_bytes (Suc k) v = be_bytes k (v div 256) @ [of_nat (v mod 256)]"

definition of_be_bytes :: "bytes \<Rightarrow> nat" where
  "of_be_bytes bs = foldl (\<lambda>a b. a * 256 + unat b) 0 bs"

text \<open>\<^verbatim>\<open>(&big.Int{}).SetBytes(bs)\<close>.\<close>

definition SetBytes :: "bytes \<Rightarrow> int" where
  "SetBytes bs = int (of_be_bytes bs)"

text \<open>
  \<^verbatim>\<open>x.Int64()\<close>: the low 64 bits of the magnitude, with the sign. The documentation leaves the result
  undefined when \<open>x\<close> does not fit; this is what the implementation computes.
\<close>

definition Int64 :: "int \<Rightarrow> 64 word" where
  "Int64 x = (let v = word_of_int \<bar>x\<bar> in if x < 0 then - v else v)"

lemma length_be_bytes [simp]: "length (be_bytes k v) = k"
  by (induction k arbitrary: v) auto

lemma of_be_bytes_snoc: "of_be_bytes (bs @ [b]) = of_be_bytes bs * 256 + unat b"
  by (simp add: of_be_bytes_def)

lemma unat_of_nat_byte: "unat (of_nat (v mod 256) :: byte) = v mod 256"
  by (simp add: unat_of_nat)

lemma of_be_bytes_be_bytes: "of_be_bytes (be_bytes k v) = v mod 256 ^ k"
proof (induction k arbitrary: v)
  case 0
  then show ?case by (simp add: of_be_bytes_def)
next
  case (Suc k)
  have "of_be_bytes (be_bytes (Suc k) v) = (v div 256 mod 256 ^ k) * 256 + v mod 256"
    by (simp add: of_be_bytes_snoc Suc.IH unat_of_nat_byte)
  also have "\<dots> = v mod (256 * 256 ^ k)"
    by (simp add: mod_mult2_eq)
  finally show ?case by simp
qed

lemma be_bytes_inject:
  assumes "be_bytes k u = be_bytes k v" "u < 256 ^ k" "v < 256 ^ k"
  shows "u = v"
  by (metis assms mod_less of_be_bytes_be_bytes)

lemma Int64_eq: "Int64 x = word_of_int x"
  by (cases "x < 0") (simp_all add: Int64_def Let_def)

lemma Int64_eq_0_iff: "Int64 x = 0 \<longleftrightarrow> 2 ^ 64 dvd x"
  by (simp add: Int64_eq word_of_int_eq_0_iff)

end
