(* ===== verification/AtomicStorage.thy ===== *)
theory AtomicStorage
  imports BigInt
begin

text \<open>
  \<^verbatim>\<open>escrow/atomic_storage.go\<close>: the \<^verbatim>\<open>AtomicStorage\<close> interface, the decorator that prefixes keys and
  the decorator that serializes keys and values.

  A Go interface value is a record of its methods. A method works on the shared world \<open>'w\<close> (the
  storage and everything outside the daemon) and returns its results with the world after the call:
  \<^verbatim>\<open>(value, ok, err)\<close> is \<open>Inl err\<close>, \<open>Inr None\<close> for a false \<^verbatim>\<open>ok\<close>, or \<open>Inr (Some value)\<close>.

  The locale \<open>atomic_storage\<close> states what the interface's comments promise, over an abstraction
  \<open>view\<close> of the world to a key-value map. A failed write is allowed to have taken effect: a request
  to etcd that timed out may have been executed.
\<close>

section \<open>The interface\<close>

record 'w AtomicStorage =
  Get :: "string \<Rightarrow> 'w \<Rightarrow> string option result \<times> 'w"
  GetByKeyPrefix :: "string \<Rightarrow> 'w \<Rightarrow> string list result \<times> 'w"
  Put :: "string \<Rightarrow> string \<Rightarrow> 'w \<Rightarrow> unit result \<times> 'w"
  PutIfAbsent :: "string \<Rightarrow> string \<Rightarrow> 'w \<Rightarrow> bool result \<times> 'w"
  CompareAndSwap :: "string \<Rightarrow> string \<Rightarrow> string \<Rightarrow> 'w \<Rightarrow> bool result \<times> 'w"
  Delete :: "string \<Rightarrow> 'w \<Rightarrow> unit result \<times> 'w"

section \<open>Prefixed storage\<close>

record 'w PrefixedAtomicStorage =
  prefixed_delegate :: "'w AtomicStorage"
  keyPrefix :: string

definition PrefixedAtomicStorage_Get ::
  "'w PrefixedAtomicStorage \<Rightarrow> string \<Rightarrow> 'w \<Rightarrow> string option result \<times> 'w" where
  "PrefixedAtomicStorage_Get storage key = Get (prefixed_delegate storage) (keyPrefix storage @ ''/'' @ key)"

definition PrefixedAtomicStorage_GetByKeyPrefix ::
  "'w PrefixedAtomicStorage \<Rightarrow> string \<Rightarrow> 'w \<Rightarrow> string list result \<times> 'w" where
  "PrefixedAtomicStorage_GetByKeyPrefix storage pre =
     GetByKeyPrefix (prefixed_delegate storage) (keyPrefix storage @ ''/'' @ pre)"

definition PrefixedAtomicStorage_Put ::
  "'w PrefixedAtomicStorage \<Rightarrow> string \<Rightarrow> string \<Rightarrow> 'w \<Rightarrow> unit result \<times> 'w" where
  "PrefixedAtomicStorage_Put storage key v =
     Put (prefixed_delegate storage) (keyPrefix storage @ ''/'' @ key) v"

definition PrefixedAtomicStorage_PutIfAbsent ::
  "'w PrefixedAtomicStorage \<Rightarrow> string \<Rightarrow> string \<Rightarrow> 'w \<Rightarrow> bool result \<times> 'w" where
  "PrefixedAtomicStorage_PutIfAbsent storage key v =
     PutIfAbsent (prefixed_delegate storage) (keyPrefix storage @ ''/'' @ key) v"

definition PrefixedAtomicStorage_CompareAndSwap ::
  "'w PrefixedAtomicStorage \<Rightarrow> string \<Rightarrow> string \<Rightarrow> string \<Rightarrow> 'w \<Rightarrow> bool result \<times> 'w" where
  "PrefixedAtomicStorage_CompareAndSwap storage key prevValue newValue =
     CompareAndSwap (prefixed_delegate storage) (keyPrefix storage @ ''/'' @ key) prevValue newValue"

definition PrefixedAtomicStorage_Delete ::
  "'w PrefixedAtomicStorage \<Rightarrow> string \<Rightarrow> 'w \<Rightarrow> unit result \<times> 'w" where
  "PrefixedAtomicStorage_Delete storage key =
     Delete (prefixed_delegate storage) (keyPrefix storage @ ''/'' @ key)"

lemmas PrefixedAtomicStorage_defs =
  PrefixedAtomicStorage_Get_def PrefixedAtomicStorage_GetByKeyPrefix_def
  PrefixedAtomicStorage_Put_def PrefixedAtomicStorage_PutIfAbsent_def
  PrefixedAtomicStorage_CompareAndSwap_def PrefixedAtomicStorage_Delete_def

text \<open>\<^verbatim>\<open>*PrefixedAtomicStorage\<close> used as an \<^verbatim>\<open>AtomicStorage\<close>.\<close>

definition as_AtomicStorage :: "'w PrefixedAtomicStorage \<Rightarrow> 'w AtomicStorage" where
  "as_AtomicStorage storage =
     \<lparr>Get = PrefixedAtomicStorage_Get storage,
      GetByKeyPrefix = PrefixedAtomicStorage_GetByKeyPrefix storage,
      Put = PrefixedAtomicStorage_Put storage,
      PutIfAbsent = PrefixedAtomicStorage_PutIfAbsent storage,
      CompareAndSwap = PrefixedAtomicStorage_CompareAndSwap storage,
      Delete = PrefixedAtomicStorage_Delete storage\<rparr>"

section \<open>Typed storage\<close>

text \<open>
  The serializers are fields of the Go struct as well. A deserializer fills in a fresh value, so it
  is a function from the string to the value.
\<close>

record ('w, 'k, 'v) TypedAtomicStorageImpl =
  atomicStorage :: "'w AtomicStorage"
  keySerializer :: "'k \<Rightarrow> string result"
  valueSerializer :: "'v \<Rightarrow> string result"
  valueDeserializer :: "string \<Rightarrow> 'v result"

definition TypedAtomicStorageImpl_Get ::
  "('w, 'k, 'v) TypedAtomicStorageImpl \<Rightarrow> 'k \<Rightarrow> 'w \<Rightarrow> 'v option result \<times> 'w" where
  "TypedAtomicStorageImpl_Get storage key w =
     (case keySerializer storage key of
        Inl err \<Rightarrow> (Inl err, w)
      | Inr keyString \<Rightarrow>
          (case Get (atomicStorage storage) keyString w of
             (Inl err, w') \<Rightarrow> (Inl err, w')
           | (Inr None, w') \<Rightarrow> (Inr None, w')
           | (Inr (Some valueString), w') \<Rightarrow>
               (case valueDeserializer storage valueString of
                  Inl err \<Rightarrow> (Inl err, w')
                | Inr v \<Rightarrow> (Inr (Some v), w'))))"

text \<open>The loop of \<^verbatim>\<open>GetAll\<close>: it stops at the first value that cannot be deserialized.\<close>

fun deserialize_all :: "(string \<Rightarrow> 'v result) \<Rightarrow> string list \<Rightarrow> 'v list result" where
  "deserialize_all d [] = Inr []"
| "deserialize_all d (s # ss) =
     (case d s of
        Inl err \<Rightarrow> Inl err
      | Inr v \<Rightarrow> (case deserialize_all d ss of Inl err \<Rightarrow> Inl err | Inr vs \<Rightarrow> Inr (v # vs)))"

definition TypedAtomicStorageImpl_GetAll ::
  "('w, 'k, 'v) TypedAtomicStorageImpl \<Rightarrow> 'w \<Rightarrow> 'v list result \<times> 'w" where
  "TypedAtomicStorageImpl_GetAll storage w =
     (case GetByKeyPrefix (atomicStorage storage) [] w of
        (Inl err, w') \<Rightarrow> (Inl err, w')
      | (Inr stringValues, w') \<Rightarrow> (deserialize_all (valueDeserializer storage) stringValues, w'))"

definition TypedAtomicStorageImpl_Put ::
  "('w, 'k, 'v) TypedAtomicStorageImpl \<Rightarrow> 'k \<Rightarrow> 'v \<Rightarrow> 'w \<Rightarrow> unit result \<times> 'w" where
  "TypedAtomicStorageImpl_Put storage key v w =
     (case keySerializer storage key of
        Inl err \<Rightarrow> (Inl err, w)
      | Inr keyString \<Rightarrow>
          (case valueSerializer storage v of
             Inl err \<Rightarrow> (Inl err, w)
           | Inr valueString \<Rightarrow> Put (atomicStorage storage) keyString valueString w))"

definition TypedAtomicStorageImpl_PutIfAbsent ::
  "('w, 'k, 'v) TypedAtomicStorageImpl \<Rightarrow> 'k \<Rightarrow> 'v \<Rightarrow> 'w \<Rightarrow> bool result \<times> 'w" where
  "TypedAtomicStorageImpl_PutIfAbsent storage key v w =
     (case keySerializer storage key of
        Inl err \<Rightarrow> (Inl err, w)
      | Inr keyString \<Rightarrow>
          (case valueSerializer storage v of
             Inl err \<Rightarrow> (Inl err, w)
           | Inr valueString \<Rightarrow> PutIfAbsent (atomicStorage storage) keyString valueString w))"

definition TypedAtomicStorageImpl_CompareAndSwap ::
  "('w, 'k, 'v) TypedAtomicStorageImpl \<Rightarrow> 'k \<Rightarrow> 'v \<Rightarrow> 'v \<Rightarrow> 'w \<Rightarrow> bool result \<times> 'w" where
  "TypedAtomicStorageImpl_CompareAndSwap storage key prevValue newValue w =
     (case keySerializer storage key of
        Inl err \<Rightarrow> (Inl err, w)
      | Inr keyString \<Rightarrow>
          (case valueSerializer storage newValue of
             Inl err \<Rightarrow> (Inl err, w)
           | Inr newValueString \<Rightarrow>
               (case valueSerializer storage prevValue of
                  Inl err \<Rightarrow> (Inl err, w)
                | Inr prevValueString \<Rightarrow>
                    CompareAndSwap (atomicStorage storage) keyString prevValueString newValueString w)))"

definition TypedAtomicStorageImpl_Delete ::
  "('w, 'k, 'v) TypedAtomicStorageImpl \<Rightarrow> 'k \<Rightarrow> 'w \<Rightarrow> unit result \<times> 'w" where
  "TypedAtomicStorageImpl_Delete storage key w =
     (case keySerializer storage key of
        Inl err \<Rightarrow> (Inl err, w)
      | Inr keyString \<Rightarrow> Delete (atomicStorage storage) keyString w)"

section \<open>The contract of an atomic storage\<close>

locale atomic_storage =
  fixes st :: "'w AtomicStorage"
    and view :: "'w \<Rightarrow> string \<Rightarrow> string option"
  assumes Get_view: "Get st k w = (r, w') \<Longrightarrow> view w' = view w"
    and Get_ok: "Get st k w = (Inr x, w') \<Longrightarrow> x = view w k"
    and GetByKeyPrefix_view: "GetByKeyPrefix st p w = (l, w') \<Longrightarrow> view w' = view w"
    and GetByKeyPrefix_ok: "GetByKeyPrefix st p w = (Inr vs, w') \<Longrightarrow>
      \<exists>ks. distinct ks \<and> set ks = {k \<in> dom (view w). prefix p k} \<and> vs = map (\<lambda>k. the (view w k)) ks"
    and Put_ok: "Put st k v w = (Inr (), w') \<Longrightarrow> view w' = (view w)(k \<mapsto> v)"
    and Put_err: "Put st k v w = (Inl e, w') \<Longrightarrow> view w' = view w \<or> view w' = (view w)(k \<mapsto> v)"
    and PutIfAbsent_ok: "PutIfAbsent st k v w = (Inr b, w') \<Longrightarrow>
      b = (view w k = None) \<and> view w' = (if b then (view w)(k \<mapsto> v) else view w)"
    and PutIfAbsent_err: "PutIfAbsent st k v w = (Inl e, w') \<Longrightarrow>
      view w' = view w \<or> view w k = None \<and> view w' = (view w)(k \<mapsto> v)"
    and CompareAndSwap_ok: "CompareAndSwap st k u v w = (Inr b, w') \<Longrightarrow>
      b = (view w k = Some u) \<and> view w' = (if b then (view w)(k \<mapsto> v) else view w)"
    and CompareAndSwap_err: "CompareAndSwap st k u v w = (Inl e, w') \<Longrightarrow>
      view w' = view w \<or> view w k = Some u \<and> view w' = (view w)(k \<mapsto> v)"
    and Delete_ok: "Delete st k w = (Inr (), w') \<Longrightarrow> view w' = (view w)(k := None)"
    and Delete_err: "Delete st k w = (Inl e, w') \<Longrightarrow> view w' = view w \<or> view w' = (view w)(k := None)"
begin

text \<open>Every write touches its own key only, whether it succeeds or fails.\<close>

lemma Put_frame: "Put st k v w = (r, w') \<Longrightarrow> k' \<noteq> k \<Longrightarrow> view w' k' = view w k'"
  by (cases r) (auto dest: Put_ok Put_err)

lemma PutIfAbsent_frame: "PutIfAbsent st k v w = (b, w') \<Longrightarrow> k' \<noteq> k \<Longrightarrow> view w' k' = view w k'"
  by (cases b) (auto dest: PutIfAbsent_ok PutIfAbsent_err split: if_splits)

lemma CompareAndSwap_frame:
  "CompareAndSwap st k u v w = (b, w') \<Longrightarrow> k' \<noteq> k \<Longrightarrow> view w' k' = view w k'"
  by (cases b) (auto dest: CompareAndSwap_ok CompareAndSwap_err split: if_splits)

lemma Delete_frame: "Delete st k w = (r, w') \<Longrightarrow> k' \<noteq> k \<Longrightarrow> view w' k' = view w k'"
  by (cases r) (auto dest: Delete_ok Delete_err)

lemmas frames = Put_frame PutIfAbsent_frame CompareAndSwap_frame Delete_frame

end

section \<open>Prefixing keeps the contract\<close>

text \<open>The keys a prefixed storage sees, with the prefix and the separator taken off.\<close>

definition strip :: "string \<Rightarrow> (string \<Rightarrow> 'v option) \<Rightarrow> string \<Rightarrow> 'v option" where
  "strip p m = (\<lambda>k. m (p @ ''/'' @ k))"

lemma strip_upd [simp]: "strip p (m(p @ CHR ''/'' # k := x)) = (strip p m)(k := x)"
  by (auto simp: strip_def)

lemma strip_keys:
  "{k \<in> dom m. prefix (p @ ''/'' @ q) k} = (\<lambda>k. p @ ''/'' @ k) ` {k \<in> dom (strip p m). prefix q k}"
  by (auto simp: strip_def prefix_def image_iff dom_def)

locale prefixed_storage = base: atomic_storage st view
  for st :: "'w AtomicStorage" and view :: "'w \<Rightarrow> string \<Rightarrow> string option" +
  fixes p :: string
begin

lemma prefixed_GetByKeyPrefix:
  assumes "GetByKeyPrefix st (p @ CHR ''/'' # q) w = (Inr vs, w')"
  shows "\<exists>ks. distinct ks \<and> set ks = {k \<in> dom (strip p (view w)). prefix q k} \<and>
    vs = map (\<lambda>k. the (strip p (view w) k)) ks"
proof -
  let ?f = "\<lambda>k. p @ ''/'' @ k"
  from base.GetByKeyPrefix_ok [OF assms] obtain ks where ks: "distinct ks"
    "set ks = ?f ` {k \<in> dom (strip p (view w)). prefix q k}"
    "vs = map (\<lambda>k. the (view w k)) ks"
    by (auto simp: strip_keys [of "view w" p q, simplified])
  have inj: "inj ?f" by (auto intro: injI)
  define ks' where "ks' = map (drop (Suc (length p))) ks"
  have ks': "ks = map ?f ks'"
    unfolding ks'_def map_map using ks(2) by (intro map_idI [symmetric]) auto
  with ks(1) have "distinct ks'" by (simp add: distinct_map)
  moreover from ks(2) ks' inj have "set ks' = {k \<in> dom (strip p (view w)). prefix q k}"
    by (simp add: inj_image_eq_iff)
  moreover from ks(3) ks' have "vs = map (\<lambda>k. the (strip p (view w) k)) ks'"
    by (simp add: strip_def o_def)
  ultimately show ?thesis by blast
qed

lemma prefixed_atomic_storage:
  "atomic_storage (as_AtomicStorage \<lparr>prefixed_delegate = st, keyPrefix = p\<rparr>) (\<lambda>w. strip p (view w))"
proof (unfold_locales, goal_cases)
  case 4 then show ?case
    by (simp add: as_AtomicStorage_def PrefixedAtomicStorage_defs prefixed_GetByKeyPrefix)
qed (auto simp: as_AtomicStorage_def PrefixedAtomicStorage_defs strip_def fun_eq_iff
       dest: base.Get_view base.Get_ok base.GetByKeyPrefix_view base.Put_ok base.Put_err
         base.PutIfAbsent_ok base.PutIfAbsent_err base.CompareAndSwap_ok base.CompareAndSwap_err
         base.Delete_ok base.Delete_err split: if_splits)

end

sublocale prefixed_storage \<subseteq>
  pre: atomic_storage "as_AtomicStorage \<lparr>prefixed_delegate = st, keyPrefix = p\<rparr>" "\<lambda>w. strip p (view w)"
  by (rule prefixed_atomic_storage)

section \<open>The contract of a typed storage\<close>

text \<open>
  What a typed storage holds: the deserialized value under the serialized key. The storage is
  well-formed when every key is the serialization of some key and every value can be deserialized.
\<close>

definition decoded_entry ::
  "('k \<Rightarrow> string result) \<Rightarrow> (string \<Rightarrow> 'v result) \<Rightarrow> (string \<Rightarrow> string option) \<Rightarrow> 'k \<Rightarrow> 'v option" where
  "decoded_entry ks d m k =
     (case ks k of
        Inl _ \<Rightarrow> None
      | Inr s \<Rightarrow>
          (case m s of
             None \<Rightarrow> None
           | Some x \<Rightarrow> (case d x of Inl _ \<Rightarrow> None | Inr v \<Rightarrow> Some v)))"

definition typed_view :: "('w, 'k, 'v) TypedAtomicStorageImpl \<Rightarrow> (string \<Rightarrow> string option) \<Rightarrow> 'k \<Rightarrow> 'v option" where
  "typed_view T = decoded_entry (keySerializer T) (valueDeserializer T)"

definition typed_wf :: "('w, 'k, 'v) TypedAtomicStorageImpl \<Rightarrow> (string \<Rightarrow> string option) \<Rightarrow> bool" where
  "typed_wf T m \<longleftrightarrow>
     (\<forall>s x. m s = Some x \<longrightarrow>
        (\<exists>k. keySerializer T k = Inr s) \<and> (\<exists>v. valueDeserializer T x = Inr v))"

lemma deserialize_all_Inr:
  "deserialize_all d ss = Inr vs \<longleftrightarrow> map d ss = map Inr vs"
proof (induction ss arbitrary: vs)
  case Nil
  show ?case by auto
next
  case (Cons s ss)
  show ?case
  proof (cases "deserialize_all d ss")
    case (Inl e)
    then have "map d ss \<noteq> map Inr us" for us
      using Cons.IH [of us] by simp
    with Inl show ?thesis by (cases vs) (auto split: sum.splits)
  next
    case (Inr us)
    then have "map d ss = map Inr us" using Cons.IH [of us] by simp
    then have "map d ss = map Inr us' \<longleftrightarrow> us = us'" for us'
      by (auto simp: inj_map_eq_map inj_def)
    with Inr show ?thesis by (cases vs) (auto split: sum.splits)
  qed
qed

text \<open>
  The laws of the serializers (package \<^verbatim>\<open>encoding/gob\<close> in the daemon): a key always has a
  serialization, different keys have different ones, and a \<open>valid\<close> value is read back as it was
  written. Not every value is: gob reads an empty, non-nil slice back as nil.
\<close>

locale typed_storage = store: atomic_storage "atomicStorage T" view
  for T :: "('w, 'k, 'v) TypedAtomicStorageImpl" and view :: "'w \<Rightarrow> string \<Rightarrow> string option" +
  fixes valid :: "'v \<Rightarrow> bool"
  assumes key_total: "\<exists>s. keySerializer T k = Inr s"
    and key_inject: "keySerializer T k = Inr s \<Longrightarrow> keySerializer T k' = Inr s \<Longrightarrow> k = k'"
    and value_roundtrip: "valid v \<Longrightarrow> \<exists>x. valueSerializer T v = Inr x \<and> valueDeserializer T x = Inr v"
begin

lemma TGet_view: "TypedAtomicStorageImpl_Get T k w = (r, w') \<Longrightarrow> view w' = view w"
  by (auto simp: TypedAtomicStorageImpl_Get_def split: sum.splits prod.splits option.splits
      dest: store.Get_view)

lemma TGet_ok: "TypedAtomicStorageImpl_Get T k w = (Inr x, w') \<Longrightarrow> x = typed_view T (view w) k"
  by (auto simp: TypedAtomicStorageImpl_Get_def typed_view_def decoded_entry_def split: sum.splits prod.splits option.splits
      dest: store.Get_ok)

lemma TGetAll_view: "TypedAtomicStorageImpl_GetAll T w = (r, w') \<Longrightarrow> view w' = view w"
  by (auto simp: TypedAtomicStorageImpl_GetAll_def split: sum.splits prod.splits
      dest: store.GetByKeyPrefix_view)

lemma typed_view_upd:
  assumes "keySerializer T k = Inr s" "valueDeserializer T x = Inr v"
  shows "typed_view T (m(s \<mapsto> x)) = (typed_view T m)(k \<mapsto> v)"
  using assms key_inject by (fastforce simp: typed_view_def decoded_entry_def fun_eq_iff split: sum.splits)

lemma typed_view_del:
  assumes "keySerializer T k = Inr s"
  shows "typed_view T (m(s := None)) = (typed_view T m)(k := None)"
  using assms key_inject by (fastforce simp: typed_view_def decoded_entry_def fun_eq_iff split: sum.splits)

lemma typed_wf_upd:
  "typed_wf T m \<Longrightarrow> keySerializer T k = Inr s \<Longrightarrow> valueDeserializer T x = Inr v \<Longrightarrow> typed_wf T (m(s \<mapsto> x))"
  by (auto simp: typed_wf_def)

lemma typed_wf_del: "typed_wf T m \<Longrightarrow> typed_wf T (m(s := None))"
  by (simp add: typed_wf_def)

lemma TPut_cases:
  assumes "TypedAtomicStorageImpl_Put T k v w = (r, w')" "valid v"
  obtains s x where "keySerializer T k = Inr s" "valueDeserializer T x = Inr v"
    "Put (atomicStorage T) s x w = (r, w')"
  using assms key_total [of k] value_roundtrip [of v]
  by (auto simp: TypedAtomicStorageImpl_Put_def split: sum.splits)

lemma TPut_ok:
  assumes "TypedAtomicStorageImpl_Put T k v w = (Inr (), w')" "valid v"
  shows "typed_view T (view w') = (typed_view T (view w))(k \<mapsto> v)"
    and "typed_wf T (view w) \<Longrightarrow> typed_wf T (view w')"
  using assms by (auto elim!: TPut_cases dest!: store.Put_ok simp: typed_view_upd typed_wf_upd)

lemma TPut_err:
  assumes "TypedAtomicStorageImpl_Put T k v w = (Inl e, w')" "valid v"
  shows "typed_view T (view w') = typed_view T (view w) \<or>
      typed_view T (view w') = (typed_view T (view w))(k \<mapsto> v)"
    and "typed_wf T (view w) \<Longrightarrow> typed_wf T (view w')"
  using assms by (auto elim!: TPut_cases dest!: store.Put_err simp: typed_view_upd typed_wf_upd)

lemma TDelete_cases:
  assumes "TypedAtomicStorageImpl_Delete T k w = (r, w')"
  obtains s where "keySerializer T k = Inr s" "Delete (atomicStorage T) s w = (r, w')"
  using assms key_total [of k] by (auto simp: TypedAtomicStorageImpl_Delete_def)

lemma TDelete_ok:
  assumes "TypedAtomicStorageImpl_Delete T k w = (Inr (), w')"
  shows "typed_view T (view w') = (typed_view T (view w))(k := None)"
    and "typed_wf T (view w) \<Longrightarrow> typed_wf T (view w')"
  using assms by (auto elim!: TDelete_cases dest!: store.Delete_ok simp: typed_view_del typed_wf_del)

lemma TDelete_err:
  assumes "TypedAtomicStorageImpl_Delete T k w = (Inl e, w')"
  shows "typed_view T (view w') = typed_view T (view w) \<or>
      typed_view T (view w') = (typed_view T (view w))(k := None)"
    and "typed_wf T (view w) \<Longrightarrow> typed_wf T (view w')"
  using assms by (auto elim!: TDelete_cases dest!: store.Delete_err simp: typed_view_del typed_wf_del)

text \<open>The key of the entry stored under a string.\<close>

lemma typed_wf_entry:
  assumes "typed_wf T m" "m s = Some x"
  obtains k v where "keySerializer T k = Inr s" "valueDeserializer T x = Inr v" "typed_view T m k = Some v"
  using assms by (fastforce simp: typed_wf_def typed_view_def decoded_entry_def)

lemma typed_view_SomeD:
  assumes "typed_view T m k = Some v"
  obtains s x where "keySerializer T k = Inr s" "m s = Some x" "valueDeserializer T x = Inr v"
  using assms by (auto simp: typed_view_def decoded_entry_def split: sum.splits option.splits)

lemma TGetAll_ok:
  assumes "TypedAtomicStorageImpl_GetAll T w = (Inr vs, w')" "typed_wf T (view w)"
  shows "\<exists>ks. distinct ks \<and> set ks = dom (typed_view T (view w)) \<and>
    vs = map (\<lambda>k. the (typed_view T (view w) k)) ks"
proof -
  let ?m = "view w"
  from assms(1) obtain ss where ss: "GetByKeyPrefix (atomicStorage T) [] w = (Inr ss, w')"
    "map (valueDeserializer T) ss = map Inr vs"
    by (auto simp: TypedAtomicStorageImpl_GetAll_def deserialize_all_Inr split: sum.splits prod.splits)
  from store.GetByKeyPrefix_ok [OF ss(1)] obtain ks where ks: "distinct ks" "set ks = dom ?m"
    "ss = map (\<lambda>k. the (?m k)) ks" by auto
  have "\<exists>k. keySerializer T k = Inr s \<and> valueDeserializer T (the (?m s)) = Inr (the (typed_view T ?m k)) \<and>
      k \<in> dom (typed_view T ?m)" if "s \<in> set ks" for s
    using that ks(2) assms(2) by (force elim: typed_wf_entry)
  then obtain f where f: "keySerializer T (f s) = Inr s \<and>
      valueDeserializer T (the (?m s)) = Inr (the (typed_view T ?m (f s))) \<and> f s \<in> dom (typed_view T ?m)"
    if "s \<in> set ks" for s by metis
  have "distinct (map f ks)"
    using ks(1) f by (auto simp: distinct_map inj_on_def) (metis sum.inject(2))
  moreover have "k \<in> set (map f ks)" if "typed_view T ?m k = Some v" for k v
  proof -
    from that obtain s x where s: "keySerializer T k = Inr s" "?m s = Some x"
      by (rule typed_view_SomeD)
    with ks(2) have "s \<in> set ks" by auto
    with f s(1) have "f s = k" by (blast intro: key_inject)
    with \<open>s \<in> set ks\<close> show ?thesis by auto
  qed
  then have "set (map f ks) = dom (typed_view T ?m)" using f by auto
  moreover have "(map Inr vs :: 'v result list) = map (\<lambda>s. Inr (the (typed_view T ?m (f s)))) ks"
    unfolding ss(2) [symmetric] ks(3) map_map o_def using f by (intro map_cong) auto
  then have "(map Inr vs :: 'v result list) = map Inr (map (\<lambda>k. the (typed_view T ?m k)) (map f ks))"
    by simp
  then have "vs = map (\<lambda>k. the (typed_view T ?m k)) (map f ks)"
    by (rule map_injective) (simp add: inj_def)
  ultimately show ?thesis by blast
qed

text \<open>Which string keys an operation of the typed storage may change.\<close>

lemma TPut_frame:
  assumes "TypedAtomicStorageImpl_Put T k v w = (r, w')"
  shows "\<exists>s. keySerializer T k = Inr s \<and> (\<forall>s'. s' \<noteq> s \<longrightarrow> view w' s' = view w s')"
  using assms key_total [of k]
  by (auto simp: TypedAtomicStorageImpl_Put_def split: sum.splits dest: store.Put_frame)

lemma TDelete_frame:
  assumes "TypedAtomicStorageImpl_Delete T k w = (r, w')"
  shows "\<exists>s. keySerializer T k = Inr s \<and> (\<forall>s'. s' \<noteq> s \<longrightarrow> view w' s' = view w s')"
  using assms key_total [of k]
  by (auto simp: TypedAtomicStorageImpl_Delete_def dest: store.Delete_frame)

end

end
