(* ===== verification/MemoryStorage.thy ===== *)
theory MemoryStorage
  imports AtomicStorage "HOL-Library.Finite_Map" "HOL-Library.List_Lexorder" "HOL-Library.Char_ord"
begin

text \<open>
  \<^verbatim>\<open>escrow/memory_storage.go\<close>: the in-memory storage, a Go map behind a mutex. Every public method
  holds the mutex from its first to its last step, so it is one atomic step on the map; the methods
  that run under the mutex already (\<open>unsafePut\<close>, \<open>unsafeGet\<close>) are separate definitions as in the
  code. The record is extensible: the methods work on any world that contains the map.

  Go leaves the order in which \<^verbatim>\<open>range\<close> visits a map unspecified. It is the argument
  \<open>range_order\<close>, of which the locale \<open>map_range\<close> only assumes that it lists the entries of the map.
\<close>

record memoryStorage =
  data :: "(string, string) fmap"

definition NewMemStorage :: memoryStorage where
  "NewMemStorage = \<lparr>data = fmempty\<rparr>"

definition unsafePut :: "string \<Rightarrow> string \<Rightarrow> 'a memoryStorage_scheme \<Rightarrow> unit result \<times> 'a memoryStorage_scheme" where
  "unsafePut key v w = (Inr (), w\<lparr>data := fmupd key v (data w)\<rparr>)"

definition unsafeGet :: "string \<Rightarrow> 'a memoryStorage_scheme \<Rightarrow> string option result" where
  "unsafeGet key w =
     (case fmlookup (data w) key of None \<Rightarrow> Inr None | Some v \<Rightarrow> Inr (Some v))"

definition memoryStorage_Put ::
  "string \<Rightarrow> string \<Rightarrow> 'a memoryStorage_scheme \<Rightarrow> unit result \<times> 'a memoryStorage_scheme" where
  "memoryStorage_Put key v w = unsafePut key v w"

definition memoryStorage_Get ::
  "string \<Rightarrow> 'a memoryStorage_scheme \<Rightarrow> string option result \<times> 'a memoryStorage_scheme" where
  "memoryStorage_Get key w = (unsafeGet key w, w)"

definition memoryStorage_GetByKeyPrefix ::
  "('a memoryStorage_scheme \<Rightarrow> (string \<times> string) list) \<Rightarrow>
   string \<Rightarrow> 'a memoryStorage_scheme \<Rightarrow> string list result \<times> 'a memoryStorage_scheme" where
  "memoryStorage_GetByKeyPrefix range_order pre w =
     (Inr (map snd (filter (\<lambda>(key, v). prefix pre key) (range_order w))), w)"

definition memoryStorage_PutIfAbsent ::
  "string \<Rightarrow> string \<Rightarrow> 'a memoryStorage_scheme \<Rightarrow> bool result \<times> 'a memoryStorage_scheme" where
  "memoryStorage_PutIfAbsent key v w =
     (case unsafeGet key w of
        Inl err \<Rightarrow> (Inl err, w)
      | Inr (Some _) \<Rightarrow> (Inr False, w)
      | Inr None \<Rightarrow>
          (case unsafePut key v w of
             (Inl err, w') \<Rightarrow> (Inl err, w')
           | (Inr _, w') \<Rightarrow> (Inr True, w')))"

definition memoryStorage_CompareAndSwap ::
  "string \<Rightarrow> string \<Rightarrow> string \<Rightarrow> 'a memoryStorage_scheme \<Rightarrow> bool result \<times> 'a memoryStorage_scheme" where
  "memoryStorage_CompareAndSwap key prevValue newValue w =
     (case unsafeGet key w of
        Inl err \<Rightarrow> (Inl err, w)
      | Inr current \<Rightarrow>
          if current = None \<or> current \<noteq> Some prevValue then (Inr False, w)
          else (case unsafePut key newValue w of
                  (Inl err, w') \<Rightarrow> (Inl err, w')
                | (Inr _, w') \<Rightarrow> (Inr True, w')))"

definition memoryStorage_Delete ::
  "string \<Rightarrow> 'a memoryStorage_scheme \<Rightarrow> unit result \<times> 'a memoryStorage_scheme" where
  "memoryStorage_Delete key w = (Inr (), w\<lparr>data := fmdrop key (data w)\<rparr>)"

definition memoryStorage_Clear ::
  "'a memoryStorage_scheme \<Rightarrow> unit result \<times> 'a memoryStorage_scheme" where
  "memoryStorage_Clear w = (Inr (), w\<lparr>data := fmempty\<rparr>)"

lemmas memoryStorage_defs =
  unsafePut_def unsafeGet_def memoryStorage_Put_def memoryStorage_Get_def
  memoryStorage_GetByKeyPrefix_def memoryStorage_PutIfAbsent_def
  memoryStorage_CompareAndSwap_def memoryStorage_Delete_def

text \<open>\<^verbatim>\<open>*memoryStorage\<close> used as an \<^verbatim>\<open>AtomicStorage\<close>.\<close>

definition memory_AtomicStorage ::
  "('a memoryStorage_scheme \<Rightarrow> (string \<times> string) list) \<Rightarrow> 'a memoryStorage_scheme AtomicStorage" where
  "memory_AtomicStorage range_order =
     \<lparr>Get = memoryStorage_Get,
      GetByKeyPrefix = memoryStorage_GetByKeyPrefix range_order,
      Put = memoryStorage_Put,
      PutIfAbsent = memoryStorage_PutIfAbsent,
      CompareAndSwap = memoryStorage_CompareAndSwap,
      Delete = memoryStorage_Delete\<rparr>"

definition memory_view :: "'a memoryStorage_scheme \<Rightarrow> string \<Rightarrow> string option" where
  "memory_view w = fmlookup (data w)"

section \<open>The contract\<close>

locale map_range =
  fixes range_order :: "'a memoryStorage_scheme \<Rightarrow> (string \<times> string) list"
  assumes range_distinct: "distinct (map fst (range_order w))"
    and range_entries: "map_of (range_order w) = fmlookup (data w)"
begin

lemma range_GetByKeyPrefix:
  "\<exists>ks. distinct ks \<and> set ks = {k \<in> dom (memory_view w). prefix p k} \<and>
     map snd (filter (\<lambda>(k, v). prefix p k) (range_order w)) = map (\<lambda>k. the (memory_view w k)) ks"
proof -
  let ?xs = "filter (\<lambda>(k, v). prefix p k) (range_order w)"
  have entry: "memory_view w k = Some v \<longleftrightarrow> (k, v) \<in> set (range_order w)" for k v
    using range_distinct [of w] range_entries [of w]
    by (metis map_of_eq_Some_iff memory_view_def)
  have "distinct (map fst ?xs)" by (simp add: distinct_map_filter range_distinct)
  moreover have "set (map fst ?xs) = {k \<in> dom (memory_view w). prefix p k}"
    by (force simp: dom_def entry)
  moreover have "map snd ?xs = map (\<lambda>k. the (memory_view w k)) (map fst ?xs)"
    by (auto simp flip: entry)
  ultimately show ?thesis by blast
qed

end

sublocale map_range \<subseteq> mem: atomic_storage "memory_AtomicStorage range_order" memory_view
proof (unfold_locales, goal_cases)
  case 4 then show ?case
    using range_GetByKeyPrefix by (auto simp: memory_AtomicStorage_def memoryStorage_defs)
qed (auto simp: memory_AtomicStorage_def memoryStorage_defs memory_view_def
       split: option.splits if_splits)

text \<open>One order a Go runtime may choose: by key. It makes the storage executable.\<close>

definition key_order :: "'a memoryStorage_scheme \<Rightarrow> (string \<times> string) list" where
  "key_order w = sorted_list_of_fmap (data w)"

interpretation by_key: map_range key_order
proof
  fix w :: "'a memoryStorage_scheme"
  show "distinct (map fst (key_order w))"
    by (simp add: key_order_def sorted_list_of_fmap_def o_def sorted_list_of_fset.rep_eq)
  show "map_of (key_order w) = fmlookup (data w)"
    by (simp add: key_order_def)
qed

text \<open>
  C26. The in-memory storage is a map, whatever order Go visits its entries in: each operation has the result and the effect of the
  operation on the map, none fails, and the values below a prefix are listed once per key.
\<close>

theorem memory_storage_is_map:
  assumes "map_range range_order"
  shows "memoryStorage_Get k w = (Inr (memory_view w k), w) \<and>
    (\<exists>ks. distinct ks \<and> set ks = {k \<in> dom (memory_view w). prefix p k} \<and>
       memoryStorage_GetByKeyPrefix range_order p w = (Inr (map (\<lambda>k. the (memory_view w k)) ks), w)) \<and>
    (fst (memoryStorage_Put k v w) = Inr () \<and> memory_view (snd (memoryStorage_Put k v w)) = (memory_view w)(k \<mapsto> v)) \<and>
    (fst (memoryStorage_PutIfAbsent k v w) = Inr (memory_view w k = None) \<and>
     memory_view (snd (memoryStorage_PutIfAbsent k v w)) =
       (if memory_view w k = None then (memory_view w)(k \<mapsto> v) else memory_view w)) \<and>
    (fst (memoryStorage_CompareAndSwap k u v w) = Inr (memory_view w k = Some u) \<and>
     memory_view (snd (memoryStorage_CompareAndSwap k u v w)) =
       (if memory_view w k = Some u then (memory_view w)(k \<mapsto> v) else memory_view w)) \<and>
    (fst (memoryStorage_Delete k w) = Inr () \<and> memory_view (snd (memoryStorage_Delete k w)) = (memory_view w)(k := None)) \<and>
    (fst (memoryStorage_Clear w) = Inr () \<and> memory_view (snd (memoryStorage_Clear w)) = Map.empty)"
proof (intro conjI, goal_cases)
  case 2
  then show ?case using map_range.range_GetByKeyPrefix [OF assms, of w p] by (simp add: memoryStorage_GetByKeyPrefix_def)
qed (simp_all add: memoryStorage_defs memoryStorage_Clear_def memory_view_def fun_eq_iff split: option.split)

theorem memory_storage_is_map_witness:
  "fst (memoryStorage_CompareAndSwap ''k'' ''u'' ''v'' \<lparr>data = fmupd ''k'' ''u'' fmempty\<rparr>) = Inr True"
proof -
  let ?w = "\<lparr>data = fmupd ''k'' ''u'' fmempty\<rparr>"
  have "memory_view ?w ''k'' = Some ''u''" by (simp add: memory_view_def)
  with memory_storage_is_map [OF by_key.map_range_axioms, of "''k''" ?w "[]" "''v''" "''u''",
      THEN conjunct2, THEN conjunct2, THEN conjunct2, THEN conjunct2, THEN conjunct1]
  show ?thesis by simp
qed

end
