(* ===== verification/Blockchain.thy ===== *)
theory Blockchain
  imports BigInt
begin

text \<open>
  The \<^verbatim>\<open>blockchain\<close> package: reading a payment channel from the MultiPartyEscrow contract
  (\<^verbatim>\<open>escrow.go\<close>), the byte and string helpers (\<^verbatim>\<open>utils.go\<close>), and the service metadata with the fields
  derived from the configuration (\<^verbatim>\<open>serviceMetadata.go\<close>).

  go-ethereum and the contract bindings generated at build time are not part of the repository. What
  the code calls of them is the record \<open>go_ethereum\<close>, an argument of the definitions that use it, and
  the argument \<open>Channels\<close> of \<open>Processor_MultiPartyEscrowChannel\<close>.
\<close>

section \<open>Outside code\<close>

record go_ethereum =
  Keccak256 :: "bytes list \<Rightarrow> bytes"
  SigToPub :: "bytes \<Rightarrow> bytes \<Rightarrow> bytes result"
  PubkeyToAddress :: "bytes \<Rightarrow> Address"
  BigToHash :: "int \<Rightarrow> bytes32"
  FromHex :: "string \<Rightarrow> bytes"
  BytesToAddress :: "bytes \<Rightarrow> Address"
  common_HexToAddress :: "string \<Rightarrow> Address"
  abi_U256 :: "int \<Rightarrow> bytes"

text \<open>The bytes of the array types.\<close>

definition Address_Bytes :: "Address \<Rightarrow> bytes" where
  "Address_Bytes a = be_bytes 20 (unat a)"

definition Hash_Bytes :: "bytes32 \<Rightarrow> bytes" where
  "Hash_Bytes h = be_bytes 32 (unat h)"

text \<open>\<^verbatim>\<open>[]byte(s)\<close>.\<close>

definition string_bytes :: "string \<Rightarrow> bytes" where
  "string_bytes s = map of_char s"

text \<open>\<^verbatim>\<open>copy(a[:], bs)\<close> into a zeroed \<^verbatim>\<open>[32]byte\<close>: at most 32 bytes, from the left.\<close>

definition copy32 :: "bytes \<Rightarrow> bytes32" where
  "copy32 bs = word_of_nat (of_be_bytes (take 32 (bs @ replicate 32 0)))"

section \<open>Channels of the MultiPartyEscrow contract\<close>

record MultiPartyEscrowChannel =
  mpe_Sender :: Address
  mpe_Recipient :: Address
  mpe_GroupId :: bytes32
  mpe_Value :: int
  mpe_Nonce :: int
  mpe_Expiration :: int
  mpe_Signer :: Address

definition zeroAddress :: Address where
  "zeroAddress = 0"

text \<open>A channel that was never opened reads as zeroes, so a zero sender means that there is none.\<close>

definition Processor_MultiPartyEscrowChannel ::
  "(int \<Rightarrow> 'w \<Rightarrow> MultiPartyEscrowChannel result) \<Rightarrow> int \<Rightarrow> 'w \<Rightarrow> MultiPartyEscrowChannel option result" where
  "Processor_MultiPartyEscrowChannel Channels channelID w =
     (case Channels channelID w of
        Inl err \<Rightarrow> Inl err
      | Inr ch \<Rightarrow>
          if mpe_Sender ch = zeroAddress then Inr None
          else Inr (Some \<lparr>mpe_Sender = mpe_Sender ch, mpe_Recipient = mpe_Recipient ch,
                         mpe_GroupId = mpe_GroupId ch, mpe_Value = mpe_Value ch,
                         mpe_Nonce = mpe_Nonce ch, mpe_Expiration = mpe_Expiration ch,
                         mpe_Signer = mpe_Signer ch\<rparr>))"

text \<open>
  \<^verbatim>\<open>Processor.CurrentBlock\<close>: the hexadecimal answer of \<^verbatim>\<open>eth_blockNumber\<close> as a number.
\<close>

definition Processor_CurrentBlock ::
  "go_ethereum \<Rightarrow> ('w \<Rightarrow> string result) \<Rightarrow> 'w \<Rightarrow> int result" where
  "Processor_CurrentBlock E eth_blockNumber w =
     (case eth_blockNumber w of
        Inl err \<Rightarrow> Inl (fmt_Errorf ''error determining current block: %v'' [error_text err])
      | Inr currentBlockHex \<Rightarrow> Inr (SetBytes (FromHex E currentBlockHex)))"

section \<open>Utilities\<close>

text \<open>The v, r and s parts of a 65-byte signature; \<^verbatim>\<open>v\<close> is normalised to 27 plus the recovery id.\<close>

definition ParseSignature :: "bytes \<Rightarrow> (byte \<times> bytes32 \<times> bytes32) result" where
  "ParseSignature jobSignatureBytes =
     (if length jobSignatureBytes \<noteq> 65 then Inl (fmt_Errorf ''job signature incorrect length'' [])
      else Inr (jobSignatureBytes ! 64 mod 27 + 27,
                copy32 (take 32 jobSignatureBytes),
                copy32 (take 32 (drop 32 jobSignatureBytes))))"

definition HexToBytes :: "go_ethereum \<Rightarrow> string \<Rightarrow> bytes" where
  "HexToBytes E str = FromHex E str"

definition HexToAddress :: "go_ethereum \<Rightarrow> string \<Rightarrow> Address" where
  "HexToAddress E str = BytesToAddress E (HexToBytes E str)"

definition StringToBytes32 :: "string \<Rightarrow> bytes32" where
  "StringToBytes32 str = copy32 (string_bytes str)"

text \<open>The regular expression \<^verbatim>\<open>[^a-zA-Z0-9=]\<close> matches what is removed.\<close>

definition hash_char :: "char \<Rightarrow> bool" where
  "hash_char c =
     (let n = of_char c :: nat in
      97 \<le> n \<and> n \<le> 122 \<or> 65 \<le> n \<and> n \<le> 90 \<or> 48 \<le> n \<and> n \<le> 57 \<or> n = 61)"

definition RemoveSpecialCharactersfromHash :: "string \<Rightarrow> string" where
  "RemoveSpecialCharactersfromHash pString = filter hash_char pString"

text \<open>\<^verbatim>\<open>strings.Replace(s, old, "", -1)\<close>: occurrences from the left that do not overlap.\<close>

fun remove_all :: "string \<Rightarrow> string \<Rightarrow> string" where
  "remove_all old [] = []"
| "remove_all old (c # cs) =
     (if old \<noteq> [] \<and> prefix old (c # cs) then remove_all old (drop (length old - 1) cs)
      else c # remove_all old cs)"

definition IpfsPrefix :: string where
  "IpfsPrefix = ''ipfs://''"

definition FormatHash :: "string \<Rightarrow> string" where
  "FormatHash ipfsHash = RemoveSpecialCharactersfromHash (remove_all IpfsPrefix ipfsHash)"

text \<open>
  The keys of an HD wallet; \<open>hdkeychain\<close> has what is called of bip39 and hdkeychain. The first three steps of a path are
  hardened by adding an offset to a 32 bit index, which wraps around.
\<close>

record ('key, 'priv) hdkeychain =
  NewSeed :: "string \<Rightarrow> string \<Rightarrow> bytes"
  NewMaster :: "bytes \<Rightarrow> 'key result"
  HardenedKeyStart :: "32 word"
  Child :: "'key \<Rightarrow> 32 word \<Rightarrow> 'key result"
  ECPrivKey :: "'key \<Rightarrow> 'priv result"

fun derive_path :: "('key, 'priv) hdkeychain \<Rightarrow> nat \<Rightarrow> 32 word list \<Rightarrow> 'key \<Rightarrow> 'key result" where
  "derive_path K i [] key = Inr key"
| "derive_path K i (childIndex # path) key =
     (case Child K key (if i < 3 then childIndex + HardenedKeyStart K else childIndex) of
        Inl err \<Rightarrow> Inl err
      | Inr key' \<Rightarrow> derive_path K (Suc i) path key')"

definition derivePrivateKey :: "('key, 'priv) hdkeychain \<Rightarrow> string \<Rightarrow> 32 word list \<Rightarrow> 'priv result" where
  "derivePrivateKey K mnemonic path =
     (let seed = NewSeed K mnemonic [] in
      case NewMaster K seed of
        Inl err \<Rightarrow> Inl err
      | Inr key \<Rightarrow> (case derive_path K 0 path key of Inl err \<Rightarrow> Inl err | Inr key \<Rightarrow> ECPrivKey K key))"

text \<open>
  \<^verbatim>\<open>base64.StdEncoding.DecodeString\<close>: line breaks are skipped, the text comes in groups of four with
  padding at the very end only.
\<close>

definition base64_value :: "char \<Rightarrow> nat option" where
  "base64_value c =
     (let n = of_char c :: nat in
      if 65 \<le> n \<and> n \<le> 90 then Some (n - 65)
      else if 97 \<le> n \<and> n \<le> 122 then Some (n - 97 + 26)
      else if 48 \<le> n \<and> n \<le> 57 then Some (n - 48 + 52)
      else if c = CHR ''+'' then Some 62
      else if c = CHR ''/'' then Some 63
      else None)"

fun base64_quads :: "string \<Rightarrow> bytes option" where
  "base64_quads [] = Some []"
| "base64_quads (a # b # c # d # rest) =
     (case (base64_value a, base64_value b) of
        (Some x, Some y) \<Rightarrow>
          if c = CHR ''='' then
            (if d = CHR ''='' \<and> rest = [] then Some [of_nat ((x * 4 + y div 16) mod 256)] else None)
          else
            (case base64_value c of
               None \<Rightarrow> None
             | Some z \<Rightarrow>
                 if d = CHR ''='' then
                   (if rest = [] then
                      Some [of_nat ((x * 4 + y div 16) mod 256), of_nat ((y * 16 + z div 4) mod 256)]
                    else None)
                 else
                   (case base64_value d of
                      None \<Rightarrow> None
                    | Some v \<Rightarrow>
                        map_option
                          (\<lambda>bs. [of_nat ((x * 4 + y div 16) mod 256), of_nat ((y * 16 + z div 4) mod 256),
                                 of_nat ((z * 64 + v) mod 256)] @ bs)
                          (base64_quads rest)))
      | _ \<Rightarrow> None)"
| "base64_quads _ = None"

definition StdEncoding_DecodeString :: "string \<Rightarrow> bytes result" where
  "StdEncoding_DecodeString str =
     (case base64_quads (filter (\<lambda>c. of_char c \<noteq> (10::nat) \<and> of_char c \<noteq> (13::nat)) str) of
        None \<Rightarrow> Inl (Error (Lit ''illegal base64 data''))
      | Some data \<Rightarrow> Inr data)"

text \<open>The Go function returns the array next to the error; on an error it is all zeroes.\<close>

definition ConvertBase64Encoding :: "string \<Rightarrow> bytes32 \<times> error option" where
  "ConvertBase64Encoding str =
     (case StdEncoding_DecodeString str of
        Inl err \<Rightarrow> (0, Some err)
      | Inr data \<Rightarrow> (copy32 data, None))"

text \<open>\<^verbatim>\<open>base64.StdEncoding.EncodeToString\<close>: three bytes as four characters, padded at the end.\<close>

definition base64_alphabet :: string where
  "base64_alphabet = ''ABCDEFGHIJKLMNOPQRSTUVWXYZabcdefghijklmnopqrstuvwxyz0123456789+/''"

abbreviation base64_char :: "nat \<Rightarrow> char" where
  "base64_char n \<equiv> base64_alphabet ! n"

fun EncodeToString :: "bytes \<Rightarrow> string" where
  "EncodeToString [] = []"
| "EncodeToString [a] = [base64_char (unat a div 4), base64_char (unat a mod 4 * 16), CHR ''='', CHR ''='']"
| "EncodeToString [a, b] =
     [base64_char (unat a div 4), base64_char (unat a mod 4 * 16 + unat b div 16), base64_char (unat b mod 16 * 4), CHR ''='']"
| "EncodeToString (a # b # c # rest) =
     [base64_char (unat a div 4), base64_char (unat a mod 4 * 16 + unat b div 16),
      base64_char (unat b mod 16 * 4 + unat c div 64), base64_char (unat c mod 64)] @ EncodeToString rest"

definition BytesToBase64 :: "bytes \<Rightarrow> string" where
  "BytesToBase64 bs = EncodeToString bs"

section \<open>Service metadata\<close>

record Group =
  Group_GroupName :: string
  Group_GroupID :: string
  Group_PaymentAddress :: string

record Endpoint =
  Endpoint_GroupName :: string
  Endpoint_Endpoint :: string

record ServiceMetadata =
  Version :: int
  DisplayName :: string
  Encoding :: string
  ServiceType :: string
  PaymentExpirationThreshold :: int
  ModelIpfsHash :: string
  MpeAddress :: string
  PriceModel :: string
  PriceInCogs :: int
  Groups :: "Group list"
  Endpoints :: "Endpoint list"
  daemonReplicaGroupIDString :: string
  daemonReplicaGroupID :: bytes32
  daemonGroupName :: string
  daemonEndPoint :: string
  recipientPaymentAddress :: Address
  multiPartyEscrowAddress :: Address

definition setMultiPartyEscrowAddress :: "go_ethereum \<Rightarrow> ServiceMetadata \<Rightarrow> ServiceMetadata" where
  "setMultiPartyEscrowAddress E metaData =
     metaData\<lparr>multiPartyEscrowAddress := common_HexToAddress E (MpeAddress metaData)\<rparr>"

text \<open>
  The group name comes from the configuration. The field is set first; the error only says that no
  endpoint belongs to the group.
\<close>

definition setDaemonGroupName ::
  "string \<Rightarrow> ServiceMetadata \<Rightarrow> error option \<times> ServiceMetadata" where
  "setDaemonGroupName configured metaData =
     (let metaData = metaData\<lparr>daemonGroupName := configured\<rparr> in
      if list_ex (\<lambda>endpoints. daemonGroupName metaData = Endpoint_GroupName endpoints) (Endpoints metaData)
      then (None, metaData)
      else (Some (fmt_Errorf ''please set the mandatory Daemon group Name corrrectly through the config %s ''
                    [Lit ''daemon_group_name'']), metaData))"

text \<open>The loop over the groups; the first group with the name decides.\<close>

fun find_group :: "string \<Rightarrow> Group list \<Rightarrow> Group option" where
  "find_group groupName [] = None"
| "find_group groupName (g # rest) =
     (if groupName = Group_GroupName g then Some g else find_group groupName rest)"

definition setDaemonGroupIDAndPaymentAddress ::
  "go_ethereum \<Rightarrow> ServiceMetadata \<Rightarrow> error option \<times> ServiceMetadata" where
  "setDaemonGroupIDAndPaymentAddress E metaData =
     (let groupName = daemonGroupName metaData in
      case find_group groupName (Groups metaData) of
        None \<Rightarrow>
          (Some (fmt_Errorf
             ''unable to determine the Daemon Group ID or the Recipient Payment Address, Daemon Group Name %s''
             [Lit groupName]), metaData)
      | Some g \<Rightarrow>
          (let metaData = metaData\<lparr>daemonReplicaGroupIDString := Group_GroupID g\<rparr> in
           case ConvertBase64Encoding (Group_GroupID g) of
             (gid, Some err) \<Rightarrow> (Some err, metaData\<lparr>daemonReplicaGroupID := gid\<rparr>)
           | (gid, None) \<Rightarrow>
               (None, metaData\<lparr>daemonReplicaGroupID := gid,
                               recipientPaymentAddress := common_HexToAddress E (Group_PaymentAddress g)\<rparr>)))"

definition setDerivedFields ::
  "go_ethereum \<Rightarrow> string \<Rightarrow> ServiceMetadata \<Rightarrow> error option \<times> ServiceMetadata" where
  "setDerivedFields E configured metaData =
     (case setDaemonGroupName configured metaData of
        (Some err, metaData) \<Rightarrow> (Some err, metaData)
      | (None, metaData) \<Rightarrow>
          (case setDaemonGroupIDAndPaymentAddress E metaData of
             (Some err, metaData) \<Rightarrow> (Some err, metaData)
           | (None, metaData) \<Rightarrow> (None, setMultiPartyEscrowAddress E metaData)))"

text \<open>\<open>unmarshal\<close> is \<^verbatim>\<open>json.Unmarshal\<close> into the struct; fields without a JSON name stay zero.\<close>

definition InitServiceMetaDataFromJson ::
  "go_ethereum \<Rightarrow> (string \<Rightarrow> ServiceMetadata result) \<Rightarrow> string \<Rightarrow> string \<Rightarrow> ServiceMetadata option \<times> error option" where
  "InitServiceMetaDataFromJson E unmarshal configured jsonData =
     (case unmarshal jsonData of
        Inl err \<Rightarrow> (None, Some err)
      | Inr metaData \<Rightarrow> (case setDerivedFields E configured metaData of (err, metaData) \<Rightarrow> (Some metaData, err)))"

definition GetMpeAddress :: "ServiceMetadata \<Rightarrow> Address" where
  "GetMpeAddress metaData = multiPartyEscrowAddress metaData"

definition GetPaymentExpirationThreshold :: "ServiceMetadata \<Rightarrow> int" where
  "GetPaymentExpirationThreshold metaData = PaymentExpirationThreshold metaData"

definition GetPriceInCogs :: "ServiceMetadata \<Rightarrow> int" where
  "GetPriceInCogs metaData = PriceInCogs metaData"

definition GetDaemonEndPoint :: "ServiceMetadata \<Rightarrow> string" where
  "GetDaemonEndPoint metaData = daemonEndPoint metaData"

definition GetDaemonGroupName :: "ServiceMetadata \<Rightarrow> string" where
  "GetDaemonGroupName metaData = daemonGroupName metaData"

definition metaData_GetVersion :: "ServiceMetadata \<Rightarrow> int" where
  "metaData_GetVersion metaData = Version metaData"

definition GetDisplayName :: "ServiceMetadata \<Rightarrow> string" where
  "GetDisplayName metaData = DisplayName metaData"

definition GetDaemonGroupID :: "ServiceMetadata \<Rightarrow> bytes32" where
  "GetDaemonGroupID metaData = daemonReplicaGroupID metaData"

definition GetDaemonGroupIDString :: "ServiceMetadata \<Rightarrow> string" where
  "GetDaemonGroupIDString metaData = daemonReplicaGroupIDString metaData"

definition GetPaymentAddress :: "ServiceMetadata \<Rightarrow> Address" where
  "GetPaymentAddress metaData = recipientPaymentAddress metaData"

definition GetWireEncoding :: "ServiceMetadata \<Rightarrow> string" where
  "GetWireEncoding metaData = Encoding metaData"

definition GetServiceType :: "ServiceMetadata \<Rightarrow> string" where
  "GetServiceType metaData = ServiceType metaData"

section \<open>Facts about the helpers\<close>

text \<open>What the encoder writes the decoder reads back.\<close>

lemma base64_alphabet_values: "map base64_value base64_alphabet = map Some [0..<64]"
  by (simp add: base64_alphabet_def base64_value_def upt_rec)

lemma base64_alphabet_chars:
  "list_all (\<lambda>c. c \<noteq> CHR ''='' \<and> of_char c \<noteq> (10 :: nat) \<and> of_char c \<noteq> (13 :: nat)) base64_alphabet" "length base64_alphabet = 64"
  by (simp_all add: base64_alphabet_def)

lemma base64_char [simp]:
  assumes "n < 64"
  shows "base64_value (base64_char n) = Some n" "base64_char n \<noteq> CHR ''=''"
    "of_char (base64_char n) \<noteq> (10 :: nat)" "of_char (base64_char n) \<noteq> (13 :: nat)"
proof -
  have "map base64_value base64_alphabet ! n = map Some [0..<64] ! n" by (simp only: base64_alphabet_values)
  with assms show "base64_value (base64_char n) = Some n" by (simp add: base64_alphabet_chars)
  from assms have "base64_char n \<in> set base64_alphabet" by (simp add: base64_alphabet_chars)
  with base64_alphabet_chars(1) show "base64_char n \<noteq> CHR ''=''"
    "of_char (base64_char n) \<noteq> (10 :: nat)" "of_char (base64_char n) \<noteq> (13 :: nat)"
    by (auto simp: list_all_iff)
qed

lemma byte_less: "unat (a :: byte) < 256"
  using unsigned_less [of a] by simp

lemma byte_parts:
  fixes a b c :: byte
  shows "unat a div 4 < 64" "unat a mod 4 * 16 < 64" "unat a mod 4 * 16 + unat b div 16 < 64" "unat b mod 16 * 4 < 64"
    "unat b mod 16 * 4 + unat c div 64 < 64" "unat c mod 64 < 64"
proof -
  have l: "unat a mod 4 < 4" "unat b mod 16 < 16" "unat a div 4 < 64" "unat b div 16 < 16" "unat c div 64 < 4"
    using byte_less [of a] byte_less [of b] byte_less [of c] by (simp_all add: less_mult_imp_div_less)
  then show "unat a mod 4 * 16 < 64" "unat a mod 4 * 16 + unat b div 16 < 64" "unat b mod 16 * 4 < 64"
    "unat b mod 16 * 4 + unat c div 64 < 64" "unat a div 4 < 64" "unat c mod 64 < 64"
    by linarith+
qed

lemma bytes_from_parts:
  fixes a b c :: byte
  shows "word_of_nat (unat a mod 256) = a" "word_of_nat ((unat a + unat b div 16 div 16) mod 256) = a"
    "word_of_nat ((unat b + (256 * (unat a mod 4) + unat c div 64 div 4)) mod 256) = b"
proof -
  have "unat b div 16 div 16 = 0" "unat c div 64 div 4 = 0"
    using byte_less [of b] byte_less [of c] by (simp_all flip: div_mult2_eq)
  with byte_less [of a] byte_less [of b]
  show "word_of_nat (unat a mod 256) = a" "word_of_nat ((unat a + unat b div 16 div 16) mod 256) = a"
    "word_of_nat ((unat b + (256 * (unat a mod 4) + unat c div 64 div 4)) mod 256) = b"
    by simp_all
qed

lemma base64_quads_EncodeToString: "base64_quads (EncodeToString bs) = Some bs"
  by (induction bs rule: EncodeToString.induct) (simp_all add: byte_parts bytes_from_parts)

lemma EncodeToString_no_breaks:
  "filter (\<lambda>c. of_char c \<noteq> (10::nat) \<and> of_char c \<noteq> (13::nat)) (EncodeToString bs) = EncodeToString bs"
  by (induction bs rule: EncodeToString.induct) (simp_all add: byte_parts)

lemma base64_roundtrip: "StdEncoding_DecodeString (BytesToBase64 bs) = Inr bs"
  by (simp add: StdEncoding_DecodeString_def BytesToBase64_def EncodeToString_no_breaks base64_quads_EncodeToString)

lemma group_id_roundtrip: "ConvertBase64Encoding (BytesToBase64 bs) = (copy32 bs, None)"
  by (simp add: ConvertBase64Encoding_def base64_roundtrip)
text \<open>\<open>v\<close> is 27 plus the recovery byte modulo 27: it does not wrap around in a \<^verbatim>\<open>uint8\<close>.\<close>

lemma unat_byte_mod: "unat (b mod 27 :: byte) = unat b mod 27"
  by (simp add: unat_mod)

lemma ParseSignature_v: "unat ((b mod 27 + 27) :: byte) = unat b mod 27 + 27"
proof -
  have "unat b mod 27 < 27" by simp
  then show ?thesis by (simp add: unat_word_ariths unat_byte_mod)
qed

lemma ParseSignature_v_mod: "((b mod 27 + 27) mod 27 :: byte) = b mod 27"
  by (rule word_unat_eq_iff [THEN iffD2]) (simp add: unat_mod ParseSignature_v unat_byte_mod)

lemma ParseSignature_ok_iff: "(\<exists>v r s. ParseSignature bs = Inr (v, r, s)) \<longleftrightarrow> length bs = 65"
  by (simp add: ParseSignature_def)

lemma RemoveSpecial_idem:
  "RemoveSpecialCharactersfromHash (RemoveSpecialCharactersfromHash s) = RemoveSpecialCharactersfromHash s"
  by (simp add: RemoveSpecialCharactersfromHash_def)

lemma remove_all_absent: "\<exists>c \<in> set old. c \<notin> set s \<Longrightarrow> remove_all old s = s"
proof (induction s)
  case Nil
  then show ?case by simp
next
  case (Cons a s)
  then have "\<not> prefix old (a # s)" using set_mono_prefix by fastforce
  with Cons show ?case by auto
qed

lemma remove_all_prefix: "old \<noteq> [] \<Longrightarrow> remove_all old (old @ s) = remove_all old s"
  by (cases old) auto

lemma hash_char_slash: "\<not> hash_char (CHR ''/'')"
  by (simp add: hash_char_def)

lemma FormatHash_ipfs:
  assumes "\<forall>c \<in> set h. hash_char c"
  shows "FormatHash (IpfsPrefix @ h) = h"
proof -
  have "CHR ''/'' \<notin> set h" using assms hash_char_slash by blast
  then have "remove_all IpfsPrefix h = h"
    by (intro remove_all_absent) (auto simp: IpfsPrefix_def)
  moreover have "filter hash_char h = h" using assms by (simp add: filter_id_conv)
  ultimately show ?thesis
    by (simp add: FormatHash_def remove_all_prefix RemoveSpecialCharactersfromHash_def IpfsPrefix_def)
qed

lemma find_group_Some:
  "find_group n gs = Some g \<longleftrightarrow>
     (\<exists>before after. gs = before @ g # after \<and> Group_GroupName g = n \<and> (\<forall>x \<in> set before. Group_GroupName x \<noteq> n))"
proof (induction gs)
  case Nil
  then show ?case by simp
next
  case (Cons a gs)
  then show ?case
    by (auto simp: Cons_eq_append_conv) (metis set_ConsD)+
qed

lemma length_Address_Bytes [simp]: "length (Address_Bytes a) = 20"
  by (simp add: Address_Bytes_def)

lemma length_Hash_Bytes [simp]: "length (Hash_Bytes h) = 32"
  by (simp add: Hash_Bytes_def)

lemma Address_Bytes_inject [simp]: "Address_Bytes a = Address_Bytes b \<longleftrightarrow> a = b"
proof
  assume "Address_Bytes a = Address_Bytes b"
  then have "unat a = unat b"
    unfolding Address_Bytes_def by (rule be_bytes_inject) (use unsigned_less [where 'a = nat, of a] unsigned_less [where 'a = nat, of b] in simp_all)
  then show "a = b" by (simp add: word_unat_eq_iff)
qed simp

lemma Hash_Bytes_inject [simp]: "Hash_Bytes a = Hash_Bytes b \<longleftrightarrow> a = b"
proof
  assume "Hash_Bytes a = Hash_Bytes b"
  then have "unat a = unat b"
    unfolding Hash_Bytes_def by (rule be_bytes_inject) (use unsigned_less [where 'a = nat, of a] unsigned_less [where 'a = nat, of b] in simp_all)
  then show "a = b" by (simp add: word_unat_eq_iff)
qed simp

end
