(* ===== verification/Interceptors.thy ===== *)
theory Interceptors
  imports BigInt Blockchain
begin

text \<open>
  \<^verbatim>\<open>handler/interceptors.go\<close>: the gRPC interceptors of a call and the access to its metadata. An
  interceptor is a function from the rest of the call (\<^verbatim>\<open>grpc.StreamHandler\<close>, which may return an error
  or panic) to the call. The interceptor of payments is written against the interface
  \<^verbatim>\<open>PaymentHandler\<close>; the locale \<open>payment_handler\<close> states what it relies on.

  \<^verbatim>\<open>md.Get\<close>, \<^verbatim>\<open>metadata.FromIncomingContext\<close> and \<^verbatim>\<open>rate.Limiter.Allow\<close> are library code and are arguments.
\<close>

section \<open>Contexts and errors\<close>

type_synonym MD = "string \<Rightarrow> string list option"

record GrpcStreamContext =
  context_MD :: MD
  context_Info :: string

record GrpcError =
  error_Status :: "Status option"

definition GrpcError_Err :: "GrpcError \<Rightarrow> error option" where
  "GrpcError_Err err = (case error_Status err of None \<Rightarrow> None | Some s \<Rightarrow> Some (StatusErr s))"

text \<open>Both constructors format the message; the first one with no arguments.\<close>

definition NewGrpcErrorf :: "codes_Code \<Rightarrow> message \<Rightarrow> message list \<Rightarrow> GrpcError" where
  "NewGrpcErrorf code format args =
     \<lparr>error_Status = Some \<lparr>status_code = code, status_message = Sprintf format args\<rparr>\<rparr>"

definition NewGrpcError :: "codes_Code \<Rightarrow> message \<Rightarrow> GrpcError" where
  "NewGrpcError code m = \<lparr>error_Status = Some \<lparr>status_code = code, status_message = Sprintf m []\<rparr>\<rparr>"

definition handler_IncorrectNonce :: codes_Code where
  "handler_IncorrectNonce = Code 1000"

definition PaymentTypeHeader :: string where
  "PaymentTypeHeader = ''snet-payment-type''"

lemma GrpcError_Err_new [simp]:
  "GrpcError_Err (NewGrpcErrorf c f a) = Some (StatusErr \<lparr>status_code = c, status_message = Sprintf f a\<rparr>)"
  "GrpcError_Err (NewGrpcError c m) = Some (StatusErr \<lparr>status_code = c, status_message = Sprintf m []\<rparr>)"
  by (simp_all add: GrpcError_Err_def NewGrpcErrorf_def NewGrpcError_def)

section \<open>Reading metadata\<close>

definition GetSingleValue ::
  "(MD \<Rightarrow> string \<Rightarrow> string list) \<Rightarrow> MD \<Rightarrow> string \<Rightarrow> GrpcError + string" where
  "GetSingleValue md_Get md key =
     (let array = md_Get md key in
      if length array = 0 then Inl (NewGrpcErrorf codes_InvalidArgument (Lit ''missing \"%v\"'') [Lit key])
      else if length array > 1 then
        Inl (NewGrpcErrorf codes_InvalidArgument (Lit ''too many values for key \"%v\": %v'')
               [Lit key, StringsArg array])
      else Inr (hd array))"

definition GetBigInt :: "(MD \<Rightarrow> string \<Rightarrow> string list) \<Rightarrow> MD \<Rightarrow> string \<Rightarrow> GrpcError + int" where
  "GetBigInt md_Get md key =
     (case GetSingleValue md_Get md key of
        Inl err \<Rightarrow> Inl err
      | Inr str \<Rightarrow>
          (case UnmarshalText str of
             None \<Rightarrow> Inl (NewGrpcErrorf codes_InvalidArgument (Lit ''incorrect format \"%v\": \"%v\"'') [Lit key, Lit str])
           | Some v \<Rightarrow> Inr v))"

definition GetBytes :: "(MD \<Rightarrow> string \<Rightarrow> string list) \<Rightarrow> MD \<Rightarrow> string \<Rightarrow> GrpcError + bytes" where
  "GetBytes md_Get md key =
     (if \<not> suffix ''-bin'' key then
        Inl (NewGrpcErrorf codes_InvalidArgument (Lit ''incorrect binary key name \"%v\"'') [Lit key])
      else case GetSingleValue md_Get md key of
        Inl err \<Rightarrow> Inl err
      | Inr str \<Rightarrow> Inr (string_bytes str))"

definition GetBytesFromHex ::
  "go_ethereum \<Rightarrow> (MD \<Rightarrow> string \<Rightarrow> string list) \<Rightarrow> MD \<Rightarrow> string \<Rightarrow> GrpcError + bytes" where
  "GetBytesFromHex E md_Get md key =
     (case GetSingleValue md_Get md key of
        Inl err \<Rightarrow> Inl err
      | Inr str \<Rightarrow> Inr (FromHex E str))"

section \<open>Interceptors\<close>

text \<open>The rest of a call, as a handler sees it: it returns an error or nil, or panics.\<close>

type_synonym 'w StreamHandler = "'w \<Rightarrow> error option go \<times> 'w"

definition NoOpInterceptor :: "'w StreamHandler \<Rightarrow> 'w StreamHandler" where
  "NoOpInterceptor handler w = handler w"

definition rateLimitInterceptor_intercept ::
  "('w \<Rightarrow> bool \<times> 'w) \<Rightarrow> 'w StreamHandler \<Rightarrow> 'w StreamHandler" where
  "rateLimitInterceptor_intercept Allow handler w =
     (case Allow w of
        (False, w') \<Rightarrow>
          (Returns (Some (StatusErr \<lparr>status_code = codes_ResourceExhausted,
             status_message = Lit ''rate limiting , too many requests to handle''\<rparr>)), w')
      | (True, w') \<Rightarrow> handler w')"

text \<open>\<open>'p\<close> is what \<^verbatim>\<open>Payment\<close> returns to be completed later.\<close>

record ('w, 'p) PaymentHandler =
  Type :: string
  handler_Payment :: "GrpcStreamContext \<Rightarrow> 'w \<Rightarrow> (GrpcError + 'p) \<times> 'w"
  handler_Complete :: "'p \<Rightarrow> 'w \<Rightarrow> GrpcError option \<times> 'w"
  handler_CompleteAfterError :: "'p \<Rightarrow> error \<Rightarrow> 'w \<Rightarrow> GrpcError option \<times> 'w"

record ('w, 'p) paymentValidationInterceptor =
  defaultPaymentHandler :: "('w, 'p) PaymentHandler"
  paymentHandlers :: "string \<Rightarrow> ('w, 'p) PaymentHandler option"

definition GrpcPaymentValidationInterceptor ::
  "('w, 'p) PaymentHandler \<Rightarrow> ('w, 'p) PaymentHandler list \<Rightarrow> ('w, 'p) paymentValidationInterceptor" where
  "GrpcPaymentValidationInterceptor default_handler handlers =
     \<lparr>defaultPaymentHandler = default_handler,
      paymentHandlers = foldl (\<lambda>m h. m(Type h \<mapsto> h)) [Type default_handler \<mapsto> default_handler] handlers\<rparr>"

definition getGrpcContext :: "MD option \<Rightarrow> string \<Rightarrow> GrpcError + GrpcStreamContext" where
  "getGrpcContext incoming info =
     (case incoming of
        None \<Rightarrow> Inl (NewGrpcError codes_InvalidArgument (Lit ''missing metadata''))
      | Some md \<Rightarrow> Inr \<lparr>context_MD = md, context_Info = info\<rparr>)"

definition getPaymentHandler ::
  "('w, 'p) paymentValidationInterceptor \<Rightarrow> GrpcStreamContext \<Rightarrow> GrpcError + ('w, 'p) PaymentHandler" where
  "getPaymentHandler interceptor context =
     (case context_MD context PaymentTypeHeader of
        None \<Rightarrow> Inr (defaultPaymentHandler interceptor)
      | Some [] \<Rightarrow> Inr (defaultPaymentHandler interceptor)
      | Some (paymentType # _) \<Rightarrow>
          (case paymentHandlers interceptor paymentType of
             None \<Rightarrow> Inl (NewGrpcErrorf codes_InvalidArgument (Lit ''unexpected \"%v\", value: \"%v\"'')
                            [Lit PaymentTypeHeader, Lit paymentType])
           | Some paymentHandler \<Rightarrow> Inr paymentHandler))"

text \<open>The deferred function of \<^verbatim>\<open>intercept\<close>: it sees how the call ended and decides the result.\<close>

definition intercept_deferred ::
  "('w, 'p) PaymentHandler \<Rightarrow> 'p \<Rightarrow> error option go \<Rightarrow> 'w \<Rightarrow> error option go \<times> 'w" where
  "intercept_deferred paymentHandler payment outcome w =
     (case outcome of
        Panics r \<Rightarrow>
          (case handler_CompleteAfterError paymentHandler payment
                  (fmt_Errorf ''Service handler called panic(%v)'' [r]) w of
             (_, w') \<Rightarrow> (Panics (Lit ''re-panic after payment handler error handling''), w'))
      | Returns None \<Rightarrow>
          (case handler_Complete paymentHandler payment w of
             (None, w') \<Rightarrow> (Returns None, w')
           | (Some err, w') \<Rightarrow> (Returns (GrpcError_Err err), w'))
      | Returns (Some e) \<Rightarrow>
          (case handler_CompleteAfterError paymentHandler payment e w of
             (None, w') \<Rightarrow> (Returns (Some e), w')
           | (Some err, w') \<Rightarrow> (Returns (GrpcError_Err err), w')))"

definition paymentValidationInterceptor_intercept ::
  "('w, 'p) paymentValidationInterceptor \<Rightarrow> MD option \<Rightarrow> string \<Rightarrow> 'w StreamHandler \<Rightarrow> 'w StreamHandler" where
  "paymentValidationInterceptor_intercept interceptor incoming info handler w =
     (case getGrpcContext incoming info of
        Inl err \<Rightarrow> (Returns (GrpcError_Err err), w)
      | Inr context \<Rightarrow>
          (case getPaymentHandler interceptor context of
             Inl err \<Rightarrow> (Returns (GrpcError_Err err), w)
           | Inr paymentHandler \<Rightarrow>
               (case handler_Payment paymentHandler context w of
                  (Inl err, w1) \<Rightarrow> (Returns (GrpcError_Err err), w1)
                | (Inr payment, w1) \<Rightarrow>
                    (case handler w1 of
                       (outcome, w2) \<Rightarrow> intercept_deferred paymentHandler payment outcome w2))))"

section \<open>What the interceptor relies on\<close>

text \<open>
  A payment handler over a ledger of what was charged: \<^verbatim>\<open>Payment\<close> charges nothing, and reserves what it
  accepts; a reserved payment is charged by a \<^verbatim>\<open>Complete\<close> that succeeds, and never by
  \<^verbatim>\<open>CompleteAfterError\<close>. Every error it reports is a status.
\<close>

locale payment_handler =
  fixes H :: "('w, 'p) PaymentHandler"
    and ledger :: "'w \<Rightarrow> 'l"
    and accepted :: "GrpcStreamContext \<Rightarrow> 'w \<Rightarrow> 'p \<Rightarrow> 'w \<Rightarrow> bool"
    and reserved :: "'p \<Rightarrow> 'w \<Rightarrow> bool"
    and charge :: "'p \<Rightarrow> 'l \<Rightarrow> 'l"
  assumes Payment_err: "handler_Payment H ctx w = (Inl err, w') \<Longrightarrow> ledger w' = ledger w \<and> error_Status err \<noteq> None"
    and Payment_ok: "handler_Payment H ctx w = (Inr p, w') \<Longrightarrow>
      ledger w' = ledger w \<and> reserved p w' \<and> accepted ctx w p w'"
    and Complete_ok: "handler_Complete H p w = (None, w') \<Longrightarrow> reserved p w \<Longrightarrow> ledger w' = charge p (ledger w)"
    and Complete_err: "handler_Complete H p w = (Some err, w') \<Longrightarrow> error_Status err \<noteq> None"
    and CompleteAfterError: "handler_CompleteAfterError H p e w = (r, w') \<Longrightarrow> reserved p w \<Longrightarrow>
      ledger w' = ledger w"
    and CompleteAfterError_err: "handler_CompleteAfterError H p e w = (Some err, w') \<Longrightarrow> error_Status err \<noteq> None"
begin

lemma Err_not_None: "error_Status err \<noteq> None \<Longrightarrow> GrpcError_Err err \<noteq> None"
  by (auto simp: GrpcError_Err_def split: option.splits)

lemma getPaymentHandler_err: "getPaymentHandler I ctx = Inl err \<Longrightarrow> \<exists>e. GrpcError_Err err = Some e"
  by (auto simp: getPaymentHandler_def split: option.splits list.splits)

lemma getPaymentHandler_only:
  "getPaymentHandler (GrpcPaymentValidationInterceptor H []) ctx = Inr H' \<Longrightarrow> H' = H"
  by (auto simp: getPaymentHandler_def GrpcPaymentValidationInterceptor_def
      split: option.splits list.splits if_splits)

text \<open>
  A call ends without an error exactly when the payment was accepted, the service returned without an
  error and the payment was completed; then the ledger has one charge more than the service left.
\<close>

lemma intercept_success:
  assumes "paymentValidationInterceptor_intercept (GrpcPaymentValidationInterceptor H []) incoming info handler w
      = (Returns None, w')"
    and "\<And>p w1 r w2. reserved p w1 \<Longrightarrow> handler w1 = (r, w2) \<Longrightarrow> reserved p w2"
  obtains md p w1 w2 where "incoming = Some md"
    "handler_Payment H \<lparr>context_MD = md, context_Info = info\<rparr> w = (Inr p, w1)"
    "accepted \<lparr>context_MD = md, context_Info = info\<rparr> w p w1" "reserved p w1" "ledger w1 = ledger w"
    "handler w1 = (Returns None, w2)" "reserved p w2"
    "handler_Complete H p w2 = (None, w')" "ledger w' = charge p (ledger w2)"
proof -
  from assms(1) obtain md p w1 r w2 where md: "incoming = Some md"
    and p: "handler_Payment H \<lparr>context_MD = md, context_Info = info\<rparr> w = (Inr p, w1)"
    and r: "handler w1 = (r, w2)" and d: "intercept_deferred H p r w2 = (Returns None, w')"
    by (auto simp: paymentValidationInterceptor_intercept_def getGrpcContext_def
        split: option.splits sum.splits prod.splits
        dest!: getPaymentHandler_err getPaymentHandler_only Payment_err Err_not_None)
  from d have r': "r = Returns None" and c: "handler_Complete H p w2 = (None, w')"
    by (auto simp: intercept_deferred_def split: go.splits option.splits prod.splits
        dest!: Complete_err CompleteAfterError_err Err_not_None)
  from Payment_ok [OF p] have ok: "ledger w1 = ledger w" "reserved p w1"
    "accepted \<lparr>context_MD = md, context_Info = info\<rparr> w p w1" by simp_all
  from assms(2) [OF ok(2) r] have res: "reserved p w2" .
  from that [OF md p ok(3,2,1) r [unfolded r'] res c Complete_ok [OF c res]] show ?thesis .
qed

text \<open>
  A call whose service fails or panics is not charged: the interceptor ends in the ledger the service
  left, and passes a panic on.
\<close>

lemma intercept_service_failed:
  assumes "handler_Payment H \<lparr>context_MD = md, context_Info = info\<rparr> w = (Inr p, w1)"
    and "handler w1 = (r, w2)" "r \<noteq> Returns None" "reserved p w2"
    and "getPaymentHandler (GrpcPaymentValidationInterceptor H []) \<lparr>context_MD = md, context_Info = info\<rparr> = Inr H"
    and "paymentValidationInterceptor_intercept (GrpcPaymentValidationInterceptor H []) (Some md) info handler w
      = (out, w')"
  shows "ledger w' = ledger w2" and "out \<noteq> Returns None" and "(\<exists>m. out = Panics m) \<longleftrightarrow> (\<exists>m. r = Panics m)"
proof -
  from assms have d: "intercept_deferred H p r w2 = (out, w')"
    by (simp add: paymentValidationInterceptor_intercept_def getGrpcContext_def)
  with assms(3,4) show "ledger w' = ledger w2"
    by (auto simp: intercept_deferred_def split: go.splits option.splits prod.splits dest: CompleteAfterError)
  from d assms(3) show "out \<noteq> Returns None"
    by (auto simp: intercept_deferred_def split: go.splits option.splits prod.splits
        dest!: CompleteAfterError_err Err_not_None)
  from d assms(3) show "(\<exists>m. out = Panics m) \<longleftrightarrow> (\<exists>m. r = Panics m)"
    by (auto simp: intercept_deferred_def split: go.splits option.splits prod.splits)
qed

lemma intercept_not_accepted:
  assumes "getGrpcContext incoming info = Inr ctx" "handler_Payment H ctx w = (Inl err, w1)"
    and "paymentValidationInterceptor_intercept (GrpcPaymentValidationInterceptor H []) incoming info handler w = (out, w')"
  shows "\<exists>e. out = Returns (Some e)" and "ledger w' = ledger w"
  using assms Payment_err [OF assms(2)]
  by (auto simp: paymentValidationInterceptor_intercept_def GrpcError_Err_def
      split: sum.splits dest!: getPaymentHandler_err getPaymentHandler_only Err_not_None)

end

end
