(* ===== verification/PaymentChannel.thy ===== *)
theory PaymentChannel
  imports AtomicStorage Blockchain
begin

text \<open>
  The data of the escrow package and its two tables: \<^verbatim>\<open>escrow/payment_channel_api.go\<close> (payments,
  channels, channel updates), \<^verbatim>\<open>escrow/payment_channel_storage.go\<close> (the channel table, the blockchain
  reader, the merge of both) and \<^verbatim>\<open>escrow/payment_storage.go\<close> (the table of payments being claimed).

  A slice that the code compares with nil is an \<open>option\<close>; a \<^verbatim>\<open>*big.Int\<close> is an \<open>int\<close>. The updates
  allocate fresh numbers and the callers copy the struct first, so nothing is shared between an old
  and a new channel state.
\<close>

section \<open>Payments and channels\<close>

type_synonym slice = "bytes option"

definition slice_bytes :: "slice \<Rightarrow> bytes" where
  "slice_bytes s = (case s of None \<Rightarrow> [] | Some bs \<Rightarrow> bs)"

record Payment =
  MpeContractAddress :: Address
  payment_ChannelID :: int
  ChannelNonce :: int
  Amount :: int
  payment_Signature :: slice

definition Payment_ID :: "Payment \<Rightarrow> string" where
  "Payment_ID p = show_int (payment_ChannelID p) @ ''/'' @ show_int (ChannelNonce p)"

record PaymentChannelKey =
  ID :: int

definition PaymentChannelKey_String :: "PaymentChannelKey \<Rightarrow> string" where
  "PaymentChannelKey_String key = ''{ID: '' @ show_int (ID key) @ ''}''"

datatype PaymentChannelState = Open | Closed

fun PaymentChannelState_String :: "PaymentChannelState \<Rightarrow> string" where
  "PaymentChannelState_String Open = ''Open''"
| "PaymentChannelState_String Closed = ''Closed''"

record PaymentChannelData =
  ChannelID :: int
  Nonce :: int
  State :: PaymentChannelState
  Sender :: Address
  Recipient :: Address
  GroupID :: bytes32
  FullAmount :: int
  Expiration :: int
  Signer :: Address
  AuthorizedAmount :: int
  Signature :: slice

type_synonym ChannelUpdate = "PaymentChannelData \<Rightarrow> PaymentChannelData"

definition CloseChannel :: ChannelUpdate where
  "CloseChannel channel = channel\<lparr>FullAmount := 0\<rparr>"

definition IncrementChannelNonce :: ChannelUpdate where
  "IncrementChannelNonce channel =
     channel\<lparr>Nonce := Nonce channel + 1,
             FullAmount := FullAmount channel - AuthorizedAmount channel,
             AuthorizedAmount := 0,
             Signature := None\<rparr>"

section \<open>The channel table\<close>

text \<open>
  \<^verbatim>\<open>encoding/gob\<close> at the types the code uses it with. \<^verbatim>\<open>serialize\<close> and \<^verbatim>\<open>deserialize\<close> wrap an encoder
  and a decoder around a buffer; their effect is the byte string or an error.
\<close>

record gob =
  serialize_key :: "PaymentChannelKey \<Rightarrow> string result"
  serialize_id :: "string \<Rightarrow> string result"
  serialize_channel :: "PaymentChannelData \<Rightarrow> string result"
  deserialize_channel :: "string \<Rightarrow> PaymentChannelData result"
  serialize_payment :: "Payment \<Rightarrow> string result"
  deserialize_payment :: "string \<Rightarrow> Payment result"

text \<open>The key prefixes that keep the tables of one storage apart.\<close>

definition channel_prefix :: string where "channel_prefix = ''/payment-channel/storage''"
definition payment_prefix :: string where "payment_prefix = ''/payment/storage''"
definition lock_prefix :: string where "lock_prefix = ''/payment-channel/lock''"

record 'w PaymentChannelStorage =
  channel_delegate :: "('w, PaymentChannelKey, PaymentChannelData) TypedAtomicStorageImpl"

definition NewPaymentChannelStorage :: "gob \<Rightarrow> 'w AtomicStorage \<Rightarrow> 'w PaymentChannelStorage" where
  "NewPaymentChannelStorage G st =
     \<lparr>channel_delegate =
        \<lparr>atomicStorage = as_AtomicStorage \<lparr>prefixed_delegate = st, keyPrefix = channel_prefix\<rparr>,
         keySerializer = serialize_key G,
         valueSerializer = serialize_channel G,
         valueDeserializer = deserialize_channel G\<rparr>\<rparr>"

definition PaymentChannelStorage_Get ::
  "'w PaymentChannelStorage \<Rightarrow> PaymentChannelKey \<Rightarrow> 'w \<Rightarrow> PaymentChannelData option result \<times> 'w" where
  "PaymentChannelStorage_Get storage key = TypedAtomicStorageImpl_Get (channel_delegate storage) key"

definition PaymentChannelStorage_GetAll ::
  "'w PaymentChannelStorage \<Rightarrow> 'w \<Rightarrow> PaymentChannelData list result \<times> 'w" where
  "PaymentChannelStorage_GetAll storage = TypedAtomicStorageImpl_GetAll (channel_delegate storage)"

definition PaymentChannelStorage_Put ::
  "'w PaymentChannelStorage \<Rightarrow> PaymentChannelKey \<Rightarrow> PaymentChannelData \<Rightarrow> 'w \<Rightarrow> unit result \<times> 'w" where
  "PaymentChannelStorage_Put storage key state = TypedAtomicStorageImpl_Put (channel_delegate storage) key state"

definition PaymentChannelStorage_PutIfAbsent ::
  "'w PaymentChannelStorage \<Rightarrow> PaymentChannelKey \<Rightarrow> PaymentChannelData \<Rightarrow> 'w \<Rightarrow> bool result \<times> 'w" where
  "PaymentChannelStorage_PutIfAbsent storage key state =
     TypedAtomicStorageImpl_PutIfAbsent (channel_delegate storage) key state"

definition PaymentChannelStorage_CompareAndSwap ::
  "'w PaymentChannelStorage \<Rightarrow> PaymentChannelKey \<Rightarrow> PaymentChannelData \<Rightarrow> PaymentChannelData \<Rightarrow> 'w
    \<Rightarrow> bool result \<times> 'w" where
  "PaymentChannelStorage_CompareAndSwap storage key prevState newState =
     TypedAtomicStorageImpl_CompareAndSwap (channel_delegate storage) key prevState newState"

section \<open>Channel state on the blockchain\<close>

record 'w BlockchainChannelReader =
  readChannelFromBlockchain :: "int \<Rightarrow> 'w \<Rightarrow> MultiPartyEscrowChannel option result"
  reader_recipientPaymentAddress :: "Address"

definition NewBlockchainChannelReader ::
  "(int \<Rightarrow> 'w \<Rightarrow> MultiPartyEscrowChannel result) \<Rightarrow> ServiceMetadata \<Rightarrow> 'w BlockchainChannelReader" where
  "NewBlockchainChannelReader Channels metadata =
     \<lparr>readChannelFromBlockchain = Processor_MultiPartyEscrowChannel Channels,
      reader_recipientPaymentAddress = GetPaymentAddress metadata\<rparr>"

definition GetChannelStateFromBlockchain ::
  "'w BlockchainChannelReader \<Rightarrow> PaymentChannelKey \<Rightarrow> 'w \<Rightarrow> PaymentChannelData option result" where
  "GetChannelStateFromBlockchain reader key w =
     (case readChannelFromBlockchain reader (ID key) w of
        Inl err \<Rightarrow> Inl err
      | Inr None \<Rightarrow> Inr None
      | Inr (Some ch) \<Rightarrow>
          if reader_recipientPaymentAddress reader \<noteq> mpe_Recipient ch then
            Inl (fmt_Errorf
              ''recipient Address from service metadata does not Match on what was retrieved from Channel'' [])
          else
            Inr (Some \<lparr>ChannelID = ID key, Nonce = mpe_Nonce ch, State = Open, Sender = mpe_Sender ch,
                       Recipient = mpe_Recipient ch, GroupID = mpe_GroupId ch, FullAmount = mpe_Value ch,
                       Expiration = mpe_Expiration ch, Signer = mpe_Signer ch, AuthorizedAmount = 0,
                       Signature = None\<rparr>))"

definition MergeStorageAndBlockchainChannelState ::
  "PaymentChannelData \<Rightarrow> PaymentChannelData \<Rightarrow> PaymentChannelData" where
  "MergeStorageAndBlockchainChannelState storage blockchain =
     (if Nonce storage > Nonce blockchain then storage
      else if Nonce storage < Nonce blockchain then blockchain
      else storage\<lparr>FullAmount := FullAmount blockchain, Expiration := Expiration blockchain\<rparr>)"

section \<open>The table of payments being claimed\<close>

record 'w PaymentStorage =
  payment_delegate :: "('w, string, Payment) TypedAtomicStorageImpl"

definition NewPaymentStorage :: "gob \<Rightarrow> 'w AtomicStorage \<Rightarrow> 'w PaymentStorage" where
  "NewPaymentStorage G st =
     \<lparr>payment_delegate =
        \<lparr>atomicStorage = as_AtomicStorage \<lparr>prefixed_delegate = st, keyPrefix = payment_prefix\<rparr>,
         keySerializer = serialize_id G,
         valueSerializer = serialize_payment G,
         valueDeserializer = deserialize_payment G\<rparr>\<rparr>"

definition PaymentStorage_GetAll :: "'w PaymentStorage \<Rightarrow> 'w \<Rightarrow> Payment list result \<times> 'w" where
  "PaymentStorage_GetAll storage = TypedAtomicStorageImpl_GetAll (payment_delegate storage)"

definition PaymentStorage_Put :: "'w PaymentStorage \<Rightarrow> Payment \<Rightarrow> 'w \<Rightarrow> unit result \<times> 'w" where
  "PaymentStorage_Put storage payment =
     TypedAtomicStorageImpl_Put (payment_delegate storage) (Payment_ID payment) payment"

definition PaymentStorage_Delete :: "'w PaymentStorage \<Rightarrow> Payment \<Rightarrow> 'w \<Rightarrow> unit result \<times> 'w" where
  "PaymentStorage_Delete storage payment =
     TypedAtomicStorageImpl_Delete (payment_delegate storage) (Payment_ID payment)"

lemmas PaymentChannelStorage_defs =
  PaymentChannelStorage_Get_def PaymentChannelStorage_GetAll_def PaymentChannelStorage_Put_def
  NewPaymentChannelStorage_def

lemmas PaymentStorage_defs =
  PaymentStorage_GetAll_def PaymentStorage_Put_def PaymentStorage_Delete_def NewPaymentStorage_def

section \<open>Identifiers are injective\<close>

lemma PaymentChannelKey_eqI: "ID (k :: PaymentChannelKey) = ID k' \<Longrightarrow> k = k'"
  by simp

lemma PaymentChannelKey_String_inject [simp]:
  "PaymentChannelKey_String k = PaymentChannelKey_String k' \<longleftrightarrow> k = k'"
  by (auto simp: PaymentChannelKey_String_def)

lemma Payment_ID_inject:
  "Payment_ID p = Payment_ID q \<longleftrightarrow>
     payment_ChannelID p = payment_ChannelID q \<and> ChannelNonce p = ChannelNonce q"
  by (auto simp: Payment_ID_def append_sep_inject)

section \<open>The tables over one shared storage\<close>

text \<open>
  The laws of gob the tables rely on. A channel or payment whose signature is an empty slice that is
  not nil would come back with a nil signature; no operation of the daemon stores one.
\<close>

definition channel_storable :: "PaymentChannelData \<Rightarrow> bool" where
  "channel_storable c \<longleftrightarrow> Signature c \<noteq> Some []"

definition payment_storable :: "Payment \<Rightarrow> bool" where
  "payment_storable p \<longleftrightarrow> payment_Signature p \<noteq> Some []"

locale gob_codec =
  fixes G :: gob
  assumes gob_key_total: "\<exists>s. serialize_key G k = Inr s"
    and gob_key_inject: "serialize_key G k = Inr s \<Longrightarrow> serialize_key G k' = Inr s \<Longrightarrow> k = k'"
    and gob_id_total: "\<exists>s. serialize_id G i = Inr s"
    and gob_id_inject: "serialize_id G i = Inr s \<Longrightarrow> serialize_id G i' = Inr s \<Longrightarrow> i = i'"
    and gob_channel: "channel_storable c \<Longrightarrow>
      \<exists>x. serialize_channel G c = Inr x \<and> deserialize_channel G x = Inr c"
    and gob_payment: "payment_storable p \<Longrightarrow>
      \<exists>x. serialize_payment G p = Inr x \<and> deserialize_payment G x = Inr p"

text \<open>What the shared storage holds, table by table.\<close>

definition channel_table :: "gob \<Rightarrow> (string \<Rightarrow> string option) \<Rightarrow> PaymentChannelKey \<Rightarrow> PaymentChannelData option" where
  "channel_table G m = decoded_entry (serialize_key G) (deserialize_channel G) (strip channel_prefix m)"

definition payment_table :: "gob \<Rightarrow> (string \<Rightarrow> string option) \<Rightarrow> string \<Rightarrow> Payment option" where
  "payment_table G m = decoded_entry (serialize_id G) (deserialize_payment G) (strip payment_prefix m)"

definition lock_table :: "(string \<Rightarrow> string option) \<Rightarrow> string \<Rightarrow> string option" where
  "lock_table m = strip lock_prefix m"

text \<open>Every entry of the table of claims can be read back.\<close>

definition payments_wf :: "gob \<Rightarrow> (string \<Rightarrow> string option) \<Rightarrow> bool" where
  "payments_wf G m \<longleftrightarrow>
     (\<forall>s x. strip payment_prefix m s = Some x \<longrightarrow>
        (\<exists>i. serialize_id G i = Inr s) \<and> (\<exists>p. deserialize_payment G x = Inr p))"

text \<open>A key of one table is a key of no other one.\<close>

lemma table_keys_disjoint [simp]:
  "strip channel_prefix (m(payment_prefix @ CHR ''/'' # s := x)) = strip channel_prefix m"
  "strip channel_prefix (m(lock_prefix @ CHR ''/'' # s := x)) = strip channel_prefix m"
  "strip payment_prefix (m(channel_prefix @ CHR ''/'' # s := x)) = strip payment_prefix m"
  "strip payment_prefix (m(lock_prefix @ CHR ''/'' # s := x)) = strip payment_prefix m"
  "strip lock_prefix (m(channel_prefix @ CHR ''/'' # s := x)) = strip lock_prefix m"
  "strip lock_prefix (m(payment_prefix @ CHR ''/'' # s := x)) = strip lock_prefix m"
  by (simp_all add: strip_def fun_eq_iff channel_prefix_def payment_prefix_def lock_prefix_def)

locale escrow_storage = atomic_storage st view + gob_codec G
  for st :: "'w AtomicStorage" and view :: "'w \<Rightarrow> string \<Rightarrow> string option" and G :: gob

sublocale escrow_storage \<subseteq> chan_store: prefixed_storage st view channel_prefix
  by unfold_locales

sublocale escrow_storage \<subseteq> pay_store: prefixed_storage st view payment_prefix
  by unfold_locales

sublocale escrow_storage \<subseteq> chan: typed_storage "channel_delegate (NewPaymentChannelStorage G st)"
    "\<lambda>w. strip channel_prefix (view w)" channel_storable
  rewrites "typed_view (channel_delegate (NewPaymentChannelStorage G st)) =
      decoded_entry (serialize_key G) (deserialize_channel G)"
proof -
  show "typed_storage (channel_delegate (NewPaymentChannelStorage G st))
      (\<lambda>w. strip channel_prefix (view w)) channel_storable"
    using chan_store.pre.atomic_storage_axioms gob_key_total gob_key_inject gob_channel
    by (auto simp: typed_storage_def typed_storage_axioms_def NewPaymentChannelStorage_def)
qed (simp add: typed_view_def NewPaymentChannelStorage_def)

sublocale escrow_storage \<subseteq> pay: typed_storage "payment_delegate (NewPaymentStorage G st)"
    "\<lambda>w. strip payment_prefix (view w)" payment_storable
  rewrites "typed_view (payment_delegate (NewPaymentStorage G st)) =
      decoded_entry (serialize_id G) (deserialize_payment G)"
proof -
  show "typed_storage (payment_delegate (NewPaymentStorage G st))
      (\<lambda>w. strip payment_prefix (view w)) payment_storable"
    using pay_store.pre.atomic_storage_axioms gob_id_total gob_id_inject gob_payment
    by (auto simp: typed_storage_def typed_storage_axioms_def NewPaymentStorage_def)
qed (simp add: typed_view_def NewPaymentStorage_def)

section \<open>The operations of the tables\<close>

context escrow_storage
begin

lemma channel_Get_view:
  "PaymentChannelStorage_Get (NewPaymentChannelStorage G st) key w = (r, w') \<Longrightarrow> view w' = view w"
  by (auto simp: PaymentChannelStorage_defs TypedAtomicStorageImpl_Get_def as_AtomicStorage_def
      PrefixedAtomicStorage_defs split: sum.splits prod.splits option.splits dest: Get_view)

lemma channel_Get_ok [result_rules]:
  "PaymentChannelStorage_Get (NewPaymentChannelStorage G st) key w = (Inr x, w') \<Longrightarrow>
     channel_table G (view w) key = x"
  by (simp add: PaymentChannelStorage_Get_def channel_table_def chan.TGet_ok [symmetric])

lemma channel_GetAll_view:
  "PaymentChannelStorage_GetAll (NewPaymentChannelStorage G st) w = (r, w') \<Longrightarrow> view w' = view w"
  by (auto simp: PaymentChannelStorage_defs TypedAtomicStorageImpl_GetAll_def as_AtomicStorage_def
      PrefixedAtomicStorage_defs split: sum.splits prod.splits dest: GetByKeyPrefix_view)

lemma payment_GetAll_view:
  "PaymentStorage_GetAll (NewPaymentStorage G st) w = (r, w') \<Longrightarrow> view w' = view w"
  by (auto simp: PaymentStorage_defs TypedAtomicStorageImpl_GetAll_def as_AtomicStorage_def
      PrefixedAtomicStorage_defs split: sum.splits prod.splits dest: GetByKeyPrefix_view)

text \<open>A write to one table, successful or not, changes one string key of that table at most.\<close>

lemma channel_Put_view:
  assumes "PaymentChannelStorage_Put (NewPaymentChannelStorage G st) key c w = (r, w')"
  shows "view w' = view w \<or> (\<exists>s x. view w' = (view w)(channel_prefix @ CHR ''/'' # s \<mapsto> x))"
  using assms
  by (cases r) (auto simp: PaymentChannelStorage_defs TypedAtomicStorageImpl_Put_def as_AtomicStorage_def
      PrefixedAtomicStorage_defs split: sum.splits dest!: Put_ok Put_err)

lemma payment_Put_view:
  assumes "PaymentStorage_Put (NewPaymentStorage G st) p w = (r, w')"
  shows "view w' = view w \<or> (\<exists>s x. view w' = (view w)(payment_prefix @ CHR ''/'' # s \<mapsto> x))"
  using assms
  by (cases r) (auto simp: PaymentStorage_defs TypedAtomicStorageImpl_Put_def as_AtomicStorage_def
      PrefixedAtomicStorage_defs split: sum.splits dest!: Put_ok Put_err)

lemma payment_Delete_view:
  assumes "PaymentStorage_Delete (NewPaymentStorage G st) p w = (r, w')"
  shows "view w' = view w \<or> (\<exists>s. view w' = (view w)(payment_prefix @ CHR ''/'' # s := None))"
  using assms
  by (cases r) (auto simp: PaymentStorage_defs TypedAtomicStorageImpl_Delete_def as_AtomicStorage_def
      PrefixedAtomicStorage_defs split: sum.splits dest!: Delete_ok Delete_err)

lemma channel_Put_other_tables:
  assumes "PaymentChannelStorage_Put (NewPaymentChannelStorage G st) key c w = (r, w')"
  shows "payment_table G (view w') = payment_table G (view w)"
    and "lock_table (view w') = lock_table (view w)"
    and "payments_wf G (view w') = payments_wf G (view w)"
  using channel_Put_view [OF assms] by (auto simp: payment_table_def lock_table_def payments_wf_def)

lemma payment_Put_other_tables:
  assumes "PaymentStorage_Put (NewPaymentStorage G st) p w = (r, w')"
  shows "channel_table G (view w') = channel_table G (view w)"
    and "lock_table (view w') = lock_table (view w)"
  using payment_Put_view [OF assms] by (auto simp: channel_table_def lock_table_def)

lemma payment_Delete_other_tables:
  assumes "PaymentStorage_Delete (NewPaymentStorage G st) p w = (r, w')"
  shows "channel_table G (view w') = channel_table G (view w)"
    and "lock_table (view w') = lock_table (view w)"
  using payment_Delete_view [OF assms] by (auto simp: channel_table_def lock_table_def)

lemma channel_Put_ok:
  "PaymentChannelStorage_Put (NewPaymentChannelStorage G st) key c w = (Inr (), w') \<Longrightarrow> channel_storable c \<Longrightarrow>
     channel_table G (view w') = (channel_table G (view w))(key \<mapsto> c)"
  unfolding PaymentChannelStorage_Put_def channel_table_def by (rule chan.TPut_ok(1))

lemma channel_Put_err:
  "PaymentChannelStorage_Put (NewPaymentChannelStorage G st) key c w = (Inl e, w') \<Longrightarrow> channel_storable c \<Longrightarrow>
     channel_table G (view w') = channel_table G (view w) \<or>
     channel_table G (view w') = (channel_table G (view w))(key \<mapsto> c)"
  unfolding PaymentChannelStorage_Put_def channel_table_def by (rule chan.TPut_err(1))

lemma channel_Put_other_key:
  assumes "PaymentChannelStorage_Put (NewPaymentChannelStorage G st) key c w = (r, w')" "key' \<noteq> key"
  shows "channel_table G (view w') key' = channel_table G (view w) key'"
proof -
  from chan.TPut_frame [OF assms(1) [unfolded PaymentChannelStorage_Put_def]] obtain s
    where s: "serialize_key G key = Inr s"
      "\<And>s'. s' \<noteq> s \<Longrightarrow> strip channel_prefix (view w') s' = strip channel_prefix (view w) s'"
    by (auto simp: NewPaymentChannelStorage_def)
  have "s' \<noteq> s" if "serialize_key G key' = Inr s'" for s'
    using that s(1) assms(2) gob_key_inject by blast
  with s(2) show ?thesis by (simp add: channel_table_def decoded_entry_def split: sum.splits)
qed

lemma payments_wf_eq:
  "typed_wf (payment_delegate (NewPaymentStorage G st)) (strip payment_prefix m) = payments_wf G m"
  by (simp add: typed_wf_def payments_wf_def NewPaymentStorage_def)

lemma payment_Put_ok:
  assumes "PaymentStorage_Put (NewPaymentStorage G st) p w = (Inr (), w')" "payment_storable p"
  shows "payment_table G (view w') = (payment_table G (view w))(Payment_ID p \<mapsto> p)"
    and "payments_wf G (view w) \<Longrightarrow> payments_wf G (view w')"
  using assms chan.TPut_ok pay.TPut_ok [of "Payment_ID p" p w w']
  by (simp_all add: PaymentStorage_Put_def payment_table_def payments_wf_eq)

lemma payment_Put_err:
  assumes "PaymentStorage_Put (NewPaymentStorage G st) p w = (Inl e, w')" "payment_storable p"
  shows "payment_table G (view w') = payment_table G (view w) \<or>
      payment_table G (view w') = (payment_table G (view w))(Payment_ID p \<mapsto> p)"
    and "payments_wf G (view w) \<Longrightarrow> payments_wf G (view w')"
  using assms pay.TPut_err [of "Payment_ID p" p w e w']
  by (simp_all add: PaymentStorage_Put_def payment_table_def payments_wf_eq)

lemma payment_Delete_ok:
  assumes "PaymentStorage_Delete (NewPaymentStorage G st) p w = (Inr (), w')"
  shows "payment_table G (view w') = (payment_table G (view w))(Payment_ID p := None)"
    and "payments_wf G (view w) \<Longrightarrow> payments_wf G (view w')"
  using assms pay.TDelete_ok [of "Payment_ID p" w w']
  by (simp_all add: PaymentStorage_Delete_def payment_table_def payments_wf_eq)

lemma payment_Delete_err:
  assumes "PaymentStorage_Delete (NewPaymentStorage G st) p w = (Inl e, w')"
  shows "payment_table G (view w') = payment_table G (view w) \<or>
      payment_table G (view w') = (payment_table G (view w))(Payment_ID p := None)"
    and "payments_wf G (view w) \<Longrightarrow> payments_wf G (view w')"
  using assms pay.TDelete_err [of "Payment_ID p" w e w']
  by (simp_all add: PaymentStorage_Delete_def payment_table_def payments_wf_eq)

lemma payment_GetAll_ok:
  "PaymentStorage_GetAll (NewPaymentStorage G st) w = (Inr ps, w') \<Longrightarrow> payments_wf G (view w) \<Longrightarrow>
     \<exists>is. distinct is \<and> set is = dom (payment_table G (view w)) \<and>
       ps = map (\<lambda>i. the (payment_table G (view w) i)) is"
  unfolding PaymentStorage_GetAll_def payment_table_def payments_wf_eq [symmetric]
  by (rule pay.TGetAll_ok)

end

end
