(* ===== verification/Locker.thy ===== *)
theory Locker
  imports PaymentChannel
begin

text \<open>
  \<^verbatim>\<open>escrow/lock.go\<close>: a lock by name, kept as a string in the shared storage so that all replicas of the
  daemon see it. Taking the lock is two storage requests: a read, then a compare-and-swap or a
  put-if-absent chosen by what was read. The second half is a definition of its own, because other
  replicas can run between the two; \<open>lock_step\<close> interleaves the requests of any number of replicas and
  \<open>lock_inv\<close> is the invariant that gives mutual exclusion.
\<close>

section \<open>The locker\<close>

record 'w etcdLocker =
  locker_storage :: "'w AtomicStorage"

definition NewLockerStorage :: "'w AtomicStorage \<Rightarrow> 'w PrefixedAtomicStorage" where
  "NewLockerStorage st = \<lparr>prefixed_delegate = st, keyPrefix = lock_prefix\<rparr>"

definition NewEtcdLocker :: "'w AtomicStorage \<Rightarrow> 'w etcdLocker" where
  "NewEtcdLocker st = \<lparr>locker_storage = as_AtomicStorage (NewLockerStorage st)\<rparr>"

definition locked :: string where "locked = ''locked''"
definition unlocked :: string where "unlocked = ''unlocked''"

lemma locked_neq_unlocked [simp]: "locked \<noteq> unlocked" "unlocked \<noteq> locked"
  by (simp_all add: locked_def unlocked_def)

record 'w lockType =
  lock_name :: string
  lock_locker :: "'w etcdLocker"

text \<open>The second request of \<^verbatim>\<open>Lock\<close>, after \<open>value\<close> was read. \<open>Inr None\<close> is a false \<^verbatim>\<open>ok\<close>: the lock is taken.\<close>

definition etcdLocker_acquire ::
  "'w etcdLocker \<Rightarrow> string \<Rightarrow> string option \<Rightarrow> 'w \<Rightarrow> 'w lockType option result \<times> 'w" where
  "etcdLocker_acquire locker name v w =
     (if v = Some locked then (Inr None, w)
      else
        (case (if v \<noteq> None then CompareAndSwap (locker_storage locker) name unlocked locked w
               else PutIfAbsent (locker_storage locker) name locked w) of
           (Inl err, w') \<Rightarrow> (Inl err, w')
         | (Inr False, w') \<Rightarrow> (Inr None, w')
         | (Inr True, w') \<Rightarrow> (Inr (Some \<lparr>lock_name = name, lock_locker = locker\<rparr>), w')))"

definition etcdLocker_Lock ::
  "'w etcdLocker \<Rightarrow> string \<Rightarrow> 'w \<Rightarrow> 'w lockType option result \<times> 'w" where
  "etcdLocker_Lock locker name w =
     (case Get (locker_storage locker) name w of
        (Inl err, w') \<Rightarrow> (Inl err, w')
      | (Inr v, w') \<Rightarrow> etcdLocker_acquire locker name v w')"

text \<open>A swap that finds another value is only logged: \<^verbatim>\<open>Unlock\<close> then returns no error.\<close>

definition lockType_Unlock :: "'w lockType \<Rightarrow> 'w \<Rightarrow> unit result \<times> 'w" where
  "lockType_Unlock lock w =
     (case CompareAndSwap (locker_storage (lock_locker lock)) (lock_name lock) locked unlocked w of
        (Inl err, w') \<Rightarrow> (Inl err, w')
      | (Inr ok, w') \<Rightarrow> (Inr (), w'))"

section \<open>What locking does to the storage\<close>

abbreviation lock_key :: "string \<Rightarrow> string" where
  "lock_key name \<equiv> lock_prefix @ CHR ''/'' # name"

definition lock_free :: "(string \<Rightarrow> string option) \<Rightarrow> string \<Rightarrow> bool" where
  "lock_free m name \<longleftrightarrow> lock_table m name = None \<or> lock_table m name = Some unlocked"

lemma lock_table_upd [simp]: "lock_table (m(lock_key name := x)) = (lock_table m)(name := x)"
  by (simp add: lock_table_def)

lemma tables_lock_upd [simp]:
  "channel_table G (m(lock_key name := x)) = channel_table G m"
  "payment_table G (m(lock_key name := x)) = payment_table G m"
  "payments_wf G (m(lock_key name := x)) = payments_wf G m"
  by (simp_all add: channel_table_def payment_table_def payments_wf_def)

lemma lock_free_upd [simp]: "\<not> lock_free (m(lock_key name \<mapsto> locked)) name"
  by (simp add: lock_free_def)

locale etcd_lock = atomic_storage st view
  for st :: "'w AtomicStorage" and view :: "'w \<Rightarrow> string \<Rightarrow> string option"

sublocale etcd_lock \<subseteq> lock_store: prefixed_storage st view lock_prefix
  by unfold_locales

context etcd_lock
begin

lemma lock_Get:
  assumes "Get (locker_storage (NewEtcdLocker st)) name w = (r, w')"
  shows "view w' = view w" and "r = Inr x \<Longrightarrow> x = lock_table (view w) name"
  using assms by (auto simp: NewEtcdLocker_def NewLockerStorage_def as_AtomicStorage_def
      PrefixedAtomicStorage_defs lock_table_def strip_def dest: Get_view Get_ok)

text \<open>The second request, whatever was read before and whatever happened since.\<close>

lemma acquire_ok:
  assumes "etcdLocker_acquire (NewEtcdLocker st) name v w = (Inr (Some l), w')"
  shows "l = \<lparr>lock_name = name, lock_locker = NewEtcdLocker st\<rparr>"
    and "lock_free (view w) name"
    and "view w' = (view w)(lock_key name \<mapsto> locked)"
  using assms
  by (auto simp: etcdLocker_acquire_def NewEtcdLocker_def NewLockerStorage_def as_AtomicStorage_def
      PrefixedAtomicStorage_defs lock_free_def lock_table_def strip_def
      split: if_splits sum.splits prod.splits bool.splits dest!: CompareAndSwap_ok PutIfAbsent_ok)

lemma acquire_not_ok:
  assumes "etcdLocker_acquire (NewEtcdLocker st) name v w = (Inr None, w')"
  shows "view w' = view w"
  using assms
  by (auto simp: etcdLocker_acquire_def NewEtcdLocker_def NewLockerStorage_def as_AtomicStorage_def
      PrefixedAtomicStorage_defs split: if_splits sum.splits prod.splits bool.splits
      dest!: CompareAndSwap_ok PutIfAbsent_ok)

lemma acquire_err:
  assumes "etcdLocker_acquire (NewEtcdLocker st) name v w = (Inl e, w')"
  shows "view w' = view w \<or> lock_free (view w) name \<and> view w' = (view w)(lock_key name \<mapsto> locked)"
  using assms
  by (auto simp: etcdLocker_acquire_def NewEtcdLocker_def NewLockerStorage_def as_AtomicStorage_def
      PrefixedAtomicStorage_defs lock_free_def lock_table_def strip_def
      split: if_splits sum.splits prod.splits bool.splits dest!: CompareAndSwap_err PutIfAbsent_err)

lemma Lock_cases:
  assumes "etcdLocker_Lock (NewEtcdLocker st) name w = (Inr x, w')"
  obtains w1 where "view w1 = view w"
    "etcdLocker_acquire (NewEtcdLocker st) name (lock_table (view w) name) w1 = (Inr x, w')"
  using assms by (auto simp: etcdLocker_Lock_def split: prod.splits sum.splits dest: lock_Get)

lemma Lock_ok [result_rules]:
  assumes "etcdLocker_Lock (NewEtcdLocker st) name w = (Inr (Some l), w')"
  shows "l = \<lparr>lock_name = name, lock_locker = NewEtcdLocker st\<rparr>"
    and "lock_free (view w) name"
    and "view w' = (view w)(lock_key name \<mapsto> locked)"
  using assms by (auto elim!: Lock_cases dest: acquire_ok)

lemma Lock_not_ok:
  assumes "etcdLocker_Lock (NewEtcdLocker st) name w = (Inr None, w')"
  shows "view w' = view w" and "\<not> lock_free (view w) name"
proof -
  from assms obtain w1 where w1: "view w1 = view w"
    "etcdLocker_acquire (NewEtcdLocker st) name (lock_table (view w) name) w1 = (Inr None, w')"
    by (rule Lock_cases)
  then show "view w' = view w" using acquire_not_ok by simp
  from w1 show "\<not> lock_free (view w) name"
    by (auto simp: etcdLocker_acquire_def NewEtcdLocker_def NewLockerStorage_def as_AtomicStorage_def
        PrefixedAtomicStorage_defs lock_free_def lock_table_def strip_def
        split: if_splits sum.splits prod.splits bool.splits dest!: CompareAndSwap_ok PutIfAbsent_ok)
qed

lemma Lock_err:
  assumes "etcdLocker_Lock (NewEtcdLocker st) name w = (Inl e, w')"
  shows "view w' = view w \<or> lock_free (view w) name \<and> view w' = (view w)(lock_key name \<mapsto> locked)"
  using assms
  by (auto simp: etcdLocker_Lock_def split: prod.splits sum.splits dest!: lock_Get(1) acquire_err)

lemma Unlock_ok:
  assumes "lockType_Unlock \<lparr>lock_name = name, lock_locker = NewEtcdLocker st\<rparr> w = (Inr (), w')"
  shows "view w' = (if lock_table (view w) name = Some locked
                    then (view w)(lock_key name \<mapsto> unlocked) else view w)"
  using assms
  by (auto simp: lockType_Unlock_def NewEtcdLocker_def NewLockerStorage_def as_AtomicStorage_def
      PrefixedAtomicStorage_defs lock_table_def strip_def
      split: sum.splits prod.splits dest!: CompareAndSwap_ok)

lemma Unlock_err:
  assumes "lockType_Unlock \<lparr>lock_name = name, lock_locker = NewEtcdLocker st\<rparr> w = (Inl e, w')"
  shows "view w' = view w \<or>
    lock_table (view w) name = Some locked \<and> view w' = (view w)(lock_key name \<mapsto> unlocked)"
  using assms
  by (auto simp: lockType_Unlock_def NewEtcdLocker_def NewLockerStorage_def as_AtomicStorage_def
      PrefixedAtomicStorage_defs lock_table_def strip_def
      split: sum.splits prod.splits dest!: CompareAndSwap_err)

lemma Unlock_cases:
  assumes "lockType_Unlock \<lparr>lock_name = name, lock_locker = NewEtcdLocker st\<rparr> w = (r, w')"
  shows "view w' = view w \<or>
    lock_table (view w) name = Some locked \<and> view w' = (view w)(lock_key name \<mapsto> unlocked)"
  using assms by (cases r) (auto dest!: Unlock_ok Unlock_err split: if_splits)

end

section \<open>Replicas competing for one lock\<close>

datatype lock_pc = Idle | HasRead "string option" | Holds

record 'w lock_sys =
  world :: 'w
  pc :: "nat \<Rightarrow> lock_pc"

inductive lock_step ::
  "'w AtomicStorage \<Rightarrow> ('w \<Rightarrow> string \<Rightarrow> string option) \<Rightarrow> string \<Rightarrow> 'w lock_sys \<Rightarrow> 'w lock_sys \<Rightarrow> bool"
  for st view name where
  read: "pc s i = Idle \<Longrightarrow> Get (locker_storage (NewEtcdLocker st)) name (world s) = (Inr v, w') \<Longrightarrow>
    lock_step st view name s (s\<lparr>world := w', pc := (pc s)(i := HasRead v)\<rparr>)"
| read_failed: "pc s i = Idle \<Longrightarrow> Get (locker_storage (NewEtcdLocker st)) name (world s) = (Inl e, w') \<Longrightarrow>
    lock_step st view name s (s\<lparr>world := w'\<rparr>)"
| acquired: "pc s i = HasRead v \<Longrightarrow>
    etcdLocker_acquire (NewEtcdLocker st) name v (world s) = (Inr (Some l), w') \<Longrightarrow>
    lock_step st view name s (s\<lparr>world := w', pc := (pc s)(i := Holds)\<rparr>)"
| refused: "pc s i = HasRead v \<Longrightarrow>
    etcdLocker_acquire (NewEtcdLocker st) name v (world s) = (Inr None, w') \<Longrightarrow>
    lock_step st view name s (s\<lparr>world := w', pc := (pc s)(i := Idle)\<rparr>)"
| acquire_failed: "pc s i = HasRead v \<Longrightarrow>
    etcdLocker_acquire (NewEtcdLocker st) name v (world s) = (Inl e, w') \<Longrightarrow>
    lock_step st view name s (s\<lparr>world := w', pc := (pc s)(i := Idle)\<rparr>)"
| release: "pc s i = Holds \<Longrightarrow>
    lockType_Unlock \<lparr>lock_name = name, lock_locker = NewEtcdLocker st\<rparr> (world s) = (r, w') \<Longrightarrow>
    lock_step st view name s (s\<lparr>world := w', pc := (pc s)(i := Idle)\<rparr>)"
| environment: "lock_table (view w') name = lock_table (view (world s)) name \<Longrightarrow>
    lock_step st view name s (s\<lparr>world := w'\<rparr>)"

inductive lock_reachable ::
  "'w AtomicStorage \<Rightarrow> ('w \<Rightarrow> string \<Rightarrow> string option) \<Rightarrow> string \<Rightarrow> 'w lock_sys \<Rightarrow> bool"
  for st view name where
  start: "(\<And>i. pc s i = Idle) \<Longrightarrow> lock_reachable st view name s"
| step: "lock_reachable st view name s \<Longrightarrow> lock_step st view name s t \<Longrightarrow> lock_reachable st view name t"

definition lock_inv :: "('w \<Rightarrow> string \<Rightarrow> string option) \<Rightarrow> string \<Rightarrow> 'w lock_sys \<Rightarrow> bool" where
  "lock_inv view name s \<longleftrightarrow>
     (\<forall>i. pc s i = Holds \<longrightarrow> lock_table (view (world s)) name = Some locked \<and> (\<forall>j. pc s j = Holds \<longrightarrow> j = i))"

context etcd_lock
begin

lemma lock_step_inv: "lock_step st view name s t \<Longrightarrow> lock_inv view name s \<Longrightarrow> lock_inv view name t"
proof (induction rule: lock_step.induct)
  case (read s i v w')
  then show ?case using lock_Get(1) [OF read(2)] by (simp add: lock_inv_def)
next
  case (read_failed s i e w')
  then show ?case using lock_Get(1) [OF read_failed(2)] by (simp add: lock_inv_def)
next
  case (acquired s i v l w')
  then have "\<not> pc s j = Holds" for j
    using acquire_ok(2) [OF acquired(2)] by (auto simp: lock_inv_def lock_free_def)
  then show ?case using acquire_ok(3) [OF acquired(2)] by (simp add: lock_inv_def)
next
  case (refused s i v w')
  then show ?case using acquire_not_ok [OF refused(2)] by (simp add: lock_inv_def)
next
  case (acquire_failed s i v e w')
  then show ?case using acquire_err [OF acquire_failed(2)] by (auto simp: lock_inv_def)
next
  case (release s i r w')
  then have "\<not> pc s j = Holds" if "j \<noteq> i" for j
    using that by (auto simp: lock_inv_def)
  then show ?case by (simp add: lock_inv_def)
next
  case (environment w' s)
  then show ?case by (simp add: lock_inv_def)
qed

lemma lock_reachable_inv: "lock_reachable st view name s \<Longrightarrow> lock_inv view name s"
  by (induction rule: lock_reachable.induct) (auto simp: lock_inv_def [of view name] dest: lock_step_inv)

end

end
