(* ===== verification/Validation.thy ===== *)
theory Validation
  imports PaymentChannel
begin

text \<open>
  \<^verbatim>\<open>escrow/validation.go\<close> and \<^verbatim>\<open>escrow/income.go\<close>: the checks a payment has to pass before a call is
  served. The signer of a payment is recovered from a message of fixed layout (contract address,
  channel id, nonce, amount); the lemmas show which payments share a message, what makes
  \<open>ChannelPaymentValidator_Validate\<close> succeed, and which error each failed check gives.
\<close>

section \<open>Messages and signatures\<close>

definition HashPrefix32Bytes :: bytes where
  "HashPrefix32Bytes = string_bytes (CHR 0x19 # ''Ethereum Signed Message:'' @ CHR 0x0A # ''32'')"

definition bigIntToBytes :: "go_ethereum \<Rightarrow> int \<Rightarrow> bytes" where
  "bigIntToBytes E v = Hash_Bytes (BigToHash E v)"

definition bytesToBigInt :: "bytes \<Rightarrow> int" where
  "bytesToBigInt bs = SetBytes bs"

definition getSignerAddressFromMessage :: "go_ethereum \<Rightarrow> bytes \<Rightarrow> bytes \<Rightarrow> Address result" where
  "getSignerAddressFromMessage E message signature =
     (let messageHash = Keccak256 E [HashPrefix32Bytes, Keccak256 E [message]] in
      case ParseSignature signature of
        Inl e \<Rightarrow> Inl (errors_New ''incorrect signature length'')
      | Inr (v, _, _) \<Rightarrow>
          (let modifiedSignature = concat [take 64 signature, [v mod 27]] in
           case SigToPub E messageHash modifiedSignature of
             Inl e \<Rightarrow> Inl (errors_New ''incorrect signature data'')
           | Inr publicKey \<Rightarrow> Inr (PubkeyToAddress E publicKey)))"

definition payment_message :: "go_ethereum \<Rightarrow> Payment \<Rightarrow> bytes" where
  "payment_message E payment =
     concat [Address_Bytes (MpeContractAddress payment),
             bigIntToBytes E (payment_ChannelID payment),
             bigIntToBytes E (ChannelNonce payment),
             bigIntToBytes E (Amount payment)]"

definition getSignerAddressFromPayment :: "go_ethereum \<Rightarrow> Payment \<Rightarrow> Address result" where
  "getSignerAddressFromPayment E payment =
     (case getSignerAddressFromMessage E (payment_message E payment) (slice_bytes (payment_Signature payment)) of
        Inl err \<Rightarrow> Inl err
      | Inr signer \<Rightarrow> Inr signer)"

section \<open>The validator\<close>

text \<open>The current block is read from the blockchain, so it depends on the world.\<close>

record 'w ChannelPaymentValidator =
  currentBlock :: "'w \<Rightarrow> int result"
  paymentExpirationThreshold :: int

definition NewChannelPaymentValidator ::
  "go_ethereum \<Rightarrow> ('w \<Rightarrow> string result) \<Rightarrow> ServiceMetadata \<Rightarrow> 'w ChannelPaymentValidator" where
  "NewChannelPaymentValidator E eth_blockNumber metadata =
     \<lparr>currentBlock = Processor_CurrentBlock E eth_blockNumber,
      paymentExpirationThreshold = GetPaymentExpirationThreshold metadata\<rparr>"

definition ChannelPaymentValidator_Validate ::
  "go_ethereum \<Rightarrow> 'w ChannelPaymentValidator \<Rightarrow> Payment \<Rightarrow> PaymentChannelData \<Rightarrow> 'w \<Rightarrow> error option" where
  "ChannelPaymentValidator_Validate E validator payment channel w =
     (if ChannelNonce payment \<noteq> Nonce channel then
        Some (NewPaymentError IncorrectNonce (Lit ''incorrect payment channel nonce, latest: %v, sent: %v'')
                [IntArg (Nonce channel), IntArg (ChannelNonce payment)])
      else case getSignerAddressFromPayment E payment of
        Inl err \<Rightarrow> Some (NewPaymentError Unauthenticated (Lit ''payment signature is not valid'') [])
      | Inr signerAddress \<Rightarrow>
          if signerAddress \<noteq> Signer channel then
            Some (NewPaymentError Unauthenticated (Lit ''payment is not signed by channel signer'') [])
          else (case currentBlock validator w of
            Inl e \<Rightarrow> Some (NewPaymentError Internal (Lit ''cannot determine current block'') [])
          | Inr block \<Rightarrow>
              (let expirationThreshold = paymentExpirationThreshold validator;
                   currentBlockWithThreshold = block + expirationThreshold in
               if currentBlockWithThreshold \<ge> Expiration channel then
                 Some (NewPaymentError Unauthenticated
                   (Lit ''payment channel is near to be expired, expiration time: %v, current block: %v, expiration threshold: %v'')
                   [IntArg (Expiration channel), IntArg block, IntArg expirationThreshold])
               else if FullAmount channel < Amount payment then
                 Some (NewPaymentError Unauthenticated
                   (Lit ''not enough tokens on payment channel, channel amount: %v, payment amount: %v'')
                   [IntArg (FullAmount channel), IntArg (Amount payment)])
               else None)))"

section \<open>Income\<close>

text \<open>\<open>'c\<close> is the gRPC context, which the price check does not look at.\<close>

record 'c IncomeData =
  Income :: int
  GrpcContext :: 'c

record incomeValidator =
  priceInCogs :: int

definition NewIncomeValidator :: "int \<Rightarrow> incomeValidator" where
  "NewIncomeValidator price = \<lparr>priceInCogs = price\<rparr>"

definition incomeValidator_Validate :: "incomeValidator \<Rightarrow> 'c IncomeData \<Rightarrow> error option" where
  "incomeValidator_Validate validator data =
     (let price = priceInCogs validator in
      if Income data \<noteq> price then
        Some (NewPaymentError Unauthenticated (Lit ''income %d does not equal to price %d'')
                [IntArg (Income data), IntArg price])
      else None)"

section \<open>Which payments pass\<close>

lemma Validate_ok_iff:
  "ChannelPaymentValidator_Validate E validator payment channel w = None \<longleftrightarrow>
     ChannelNonce payment = Nonce channel \<and>
     getSignerAddressFromPayment E payment = Inr (Signer channel) \<and>
     (\<exists>block. currentBlock validator w = Inr block \<and>
        block + paymentExpirationThreshold validator < Expiration channel) \<and>
     Amount payment \<le> FullAmount channel"
  by (auto simp: ChannelPaymentValidator_Validate_def Let_def split: sum.splits)

lemma Validate_payment_error:
  "ChannelPaymentValidator_Validate E validator payment channel w = Some err \<Longrightarrow>
     \<exists>p. err = PaymentErr p \<and> error_Code p \<in> {IncorrectNonce, Unauthenticated, Internal}"
  by (auto simp: ChannelPaymentValidator_Validate_def Let_def NewPaymentError_def split: sum.splits if_splits)

lemma Validate_incorrect_nonce_iff:
  "(\<exists>m. ChannelPaymentValidator_Validate E validator payment channel w =
      Some (PaymentErr \<lparr>error_Code = IncorrectNonce, error_Message = m\<rparr>)) \<longleftrightarrow>
     ChannelNonce payment \<noteq> Nonce channel"
  by (auto simp: ChannelPaymentValidator_Validate_def Let_def NewPaymentError_def payment_error_codes
      split: sum.splits)

lemma signature_length:
  assumes "getSignerAddressFromMessage E m s = Inr a"
  shows "length s = 65"
  using assms by (auto simp: getSignerAddressFromMessage_def ParseSignature_def Let_def split: if_splits)

lemma signed_payment_signature:
  assumes "getSignerAddressFromPayment E p = Inr a"
  shows "\<exists>s. payment_Signature p = Some s \<and> length s = 65"
proof -
  from assms have "length (slice_bytes (payment_Signature p)) = 65"
    by (auto simp: getSignerAddressFromPayment_def split: sum.splits intro: signature_length)
  then show ?thesis by (cases "payment_Signature p") (auto simp: slice_bytes_def)
qed

section \<open>The signed message\<close>

text \<open>
  \<^verbatim>\<open>common.BigToHash\<close> takes the bytes of the magnitude and crops them on the left to 32 bytes.
\<close>

definition BigToHash_crops :: "go_ethereum \<Rightarrow> bool" where
  "BigToHash_crops E \<longleftrightarrow> (\<forall>n. BigToHash E n = word_of_int \<bar>n\<bar>)"

lemma length_bigIntToBytes [simp]: "length (bigIntToBytes E v) = 32"
  by (simp add: bigIntToBytes_def)

lemma bytesToBigInt_bigIntToBytes:
  assumes "BigToHash_crops E"
  shows "bytesToBigInt (bigIntToBytes E v) = \<bar>v\<bar> mod 2 ^ 256"
proof -
  have "of_be_bytes (be_bytes 32 (unat (word_of_int \<bar>v\<bar> :: bytes32))) = unat (word_of_int \<bar>v\<bar> :: bytes32)"
    using unsigned_less [where 'a = nat, of "word_of_int \<bar>v\<bar> :: bytes32"]
    by (simp add: of_be_bytes_be_bytes)
  then show ?thesis
    using assms by (simp add: bytesToBigInt_def SetBytes_def bigIntToBytes_def Hash_Bytes_def
        BigToHash_crops_def uint_word_of_int flip: uint_nat)
qed

lemma bigIntToBytes_inject:
  assumes "BigToHash_crops E"
  shows "bigIntToBytes E u = bigIntToBytes E v \<longleftrightarrow> \<bar>u\<bar> mod 2 ^ 256 = \<bar>v\<bar> mod 2 ^ 256"
  using assms
  by (simp add: bigIntToBytes_def BigToHash_crops_def word_of_int_eq_iff take_bit_eq_mod)

lemma append_same_length_inject:
  "length xs = length ys \<Longrightarrow> xs @ us = ys @ vs \<longleftrightarrow> xs = ys \<and> us = vs"
  by auto

lemma payment_message_inject:
  assumes "BigToHash_crops E"
  shows "payment_message E p = payment_message E q \<longleftrightarrow>
    MpeContractAddress p = MpeContractAddress q \<and>
    \<bar>payment_ChannelID p\<bar> mod 2 ^ 256 = \<bar>payment_ChannelID q\<bar> mod 2 ^ 256 \<and>
    \<bar>ChannelNonce p\<bar> mod 2 ^ 256 = \<bar>ChannelNonce q\<bar> mod 2 ^ 256 \<and>
    \<bar>Amount p\<bar> mod 2 ^ 256 = \<bar>Amount q\<bar> mod 2 ^ 256"
  by (simp add: payment_message_def append_same_length_inject bigIntToBytes_inject [OF assms]
      del: append_eq_append_conv)

end
