(* ===== verification/EscrowService.thy ===== *)
theory EscrowService
  imports Locker Validation
begin

text \<open>
  \<^verbatim>\<open>escrow/escrow.go\<close>: \<^verbatim>\<open>lockingPaymentChannelService\<close>, the service behind all payment and claim
  requests. Every state-changing operation runs between taking and releasing the lock of its channel;
  Go's deferred unlock is the last step of the definition, on every path the code has it.

  The lemmas are proved in the locale \<open>payment_service\<close>: the service as \<^verbatim>\<open>NewPaymentChannelService\<close>
  builds it over one shared storage that keeps its contract.
\<close>

section \<open>The service\<close>

record 'w lockingPaymentChannelService =
  storage :: "'w PaymentChannelStorage"
  paymentStorage :: "'w PaymentStorage"
  blockchainReader :: "'w BlockchainChannelReader"
  service_locker :: "'w etcdLocker"
  validator :: "'w ChannelPaymentValidator"
  replicaGroupID :: "bytes32 \<times> error option"

definition NewPaymentChannelService ::
  "'w PaymentChannelStorage \<Rightarrow> 'w PaymentStorage \<Rightarrow> 'w BlockchainChannelReader \<Rightarrow> 'w etcdLocker \<Rightarrow>
   'w ChannelPaymentValidator \<Rightarrow> bytes32 \<times> error option \<Rightarrow> 'w lockingPaymentChannelService" where
  "NewPaymentChannelService st pst reader lk channelPaymentValidator groupIdReader =
     \<lparr>storage = st, paymentStorage = pst, blockchainReader = reader, service_locker = lk,
      validator = channelPaymentValidator, replicaGroupID = groupIdReader\<rparr>"

definition PaymentChannelFromBlockChain ::
  "'w lockingPaymentChannelService \<Rightarrow> PaymentChannelKey \<Rightarrow> 'w \<Rightarrow> PaymentChannelData option result" where
  "PaymentChannelFromBlockChain h key w = GetChannelStateFromBlockchain (blockchainReader h) key w"

definition verifyGroupId :: "bytes32 \<Rightarrow> bytes32 \<Rightarrow> error option" where
  "verifyGroupId configGroupID blockChainGroupID =
     (if blockChainGroupID \<noteq> configGroupID then
        Some (fmt_Errorf
          ''Channel received belongs to another group of replicas, current group: %v, channel group: %v''
          [Bytes32Arg configGroupID, Bytes32Arg blockChainGroupID])
      else None)"

text \<open>
  The error of reading the group id is overwritten by the result of the comparison, as in the code;
  an error of the blockchain is ignored when the channel is in the storage.
\<close>

definition PaymentChannel ::
  "'w lockingPaymentChannelService \<Rightarrow> PaymentChannelKey \<Rightarrow> 'w \<Rightarrow> PaymentChannelData option result \<times> 'w" where
  "PaymentChannel h key w =
     (case PaymentChannelStorage_Get (storage h) key w of
        (Inl err, w') \<Rightarrow> (Inl err, w')
      | (Inr storageChannel, w') \<Rightarrow>
          (let blockchainChannel = GetChannelStateFromBlockchain (blockchainReader h) key w' in
           (case storageChannel of
              None \<Rightarrow>
                (case blockchainChannel of
                   Inl err \<Rightarrow> Inl err
                 | Inr None \<Rightarrow> Inr None
                 | Inr (Some channel) \<Rightarrow>
                     (case verifyGroupId (fst (replicaGroupID h)) (GroupID channel) of
                        Some err \<Rightarrow> Inl err
                      | None \<Rightarrow> Inr (Some channel)))
            | Some stored \<Rightarrow>
                (case blockchainChannel of
                   Inr (Some channel) \<Rightarrow> Inr (Some (MergeStorageAndBlockchainChannelState stored channel))
                 | _ \<Rightarrow> Inr (Some stored)), w')))"

definition ListChannels ::
  "'w lockingPaymentChannelService \<Rightarrow> 'w \<Rightarrow> PaymentChannelData list result \<times> 'w" where
  "ListChannels h w = PaymentChannelStorage_GetAll (storage h) w"

section \<open>Claims\<close>

record 'w claimImpl =
  claim_paymentStorage :: "'w PaymentStorage"
  claim_payment :: Payment

definition claimImpl_Payment :: "'w claimImpl \<Rightarrow> Payment" where
  "claimImpl_Payment claim = claim_payment claim"

definition claimImpl_Finish :: "'w claimImpl \<Rightarrow> 'w \<Rightarrow> unit result \<times> 'w" where
  "claimImpl_Finish claim w = PaymentStorage_Delete (claim_paymentStorage claim) (claim_payment claim) w"

text \<open>The contract address is not part of the channel state; the payment has a zero address.\<close>

definition getPaymentFromChannel :: "PaymentChannelData \<Rightarrow> Payment" where
  "getPaymentFromChannel channel =
     \<lparr>MpeContractAddress = 0, payment_ChannelID = ChannelID channel, ChannelNonce = Nonce channel,
      Amount = AuthorizedAmount channel, payment_Signature = Signature channel\<rparr>"

text \<open>\<^verbatim>\<open>StartClaim\<close> between taking and releasing the lock.\<close>

definition StartClaim_locked ::
  "'w lockingPaymentChannelService \<Rightarrow> PaymentChannelKey \<Rightarrow> ChannelUpdate \<Rightarrow> 'w \<Rightarrow> 'w claimImpl result \<times> 'w" where
  "StartClaim_locked h key update w =
     (case PaymentChannelStorage_Get (storage h) key w of
        (Inl err, w1) \<Rightarrow> (Inl err, w1)
      | (Inr None, w1) \<Rightarrow>
          (Inl (fmt_Errorf ''Channel is not found by key: %v'' [Lit (PaymentChannelKey_String key)]), w1)
      | (Inr (Some channel), w1) \<Rightarrow>
          (let nextChannel = update channel in
           case PaymentChannelStorage_Put (storage h) key nextChannel w1 of
             (Inl err, w2) \<Rightarrow> (Inl (fmt_Errorf ''Channel storage error: %v'' [error_text err]), w2)
           | (Inr _, w2) \<Rightarrow>
               (let payment = getPaymentFromChannel channel in
                case PaymentStorage_Put (paymentStorage h) payment w2 of
                  (Inl err, w3) \<Rightarrow> (Inl err, w3)
                | (Inr _, w3) \<Rightarrow>
                    (Inr \<lparr>claim_paymentStorage = paymentStorage h, claim_payment = payment\<rparr>, w3))))"

definition StartClaim ::
  "'w lockingPaymentChannelService \<Rightarrow> PaymentChannelKey \<Rightarrow> ChannelUpdate \<Rightarrow> 'w \<Rightarrow> 'w claimImpl result \<times> 'w" where
  "StartClaim h key update w =
     (case etcdLocker_Lock (service_locker h) (PaymentChannelKey_String key) w of
        (Inl err, w1) \<Rightarrow>
          (Inl (fmt_Errorf ''cannot get mutex for channel: %v'' [Lit (PaymentChannelKey_String key)]), w1)
      | (Inr None, w1) \<Rightarrow>
          (Inl (fmt_Errorf ''another transaction on channel: %v is in progress''
                 [Lit (PaymentChannelKey_String key)]), w1)
      | (Inr (Some lock), w1) \<Rightarrow>
          (case StartClaim_locked h key update w1 of
             (r, w2) \<Rightarrow> (case lockType_Unlock lock w2 of (_, w3) \<Rightarrow> (r, w3))))"

definition ListClaims ::
  "'w lockingPaymentChannelService \<Rightarrow> 'w \<Rightarrow> 'w claimImpl list result \<times> 'w" where
  "ListClaims h w =
     (case PaymentStorage_GetAll (paymentStorage h) w of
        (Inl err, w') \<Rightarrow> (Inl err, w')
      | (Inr payments, w') \<Rightarrow>
          (Inr (map (\<lambda>payment. \<lparr>claim_paymentStorage = paymentStorage h, claim_payment = payment\<rparr>) payments), w'))"

section \<open>Payment transactions\<close>

record 'w paymentTransaction =
  tx_payment :: Payment
  tx_channel :: PaymentChannelData
  tx_service :: "'w lockingPaymentChannelService"
  tx_lock :: "'w lockType"

text \<open>\<^verbatim>\<open>StartPaymentTransaction\<close> after the lock is taken.\<close>

definition StartPaymentTransaction_locked ::
  "go_ethereum \<Rightarrow> 'w lockingPaymentChannelService \<Rightarrow> Payment \<Rightarrow> PaymentChannelKey \<Rightarrow> 'w lockType \<Rightarrow> 'w
    \<Rightarrow> 'w paymentTransaction result \<times> 'w" where
  "StartPaymentTransaction_locked E h payment channelKey lock w =
     (case PaymentChannel h channelKey w of
        (Inl err, w') \<Rightarrow>
          (Inl (NewPaymentError Internal (Concat (Lit ''payment channel error:'') (error_text err)) []), w')
      | (Inr None, w') \<Rightarrow>
          (Inl (NewPaymentError Unauthenticated (Lit ''payment channel \"%v\" not found'')
                  [Lit (PaymentChannelKey_String channelKey)]), w')
      | (Inr (Some channel), w') \<Rightarrow>
          (case ChannelPaymentValidator_Validate E (validator h) payment channel w' of
             Some err \<Rightarrow> (Inl err, w')
           | None \<Rightarrow>
               (Inr \<lparr>tx_payment = payment, tx_channel = channel, tx_service = h, tx_lock = lock\<rparr>, w')))"

definition StartPaymentTransaction ::
  "go_ethereum \<Rightarrow> 'w lockingPaymentChannelService \<Rightarrow> Payment \<Rightarrow> 'w \<Rightarrow> 'w paymentTransaction result \<times> 'w" where
  "StartPaymentTransaction E h payment w =
     (let channelKey = \<lparr>ID = payment_ChannelID payment\<rparr> in
      case etcdLocker_Lock (service_locker h) (PaymentChannelKey_String channelKey) w of
        (Inl err, w1) \<Rightarrow>
          (Inl (NewPaymentError Internal (Lit ''cannot get mutex for channel: %v'')
                  [Lit (PaymentChannelKey_String channelKey)]), w1)
      | (Inr None, w1) \<Rightarrow>
          (Inl (NewPaymentError FailedPrecondition (Lit ''another transaction on channel: %v is in progress'')
                  [Lit (PaymentChannelKey_String channelKey)]), w1)
      | (Inr (Some lock), w1) \<Rightarrow>
          (case StartPaymentTransaction_locked E h payment channelKey lock w1 of
             (Inl err, w2) \<Rightarrow> (case lockType_Unlock lock w2 of (_, w3) \<Rightarrow> (Inl err, w3))
           | (Inr transaction, w2) \<Rightarrow> (Inr transaction, w2)))"

definition paymentTransaction_Channel :: "'w paymentTransaction \<Rightarrow> PaymentChannelData" where
  "paymentTransaction_Channel payment = tx_channel payment"

text \<open>The channel state a commit stores: the one that was read, with the amount and signature of the payment.\<close>

definition committed_channel :: "'w paymentTransaction \<Rightarrow> PaymentChannelData" where
  "committed_channel payment =
     \<lparr>ChannelID = ChannelID (tx_channel payment), Nonce = Nonce (tx_channel payment),
      State = State (tx_channel payment), Sender = Sender (tx_channel payment),
      Recipient = Recipient (tx_channel payment), GroupID = GroupID (tx_channel payment),
      FullAmount = FullAmount (tx_channel payment), Expiration = Expiration (tx_channel payment),
      Signer = Signer (tx_channel payment), AuthorizedAmount = Amount (tx_payment payment),
      Signature = payment_Signature (tx_payment payment)\<rparr>"

definition Commit :: "'w paymentTransaction \<Rightarrow> 'w \<Rightarrow> unit result \<times> 'w" where
  "Commit payment w =
     (case PaymentChannelStorage_Put (storage (tx_service payment))
             \<lparr>ID = payment_ChannelID (tx_payment payment)\<rparr> (committed_channel payment) w of
        (e, w1) \<Rightarrow>
          (case lockType_Unlock (tx_lock payment) w1 of
             (_, w2) \<Rightarrow>
               (case e of
                  Inl _ \<Rightarrow> (Inl (NewPaymentError Internal (Lit ''unable to store new payment channel state'') []), w2)
                | Inr _ \<Rightarrow> (Inr (), w2))))"

definition Rollback :: "'w paymentTransaction \<Rightarrow> 'w \<Rightarrow> unit result \<times> 'w" where
  "Rollback payment w = (case lockType_Unlock (tx_lock payment) w of (_, w') \<Rightarrow> (Inr (), w'))"

section \<open>The contract of the service\<close>

abbreviation payment_key :: "Payment \<Rightarrow> PaymentChannelKey" where
  "payment_key p \<equiv> \<lparr>ID = payment_ChannelID p\<rparr>"

text \<open>
  A transaction as \<^verbatim>\<open>StartPaymentTransaction\<close> makes it: it belongs to the service, holds the lock of
  its own channel and has a signature that can be stored.
\<close>

definition transaction_of :: "'w AtomicStorage \<Rightarrow> 'w lockingPaymentChannelService \<Rightarrow> 'w paymentTransaction \<Rightarrow> bool" where
  "transaction_of st h tx \<longleftrightarrow> tx_service tx = h \<and> payment_Signature (tx_payment tx) \<noteq> Some [] \<and>
     tx_lock tx = \<lparr>lock_name = PaymentChannelKey_String (payment_key (tx_payment tx)), lock_locker = NewEtcdLocker st\<rparr>"

text \<open>The string key of the lock of a channel.\<close>

abbreviation channel_lock :: "PaymentChannelKey \<Rightarrow> string" where
  "channel_lock key \<equiv> lock_key (PaymentChannelKey_String key)"

text \<open>
  What \<^verbatim>\<open>PaymentChannel\<close> is meant to return, from what the table holds and what the blockchain says: a
  channel seen for the first time must belong to the group of the daemon; of two versions the one with
  the greater nonce wins; at equal nonces the value and the expiration come from the blockchain and
  the authorised amount from the table.
\<close>

fun latest_channel ::
  "bytes32 \<Rightarrow> PaymentChannelData option \<Rightarrow> PaymentChannelData option result \<Rightarrow> PaymentChannelData option result" where
  "latest_channel gid None (Inl e) = Inl e"
| "latest_channel gid None (Inr None) = Inr None"
| "latest_channel gid None (Inr (Some bc)) =
     (case verifyGroupId gid (GroupID bc) of Some e \<Rightarrow> Inl e | None \<Rightarrow> Inr (Some bc))"
| "latest_channel gid (Some c) (Inr (Some bc)) =
     Inr (Some (if Nonce bc < Nonce c then c
                else if Nonce c < Nonce bc then bc
                else c\<lparr>FullAmount := FullAmount bc, Expiration := Expiration bc\<rparr>))"
| "latest_channel gid (Some c) _ = Inr (Some c)"

lemma blockchain_channel_unused:
  "GetChannelStateFromBlockchain rd key w = Inr (Some bc) \<Longrightarrow> AuthorizedAmount bc = 0 \<and> Signature bc = None \<and> ChannelID bc = ID key"
  by (auto simp: GetChannelStateFromBlockchain_def split: sum.splits option.splits if_splits)

lemma latest_channel_authorized:
  assumes "latest_channel gid stored bc = Inr (Some ch)" "AuthorizedAmount ch \<noteq> 0"
    and "\<And>x. bc = Inr (Some x) \<Longrightarrow> AuthorizedAmount x = 0"
  obtains c where "stored = Some c" "Nonce ch = Nonce c" "AuthorizedAmount ch = AuthorizedAmount c" "Signature ch = Signature c"
  using assms by (cases "(gid, stored, bc)" rule: latest_channel.cases) (auto split: option.splits if_splits)

sublocale escrow_storage \<subseteq> lk: etcd_lock st view
  by unfold_locales

locale payment_service = escrow_storage st view G
  for st :: "'w AtomicStorage" and view :: "'w \<Rightarrow> string \<Rightarrow> string option" and G :: gob +
  fixes h :: "'w lockingPaymentChannelService"
  assumes h_storage: "storage h = NewPaymentChannelStorage G st"
    and h_paymentStorage: "paymentStorage h = NewPaymentStorage G st"
    and h_locker: "service_locker h = NewEtcdLocker st"
begin

lemmas h_simps = h_storage h_paymentStorage h_locker

lemma PaymentChannel_view: "PaymentChannel h key w = (r, w') \<Longrightarrow> view w' = view w"
  by (auto simp: PaymentChannel_def h_simps Let_def split: prod.splits sum.splits dest: channel_Get_view)

lemma PaymentChannel_latest:
  assumes "PaymentChannel h key w = (Inr x, w')"
  shows "latest_channel (fst (replicaGroupID h)) (channel_table G (view w) key)
      (GetChannelStateFromBlockchain (blockchainReader h) key w') = Inr x"
  using assms
  by (auto simp: PaymentChannel_def h_simps Let_def MergeStorageAndBlockchainChannelState_def
      split: prod.splits sum.splits option.splits dest!: channel_Get_ok)

lemma PaymentChannel_authorized:
  assumes "PaymentChannel h key w = (Inr (Some ch), w')" "AuthorizedAmount ch \<noteq> 0"
  obtains c where "channel_table G (view w) key = Some c" "Nonce ch = Nonce c"
    "AuthorizedAmount ch = AuthorizedAmount c" "Signature ch = Signature c"
  using latest_channel_authorized [OF PaymentChannel_latest [OF assms(1)] assms(2)] blockchain_channel_unused by metis

lemma PaymentChannel_ok:
  assumes "PaymentChannel h key w = (Inr (Some ch), w')"
  shows "(\<exists>stored. channel_table G (view w) key = Some stored \<and>
      (ch = stored \<or>
       (\<exists>bc. GetChannelStateFromBlockchain (blockchainReader h) key w' = Inr (Some bc) \<and>
          ch = MergeStorageAndBlockchainChannelState stored bc))) \<or>
    channel_table G (view w) key = None \<and>
      GetChannelStateFromBlockchain (blockchainReader h) key w' = Inr (Some ch) \<and>
      GroupID ch = fst (replicaGroupID h)"
  using assms
  by (auto simp: PaymentChannel_def h_simps Let_def verifyGroupId_def
      split: prod.splits sum.splits option.splits if_splits dest: channel_Get_ok)

lemma StartPaymentTransaction_cases:
  assumes "StartPaymentTransaction E h payment w = (Inr tx, w')"
  obtains w1 where "lock_free (view w) (PaymentChannelKey_String (payment_key payment))"
    "view w1 = (view w)(channel_lock (payment_key payment) \<mapsto> locked)" "view w' = view w1"
    "PaymentChannel h (payment_key payment) w1 = (Inr (Some (tx_channel tx)), w')"
    "ChannelPaymentValidator_Validate E (validator h) payment (tx_channel tx) w' = None"
    "tx_payment tx = payment" "tx_service tx = h"
    "tx_lock tx = \<lparr>lock_name = PaymentChannelKey_String (payment_key payment), lock_locker = NewEtcdLocker st\<rparr>"
proof -
  from assms obtain l w1 where
    l: "etcdLocker_Lock (NewEtcdLocker st) (PaymentChannelKey_String (payment_key payment)) w = (Inr (Some l), w1)"
    and b: "StartPaymentTransaction_locked E h payment (payment_key payment) l w1 = (Inr tx, w')"
    by (auto simp: StartPaymentTransaction_def h_simps Let_def split: prod.splits sum.splits option.splits)
  from b have "PaymentChannel h (payment_key payment) w1 = (Inr (Some (tx_channel tx)), w')"
    "ChannelPaymentValidator_Validate E (validator h) payment (tx_channel tx) w' = None"
    "tx_payment tx = payment" "tx_service tx = h" "tx_lock tx = l"
    by (auto simp: StartPaymentTransaction_locked_def split: prod.splits sum.splits option.splits)
  with lk.Lock_ok [OF l] PaymentChannel_view show ?thesis by (intro that [of w1]) auto
qed

text \<open>A transaction that is not started leaves both tables alone, and at most its own lock changed.\<close>

lemma StartPaymentTransaction_err:
  assumes "StartPaymentTransaction E h payment w = (Inl e, w')"
  shows "view w' = view w \<or>
    lock_free (view w) (PaymentChannelKey_String (payment_key payment)) \<and>
    (\<exists>x. view w' = (view w)(channel_lock (payment_key payment) := x))"
proof -
  let ?key = "payment_key payment"
  from assms consider (lock) e' where "etcdLocker_Lock (NewEtcdLocker st) (PaymentChannelKey_String ?key) w = (Inl e', w')"
    | (taken) "etcdLocker_Lock (NewEtcdLocker st) (PaymentChannelKey_String ?key) w = (Inr None, w')"
    | (body) l w1 w2 r where
      "etcdLocker_Lock (NewEtcdLocker st) (PaymentChannelKey_String ?key) w = (Inr (Some l), w1)"
      "StartPaymentTransaction_locked E h payment ?key l w1 = (Inl e, w2)"
      "lockType_Unlock l w2 = (r, w')"
    by (auto simp: StartPaymentTransaction_def h_simps Let_def split: prod.splits sum.splits option.splits)
  then show ?thesis
  proof cases
    case lock
    then show ?thesis using lk.Lock_err by blast
  next
    case taken
    then show ?thesis using lk.Lock_not_ok(1) by blast
  next
    case body
    from body(2) have "view w2 = view w1"
      by (auto simp: StartPaymentTransaction_locked_def split: prod.splits sum.splits option.splits
          dest: PaymentChannel_view)
    then show ?thesis using lk.Lock_ok [OF body(1)] lk.Unlock_cases [of _ w2 r w'] body(3) by auto
  qed
qed

lemma StartPaymentTransaction_tx_of:
  assumes "StartPaymentTransaction E h payment w = (Inr tx, w')"
  shows "transaction_of st h tx"
proof -
  from assms obtain w1 where "ChannelPaymentValidator_Validate E (validator h) payment (tx_channel tx) w' = None"
    "tx_payment tx = payment" "tx_service tx = h"
    "tx_lock tx = \<lparr>lock_name = PaymentChannelKey_String (payment_key payment), lock_locker = NewEtcdLocker st\<rparr>"
    by (elim StartPaymentTransaction_cases)
  then show ?thesis
    using signed_payment_signature [of E payment "Signer (tx_channel tx)"]
    by (auto simp: transaction_of_def Validate_ok_iff)
qed

lemma Commit_cases:
  assumes "Commit tx w = (r, w')" "transaction_of st h tx"
  obtains e w1 u where
    "PaymentChannelStorage_Put (NewPaymentChannelStorage G st) (payment_key (tx_payment tx)) (committed_channel tx) w = (e, w1)"
    "lockType_Unlock \<lparr>lock_name = PaymentChannelKey_String (payment_key (tx_payment tx)), lock_locker = NewEtcdLocker st\<rparr> w1 = (u, w')"
    "r = (case e of Inl _ \<Rightarrow> Inl (NewPaymentError Internal (Lit ''unable to store new payment channel state'') [])
          | Inr _ \<Rightarrow> Inr ())"
    "channel_storable (committed_channel tx)"
  using assms
  by (auto simp: Commit_def transaction_of_def h_simps committed_channel_def channel_storable_def
      split: prod.splits sum.splits)

lemma Unlock_tables:
  assumes "lockType_Unlock \<lparr>lock_name = name, lock_locker = NewEtcdLocker st\<rparr> w = (r, w')"
  shows "channel_table G (view w') = channel_table G (view w)"
    and "payment_table G (view w') = payment_table G (view w)"
    and "payments_wf G (view w') = payments_wf G (view w)"
    and "name' \<noteq> name \<Longrightarrow> lock_table (view w') name' = lock_table (view w) name'"
  using lk.Unlock_cases [OF assms]
  by (auto simp: channel_table_def payment_table_def payments_wf_def)

lemma Commit_ok:
  assumes "Commit tx w = (Inr (), w')" "transaction_of st h tx"
  shows "channel_table G (view w') =
      (channel_table G (view w))(payment_key (tx_payment tx) \<mapsto> committed_channel tx)"
  using assms by (elim Commit_cases) (auto simp: Unlock_tables(1) channel_Put_ok split: sum.splits)

text \<open>A commit that reports an error may have stored the new state all the same.\<close>

lemma Commit_table:
  assumes "Commit tx w = (r, w')" "transaction_of st h tx"
  shows "channel_table G (view w') = channel_table G (view w) \<or>
    channel_table G (view w') = (channel_table G (view w))(payment_key (tx_payment tx) \<mapsto> committed_channel tx)"
  using assms(1,2)
proof (rule Commit_cases)
  fix e w1 u
  assume p: "PaymentChannelStorage_Put (NewPaymentChannelStorage G st) (payment_key (tx_payment tx)) (committed_channel tx) w = (e, w1)"
    and u: "lockType_Unlock \<lparr>lock_name = PaymentChannelKey_String (payment_key (tx_payment tx)), lock_locker = NewEtcdLocker st\<rparr> w1 = (u, w')"
    and s: "channel_storable (committed_channel tx)"
  show ?thesis unfolding Unlock_tables(1) [OF u] using p s channel_Put_ok channel_Put_err by (cases e) (auto simp: unit_eq)
qed

text \<open>The lock is released unless the storage fails; a release that fails leaves it taken.\<close>

lemma Unlock_lock:
  assumes "lockType_Unlock \<lparr>lock_name = name, lock_locker = NewEtcdLocker st\<rparr> w = (r, w')"
    and "lock_table (view w) name = Some locked" "r = Inr ()"
  shows "lock_table (view w') name = Some unlocked"
  using assms lk.Unlock_ok [of name w w'] by auto

lemma Commit_frame:
  assumes "Commit tx w = (r, w')" "transaction_of st h tx"
  shows "payment_table G (view w') = payment_table G (view w)"
    and "key \<noteq> payment_key (tx_payment tx) \<Longrightarrow> channel_table G (view w') key = channel_table G (view w) key"
    and "key \<noteq> payment_key (tx_payment tx) \<Longrightarrow>
      lock_table (view w') (PaymentChannelKey_String key) = lock_table (view w) (PaymentChannelKey_String key)"
  using assms
  by (auto elim!: Commit_cases
      simp: Unlock_tables channel_Put_other_tables channel_Put_other_key)

lemma Rollback_frame:
  assumes "Rollback tx w = (r, w')" "transaction_of st h tx"
  shows "channel_table G (view w') = channel_table G (view w)"
    and "payment_table G (view w') = payment_table G (view w)"
    and "key \<noteq> payment_key (tx_payment tx) \<Longrightarrow>
      lock_table (view w') (PaymentChannelKey_String key) = lock_table (view w) (PaymentChannelKey_String key)"
  using assms by (auto simp: Rollback_def transaction_of_def Unlock_tables split: prod.splits)

text \<open>Claims.\<close>

lemma StartClaim_locked_frame:
  assumes "StartClaim_locked h key update w = (r, w')"
  shows "lock_table (view w') = lock_table (view w)"
    and "key' \<noteq> key \<Longrightarrow> channel_table G (view w') key' = channel_table G (view w) key'"
  using assms
  by (auto simp: StartClaim_locked_def h_simps Let_def split: prod.splits sum.splits option.splits
      dest!: channel_Get_view simp: payment_Put_other_tables channel_Put_other_tables channel_Put_other_key)

lemma StartClaim_lock_cases:
  assumes "StartClaim h key update w = (r, w')"
  obtains (refused) e where "r = Inl e" "view w' = view w"
  | (ambiguous) e where "r = Inl e" "lock_free (view w) (PaymentChannelKey_String key)"
      "view w' = (view w)(channel_lock key \<mapsto> locked)"
  | (ran) w1 w2 u where "lock_free (view w) (PaymentChannelKey_String key)"
      "view w1 = (view w)(channel_lock key \<mapsto> locked)" "StartClaim_locked h key update w1 = (r, w2)"
      "lockType_Unlock \<lparr>lock_name = PaymentChannelKey_String key, lock_locker = NewEtcdLocker st\<rparr> w2 = (u, w')"
proof -
  let ?n = "PaymentChannelKey_String key"
  from assms consider (a) e e' where "r = Inl e" "etcdLocker_Lock (NewEtcdLocker st) ?n w = (Inl e', w')"
    | (b) e where "r = Inl e" "etcdLocker_Lock (NewEtcdLocker st) ?n w = (Inr None, w')"
    | (c) l w1 w2 u where "etcdLocker_Lock (NewEtcdLocker st) ?n w = (Inr (Some l), w1)"
        "StartClaim_locked h key update w1 = (r, w2)" "lockType_Unlock l w2 = (u, w')"
    by (auto simp: StartClaim_def h_simps split: prod.splits sum.splits option.splits)
  then show ?thesis
  proof cases
    case a
    then show ?thesis using lk.Lock_err [OF a(2)] refused ambiguous by blast
  next
    case b
    then show ?thesis using lk.Lock_not_ok(1) [OF b(2)] refused by blast
  next
    case c
    then show ?thesis using lk.Lock_ok [OF c(1)] ran by blast
  qed
qed

lemma StartClaim_other_channel:
  assumes "StartClaim h key update w = (r, w')" "key' \<noteq> key"
  shows "channel_table G (view w') key' = channel_table G (view w) key'"
    and "lock_table (view w') (PaymentChannelKey_String key') = lock_table (view w) (PaymentChannelKey_String key')"
  using assms
  by (auto elim!: StartClaim_lock_cases simp: Unlock_tables StartClaim_locked_frame)

lemma StartClaim_locked_table:
  assumes "StartClaim_locked h key update w = (r, w')"
    and "\<And>c. channel_table G (view w) key = Some c \<Longrightarrow> channel_storable (update c)"
  shows "channel_table G (view w') = channel_table G (view w) \<or>
    (\<exists>c. channel_table G (view w) key = Some c \<and> channel_table G (view w') = (channel_table G (view w))(key \<mapsto> update c))"
proof -
  from assms(1) consider (same) "view w' = view w"
    | (put) c w1 e where "PaymentChannelStorage_Get (NewPaymentChannelStorage G st) key w = (Inr (Some c), w1)"
        "PaymentChannelStorage_Put (NewPaymentChannelStorage G st) key (update c) w1 = (Inl e, w')"
    | (both) c w1 w2 q where "PaymentChannelStorage_Get (NewPaymentChannelStorage G st) key w = (Inr (Some c), w1)"
        "PaymentChannelStorage_Put (NewPaymentChannelStorage G st) key (update c) w1 = (Inr (), w2)"
        "PaymentStorage_Put (NewPaymentStorage G st) (getPaymentFromChannel c) w2 = (q, w')"
    by (auto simp: StartClaim_locked_def h_simps Let_def split: prod.splits sum.splits option.splits dest: channel_Get_view)
  then show ?thesis
  proof cases
    case same
    then show ?thesis by simp
  next
    case put
    with assms(2) channel_Get_ok [OF put(1)] channel_Get_view [OF put(1)] channel_Put_err [OF put(2)] show ?thesis by auto
  next
    case both
    with assms(2) channel_Get_ok [OF both(1)] channel_Get_view [OF both(1)] channel_Put_ok [OF both(2)]
      payment_Put_other_tables(1) [OF both(3)] show ?thesis by auto
  qed
qed

lemma StartClaim_table:
  assumes "StartClaim h key update w = (r, w')"
    and "\<And>c. channel_table G (view w) key = Some c \<Longrightarrow> channel_storable (update c)"
  shows "channel_table G (view w') = channel_table G (view w) \<or>
    (\<exists>c. channel_table G (view w) key = Some c \<and> channel_table G (view w') = (channel_table G (view w))(key \<mapsto> update c))"
  using assms(1)
proof (cases rule: StartClaim_lock_cases)
  case (ran w1 w2 u)
  with StartClaim_locked_table [OF ran(3)] assms(2) Unlock_tables(1) [OF ran(4)] show ?thesis by simp
qed simp_all

lemma StartClaim_locked_ok:
  assumes "StartClaim_locked h key update w = (Inr claim, w')"
    and "\<And>c. channel_table G (view w) key = Some c \<Longrightarrow> channel_storable c \<and> channel_storable (update c)"
  obtains c where "channel_table G (view w) key = Some c"
    "claim = \<lparr>claim_paymentStorage = NewPaymentStorage G st, claim_payment = getPaymentFromChannel c\<rparr>"
    "channel_table G (view w') = (channel_table G (view w))(key \<mapsto> update c)"
    "payment_table G (view w') =
       (payment_table G (view w))(Payment_ID (getPaymentFromChannel c) \<mapsto> getPaymentFromChannel c)"
proof -
  from assms(1) obtain c w1 w2 where
    g: "PaymentChannelStorage_Get (NewPaymentChannelStorage G st) key w = (Inr (Some c), w1)" and
    p: "PaymentChannelStorage_Put (NewPaymentChannelStorage G st) key (update c) w1 = (Inr (), w2)" and
    q: "PaymentStorage_Put (NewPaymentStorage G st) (getPaymentFromChannel c) w2 = (Inr (), w')" and
    claim: "claim = \<lparr>claim_paymentStorage = NewPaymentStorage G st, claim_payment = getPaymentFromChannel c\<rparr>"
    by (auto simp: StartClaim_locked_def h_simps Let_def split: prod.splits sum.splits option.splits)
  have c: "channel_table G (view w) key = Some c" and v: "view w1 = view w"
    using channel_Get_ok [OF g] channel_Get_view [OF g] by simp_all
  with assms(2) have s: "channel_storable (update c)" "payment_storable (getPaymentFromChannel c)"
    by (auto simp: channel_storable_def payment_storable_def getPaymentFromChannel_def)
  show ?thesis
  proof (rule that [OF c claim])
    show "channel_table G (view w') = (channel_table G (view w))(key \<mapsto> update c)"
      using channel_Put_ok [OF p s(1)] payment_Put_other_tables(1) [OF q] v by simp
    show "payment_table G (view w') =
       (payment_table G (view w))(Payment_ID (getPaymentFromChannel c) \<mapsto> getPaymentFromChannel c)"
      using payment_Put_ok(1) [OF q s(2)] channel_Put_other_tables(1) [OF p] v by simp
  qed
qed

lemma StartClaim_ok:
  assumes "StartClaim h key update w = (Inr claim, w')"
    and "\<And>c. channel_table G (view w) key = Some c \<Longrightarrow> channel_storable c \<and> channel_storable (update c)"
  obtains c where "channel_table G (view w) key = Some c"
    "claim = \<lparr>claim_paymentStorage = NewPaymentStorage G st, claim_payment = getPaymentFromChannel c\<rparr>"
    "channel_table G (view w') = (channel_table G (view w))(key \<mapsto> update c)"
    "payment_table G (view w') =
       (payment_table G (view w))(Payment_ID (getPaymentFromChannel c) \<mapsto> getPaymentFromChannel c)"
  using assms(1)
proof (cases rule: StartClaim_lock_cases)
  case (ran w1 w2 u)
  have "channel_storable c \<and> channel_storable (update c)" if "channel_table G (view w1) key = Some c" for c
    using that assms(2) ran(2) by simp
  with ran(3) obtain c where "channel_table G (view w1) key = Some c"
    "claim = \<lparr>claim_paymentStorage = NewPaymentStorage G st, claim_payment = getPaymentFromChannel c\<rparr>"
    "channel_table G (view w2) = (channel_table G (view w1))(key \<mapsto> update c)"
    "payment_table G (view w2) =
       (payment_table G (view w1))(Payment_ID (getPaymentFromChannel c) \<mapsto> getPaymentFromChannel c)"
    by (rule StartClaim_locked_ok)
  then show ?thesis using ran(2) Unlock_tables [OF ran(4)] by (intro that) simp_all
qed simp_all

lemma claimImpl_Finish_frame:
  assumes "claimImpl_Finish \<lparr>claim_paymentStorage = paymentStorage h, claim_payment = p\<rparr> w = (r, w')"
  shows "channel_table G (view w') = channel_table G (view w)" "lock_table (view w') = lock_table (view w)"
  using assms by (auto simp: claimImpl_Finish_def h_simps payment_Delete_other_tables)

lemma claimImpl_Finish_ok:
  assumes "claimImpl_Finish \<lparr>claim_paymentStorage = paymentStorage h, claim_payment = p\<rparr> w = (Inr (), w')"
  shows "payment_table G (view w') = (payment_table G (view w))(Payment_ID p := None)"
  using assms by (simp add: claimImpl_Finish_def h_simps payment_Delete_ok)

end

end
