(* ===== verification/PaymentHandler.thy ===== *)
theory PaymentHandler
  imports Interceptors EscrowService
begin

text \<open>
  \<^verbatim>\<open>escrow/payment_handler.go\<close>: the payment handler the daemon registers with the gRPC interceptor. It
  reads a payment from the headers of a call, starts a transaction on its channel, checks the income
  against the price, and commits or rolls back when the call has ended. The theory shows that it meets
  the contract of the interceptor (\<open>payment_handler\<close>) with the channel table as the ledger.
\<close>

section \<open>The handler\<close>

definition PaymentChannelIDHeader :: string where "PaymentChannelIDHeader = ''snet-payment-channel-id''"
definition PaymentChannelNonceHeader :: string where "PaymentChannelNonceHeader = ''snet-payment-channel-nonce''"
definition PaymentChannelAmountHeader :: string where "PaymentChannelAmountHeader = ''snet-payment-channel-amount''"
definition PaymentChannelSignatureHeader :: string where
  "PaymentChannelSignatureHeader = ''snet-payment-channel-signature-bin''"
definition EscrowPaymentType :: string where "EscrowPaymentType = ''escrow''"

record 'w paymentChannelPaymentHandler =
  service :: "'w lockingPaymentChannelService"
  mpeContractAddress :: Address
  handler_incomeValidator :: incomeValidator

text \<open>\<^verbatim>\<open>paymentErrorToGrpcError\<close> of an error that is not nil.\<close>

definition grpcErrorOf :: "error \<Rightarrow> GrpcError" where
  "grpcErrorOf e =
     (case e of
        PaymentErr err \<Rightarrow>
          (let grpcCode = (if error_Code err = Internal then codes_Internal
                           else if error_Code err = Unauthenticated then codes_Unauthenticated
                           else if error_Code err = FailedPrecondition then codes_FailedPrecondition
                           else if error_Code err = IncorrectNonce then handler_IncorrectNonce
                           else codes_Internal) in
           NewGrpcErrorf grpcCode (error_Message err) [])
      | _ \<Rightarrow> NewGrpcErrorf codes_Internal (Lit ''internal error: %v'') [error_text e])"

definition paymentErrorToGrpcError :: "'a result \<Rightarrow> GrpcError option" where
  "paymentErrorToGrpcError r = (case r of Inr _ \<Rightarrow> None | Inl e \<Rightarrow> Some (grpcErrorOf e))"

definition getPaymentFromContext ::
  "(MD \<Rightarrow> string \<Rightarrow> string list) \<Rightarrow> 'w paymentChannelPaymentHandler \<Rightarrow> GrpcStreamContext \<Rightarrow> GrpcError + Payment" where
  "getPaymentFromContext md_Get h context =
     (case GetBigInt md_Get (context_MD context) PaymentChannelIDHeader of
        Inl err \<Rightarrow> Inl err
      | Inr channelID \<Rightarrow>
      (case GetBigInt md_Get (context_MD context) PaymentChannelNonceHeader of
        Inl err \<Rightarrow> Inl err
      | Inr channelNonce \<Rightarrow>
      (case GetBigInt md_Get (context_MD context) PaymentChannelAmountHeader of
        Inl err \<Rightarrow> Inl err
      | Inr amount \<Rightarrow>
      (case GetBytes md_Get (context_MD context) PaymentChannelSignatureHeader of
        Inl err \<Rightarrow> Inl err
      | Inr signature \<Rightarrow>
          Inr \<lparr>MpeContractAddress = mpeContractAddress h, payment_ChannelID = channelID,
               ChannelNonce = channelNonce, Amount = amount, payment_Signature = Some signature\<rparr>))))"

text \<open>The part of \<^verbatim>\<open>Payment\<close> after the payment was read. A transaction that fails the price check is rolled back.\<close>

definition paymentHandler_start ::
  "go_ethereum \<Rightarrow> 'w paymentChannelPaymentHandler \<Rightarrow> GrpcStreamContext \<Rightarrow> Payment \<Rightarrow> 'w
    \<Rightarrow> (GrpcError + 'w paymentTransaction) \<times> 'w" where
  "paymentHandler_start E h context internalPayment w =
     (case StartPaymentTransaction E (service h) internalPayment w of
        (Inl e, w1) \<Rightarrow> (Inl (grpcErrorOf e), w1)
      | (Inr transaction, w1) \<Rightarrow>
          (let income = Amount internalPayment - AuthorizedAmount (paymentTransaction_Channel transaction) in
           case incomeValidator_Validate (handler_incomeValidator h) \<lparr>Income = income, GrpcContext = context\<rparr> of
             Some e \<Rightarrow>
               (case Rollback transaction w1 of
                  (_, w2) \<Rightarrow> (Inl (grpcErrorOf e), w2))
           | None \<Rightarrow> (Inr transaction, w1)))"

definition paymentHandler_Payment ::
  "go_ethereum \<Rightarrow> (MD \<Rightarrow> string \<Rightarrow> string list) \<Rightarrow> 'w paymentChannelPaymentHandler \<Rightarrow> GrpcStreamContext \<Rightarrow> 'w
    \<Rightarrow> (GrpcError + 'w paymentTransaction) \<times> 'w" where
  "paymentHandler_Payment E md_Get h context w =
     (case getPaymentFromContext md_Get h context of
        Inl err \<Rightarrow> (Inl err, w)
      | Inr internalPayment \<Rightarrow> paymentHandler_start E h context internalPayment w)"

definition paymentHandler_Complete :: "'w paymentTransaction \<Rightarrow> 'w \<Rightarrow> GrpcError option \<times> 'w" where
  "paymentHandler_Complete payment w =
     (case Commit payment w of (r, w') \<Rightarrow> (paymentErrorToGrpcError r, w'))"

definition paymentHandler_CompleteAfterError ::
  "'w paymentTransaction \<Rightarrow> error \<Rightarrow> 'w \<Rightarrow> GrpcError option \<times> 'w" where
  "paymentHandler_CompleteAfterError payment result w =
     (case Rollback payment w of (r, w') \<Rightarrow> (paymentErrorToGrpcError r, w'))"

definition NewPaymentHandler ::
  "go_ethereum \<Rightarrow> (MD \<Rightarrow> string \<Rightarrow> string list) \<Rightarrow> 'w lockingPaymentChannelService \<Rightarrow> Address \<Rightarrow> incomeValidator
    \<Rightarrow> ('w, 'w paymentTransaction) PaymentHandler" where
  "NewPaymentHandler E md_Get channel_service escrowContractAddress income_validator =
     (let h = \<lparr>service = channel_service, mpeContractAddress = escrowContractAddress,
               handler_incomeValidator = income_validator\<rparr> in
      \<lparr>Type = EscrowPaymentType,
       handler_Payment = paymentHandler_Payment E md_Get h,
       handler_Complete = paymentHandler_Complete,
       handler_CompleteAfterError = paymentHandler_CompleteAfterError\<rparr>)"

section \<open>Errors\<close>

lemma grpcErrorOf_status [simp]: "\<exists>s. error_Status (grpcErrorOf e) = Some s"
  by (auto simp: grpcErrorOf_def Let_def NewGrpcErrorf_def split: error.splits)

lemma paymentErrorToGrpcError_simps [simp]:
  "paymentErrorToGrpcError (Inr x) = None" "paymentErrorToGrpcError (Inl e) = Some (grpcErrorOf e)"
  by (simp_all add: paymentErrorToGrpcError_def)

lemma paymentErrorToGrpcError_None: "paymentErrorToGrpcError r = None \<longleftrightarrow> (\<exists>x. r = Inr x)"
  by (cases r) simp_all

lemma paymentErrorToGrpcError_status:
  "paymentErrorToGrpcError r = Some err \<Longrightarrow> \<exists>s. error_Status err = Some s"
  by (cases r) auto

lemma GetSingleValue_status: "GetSingleValue g md k = Inl err \<Longrightarrow> error_Status err \<noteq> None"
  by (auto simp: GetSingleValue_def Let_def NewGrpcErrorf_def split: if_splits)

lemma getPaymentFromContext_status:
  "getPaymentFromContext g h ctx = Inl err \<Longrightarrow> error_Status err \<noteq> None"
  by (auto simp: getPaymentFromContext_def GetBigInt_def GetBytes_def NewGrpcErrorf_def
      split: sum.splits option.splits if_splits dest: GetSingleValue_status)

section \<open>The contract of the interceptor\<close>

text \<open>
  A reserved payment is a transaction of the service that holds the lock of its channel. An accepted one
  passed the checks of both validators on the channel that \<^verbatim>\<open>PaymentChannel\<close> returned.
\<close>

definition tx_reserved ::
  "'w AtomicStorage \<Rightarrow> ('w \<Rightarrow> string \<Rightarrow> string option) \<Rightarrow> 'w lockingPaymentChannelService \<Rightarrow> 'w paymentTransaction
    \<Rightarrow> 'w \<Rightarrow> bool" where
  "tx_reserved st view h tx w \<longleftrightarrow> transaction_of st h tx \<and>
     lock_table (view w) (PaymentChannelKey_String (payment_key (tx_payment tx))) = Some locked"

definition tx_accepted ::
  "go_ethereum \<Rightarrow> (MD \<Rightarrow> string \<Rightarrow> string list) \<Rightarrow> 'w paymentChannelPaymentHandler \<Rightarrow>
   (('w \<Rightarrow> string \<Rightarrow> string option)) \<Rightarrow> GrpcStreamContext \<Rightarrow> 'w \<Rightarrow> 'w paymentTransaction \<Rightarrow> 'w \<Rightarrow> bool" where
  "tx_accepted E md_Get hp view ctx w tx w' \<longleftrightarrow>
     getPaymentFromContext md_Get hp ctx = Inr (tx_payment tx) \<and>
     lock_free (view w) (PaymentChannelKey_String (payment_key (tx_payment tx))) \<and>
     (\<exists>w1. view w1 = (view w)(channel_lock (payment_key (tx_payment tx)) \<mapsto> locked) \<and>
        PaymentChannel (service hp) (payment_key (tx_payment tx)) w1 = (Inr (Some (tx_channel tx)), w')) \<and>
     ChannelPaymentValidator_Validate E (validator (service hp)) (tx_payment tx) (tx_channel tx) w' = None \<and>
     Amount (tx_payment tx) - AuthorizedAmount (tx_channel tx) = priceInCogs (handler_incomeValidator hp)"

text \<open>A storage whose conditional writes never fail.\<close>

definition reliable :: "'w AtomicStorage \<Rightarrow> bool" where
  "reliable st \<longleftrightarrow> (\<forall>k v w e w'. PutIfAbsent st k v w \<noteq> (Inl e, w')) \<and>
     (\<forall>k u v w e w'. CompareAndSwap st k u v w \<noteq> (Inl e, w'))"

context payment_service
begin

lemma paymentHandler_Payment_ok:
  assumes "paymentHandler_Payment E md_Get hp ctx w = (Inr tx, w')" "service hp = h"
  shows "channel_table G (view w') = channel_table G (view w)"
    and "payment_table G (view w') = payment_table G (view w)"
    and "tx_reserved st view h tx w'" and "tx_accepted E md_Get hp view ctx w tx w'"
proof -
  from assms obtain p where p: "getPaymentFromContext md_Get hp ctx = Inr p"
    and s: "StartPaymentTransaction E h p w = (Inr tx, w')"
    and i: "Amount p - AuthorizedAmount (tx_channel tx) = priceInCogs (handler_incomeValidator hp)"
    by (auto simp: paymentHandler_Payment_def paymentHandler_start_def Let_def incomeValidator_Validate_def
        paymentTransaction_Channel_def split: sum.splits prod.splits if_splits)
  from s obtain w1 where free: "lock_free (view w) (PaymentChannelKey_String (payment_key p))"
    and w1: "view w1 = (view w)(channel_lock (payment_key p) \<mapsto> locked)" "view w' = view w1"
    "PaymentChannel h (payment_key p) w1 = (Inr (Some (tx_channel tx)), w')"
    and v: "ChannelPaymentValidator_Validate E (validator h) p (tx_channel tx) w' = None"
    and tx: "tx_payment tx = p"
    by (rule StartPaymentTransaction_cases)
  from w1 show "channel_table G (view w') = channel_table G (view w)"
    "payment_table G (view w') = payment_table G (view w)" by simp_all
  show "tx_reserved st view h tx w'"
    using StartPaymentTransaction_tx_of [OF s] w1 tx by (simp add: tx_reserved_def)
  show "tx_accepted E md_Get hp view ctx w tx w'"
    unfolding tx_accepted_def tx assms(2) using p free w1(1,3) v i by blast
qed

lemma paymentHandler_Payment_err:
  assumes "paymentHandler_Payment E md_Get hp ctx w = (Inl err, w')" "service hp = h"
  shows "channel_table G (view w') = channel_table G (view w)"
    and "payment_table G (view w') = payment_table G (view w)"
    and "error_Status err \<noteq> None"
proof -
  have *: "channel_table G (view w') = channel_table G (view w) \<and>
      payment_table G (view w') = payment_table G (view w) \<and> error_Status err \<noteq> None"
  proof (cases "getPaymentFromContext md_Get hp ctx")
    case (Inl e)
    with assms getPaymentFromContext_status show ?thesis by (auto simp: paymentHandler_Payment_def)
  next
    case (Inr p)
    show ?thesis
    proof (cases "StartPaymentTransaction E h p w")
      case (Pair r w1)
      show ?thesis
      proof (cases r)
        case (Inl e)
        with assms Inr Pair StartPaymentTransaction_err [of E p w e w1] show ?thesis
          by (auto simp: paymentHandler_Payment_def paymentHandler_start_def)
      next
        case (Inr tx)
        with assms \<open>getPaymentFromContext md_Get hp ctx = _\<close> Pair obtain u e where
          "Rollback tx w1 = (u, w')" "err = grpcErrorOf e"
          by (auto simp: paymentHandler_Payment_def paymentHandler_start_def Let_def
              split: option.splits prod.splits)
        moreover from Pair Inr have s: "StartPaymentTransaction E h p w = (Inr tx, w1)" by simp
        ultimately show ?thesis
          using Rollback_frame StartPaymentTransaction_tx_of [OF s] StartPaymentTransaction_cases [OF s]
          by (auto elim!: StartPaymentTransaction_cases)
      qed
    qed
  qed
  then show "channel_table G (view w') = channel_table G (view w)"
    "payment_table G (view w') = payment_table G (view w)" "error_Status err \<noteq> None" by simp_all
qed

lemma paymentHandler_contract:
  "payment_handler (NewPaymentHandler E md_Get h addr income) (\<lambda>w. channel_table G (view w))
     (tx_accepted E md_Get \<lparr>service = h, mpeContractAddress = addr, handler_incomeValidator = income\<rparr> view)
     (tx_reserved st view h)
     (\<lambda>tx m. m(payment_key (tx_payment tx) \<mapsto> committed_channel tx))"
  by unfold_locales
    (auto simp: NewPaymentHandler_def Let_def paymentHandler_Complete_def paymentHandler_CompleteAfterError_def
      tx_reserved_def Commit_ok Rollback_frame paymentErrorToGrpcError_None
      dest: paymentHandler_Payment_ok paymentHandler_Payment_err paymentErrorToGrpcError_status
      split: prod.splits)

text \<open>
  No lock is left behind: on a storage whose conditional writes do not fail, whatever lock was free
  before a payment was taken is free again when the call has ended.
\<close>

lemmas escrow_contract = payment_handler.intercept_success [OF paymentHandler_contract]
  payment_handler.intercept_service_failed [OF paymentHandler_contract]
  payment_handler.intercept_not_accepted [OF paymentHandler_contract]
  payment_handler.getPaymentHandler_only [OF paymentHandler_contract]

lemma paid_call:
  assumes "paymentValidationInterceptor_intercept
      (GrpcPaymentValidationInterceptor (NewPaymentHandler E md_Get h addr income) []) incoming info handler w = (Returns None, w')"
    and "\<And>n w1 r w2. handler w1 = (r, w2) \<Longrightarrow> lock_table (view w1) n = Some locked \<Longrightarrow>
      lock_table (view w2) n = Some locked"
  obtains md p c w1 w2 where "incoming = Some md"
    "getPaymentFromContext md_Get \<lparr>service = h, mpeContractAddress = addr, handler_incomeValidator = income\<rparr>
      \<lparr>context_MD = md, context_Info = info\<rparr> = Inr p"
    "latest_channel (fst (replicaGroupID h)) (channel_table G (view w) (payment_key p))
      (GetChannelStateFromBlockchain (blockchainReader h) (payment_key p) w1) = Inr (Some c)"
    "ChannelPaymentValidator_Validate E (validator h) p c w1 = None"
    "Amount p = AuthorizedAmount c + priceInCogs income"
    "handler w1 = (Returns None, w2)"
    "channel_table G (view w') = (channel_table G (view w2))
      (payment_key p \<mapsto> c\<lparr>AuthorizedAmount := Amount p, Signature := payment_Signature p\<rparr>)"
proof -
  from assms(1) obtain md tx w1 w2 where i: "incoming = Some md"
    and a: "tx_accepted E md_Get \<lparr>service = h, mpeContractAddress = addr, handler_incomeValidator = income\<rparr> view
        \<lparr>context_MD = md, context_Info = info\<rparr> w tx w1"
    and s: "handler w1 = (Returns None, w2)"
    and c: "channel_table G (view w') = (channel_table G (view w2))(payment_key (tx_payment tx) \<mapsto> committed_channel tx)"
    by (rule escrow_contract(1)) (use assms(2) in \<open>auto simp: tx_reserved_def\<close>)
  from a obtain w0 where w0: "view w0 = (view w)(channel_lock (payment_key (tx_payment tx)) \<mapsto> locked)"
    "PaymentChannel h (payment_key (tx_payment tx)) w0 = (Inr (Some (tx_channel tx)), w1)"
    by (auto simp: tx_accepted_def)
  have cc: "committed_channel tx =
      (tx_channel tx)\<lparr>AuthorizedAmount := Amount (tx_payment tx), Signature := payment_Signature (tx_payment tx)\<rparr>"
    by (simp add: committed_channel_def)
  show ?thesis
    using that [of md "tx_payment tx" w1 "tx_channel tx" w2] i a s c PaymentChannel_latest [OF w0(2)] w0(1)
    by (simp add: tx_accepted_def cc)
qed

lemma unpaid_call:
  assumes "paymentValidationInterceptor_intercept
      (GrpcPaymentValidationInterceptor (NewPaymentHandler E md_Get h addr income) []) incoming info handler w = (out, w')"
    and "\<And>w1 r w2. handler w1 = (r, w2) \<Longrightarrow> r \<noteq> Returns None \<and> view w2 = view w1"
  shows "out \<noteq> Returns None" and "channel_table G (view w') = channel_table G (view w)"
proof -
  let ?hp = "\<lparr>service = h, mpeContractAddress = addr, handler_incomeValidator = income\<rparr>"
  have *: "out \<noteq> Returns None \<and> channel_table G (view w') = channel_table G (view w)"
  proof (cases "\<exists>md tx w1. incoming = Some md \<and>
      getPaymentHandler (GrpcPaymentValidationInterceptor (NewPaymentHandler E md_Get h addr income) [])
        \<lparr>context_MD = md, context_Info = info\<rparr> = Inr (NewPaymentHandler E md_Get h addr income) \<and>
      handler_Payment (NewPaymentHandler E md_Get h addr income) \<lparr>context_MD = md, context_Info = info\<rparr> w = (Inr tx, w1)")
    case True
    then obtain md tx w1 where t: "incoming = Some md"
      "getPaymentHandler (GrpcPaymentValidationInterceptor (NewPaymentHandler E md_Get h addr income) [])
        \<lparr>context_MD = md, context_Info = info\<rparr> = Inr (NewPaymentHandler E md_Get h addr income)"
      "handler_Payment (NewPaymentHandler E md_Get h addr income) \<lparr>context_MD = md, context_Info = info\<rparr> w = (Inr tx, w1)"
      by blast
    obtain r w2 where s: "handler w1 = (r, w2)" by (cases "handler w1")
    from t(3) have "paymentHandler_Payment E md_Get ?hp \<lparr>context_MD = md, context_Info = info\<rparr> w = (Inr tx, w1)"
      by (simp add: NewPaymentHandler_def Let_def)
    then have p: "channel_table G (view w1) = channel_table G (view w)" "tx_reserved st view h tx w1"
      by (auto dest: paymentHandler_Payment_ok)
    from p(2) assms(2) [OF s] have "tx_reserved st view h tx w2" by (simp add: tx_reserved_def)
    from escrow_contract(2-3) [OF t(3) s _ this t(2) assms(1) [unfolded t(1)]] assms(2) [OF s] p(1)
    show ?thesis by simp
  next
    case False
    with assms(1) show ?thesis
      by (auto simp: paymentValidationInterceptor_intercept_def getGrpcContext_def
          split: option.splits sum.splits prod.splits
          dest: payment_handler.getPaymentHandler_err [OF paymentHandler_contract] escrow_contract(7)
          dest!: payment_handler.Payment_err [OF paymentHandler_contract]
            payment_handler.Err_not_None [OF paymentHandler_contract])
  qed
  then show "out \<noteq> Returns None" "channel_table G (view w') = channel_table G (view w)" by simp_all
qed

lemma Lock_reliable_err:
  assumes "etcdLocker_Lock (NewEtcdLocker st) name w = (Inl e, w')" "reliable st"
  shows "view w' = view w"
  using assms by (auto simp: etcdLocker_Lock_def etcdLocker_acquire_def reliable_def NewEtcdLocker_def NewLockerStorage_def
      as_AtomicStorage_def PrefixedAtomicStorage_defs split: prod.splits sum.splits if_splits bool.splits dest: Get_view)

lemma Unlock_reliable:
  assumes "lockType_Unlock \<lparr>lock_name = name, lock_locker = NewEtcdLocker st\<rparr> w = (r, w')" "reliable st"
    and "lock_table (view w) name = Some locked"
  shows "lock_table (view w') = (lock_table (view w))(name \<mapsto> unlocked)"
proof -
  from assms(1,2) have "r = Inr ()"
    by (auto simp: lockType_Unlock_def reliable_def NewEtcdLocker_def NewLockerStorage_def as_AtomicStorage_def
        PrefixedAtomicStorage_defs split: prod.splits sum.splits)
  with lk.Unlock_ok [of name w w'] assms(1,3) show ?thesis by simp
qed

lemma lock_free_released:
  "lock_table m' = (lock_table m)(name \<mapsto> unlocked) \<Longrightarrow> lock_free m n \<Longrightarrow> lock_free m' n"
  by (simp add: lock_free_def)

lemma release_locks:
  shows "Commit tx w = (r, w') \<Longrightarrow> transaction_of st h tx \<Longrightarrow> reliable st \<Longrightarrow>
      lock_table (view w) (PaymentChannelKey_String (payment_key (tx_payment tx))) = Some locked \<Longrightarrow>
      lock_table (view w') = (lock_table (view w))(PaymentChannelKey_String (payment_key (tx_payment tx)) \<mapsto> unlocked)"
    and "Rollback tx w = (r, w') \<Longrightarrow> transaction_of st h tx \<Longrightarrow> reliable st \<Longrightarrow>
      lock_table (view w) (PaymentChannelKey_String (payment_key (tx_payment tx))) = Some locked \<Longrightarrow>
      lock_table (view w') = (lock_table (view w))(PaymentChannelKey_String (payment_key (tx_payment tx)) \<mapsto> unlocked)"
proof -
  assume c: "Commit tx w = (r, w')" "transaction_of st h tx" and rel: "reliable st"
    and l: "lock_table (view w) (PaymentChannelKey_String (payment_key (tx_payment tx))) = Some locked"
  from c obtain e w1 u where
    p: "PaymentChannelStorage_Put (NewPaymentChannelStorage G st) (payment_key (tx_payment tx)) (committed_channel tx) w = (e, w1)"
    and u: "lockType_Unlock \<lparr>lock_name = PaymentChannelKey_String (payment_key (tx_payment tx)), lock_locker = NewEtcdLocker st\<rparr> w1 = (u, w')"
    by (rule Commit_cases)
  have "lock_table (view w1) = lock_table (view w)" by (rule channel_Put_other_tables(2) [OF p])
  with Unlock_reliable [OF u rel] l
  show "lock_table (view w') = (lock_table (view w))(PaymentChannelKey_String (payment_key (tx_payment tx)) \<mapsto> unlocked)"
    by simp
next
  assume c: "Rollback tx w = (r, w')" "transaction_of st h tx" and rel: "reliable st"
    and l: "lock_table (view w) (PaymentChannelKey_String (payment_key (tx_payment tx))) = Some locked"
  from c obtain u where u: "lockType_Unlock \<lparr>lock_name = PaymentChannelKey_String (payment_key (tx_payment tx)), lock_locker = NewEtcdLocker st\<rparr> w = (u, w')"
    by (auto simp: Rollback_def transaction_of_def split: prod.splits)
  from Unlock_reliable [OF u rel l]
  show "lock_table (view w') = (lock_table (view w))(PaymentChannelKey_String (payment_key (tx_payment tx)) \<mapsto> unlocked)" .
qed

lemma StartPaymentTransaction_err_locks:
  assumes "StartPaymentTransaction E h p w = (Inl e, w')" "reliable st" "lock_free (view w) n"
  shows "lock_free (view w') n"
proof -
  let ?n = "PaymentChannelKey_String (payment_key p)"
  from assms(1) consider (lock) e' where "etcdLocker_Lock (NewEtcdLocker st) ?n w = (Inl e', w')"
    | (taken) "etcdLocker_Lock (NewEtcdLocker st) ?n w = (Inr None, w')"
    | (body) l w1 w2 r where "etcdLocker_Lock (NewEtcdLocker st) ?n w = (Inr (Some l), w1)"
      "StartPaymentTransaction_locked E h p (payment_key p) l w1 = (Inl e, w2)" "lockType_Unlock l w2 = (r, w')"
    by (auto simp: StartPaymentTransaction_def h_simps Let_def split: prod.splits sum.splits option.splits)
  then show ?thesis
  proof cases
    case lock
    with Lock_reliable_err assms(2,3) show ?thesis by metis
  next
    case taken
    with lk.Lock_not_ok(1) assms(3) show ?thesis by metis
  next
    case body
    from body(2) have "view w2 = view w1"
      by (auto simp: StartPaymentTransaction_locked_def split: prod.splits sum.splits option.splits
          dest: PaymentChannel_view)
    with lk.Lock_ok [OF body(1)] Unlock_reliable [of ?n w2 r w'] body(3) assms(2)
    have "lock_table (view w') = (lock_table (view w))(?n \<mapsto> unlocked)" by simp
    then show ?thesis using assms(3) by (rule lock_free_released)
  qed
qed

lemma Payment_err_locks:
  assumes "paymentHandler_Payment E md_Get hp ctx w = (Inl err, w')" "service hp = h" "reliable st"
    and "lock_free (view w) n"
  shows "lock_free (view w') n"
proof (cases "getPaymentFromContext md_Get hp ctx")
  case (Inl e)
  with assms show ?thesis by (simp add: paymentHandler_Payment_def)
next
  case (Inr p)
  with assms(1,2) consider (start) e where "StartPaymentTransaction E h p w = (Inl e, w')"
    | (income) tx w1 u where "StartPaymentTransaction E h p w = (Inr tx, w1)" "Rollback tx w1 = (u, w')"
    by (auto simp: paymentHandler_Payment_def paymentHandler_start_def Let_def
        split: option.splits prod.splits sum.splits)
  then show ?thesis
  proof cases
    case start
    then show ?thesis using StartPaymentTransaction_err_locks assms(3,4) by blast
  next
    case income
    from income(1) obtain w0 where "view w1 = (view w)(channel_lock (payment_key p) \<mapsto> locked)" "tx_payment tx = p"
      by (elim StartPaymentTransaction_cases) auto
    then show ?thesis
      using release_locks(2) [OF income(2) StartPaymentTransaction_tx_of [OF income(1)]] assms(3,4)
      by (simp add: lock_free_def)
  qed
qed

lemma intercept_locks:
  assumes "paymentValidationInterceptor_intercept
      (GrpcPaymentValidationInterceptor (NewPaymentHandler E md_Get h addr income) []) incoming info handler w = (out, w')"
    and "reliable st" and "\<And>w1 r w2. handler w1 = (r, w2) \<Longrightarrow> lock_table (view w2) = lock_table (view w1)"
    and "lock_free (view w) n"
  shows "lock_free (view w') n"
proof -
  let ?hp = "\<lparr>service = h, mpeContractAddress = addr, handler_incomeValidator = income\<rparr>"
  from assms(1) consider (same) "w' = w"
    | (err) ctx e where "paymentHandler_Payment E md_Get ?hp ctx w = (Inl e, w')"
    | (ok) ctx tx w1 r w2 where "paymentHandler_Payment E md_Get ?hp ctx w = (Inr tx, w1)" "handler w1 = (r, w2)"
        "intercept_deferred (NewPaymentHandler E md_Get h addr income) tx r w2 = (out, w')"
    by (auto simp: paymentValidationInterceptor_intercept_def NewPaymentHandler_def Let_def
        split: sum.splits prod.splits
        dest!: payment_handler.getPaymentHandler_only [OF paymentHandler_contract, unfolded NewPaymentHandler_def Let_def])
  then show ?thesis
  proof cases
    case same
    with assms(4) show ?thesis by simp
  next
    case err
    with assms(2,4) show ?thesis by (auto intro: Payment_err_locks)
  next
    case ok
    have tx: "tx_reserved st view h tx w1" using paymentHandler_Payment_ok(3) [OF ok(1)] by simp
    from ok(1) obtain p w0 where "view w1 = (view w)(channel_lock (payment_key p) \<mapsto> locked)" "tx_payment tx = p"
      by (auto simp: paymentHandler_Payment_def paymentHandler_start_def Let_def
          split: sum.splits prod.splits option.splits elim!: StartPaymentTransaction_cases)
    then have l: "lock_table (view w2) =
        (lock_table (view w))(PaymentChannelKey_String (payment_key (tx_payment tx)) \<mapsto> locked)"
      using assms(3) [OF ok(2)] by simp
    from ok(3) obtain u where "Commit tx w2 = (u, w') \<or> Rollback tx w2 = (u, w')"
      by (auto simp: intercept_deferred_def NewPaymentHandler_def Let_def paymentHandler_Complete_def
          paymentHandler_CompleteAfterError_def split: go.splits option.splits prod.splits)
    with release_locks [of tx w2 u w'] tx l assms(2)
    have "lock_table (view w') = (lock_table (view w))(PaymentChannelKey_String (payment_key (tx_payment tx)) \<mapsto> unlocked)"
      by (auto simp: tx_reserved_def)
    then show ?thesis using assms(4) by (rule lock_free_released)
  qed
qed

end

end
