(* ===== verification/ControlService.thy ===== *)
theory ControlService
  imports EscrowService
begin

text \<open>
  \<^verbatim>\<open>escrow/control_service.go\<close> and \<^verbatim>\<open>escrow/state_service.go\<close>: the requests of the service provider (list
  unclaimed payments, list claims in progress, start a claim) and the request of a client for the
  state of its channel. The message types are the generated structs of the two proto files.

  \<^verbatim>\<open>GetEthereumClient\<close> and the call of \<^verbatim>\<open>eth_blockNumber\<close> are arguments. A request that dereferences a
  nil channel panics; such a request returns a value of type \<open>go\<close>.
\<close>

section \<open>Messages\<close>

record GetPaymentsListRequest =
  request_MpeAddress :: string
  CurrentBlock :: "64 word"
  request_Signature :: bytes

record StartClaimRequest =
  claim_MpeAddress :: string
  claim_ChannelId :: bytes
  claim_Signature :: bytes

record PaymentReply =
  reply_ChannelId :: bytes
  reply_ChannelNonce :: bytes
  reply_SignedAmount :: bytes
  reply_Signature :: slice

record ChannelStateRequest =
  state_ChannelId :: bytes
  state_Signature :: bytes

record ChannelStateReply =
  CurrentNonce :: bytes
  CurrentSignedAmount :: slice
  CurrentSignature :: slice

section \<open>The state of a channel for its client\<close>

definition GetChannelState ::
  "go_ethereum \<Rightarrow> 'w lockingPaymentChannelService \<Rightarrow> ChannelStateRequest \<Rightarrow> 'w \<Rightarrow> ChannelStateReply result \<times> 'w" where
  "GetChannelState E channelService request w =
     (let channelID = bytesToBigInt (state_ChannelId request);
          signature = state_Signature request in
      case getSignerAddressFromMessage E (bigIntToBytes E channelID) signature of
        Inl err \<Rightarrow> (Inl (errors_New ''incorrect signature''), w)
      | Inr sender \<Rightarrow>
          (case PaymentChannel channelService \<lparr>ID = channelID\<rparr> w of
             (Inl err, w') \<Rightarrow> (Inl (Error (Concat (Lit ''channel error:'') (error_text err))), w')
           | (Inr None, w') \<Rightarrow>
               (Inl (fmt_Errorf ''channel is not found, channelId: %v'' [IntArg channelID]), w')
           | (Inr (Some channel), w') \<Rightarrow>
               if Signer channel \<noteq> sender then
                 (Inl (errors_New ''only channel signer can get latest channel state''), w')
               else if Signature channel = None then
                 (Inr \<lparr>CurrentNonce = bigIntToBytes E (Nonce channel), CurrentSignedAmount = None,
                       CurrentSignature = None\<rparr>, w')
               else
                 (Inr \<lparr>CurrentNonce = bigIntToBytes E (Nonce channel),
                       CurrentSignedAmount = Some (bigIntToBytes E (AuthorizedAmount channel)),
                       CurrentSignature = Signature channel\<rparr>, w')))"

section \<open>Checks on a provider's request\<close>

record 'w ProviderControlService =
  channelService :: "'w lockingPaymentChannelService"
  serviceMetaData :: ServiceMetadata

definition NewProviderControlService ::
  "'w lockingPaymentChannelService \<Rightarrow> ServiceMetadata \<Rightarrow> 'w ProviderControlService" where
  "NewProviderControlService h metaData = \<lparr>channelService = h, serviceMetaData = metaData\<rparr>"

definition checkMpeAddress :: "'w ProviderControlService \<Rightarrow> string \<Rightarrow> error option" where
  "checkMpeAddress service mpeAddress =
     (if MpeAddress (serviceMetaData service) \<noteq> mpeAddress then
        Some (fmt_Errorf ''the mpeAddress: %s passed does not match to what has been registered'' [Lit mpeAddress])
      else None)"

definition verifyPaymentAddress :: "'w ProviderControlService \<Rightarrow> Address \<Rightarrow> error option" where
  "verifyPaymentAddress service address =
     (if GetPaymentAddress (serviceMetaData service) \<noteq> address then
        Some (fmt_Errorf ''the payment Address: %s  does not match to what has been registered'' [AddressArg address])
      else None)"

definition verifySigner ::
  "go_ethereum \<Rightarrow> 'w ProviderControlService \<Rightarrow> bytes \<Rightarrow> bytes \<Rightarrow> error option" where
  "verifySigner E service message signature =
     (case getSignerAddressFromMessage E message signature of
        Inl err \<Rightarrow> Some err
      | Inr signer \<Rightarrow> verifyPaymentAddress service signer)"

text \<open>\<^verbatim>\<open>big.Int.Cmp\<close>.\<close>

definition big_Cmp :: "int \<Rightarrow> int \<Rightarrow> int" where
  "big_Cmp x y = (if x < y then -1 else if x = y then 0 else 1)"

text \<open>\<open>ethClient\<close> is \<^verbatim>\<open>GetEthereumClient\<close>, as the error it may give.\<close>

definition control_currentBlock ::
  "go_ethereum \<Rightarrow> ('w \<Rightarrow> error option) \<Rightarrow> ('w \<Rightarrow> string result) \<Rightarrow> 'w \<Rightarrow> int result" where
  "control_currentBlock E ethClient eth_blockNumber w =
     (case ethClient w of
        Some err \<Rightarrow> Inl err
      | None \<Rightarrow>
          (case eth_blockNumber w of
             Inl err \<Rightarrow> Inl (fmt_Errorf ''error determining current block: %v'' [error_text err])
           | Inr currentBlockHex \<Rightarrow> Inr (SetBytes (FromHex E currentBlockHex))))"

definition compareWithLatestBlockNumber :: "int result \<Rightarrow> int \<Rightarrow> error option" where
  "compareWithLatestBlockNumber latest blockNumberPassed =
     (case latest of
        Inl err \<Rightarrow> Some err
      | Inr latestBlockNumber \<Rightarrow>
          (let differenceInBlockNumber = big_Cmp latestBlockNumber blockNumberPassed in
           if -5 \<le> differenceInBlockNumber \<or> differenceInBlockNumber \<le> 5 then None
           else Some (fmt_Errorf
                  ''difference between the latest block chain number and the block number passed is %v ''
                  [IntArg blockNumberPassed])))"

text \<open>\<^verbatim>\<open>int64(request.CurrentBlock)\<close> reads the unsigned number as a signed one.\<close>

definition getMessageBytes ::
  "go_ethereum \<Rightarrow> 'w ProviderControlService \<Rightarrow> string \<Rightarrow> GetPaymentsListRequest \<Rightarrow> bytes" where
  "getMessageBytes E service prefixMessage request =
     concat [string_bytes prefixMessage, Address_Bytes (GetMpeAddress (serviceMetaData service)),
             abi_U256 E (sint (CurrentBlock request))]"

definition verifySignerForListUnclaimed ::
  "go_ethereum \<Rightarrow> 'w ProviderControlService \<Rightarrow> GetPaymentsListRequest \<Rightarrow> error option" where
  "verifySignerForListUnclaimed E service request =
     verifySigner E service (getMessageBytes E service ''__list_unclaimed'' request) (request_Signature request)"

definition verifySignerForListInProgress ::
  "go_ethereum \<Rightarrow> 'w ProviderControlService \<Rightarrow> GetPaymentsListRequest \<Rightarrow> error option" where
  "verifySignerForListInProgress E service request =
     verifySigner E service (getMessageBytes E service ''__list_in_progress'' request) (request_Signature request)"

definition start_claim_message :: "go_ethereum \<Rightarrow> 'w ProviderControlService \<Rightarrow> int \<Rightarrow> int \<Rightarrow> bytes" where
  "start_claim_message E service channelId nonce =
     concat [string_bytes ''__start_claim'', Address_Bytes (GetMpeAddress (serviceMetaData service)),
             bigIntToBytes E channelId, bigIntToBytes E nonce]"

text \<open>A channel that is not found gives no error: the function returns the nil error it got.\<close>

definition verifySignerForStartClaim ::
  "go_ethereum \<Rightarrow> 'w ProviderControlService \<Rightarrow> StartClaimRequest \<Rightarrow> 'w \<Rightarrow> error option \<times> 'w" where
  "verifySignerForStartClaim E service startClaim w =
     (let channelId = bytesToBigInt (claim_ChannelId startClaim);
          signature = claim_Signature startClaim in
      case PaymentChannel (channelService service) \<lparr>ID = channelId\<rparr> w of
        (Inl err, w') \<Rightarrow> (Some err, w')
      | (Inr None, w') \<Rightarrow> (None, w')
      | (Inr (Some latestChannel), w') \<Rightarrow>
          (verifySigner E service (start_claim_message E service channelId (Nonce latestChannel)) signature, w'))"

section \<open>Lists\<close>

definition listChannels ::
  "go_ethereum \<Rightarrow> 'w ProviderControlService \<Rightarrow> 'w \<Rightarrow> PaymentReply list result \<times> 'w" where
  "listChannels E service w =
     (case ListChannels (channelService service) w of
        (Inl err, w') \<Rightarrow> (Inl err, w')
      | (Inr channels, w') \<Rightarrow>
          (Inr (map (\<lambda>channel.
             \<lparr>reply_ChannelId = bigIntToBytes E (ChannelID channel),
              reply_ChannelNonce = bigIntToBytes E (Nonce channel),
              reply_SignedAmount = bigIntToBytes E (AuthorizedAmount channel),
              reply_Signature = None\<rparr>)
             (filter (\<lambda>channel. Int64 (AuthorizedAmount channel) \<noteq> 0) channels)), w'))"

definition payment_reply :: "go_ethereum \<Rightarrow> Payment \<Rightarrow> PaymentReply" where
  "payment_reply E payment =
     \<lparr>reply_ChannelId = bigIntToBytes E (payment_ChannelID payment),
      reply_ChannelNonce = bigIntToBytes E (ChannelNonce payment),
      reply_SignedAmount = bigIntToBytes E (Amount payment),
      reply_Signature = payment_Signature payment\<rparr>"

definition listClaims ::
  "go_ethereum \<Rightarrow> 'w ProviderControlService \<Rightarrow> 'w \<Rightarrow> PaymentReply list result \<times> 'w" where
  "listClaims E service w =
     (case ListClaims (channelService service) w of
        (Inl err, w') \<Rightarrow> (Inl err, w')
      | (Inr claimsRetrieved, w') \<Rightarrow>
          (Inr (map (payment_reply E)
             (filter (\<lambda>payment. \<not> (payment_Signature payment = None \<or> Int64 (Amount payment) = 0))
                (map claimImpl_Payment claimsRetrieved))), w'))"

section \<open>Claims\<close>

text \<open>
  The loop of \<^verbatim>\<open>removeClaimedPayments\<close> over the claims in progress. It returns at the first channel that
  is not found on the blockchain, with the nil error of that lookup.
\<close>

fun finishClaimed :: "'w lockingPaymentChannelService \<Rightarrow> 'w claimImpl list \<Rightarrow> 'w \<Rightarrow> unit result \<times> 'w" where
  "finishClaimed h [] w = (Inr (), w)"
| "finishClaimed h (claimRetrieved # rest) w =
     (let payment = claimImpl_Payment claimRetrieved in
      case PaymentChannelFromBlockChain h \<lparr>ID = payment_ChannelID payment\<rparr> w of
        Inl err \<Rightarrow> (Inl err, w)
      | Inr None \<Rightarrow> (Inr (), w)
      | Inr (Some blockChainChannel) \<Rightarrow>
          if Nonce blockChainChannel > ChannelNonce payment then
            (case claimImpl_Finish claimRetrieved w of
               (Inl err, w') \<Rightarrow> (Inl err, w')
             | (Inr _, w') \<Rightarrow> finishClaimed h rest w')
          else finishClaimed h rest w)"

definition removeClaimedPayments :: "'w ProviderControlService \<Rightarrow> 'w \<Rightarrow> unit result \<times> 'w" where
  "removeClaimedPayments service w =
     (case ListClaims (channelService service) w of
        (Inl err, w') \<Rightarrow> (Inl (errors_New ''error in retrieving claims''), w')
      | (Inr claimsRetrieved, w') \<Rightarrow> finishClaimed (channelService service) claimsRetrieved w')"

text \<open>The second result of \<^verbatim>\<open>PaymentChannel\<close> is ignored, so a missing channel is dereferenced.\<close>

definition beginClaimOnChannel ::
  "go_ethereum \<Rightarrow> 'w ProviderControlService \<Rightarrow> int \<Rightarrow> 'w \<Rightarrow> PaymentReply result go \<times> 'w" where
  "beginClaimOnChannel E service channelId w =
     (case PaymentChannel (channelService service) \<lparr>ID = channelId\<rparr> w of
        (Inl err, w1) \<Rightarrow> (Returns (Inl err), w1)
      | (Inr None, w1) \<Rightarrow> (Panics nil_dereference, w1)
      | (Inr (Some latestChannel), w1) \<Rightarrow>
          if Int64 (AuthorizedAmount latestChannel) = 0 then
            (Returns (Inl (fmt_Errorf
               ''authorized amount is zero , hence nothing to claim on the channel Id: %v'' [IntArg channelId])), w1)
          else
            (case StartClaim (channelService service) \<lparr>ID = channelId\<rparr> IncrementChannelNonce w1 of
               (Inl err, w2) \<Rightarrow> (Returns (Inl err), w2)
             | (Inr claim, w2) \<Rightarrow>
                 (let payment = claimImpl_Payment claim in
                  (Returns (Inr
                     \<lparr>reply_ChannelId = bigIntToBytes E channelId,
                      reply_ChannelNonce = bigIntToBytes E (ChannelNonce payment),
                      reply_SignedAmount = bigIntToBytes E (Amount payment),
                      reply_Signature = payment_Signature payment\<rparr>), w2))))"

section \<open>The three requests\<close>

definition GetListUnclaimed ::
  "go_ethereum \<Rightarrow> ('w \<Rightarrow> error option) \<Rightarrow> ('w \<Rightarrow> string result) \<Rightarrow> 'w ProviderControlService
    \<Rightarrow> GetPaymentsListRequest \<Rightarrow> 'w \<Rightarrow> PaymentReply list result \<times> 'w" where
  "GetListUnclaimed E ethClient eth_blockNumber service request w =
     (case checkMpeAddress service (request_MpeAddress request) of
        Some err \<Rightarrow> (Inl err, w)
      | None \<Rightarrow>
          (case compareWithLatestBlockNumber (control_currentBlock E ethClient eth_blockNumber w)
                  (sint (CurrentBlock request)) of
             Some err \<Rightarrow> (Inl err, w)
           | None \<Rightarrow>
               (case verifySignerForListUnclaimed E service request of
                  Some err \<Rightarrow> (Inl err, w)
                | None \<Rightarrow> listChannels E service w)))"

definition GetListInProgress ::
  "go_ethereum \<Rightarrow> ('w \<Rightarrow> error option) \<Rightarrow> ('w \<Rightarrow> string result) \<Rightarrow> 'w ProviderControlService
    \<Rightarrow> GetPaymentsListRequest \<Rightarrow> 'w \<Rightarrow> PaymentReply list result \<times> 'w" where
  "GetListInProgress E ethClient eth_blockNumber service request w =
     (case checkMpeAddress service (request_MpeAddress request) of
        Some err \<Rightarrow> (Inl err, w)
      | None \<Rightarrow>
          (case compareWithLatestBlockNumber (control_currentBlock E ethClient eth_blockNumber w)
                  (sint (CurrentBlock request)) of
             Some err \<Rightarrow> (Inl err, w)
           | None \<Rightarrow>
               (case verifySignerForListInProgress E service request of
                  Some err \<Rightarrow> (Inl err, w)
                | None \<Rightarrow>
                    (case removeClaimedPayments service w of
                       (Inl err, w') \<Rightarrow> (Inl err, w')
                     | (Inr _, w') \<Rightarrow> listClaims E service w'))))"

definition ProviderControlService_StartClaim ::
  "go_ethereum \<Rightarrow> 'w ProviderControlService \<Rightarrow> StartClaimRequest \<Rightarrow> 'w \<Rightarrow> PaymentReply result go \<times> 'w" where
  "ProviderControlService_StartClaim E service startClaim w =
     (case checkMpeAddress service (claim_MpeAddress startClaim) of
        Some err \<Rightarrow> (Returns (Inl err), w)
      | None \<Rightarrow>
          (case verifySignerForStartClaim E service startClaim w of
             (Some err, w1) \<Rightarrow> (Returns (Inl err), w1)
           | (None, w1) \<Rightarrow>
               (case removeClaimedPayments service w1 of
                  (Inl err, w2) \<Rightarrow> (Returns (Inl err), w2)
                | (Inr _, w2) \<Rightarrow> beginClaimOnChannel E service (bytesToBigInt (claim_ChannelId startClaim)) w2)))"

section \<open>What removing claims does\<close>

text \<open>
  \<open>chain\<close> is the blockchain as the requests see it, a function of the channel id. A payment has been
  claimed there when the channel's nonce has moved past it.
\<close>

definition claimed_on_chain :: "(PaymentChannelKey \<Rightarrow> PaymentChannelData option result) \<Rightarrow> Payment \<Rightarrow> bool" where
  "claimed_on_chain chain p \<longleftrightarrow> (\<exists>c. chain (payment_key p) = Inr (Some c) \<and> ChannelNonce p < Nonce c)"

text \<open>Payments are stored under their own id.\<close>

definition payments_keyed :: "gob \<Rightarrow> (string \<Rightarrow> string option) \<Rightarrow> bool" where
  "payments_keyed G m \<longleftrightarrow> payments_wf G m \<and> (\<forall>i p. payment_table G m i = Some p \<longrightarrow> Payment_ID p = i)"

abbreviation claim_of :: "'w lockingPaymentChannelService \<Rightarrow> Payment \<Rightarrow> 'w claimImpl" where
  "claim_of h p \<equiv> \<lparr>claim_paymentStorage = paymentStorage h, claim_payment = p\<rparr>"

context payment_service
begin

lemma claimImpl_Finish_table:
  assumes "claimImpl_Finish (claim_of h p) w = (r, w')"
  shows "payment_table G (view w') i = payment_table G (view w) i \<or>
      i = Payment_ID p \<and> payment_table G (view w') i = None"
    and "payments_wf G (view w) \<Longrightarrow> payments_wf G (view w')"
proof -
  from assms have d: "PaymentStorage_Delete (NewPaymentStorage G st) p w = (r, w')"
    by (simp add: claimImpl_Finish_def h_simps)
  show "payment_table G (view w') i = payment_table G (view w) i \<or>
      i = Payment_ID p \<and> payment_table G (view w') i = None"
    using d payment_Delete_ok(1) [of p w w'] payment_Delete_err(1) [of p w _ w']
    by (cases r) (auto split: if_splits)
  show "payments_wf G (view w) \<Longrightarrow> payments_wf G (view w')"
    using d payment_Delete_ok(2) [of p w w'] payment_Delete_err(2) [of p w _ w'] by (cases r) auto
qed

lemma finishClaimed_frame:
  assumes "finishClaimed h (map (claim_of h) ps) w = (r, w')"
  shows "channel_table G (view w') = channel_table G (view w) \<and> lock_table (view w') = lock_table (view w) \<and>
    (payments_wf G (view w) \<longrightarrow> payments_wf G (view w'))"
  using assms
proof (induction ps arbitrary: w)
  case (Cons p ps)
  show ?case
  proof (cases "finishClaimed h (map (claim_of h) ps) w = (r, w')")
    case True
    then show ?thesis by (rule Cons.IH)
  next
    case False
    with Cons.prems consider (stop) "w' = w"
      | (err) e where "claimImpl_Finish (claim_of h p) w = (Inl e, w')"
      | (more) w1 u where "claimImpl_Finish (claim_of h p) w = (Inr u, w1)"
          "finishClaimed h (map (claim_of h) ps) w1 = (r, w')"
      by (auto simp: Let_def split: sum.splits option.splits if_splits prod.splits)
    then show ?thesis
    proof cases
      case stop
      then show ?thesis by simp
    next
      case err
      then show ?thesis using claimImpl_Finish_frame claimImpl_Finish_table(2) by auto
    next
      case (more w1 u)
      then show ?thesis
        using Cons.IH [OF more(2)] claimImpl_Finish_frame [OF more(1)] claimImpl_Finish_table(2) [OF more(1)] by auto
    qed
  qed
qed simp

lemma finishClaimed_table:
  assumes "finishClaimed h (map (claim_of h) ps) w = (r, w')"
    and "\<And>key w. GetChannelStateFromBlockchain (blockchainReader h) key w = chain key"
  shows "payment_table G (view w') i = payment_table G (view w) i \<or>
    payment_table G (view w') i = None \<and> (\<exists>p \<in> set ps. Payment_ID p = i \<and> claimed_on_chain chain p)"
  using assms(1)
proof (induction ps arbitrary: w)
  case (Cons p ps)
  show ?case
  proof (cases "claimed_on_chain chain p")
    case False
    with Cons.prems consider "w' = w" | "finishClaimed h (map (claim_of h) ps) w = (r, w')"
      by (auto simp: Let_def claimed_on_chain_def claimImpl_Payment_def PaymentChannelFromBlockChain_def assms(2)
          split: sum.splits option.splits if_splits)
    then show ?thesis using Cons.IH by cases auto
  next
    case True
    with Cons.prems consider e where "claimImpl_Finish (claim_of h p) w = (Inl e, w')"
      | w1 u where "claimImpl_Finish (claim_of h p) w = (Inr u, w1)" "finishClaimed h (map (claim_of h) ps) w1 = (r, w')"
      by (auto simp: Let_def claimed_on_chain_def claimImpl_Payment_def PaymentChannelFromBlockChain_def assms(2)
          split: sum.splits prod.splits)
    then show ?thesis
      using True Cons.IH claimImpl_Finish_table(1) [of p w _ _ i] by cases fastforce+
  qed
qed simp

lemma finishClaimed_all:
  assumes "finishClaimed h (map (claim_of h) ps) w = (Inr (), w')"
    and "\<And>key w. GetChannelStateFromBlockchain (blockchainReader h) key w = chain key"
    and "\<And>p. p \<in> set ps \<Longrightarrow> \<exists>c. chain (payment_key p) = Inr (Some c)"
  shows "payment_table G (view w') i =
    (if \<exists>p \<in> set ps. Payment_ID p = i \<and> claimed_on_chain chain p then None else payment_table G (view w) i)"
  using assms(1,3)
proof (induction ps arbitrary: w)
  case (Cons p ps)
  from Cons.prems(2) obtain c where c: "chain (payment_key p) = Inr (Some c)" by auto
  show ?case
  proof (cases "claimed_on_chain chain p")
    case False
    with Cons.prems c have "finishClaimed h (map (claim_of h) ps) w = (Inr (), w')"
      by (simp add: Let_def claimed_on_chain_def claimImpl_Payment_def PaymentChannelFromBlockChain_def assms(2))
    with False Cons.IH [of w] Cons.prems(2) show ?thesis by simp
  next
    case True
    with Cons.prems c obtain w1 where f: "claimImpl_Finish (claim_of h p) w = (Inr (), w1)"
      "finishClaimed h (map (claim_of h) ps) w1 = (Inr (), w')"
      by (auto simp: Let_def claimed_on_chain_def claimImpl_Payment_def PaymentChannelFromBlockChain_def assms(2)
          split: sum.splits prod.splits)
    with Cons.IH [of w1] Cons.prems(2) True claimImpl_Finish_ok [OF f(1)] show ?thesis by auto
  qed
qed simp

lemma ListClaims_ok:
  assumes "ListClaims h w = (Inr cs, w')" "payments_keyed G (view w)"
  obtains ps where "cs = map (claim_of h) ps" "view w' = view w"
    "set ps = ran (payment_table G (view w))" "distinct (map Payment_ID ps)"
proof -
  from assms(1) obtain ps where p: "PaymentStorage_GetAll (NewPaymentStorage G st) w = (Inr ps, w')"
    and cs: "cs = map (claim_of h) ps"
    by (auto simp: ListClaims_def h_simps split: sum.splits prod.splits)
  from payment_GetAll_ok [OF p] assms(2) obtain js where js: "distinct js"
    "set js = dom (payment_table G (view w))" "ps = map (\<lambda>i. the (payment_table G (view w) i)) js"
    by (auto simp: payments_keyed_def)
  from js(2) assms(2) have "Payment_ID (the (payment_table G (view w) i)) = i" if "i \<in> set js" for i
    using that by (auto simp: payments_keyed_def)
  then have "map Payment_ID ps = js" using js(3) by (simp add: map_idI)
  moreover have "set ps = ran (payment_table G (view w))"
    unfolding js(3) using js(2) by (force simp: ran_def dom_def image_iff)
  ultimately show ?thesis using that [of ps] cs payment_GetAll_view [OF p] js(1) by simp
qed

lemma removeClaimedPayments_cases:
  assumes "removeClaimedPayments service w = (r, w')" "channelService service = h" "payments_keyed G (view w)"
  obtains (failed) e where "r = Inl e" "view w' = view w"
  | (ran) ps w1 where "view w1 = view w" "set ps = ran (payment_table G (view w))"
      "finishClaimed h (map (claim_of h) ps) w1 = (r, w')"
proof (cases "ListClaims h w")
  case (Pair l w1)
  show ?thesis
  proof (cases l)
    case (Inl e)
    with Pair have "view w1 = view w"
      by (auto simp: ListClaims_def h_simps split: sum.splits prod.splits dest: payment_GetAll_view)
    with assms Pair Inl failed show ?thesis by (auto simp: removeClaimedPayments_def)
  next
    case (Inr cs)
    with Pair assms(3) obtain ps where "cs = map (claim_of h) ps" "view w1 = view w"
      "set ps = ran (payment_table G (view w))" by (auto elim: ListClaims_ok)
    with assms Pair Inr ran [of w1 ps] show ?thesis by (simp add: removeClaimedPayments_def)
  qed
qed

lemma removeClaimedPayments_frame:
  assumes "removeClaimedPayments service w = (r, w')" "channelService service = h" "payments_keyed G (view w)"
  shows "channel_table G (view w') = channel_table G (view w)" and "lock_table (view w') = lock_table (view w)"
proof -
  from assms have "channel_table G (view w') = channel_table G (view w) \<and> lock_table (view w') = lock_table (view w)"
    by (cases rule: removeClaimedPayments_cases) (auto dest!: finishClaimed_frame)
  then show "channel_table G (view w') = channel_table G (view w)" "lock_table (view w') = lock_table (view w)"
    by simp_all
qed

lemma removeClaimedPayments_table:
  assumes "removeClaimedPayments service w = (r, w')" "channelService service = h" "payments_keyed G (view w)"
    and "\<And>key w. GetChannelStateFromBlockchain (blockchainReader h) key w = chain key"
  shows "payment_table G (view w') i = payment_table G (view w) i \<or>
    payment_table G (view w') i = None \<and> (\<exists>p. payment_table G (view w) i = Some p \<and> claimed_on_chain chain p)"
  using assms(1-3)
proof (cases rule: removeClaimedPayments_cases)
  case (ran ps w1)
  have key: "payment_table G (view w) (Payment_ID p) = Some p" if "p \<in> set ps" for p
    using that ran(2) assms(3) by (auto simp: payments_keyed_def ran_def)
  from finishClaimed_table [OF ran(3) assms(4), of i] key ran(1) show ?thesis by auto
qed simp

lemma removeClaimedPayments_all:
  assumes "removeClaimedPayments service w = (Inr (), w')" "channelService service = h" "payments_keyed G (view w)"
    and "\<And>key w. GetChannelStateFromBlockchain (blockchainReader h) key w = chain key"
    and "\<And>p. p \<in> ran (payment_table G (view w)) \<Longrightarrow> \<exists>c. chain (payment_key p) = Inr (Some c)"
  shows "payment_table G (view w') i =
    (case payment_table G (view w) i of
       Some p \<Rightarrow> if claimed_on_chain chain p then None else Some p
     | None \<Rightarrow> None)"
  using assms(1-3)
proof (cases rule: removeClaimedPayments_cases)
  case (ran ps w1)
  have key: "payment_table G (view w) (Payment_ID p) = Some p" if "p \<in> set ps" for p
    using that ran(2) assms(3) by (auto simp: payments_keyed_def ran_def)
  have "p \<in> set ps" if "payment_table G (view w) i = Some p" for p
    using that ran(2) by (auto simp: ran_def)
  moreover have "\<And>p. p \<in> set ps \<Longrightarrow> \<exists>c. chain (payment_key p) = Inr (Some c)" using assms(5) ran(2) by simp
  ultimately show ?thesis
    using finishClaimed_all [OF ran(3) assms(4), of i] key ran(1) assms(3)
    by (force simp: payments_keyed_def split: option.splits)
qed simp

lemma beginClaimOnChannel_ok:
  assumes "beginClaimOnChannel E service channelId w = (Returns (Inr reply), w')" "channelService service = h"
    and "\<And>c. channel_table G (view w) \<lparr>ID = channelId\<rparr> = Some c \<Longrightarrow> channel_storable c"
  obtains c ch w1 where "channel_table G (view w) \<lparr>ID = channelId\<rparr> = Some c" "AuthorizedAmount c \<noteq> 0"
    "PaymentChannel h \<lparr>ID = channelId\<rparr> w = (Inr (Some ch), w1)" "Nonce ch = Nonce c"
    "channel_table G (view w') = (channel_table G (view w))(\<lparr>ID = channelId\<rparr> \<mapsto> IncrementChannelNonce c)"
    "payment_table G (view w') =
       (payment_table G (view w))(Payment_ID (getPaymentFromChannel c) \<mapsto> getPaymentFromChannel c)"
    "reply = (payment_reply E (getPaymentFromChannel c))\<lparr>reply_ChannelId := bigIntToBytes E channelId\<rparr>"
proof -
  let ?key = "\<lparr>ID = channelId\<rparr>"
  from assms(1,2) obtain ch w1 claim where p: "PaymentChannel h ?key w = (Inr (Some ch), w1)"
    and a: "Int64 (AuthorizedAmount ch) \<noteq> 0"
    and c: "StartClaim h ?key IncrementChannelNonce w1 = (Inr claim, w')"
    and reply: "reply = (payment_reply E (claim_payment claim))\<lparr>reply_ChannelId := bigIntToBytes E channelId\<rparr>"
    by (auto simp: beginClaimOnChannel_def Let_def payment_reply_def claimImpl_Payment_def
        split: prod.splits sum.splits option.splits if_splits)
  from a have a': "AuthorizedAmount ch \<noteq> 0" by (auto simp: Int64_eq_0_iff)
  have v: "view w1 = view w" using PaymentChannel_view [OF p] .
  have "channel_storable c \<and> channel_storable (IncrementChannelNonce c)" if "channel_table G (view w1) ?key = Some c" for c
    using that assms(3) v by (simp add: channel_storable_def IncrementChannelNonce_def)
  with c obtain c where c': "channel_table G (view w1) ?key = Some c"
    "claim = \<lparr>claim_paymentStorage = NewPaymentStorage G st, claim_payment = getPaymentFromChannel c\<rparr>"
    "channel_table G (view w') = (channel_table G (view w1))(?key \<mapsto> IncrementChannelNonce c)"
    "payment_table G (view w') =
       (payment_table G (view w1))(Payment_ID (getPaymentFromChannel c) \<mapsto> getPaymentFromChannel c)"
    by (rule StartClaim_ok)
  from p a' obtain c2 where "channel_table G (view w) ?key = Some c2" "AuthorizedAmount ch = AuthorizedAmount c2" "Nonce ch = Nonce c2"
    by (rule PaymentChannel_authorized)
  with a' show ?thesis using that [of c ch w1] c' p v reply by simp
qed

lemma verifySignerForStartClaim_ok:
  assumes "verifySignerForStartClaim E service req w = (None, w')" "channelService service = h"
  shows "view w' = view w"
    and "\<exists>x. PaymentChannel h \<lparr>ID = bytesToBigInt (claim_ChannelId req)\<rparr> w = (Inr x, w') \<and>
      (\<forall>ch. x = Some ch \<longrightarrow>
        getSignerAddressFromMessage E (start_claim_message E service (bytesToBigInt (claim_ChannelId req)) (Nonce ch))
          (claim_Signature req) = Inr (GetPaymentAddress (serviceMetaData service)))"
proof -
  from assms show *: "\<exists>x. PaymentChannel h \<lparr>ID = bytesToBigInt (claim_ChannelId req)\<rparr> w = (Inr x, w') \<and>
      (\<forall>ch. x = Some ch \<longrightarrow>
        getSignerAddressFromMessage E (start_claim_message E service (bytesToBigInt (claim_ChannelId req)) (Nonce ch))
          (claim_Signature req) = Inr (GetPaymentAddress (serviceMetaData service)))"
    by (auto simp: verifySignerForStartClaim_def Let_def verifySigner_def verifyPaymentAddress_def
        split: prod.splits sum.splits option.splits if_splits)
  then show "view w' = view w" by (auto dest: PaymentChannel_view)
qed

text \<open>
  A claim that the provider was granted. The nonce in the signed message is the one of the payment that
  is handed out, since the blockchain did not move during the request.
\<close>

lemma StartClaim_granted:
  assumes "ProviderControlService_StartClaim E service req w = (Returns (Inr reply), w')"
    and h: "channelService service = h" and keyed: "payments_keyed G (view w)"
    and chain: "\<And>key w. GetChannelStateFromBlockchain (blockchainReader h) key w = chain key"
    and "\<And>c. channel_table G (view w) \<lparr>ID = bytesToBigInt (claim_ChannelId req)\<rparr> = Some c \<Longrightarrow> channel_storable c"
  obtains c where "channel_table G (view w) \<lparr>ID = bytesToBigInt (claim_ChannelId req)\<rparr> = Some c" "AuthorizedAmount c \<noteq> 0"
    "claim_MpeAddress req = MpeAddress (serviceMetaData service)"
    "getSignerAddressFromMessage E (start_claim_message E service (bytesToBigInt (claim_ChannelId req)) (Nonce c))
       (claim_Signature req) = Inr (GetPaymentAddress (serviceMetaData service))"
    "channel_table G (view w') = (channel_table G (view w))
       (\<lparr>ID = bytesToBigInt (claim_ChannelId req)\<rparr> \<mapsto> IncrementChannelNonce c)"
    "payment_table G (view w') (Payment_ID (getPaymentFromChannel c)) = Some (getPaymentFromChannel c)"
    "reply = (payment_reply E (getPaymentFromChannel c))
       \<lparr>reply_ChannelId := bigIntToBytes E (bytesToBigInt (claim_ChannelId req))\<rparr>"
proof -
  let ?id = "bytesToBigInt (claim_ChannelId req)"
  from assms(1) obtain w1 w2 where mpe: "claim_MpeAddress req = MpeAddress (serviceMetaData service)"
    and v: "verifySignerForStartClaim E service req w = (None, w1)"
    and rm: "removeClaimedPayments service w1 = (Inr (), w2)"
    and b: "beginClaimOnChannel E service ?id w2 = (Returns (Inr reply), w')"
    by (auto simp: ProviderControlService_StartClaim_def checkMpeAddress_def
        split: option.splits prod.splits sum.splits if_splits)
  have view1: "view w1 = view w" by (rule verifySignerForStartClaim_ok(1) [OF v h])
  from removeClaimedPayments_frame(1) [OF rm h] keyed view1
  have t: "channel_table G (view w2) = channel_table G (view w)" by simp
  from b h obtain c ch w3 where c: "channel_table G (view w2) \<lparr>ID = ?id\<rparr> = Some c" "AuthorizedAmount c \<noteq> 0"
    "PaymentChannel h \<lparr>ID = ?id\<rparr> w2 = (Inr (Some ch), w3)" "Nonce ch = Nonce c"
    "channel_table G (view w') = (channel_table G (view w2))(\<lparr>ID = ?id\<rparr> \<mapsto> IncrementChannelNonce c)"
    "payment_table G (view w') =
       (payment_table G (view w2))(Payment_ID (getPaymentFromChannel c) \<mapsto> getPaymentFromChannel c)"
    "reply = (payment_reply E (getPaymentFromChannel c))\<lparr>reply_ChannelId := bigIntToBytes E ?id\<rparr>"
    by (rule beginClaimOnChannel_ok) (use assms(5) t in simp)
  from verifySignerForStartClaim_ok(2) [OF v h] obtain x where x: "PaymentChannel h \<lparr>ID = ?id\<rparr> w = (Inr x, w1)"
    "\<And>ch. x = Some ch \<Longrightarrow> getSignerAddressFromMessage E (start_claim_message E service ?id (Nonce ch))
       (claim_Signature req) = Inr (GetPaymentAddress (serviceMetaData service))" by blast
  have "x = Some ch"
    using PaymentChannel_latest [OF x(1)] PaymentChannel_latest [OF c(3)] t by (simp add: chain)
  with x(2) c t mpe show ?thesis by (intro that [of c]) simp_all
qed

end

end
