(* ===== verification/Transactions.thy ===== *)
theory Transactions
  imports EscrowService
begin

text \<open>
  The service under concurrent requests. A state is the shared world and the payment transactions that
  were started and not yet finished (each call that is being served has one). The steps are the
  operations of \<^verbatim>\<open>lockingPaymentChannelService\<close>, run by any replica in any order, and steps of the
  environment that leave the storage alone (the blockchain moves on). \<open>U\<close> is the set of updates that
  claims are started with; the daemon uses \<open>IncrementChannelNonce\<close>. With each open transaction the
  state records what the channel table held when it was started.

  The invariant says that open transactions are of different channels, hold their locks, and that
  their channels have not been written since: a commit overwrites exactly the state it was validated
  against.
\<close>

record 'w escrow_sys =
  sys_world :: 'w
  sys_open :: "('w paymentTransaction \<times> PaymentChannelData option) list"

inductive escrow_step ::
  "go_ethereum \<Rightarrow> 'w lockingPaymentChannelService \<Rightarrow> ('w \<Rightarrow> PaymentChannelKey \<Rightarrow> PaymentChannelData option) \<Rightarrow>
   ('w \<Rightarrow> 'w \<Rightarrow> bool) \<Rightarrow> ChannelUpdate set \<Rightarrow> 'w escrow_sys \<Rightarrow> 'w escrow_sys \<Rightarrow> bool"
  for E h stored env U where
  start: "StartPaymentTransaction E h p (sys_world s) = (Inr tx, w') \<Longrightarrow>
    escrow_step E h stored env U s
      \<lparr>sys_world = w', sys_open = (tx, stored (sys_world s) (payment_key p)) # sys_open s\<rparr>"
| start_failed: "StartPaymentTransaction E h p (sys_world s) = (Inl e, w') \<Longrightarrow>
    escrow_step E h stored env U s (s\<lparr>sys_world := w'\<rparr>)"
| commit: "sys_open s = xs @ (tx, c) # ys \<Longrightarrow> Commit tx (sys_world s) = (r, w') \<Longrightarrow>
    escrow_step E h stored env U s \<lparr>sys_world = w', sys_open = xs @ ys\<rparr>"
| rollback: "sys_open s = xs @ (tx, c) # ys \<Longrightarrow> Rollback tx (sys_world s) = (r, w') \<Longrightarrow>
    escrow_step E h stored env U s \<lparr>sys_world = w', sys_open = xs @ ys\<rparr>"
| claim: "update \<in> U \<Longrightarrow> StartClaim h key update (sys_world s) = (r', w') \<Longrightarrow>
    escrow_step E h stored env U s (s\<lparr>sys_world := w'\<rparr>)"
| finish: "claimImpl_Finish \<lparr>claim_paymentStorage = paymentStorage h, claim_payment = p\<rparr> (sys_world s) = (r, w') \<Longrightarrow>
    escrow_step E h stored env U s (s\<lparr>sys_world := w'\<rparr>)"
| environment: "env (sys_world s) w' \<Longrightarrow> escrow_step E h stored env U s (s\<lparr>sys_world := w'\<rparr>)"

inductive escrow_reachable ::
  "go_ethereum \<Rightarrow> 'w lockingPaymentChannelService \<Rightarrow> ('w \<Rightarrow> PaymentChannelKey \<Rightarrow> PaymentChannelData option) \<Rightarrow>
   ('w \<Rightarrow> 'w \<Rightarrow> bool) \<Rightarrow> ChannelUpdate set \<Rightarrow> 'w escrow_sys \<Rightarrow> 'w escrow_sys \<Rightarrow> bool"
  for E h stored env U s0 where
  initial: "escrow_reachable E h stored env U s0 s0"
| step: "escrow_reachable E h stored env U s0 s \<Longrightarrow> escrow_step E h stored env U s t \<Longrightarrow>
    escrow_reachable E h stored env U s0 t"

abbreviation open_key :: "'w paymentTransaction \<times> PaymentChannelData option \<Rightarrow> PaymentChannelKey" where
  "open_key x \<equiv> payment_key (tx_payment (fst x))"

definition open_ok ::
  "go_ethereum \<Rightarrow> 'w AtomicStorage \<Rightarrow> gob \<Rightarrow> 'w lockingPaymentChannelService \<Rightarrow> (string \<Rightarrow> string option) \<Rightarrow>
   'w paymentTransaction \<times> PaymentChannelData option \<Rightarrow> bool" where
  "open_ok E st G h m x \<longleftrightarrow> transaction_of st h (fst x) \<and>
     lock_table m (PaymentChannelKey_String (open_key x)) = Some locked \<and>
     channel_table G m (open_key x) = snd x \<and>
     (\<exists>w. latest_channel (fst (replicaGroupID h)) (snd x)
          (GetChannelStateFromBlockchain (blockchainReader h) (open_key x) w) = Inr (Some (tx_channel (fst x))) \<and>
        ChannelPaymentValidator_Validate E (validator h) (tx_payment (fst x)) (tx_channel (fst x)) w = None)"

definition escrow_inv ::
  "go_ethereum \<Rightarrow> 'w AtomicStorage \<Rightarrow> ('w \<Rightarrow> string \<Rightarrow> string option) \<Rightarrow> gob \<Rightarrow> 'w lockingPaymentChannelService \<Rightarrow>
   'w escrow_sys \<Rightarrow> bool" where
  "escrow_inv E st view G h s \<longleftrightarrow> distinct (map open_key (sys_open s)) \<and>
     (\<forall>x \<in> set (sys_open s). open_ok E st G h (view (sys_world s)) x)"

lemma open_ok_cong:
  assumes "lock_table m' (PaymentChannelKey_String (open_key x)) = lock_table m (PaymentChannelKey_String (open_key x))"
    and "channel_table G m' (open_key x) = channel_table G m (open_key x)"
  shows "open_ok E st G h m' x = open_ok E st G h m x"
  using assms by (simp add: open_ok_def)

lemma open_ok_not_free: "open_ok E st G h m x \<Longrightarrow> \<not> lock_free m (PaymentChannelKey_String (open_key x))"
  by (auto simp: open_ok_def lock_free_def)

lemma open_ok_lock_upd:
  "open_ok E st G h m x \<Longrightarrow> lock_free m (PaymentChannelKey_String key) \<Longrightarrow> open_ok E st G h (m(channel_lock key := y)) x"
  using open_ok_not_free [of E st G h m x] by (cases "key = open_key x") (auto simp: open_ok_def)

definition solvent :: "PaymentChannelData \<Rightarrow> bool" where
  "solvent c \<longleftrightarrow> AuthorizedAmount c \<le> FullAmount c"

definition sys_solvent :: "gob \<Rightarrow> ('w \<Rightarrow> string \<Rightarrow> string option) \<Rightarrow> 'w escrow_sys \<Rightarrow> bool" where
  "sys_solvent G view s \<longleftrightarrow>
     (\<forall>key c. channel_table G (view (sys_world s)) key = Some c \<longrightarrow> solvent c) \<and>
     (\<forall>x \<in> set (sys_open s). Amount (tx_payment (fst x)) \<le> FullAmount (tx_channel (fst x)))"

context payment_service
begin

lemma escrow_step_inv:
  assumes "escrow_step E h (\<lambda>w. channel_table G (view w)) (\<lambda>w w'. view w' = view w) U s t"
    and "escrow_inv E st view G h s"
  shows "escrow_inv E st view G h t"
  using assms
proof (induction rule: escrow_step.induct)
  case (start p s tx w')
  from start(1) obtain w1 where free: "lock_free (view (sys_world s)) (PaymentChannelKey_String (payment_key p))"
    and v: "view w1 = (view (sys_world s))(channel_lock (payment_key p) \<mapsto> locked)" "view w' = view w1"
    and c: "PaymentChannel h (payment_key p) w1 = (Inr (Some (tx_channel tx)), w')"
    and val: "ChannelPaymentValidator_Validate E (validator h) p (tx_channel tx) w' = None" and tx: "tx_payment tx = p"
    by (rule StartPaymentTransaction_cases)
  have new: "open_ok E st G h (view w') (tx, channel_table G (view (sys_world s)) (payment_key p))"
    using StartPaymentTransaction_tx_of [OF start(1)] PaymentChannel_latest [OF c] val
    by (auto simp: open_ok_def v tx)
  have old: "open_ok E st G h (view w') x \<and> open_key x \<noteq> payment_key p" if "x \<in> set (sys_open s)" for x
  proof -
    from that start(2) have x: "open_ok E st G h (view (sys_world s)) x" by (simp add: escrow_inv_def)
    with free have "open_key x \<noteq> payment_key p" using open_ok_not_free by metis
    moreover from x free have "open_ok E st G h (view w') x" unfolding v by (rule open_ok_lock_upd)
    ultimately show ?thesis by simp
  qed
  have "payment_key p \<notin> open_key ` set (sys_open s)"
  proof
    assume "payment_key p \<in> open_key ` set (sys_open s)"
    then obtain x where "payment_key p = open_key x" "x \<in> set (sys_open s)" by (rule imageE)
    with old [of x] show False by simp
  qed
  with start(2) new old tx show ?case by (simp add: escrow_inv_def)
next
  case (start_failed p s e w')
  have "open_ok E st G h (view w') x" if "x \<in> set (sys_open s)" for x
  proof -
    from that start_failed(2) have "open_ok E st G h (view (sys_world s)) x" by (simp add: escrow_inv_def)
    with StartPaymentTransaction_err [OF start_failed(1)] show ?thesis
      by (elim disjE conjE exE) (simp_all add: open_ok_lock_upd)
  qed
  with start_failed(2) show ?case by (simp add: escrow_inv_def)
next
  case (commit s xs tx c ys r w')
  from commit(1,3) have "distinct (map open_key (xs @ (tx, c) # ys))" by (simp add: escrow_inv_def)
  then have d: "open_key x \<noteq> payment_key (tx_payment tx)" if "x \<in> set (xs @ ys)" for x
    using distinct_map_removed [OF _ that, of open_key "(tx, c)"] by simp
  have tx: "transaction_of st h tx" using commit(1,3) by (auto simp: escrow_inv_def open_ok_def)
  have "open_ok E st G h (view w') x = open_ok E st G h (view (sys_world s)) x" if "x \<in> set (xs @ ys)" for x
    using d [OF that] Commit_frame [OF commit(2) tx] by (intro open_ok_cong) simp_all
  with commit(1,3) show ?case by (auto simp: escrow_inv_def)
next
  case (rollback s xs tx c ys r w')
  from rollback(1,3) have "distinct (map open_key (xs @ (tx, c) # ys))" by (simp add: escrow_inv_def)
  then have d: "open_key x \<noteq> payment_key (tx_payment tx)" if "x \<in> set (xs @ ys)" for x
    using distinct_map_removed [OF _ that, of open_key "(tx, c)"] by simp
  have tx: "transaction_of st h tx" using rollback(1,3) by (auto simp: escrow_inv_def open_ok_def)
  have "open_ok E st G h (view w') x = open_ok E st G h (view (sys_world s)) x" if "x \<in> set (xs @ ys)" for x
    using d [OF that] Rollback_frame [OF rollback(2) tx] by (intro open_ok_cong) simp_all
  with rollback(1,3) show ?case by (auto simp: escrow_inv_def)
next
  case (claim update key s r w')
  have "open_ok E st G h (view w') x" if "x \<in> set (sys_open s)" for x
  proof -
    from that claim(3) have x: "open_ok E st G h (view (sys_world s)) x" by (simp add: escrow_inv_def)
    show ?thesis
    proof (cases "open_key x = key")
      case True
      with x have "\<not> lock_free (view (sys_world s)) (PaymentChannelKey_String key)"
        using open_ok_not_free by blast
      with claim(2) have "view w' = view (sys_world s)" by (auto elim: StartClaim_lock_cases)
      with x show ?thesis by simp
    next
      case False
      then have "open_ok E st G h (view w') x = open_ok E st G h (view (sys_world s)) x"
        using StartClaim_other_channel [OF claim(2)] by (intro open_ok_cong) simp_all
      with x show ?thesis by simp
    qed
  qed
  with claim(3) show ?case by (simp add: escrow_inv_def)
next
  case (finish p s r w')
  have "open_ok E st G h (view w') x = open_ok E st G h (view (sys_world s)) x" for x
    using claimImpl_Finish_frame [OF finish(1)] by (intro open_ok_cong) simp_all
  with finish(2) show ?case by (simp add: escrow_inv_def)
next
  case (environment s w')
  then show ?case by (simp add: escrow_inv_def)
qed

lemma escrow_reachable_inv:
  assumes "escrow_reachable E h (\<lambda>w. channel_table G (view w)) (\<lambda>w w'. view w' = view w) U s0 s" "sys_open s0 = []"
  shows "escrow_inv E st view G h s"
  using assms
proof (induction rule: escrow_reachable.induct)
  case initial
  then show ?case by (simp add: escrow_inv_def)
next
  case (step s t)
  then show ?case using escrow_step_inv by blast
qed

section \<open>Solvency\<close>

text \<open>
  What the provider may claim is covered: in every channel of the table the authorised amount is at most
  the full amount, and this stays so whichever operations fail half way.
\<close>

lemma escrow_step_solvent:
  assumes "escrow_step E h (\<lambda>w. channel_table G (view w)) (\<lambda>w w'. view w' = view w) {IncrementChannelNonce} s t"
    and "escrow_inv E st view G h s" "sys_solvent G view s"
  shows "sys_solvent G view t"
  using assms
proof (induction rule: escrow_step.induct)
  case (start p s tx w')
  from start(1) obtain w1 where v: "view w' = (view (sys_world s))(channel_lock (payment_key p) \<mapsto> locked)"
    and tx: "tx_payment tx = p" "ChannelPaymentValidator_Validate E (validator h) p (tx_channel tx) w' = None"
    by (elim StartPaymentTransaction_cases) auto
  with start(3) show ?case by (simp add: sys_solvent_def Validate_ok_iff solvent_def)
next
  case (start_failed p s e w')
  then show ?case using StartPaymentTransaction_err [OF start_failed(1)] by (auto simp: sys_solvent_def)
next
  case (commit s xs tx c ys r w')
  have tx: "transaction_of st h tx" using commit(1,3) by (auto simp: escrow_inv_def open_ok_def)
  have "solvent (committed_channel tx)"
    using commit(1,4) by (simp add: sys_solvent_def solvent_def committed_channel_def)
  with commit(1,4) Commit_table [OF commit(2) tx] show ?case by (auto simp: sys_solvent_def split: if_splits)
next
  case (rollback s xs tx c ys r w')
  have tx: "transaction_of st h tx" using rollback(1,3) by (auto simp: escrow_inv_def open_ok_def)
  from rollback(1,4) Rollback_frame(1) [OF rollback(2) tx] show ?case by (auto simp: sys_solvent_def)
next
  case (claim update key s r w')
  then have "channel_storable (update c) \<and> solvent (update c)" if "channel_table G (view (sys_world s)) key = Some c" for c
    using that by (auto simp: sys_solvent_def solvent_def channel_storable_def IncrementChannelNonce_def)
  with StartClaim_table [OF claim(2)] claim(4) show ?case by (auto simp: sys_solvent_def split: if_splits)
next
  case (finish p s r w')
  then show ?case using claimImpl_Finish_frame(1) [OF finish(1)] by (simp add: sys_solvent_def)
next
  case (environment s w')
  then show ?case by (simp add: sys_solvent_def)
qed

lemma escrow_reachable_solvent:
  assumes "escrow_reachable E h (\<lambda>w. channel_table G (view w)) (\<lambda>w w'. view w' = view w) {IncrementChannelNonce} s0 s"
    and "sys_open s0 = []" "\<And>key c. channel_table G (view (sys_world s0)) key = Some c \<Longrightarrow> solvent c"
  shows "sys_solvent G view s"
  using assms
proof (induction rule: escrow_reachable.induct)
  case initial
  then show ?case by (simp add: sys_solvent_def)
next
  case (step s t)
  from step(1,4) have "escrow_inv E st view G h s" by (rule escrow_reachable_inv)
  with step escrow_step_solvent show ?case by blast
qed

end

end
