(* ===== verification/Deployment.thy ===== *)
theory Deployment
  imports MemoryStorage PaymentHandler ControlService Transactions "HOL-Library.Code_Target_Nat"
begin

text \<open>
  The daemon with the storage type \<^verbatim>\<open>memory\<close>: the contracts of the development hold together on the
  model's own storage. gob and go-ethereum are not part of the repository; here they are concrete
  executable functions that keep the laws the development asks of them, so that the locales are
  interpreted and the operations can be run on examples.
\<close>

section \<open>A codec\<close>

text \<open>Values as lists of numbers, each in decimal and ended by a comma.\<close>

definition enc_ints :: "int list \<Rightarrow> string" where
  "enc_ints xs = concat (map (\<lambda>x. show_int x @ '','') xs)"

fun tokens :: "string \<Rightarrow> string \<Rightarrow> string list" where
  "tokens acc [] = []"
| "tokens acc (c # cs) = (if c = CHR '','' then rev acc # tokens [] cs else tokens (c # acc) cs)"

definition dec_ints :: "string \<Rightarrow> int list option" where
  "dec_ints s = those (map UnmarshalText (tokens [] s))"

lemma tokens_append: "CHR '','' \<notin> set t \<Longrightarrow> tokens acc (t @ CHR '','' # cs) = (rev acc @ t) # tokens [] cs"
  by (induction t arbitrary: acc) auto

lemma dec_enc_ints [simp]: "dec_ints (enc_ints xs) = Some xs"
  by (induction xs) (simp_all add: dec_ints_def enc_ints_def tokens_append UnmarshalText_show_int)

lemma enc_ints_inject [simp]: "enc_ints xs = enc_ints ys \<longleftrightarrow> xs = ys"
  by (metis dec_enc_ints option.inject)

definition slice_ints :: "slice \<Rightarrow> int list" where
  "slice_ints s = (case s of None \<Rightarrow> [0] | Some bs \<Rightarrow> 1 # map uint bs)"

fun ints_slice :: "int list \<Rightarrow> slice" where
  "ints_slice (x # xs) = (if x = 0 then None else Some (map word_of_int xs))"
| "ints_slice [] = None"

lemma ints_slice_ints [simp]: "ints_slice (slice_ints s) = s"
  by (cases s) (simp_all add: slice_ints_def o_def)

definition channel_ints :: "PaymentChannelData \<Rightarrow> int list" where
  "channel_ints c =
     [ChannelID c, Nonce c, if State c = Open then 0 else 1, uint (Sender c), uint (Recipient c), uint (GroupID c),
      FullAmount c, Expiration c, uint (Signer c), AuthorizedAmount c] @ slice_ints (Signature c)"

fun ints_channel :: "int list \<Rightarrow> PaymentChannelData option" where
  "ints_channel (i # n # s # sn # r # g # f # e # sg # a # xs) =
     Some \<lparr>ChannelID = i, Nonce = n, State = (if s = 0 then Open else Closed), Sender = word_of_int sn,
           Recipient = word_of_int r, GroupID = word_of_int g, FullAmount = f, Expiration = e,
           Signer = word_of_int sg, AuthorizedAmount = a, Signature = ints_slice xs\<rparr>"
| "ints_channel _ = None"

definition payment_ints :: "Payment \<Rightarrow> int list" where
  "payment_ints p =
     [uint (MpeContractAddress p), payment_ChannelID p, ChannelNonce p, Amount p] @ slice_ints (payment_Signature p)"

fun ints_payment :: "int list \<Rightarrow> Payment option" where
  "ints_payment (m # i # n # a # xs) =
     Some \<lparr>MpeContractAddress = word_of_int m, payment_ChannelID = i, ChannelNonce = n, Amount = a,
           payment_Signature = ints_slice xs\<rparr>"
| "ints_payment _ = None"

lemma ints_channel_ints [simp]: "ints_channel (channel_ints c) = Some c"
proof -
  have "(if (if State c = Open then 0 else 1 :: int) = 0 then Open else Closed) = State c"
    by (cases "State c") simp_all
  then show ?thesis by (simp add: channel_ints_def)
qed

lemma ints_payment_ints [simp]: "ints_payment (payment_ints p) = Some p"
  by (simp add: payment_ints_def)

definition decoded :: "(int list \<Rightarrow> 'a option) \<Rightarrow> string \<Rightarrow> 'a result" where
  "decoded f s = (case Option.bind (dec_ints s) f of None \<Rightarrow> Inl (errors_New ''decode'') | Some x \<Rightarrow> Inr x)"

definition ints_gob :: gob where
  "ints_gob =
     \<lparr>serialize_key = (\<lambda>k. Inr (show_int (ID k))),
      serialize_id = Inr,
      serialize_channel = (\<lambda>c. Inr (enc_ints (channel_ints c))),
      deserialize_channel = decoded ints_channel,
      serialize_payment = (\<lambda>p. Inr (enc_ints (payment_ints p))),
      deserialize_payment = decoded ints_payment\<rparr>"

interpretation ints: gob_codec ints_gob
  by unfold_locales (auto simp: ints_gob_def decoded_def)

section \<open>The storage and the service\<close>

interpretation memory: escrow_storage "memory_AtomicStorage key_order" memory_view ints_gob
  by (intro escrow_storage.intro by_key.mem.atomic_storage_axioms ints.gob_codec_axioms)

definition memory_service ::
  "memoryStorage BlockchainChannelReader \<Rightarrow> memoryStorage ChannelPaymentValidator \<Rightarrow> bytes32 \<Rightarrow>
   memoryStorage lockingPaymentChannelService" where
  "memory_service reader val gid =
     NewPaymentChannelService (NewPaymentChannelStorage ints_gob (memory_AtomicStorage key_order))
       (NewPaymentStorage ints_gob (memory_AtomicStorage key_order)) reader
       (NewEtcdLocker (memory_AtomicStorage key_order)) val (gid, None)"

lemma memory_payment_service:
  "payment_service (memory_AtomicStorage key_order) memory_view ints_gob (memory_service reader val gid)"
  by (intro payment_service.intro payment_service_axioms.intro memory.escrow_storage_axioms)
    (simp_all add: memory_service_def NewPaymentChannelService_def)

interpretation memory_svc: payment_service "memory_AtomicStorage key_order" memory_view ints_gob
    "memory_service reader val gid" for reader val gid
  by (rule memory_payment_service)

interpretation memory_handler: payment_handler
    "NewPaymentHandler E md_Get (memory_service reader val gid) addr income"
    "\<lambda>w. channel_table ints_gob (memory_view w)"
    "tx_accepted E md_Get \<lparr>service = memory_service reader val gid, mpeContractAddress = addr,
       handler_incomeValidator = income\<rparr> memory_view"
    "tx_reserved (memory_AtomicStorage key_order) memory_view (memory_service reader val gid)"
    "\<lambda>tx m. m(payment_key (tx_payment tx) \<mapsto> committed_channel tx)"
  for E md_Get reader val gid addr income
  by (rule memory_svc.paymentHandler_contract)

section \<open>A sample configuration\<close>

text \<open>
  A stand-in for go-ethereum in which the signer of a message is named by two bytes of the signature, a blockchain with one channel (id 1, value 100) and a price of 3.
\<close>

definition sample_eth :: go_ethereum where
  "sample_eth =
     \<lparr>Keccak256 = concat, SigToPub = (\<lambda>_ sig. Inr (drop 62 (take 64 sig))),
      PubkeyToAddress = (\<lambda>k. word_of_nat (of_be_bytes k)), BigToHash = (\<lambda>n. word_of_int \<bar>n\<bar>),
      FromHex = string_bytes, BytesToAddress = (\<lambda>b. word_of_nat (of_be_bytes b)),
      common_HexToAddress = (\<lambda>s. word_of_nat (of_be_bytes (string_bytes s))),
      abi_U256 = (\<lambda>n. be_bytes 32 (nat (n mod 2 ^ 256)))\<rparr>"

definition sample_signature :: "nat \<Rightarrow> bytes" where
  "sample_signature signer = replicate 62 0 @ be_bytes 2 signer @ [27]"

definition sample_onchain :: MultiPartyEscrowChannel where
  "sample_onchain = \<lparr>mpe_Sender = 5, mpe_Recipient = 6, mpe_GroupId = 9, mpe_Value = 100, mpe_Nonce = 0,
     mpe_Expiration = 1000, mpe_Signer = 7\<rparr>"

definition sample_reader :: "memoryStorage BlockchainChannelReader" where
  "sample_reader =
     \<lparr>readChannelFromBlockchain = Processor_MultiPartyEscrowChannel
        (\<lambda>i w. Inr (if i = 1 then sample_onchain else sample_onchain\<lparr>mpe_Sender := 0\<rparr>)),
      reader_recipientPaymentAddress = 6\<rparr>"

definition sample_validator :: "memoryStorage ChannelPaymentValidator" where
  "sample_validator = \<lparr>currentBlock = (\<lambda>w. Inr 10), paymentExpirationThreshold = 5\<rparr>"

definition sample_service :: "memoryStorage lockingPaymentChannelService" where
  "sample_service = memory_service sample_reader sample_validator 9"

definition sample_md_Get :: "MD \<Rightarrow> string \<Rightarrow> string list" where
  "sample_md_Get md key = (case md key of None \<Rightarrow> [] | Some vs \<Rightarrow> vs)"

definition sample_md :: "int \<Rightarrow> int \<Rightarrow> int \<Rightarrow> MD" where
  "sample_md i n a =
     [PaymentChannelIDHeader \<mapsto> [show_int i], PaymentChannelNonceHeader \<mapsto> [show_int n],
      PaymentChannelAmountHeader \<mapsto> [show_int a],
      PaymentChannelSignatureHeader \<mapsto> [map (\<lambda>b. char_of (unat b)) (sample_signature 7)]]"

definition sample_handler :: "(memoryStorage, memoryStorage paymentTransaction) PaymentHandler" where
  "sample_handler = NewPaymentHandler sample_eth sample_md_Get sample_service 11 (NewIncomeValidator 3)"

definition sample_call ::
  "MD \<Rightarrow> error option go \<Rightarrow> memoryStorage \<Rightarrow> error option go \<times> memoryStorage" where
  "sample_call md outcome =
     paymentValidationInterceptor_intercept (GrpcPaymentValidationInterceptor sample_handler []) (Some md) ''call''
       (\<lambda>w. (outcome, w))"

lemma sample_payment_service:
  "payment_service (memory_AtomicStorage key_order) memory_view ints_gob sample_service"
  unfolding sample_service_def by (rule memory_payment_service)

lemma memory_reliable: "reliable (memory_AtomicStorage key_order)"
  by (auto simp: reliable_def memory_AtomicStorage_def memoryStorage_defs split: option.splits)

text \<open>One paid call, step by step.\<close>

definition sample_payment :: Payment where
  "sample_payment = \<lparr>MpeContractAddress = 11, payment_ChannelID = 1, ChannelNonce = 0, Amount = 3,
     payment_Signature = Some (sample_signature 7)\<rparr>"

lemma sample_signer: "getSignerAddressFromMessage sample_eth m (sample_signature 7) = Inr 7"
proof -
  have "length (sample_signature 7) = 65" by code_simp
  moreover have "PubkeyToAddress sample_eth (drop 62 (take 64 (sample_signature 7))) = 7" by code_simp
  ultimately show ?thesis
    by (simp add: getSignerAddressFromMessage_def ParseSignature_def Let_def sample_eth_def)
qed

lemma sample_parse: "getPaymentFromContext sample_md_Get \<lparr>service = h, mpeContractAddress = 11, handler_incomeValidator = v\<rparr>
   \<lparr>context_MD = sample_md 1 0 3, context_Info = i\<rparr> = Inr sample_payment"
proof -
  have "string_bytes (map (\<lambda>b. char_of (unat b)) (sample_signature 7)) = sample_signature 7" by code_simp
  then show ?thesis
  by (simp add: getPaymentFromContext_def GetBigInt_def GetBytes_def GetSingleValue_def Let_def sample_md_Get_def sample_md_def sample_payment_def UnmarshalText_show_int
    PaymentChannelIDHeader_def PaymentChannelNonceHeader_def PaymentChannelAmountHeader_def PaymentChannelSignatureHeader_def suffix_def)
qed

definition sample_channel :: PaymentChannelData where
  "sample_channel = \<lparr>ChannelID = 1, Nonce = 0, State = Open, Sender = 5, Recipient = 6, GroupID = 9,
     FullAmount = 100, Expiration = 1000, Signer = 7, AuthorizedAmount = 0, Signature = None\<rparr>"

lemma sample_from_chain:
  "GetChannelStateFromBlockchain sample_reader \<lparr>ID = i\<rparr> w = Inr (if i = 1 then Some sample_channel else None)"
  by (simp add: GetChannelStateFromBlockchain_def sample_reader_def Processor_MultiPartyEscrowChannel_def zeroAddress_def
    sample_onchain_def sample_channel_def)

lemma sample_from_chain':
  "GetChannelStateFromBlockchain sample_reader key w = Inr (if ID key = 1 then Some sample_channel else None)"
  by (cases key) (simp add: sample_from_chain)

lemma sample_signature_nonempty [simp]: "sample_signature n \<noteq> []"
  by (simp add: sample_signature_def)

lemmas storage_run_defs = PaymentChannelStorage_defs PaymentStorage_defs
  TypedAtomicStorageImpl_Get_def TypedAtomicStorageImpl_Put_def TypedAtomicStorageImpl_Delete_def
  as_AtomicStorage_def PrefixedAtomicStorage_defs memory_AtomicStorage_def memoryStorage_defs
  etcdLocker_Lock_def etcdLocker_acquire_def lockType_Unlock_def NewEtcdLocker_def NewLockerStorage_def
  
lemma sample_service_simps [simp]:
  "storage sample_service = NewPaymentChannelStorage ints_gob (memory_AtomicStorage key_order)"
  "paymentStorage sample_service = NewPaymentStorage ints_gob (memory_AtomicStorage key_order)"
  "service_locker sample_service = NewEtcdLocker (memory_AtomicStorage key_order)"
  "blockchainReader sample_service = sample_reader"
  "validator sample_service = sample_validator"
  "replicaGroupID sample_service = (9, None)"
  by (simp_all add: sample_service_def memory_service_def NewPaymentChannelService_def)

definition sample_tx :: "memoryStorage paymentTransaction" where
  "sample_tx = \<lparr>tx_payment = sample_payment, tx_channel = sample_channel, tx_service = sample_service,
    tx_lock = \<lparr>lock_name = PaymentChannelKey_String \<lparr>ID = 1\<rparr>, lock_locker = NewEtcdLocker (memory_AtomicStorage key_order)\<rparr>\<rparr>"

definition sample_locked :: memoryStorage where
  "sample_locked = \<lparr>data = fmupd (lock_key (PaymentChannelKey_String \<lparr>ID = 1\<rparr>)) locked fmempty\<rparr>"

lemma sample_validate: "ChannelPaymentValidator_Validate sample_eth sample_validator sample_payment sample_channel w = None"
  by (simp add: Validate_ok_iff sample_payment_def sample_channel_def sample_validator_def getSignerAddressFromPayment_def
     slice_bytes_def sample_signer)

lemma key_disjoint [simp]:
  "channel_prefix @ CHR ''/'' # s \<noteq> lock_key n" "lock_key n \<noteq> channel_prefix @ CHR ''/'' # s"
  by (simp_all add: channel_prefix_def lock_prefix_def)

lemma sample_fields [simp]:
  "payment_ChannelID sample_payment = 1" "ChannelNonce sample_payment = 0" "GroupID sample_channel = 9" "Amount sample_payment = 3"
  "AuthorizedAmount sample_channel = 0" "payment_Signature sample_payment = Some (sample_signature 7)"
  by (simp_all add: sample_payment_def sample_channel_def)

lemma sample_start: "StartPaymentTransaction sample_eth sample_service sample_payment NewMemStorage = (Inr sample_tx, sample_locked)"
  by (simp add: StartPaymentTransaction_def StartPaymentTransaction_locked_def PaymentChannel_def Let_def verifyGroupId_def
   storage_run_defs NewMemStorage_def ints_gob_def sample_from_chain sample_validate sample_tx_def sample_locked_def)

definition sample_charged :: memoryStorage where
  "sample_charged = \<lparr>data = fmupd (lock_key (PaymentChannelKey_String \<lparr>ID = 1\<rparr>)) unlocked
     (fmupd (channel_prefix @ CHR ''/'' # show_int 1)
        (enc_ints (channel_ints (sample_channel\<lparr>AuthorizedAmount := 3, Signature := Some (sample_signature 7)\<rparr>)))
        (fmupd (lock_key (PaymentChannelKey_String \<lparr>ID = 1\<rparr>)) locked fmempty))\<rparr>"

lemma sample_committed: "committed_channel sample_tx = sample_channel\<lparr>AuthorizedAmount := 3, Signature := Some (sample_signature 7)\<rparr>"
  by (simp add: committed_channel_def sample_tx_def sample_channel_def sample_payment_def)

lemma sample_commit: "Commit sample_tx sample_locked = (Inr (), sample_charged)"
  unfolding Commit_def sample_committed
  by (simp add: storage_run_defs ints_gob_def sample_tx_def sample_locked_def sample_charged_def)

lemma sample_rollback: "Rollback sample_tx sample_locked =
   (Inr (), sample_locked\<lparr>data := fmupd (lock_key (PaymentChannelKey_String \<lparr>ID = 1\<rparr>)) unlocked (data sample_locked)\<rparr>)"
  by (simp add: Rollback_def storage_run_defs sample_tx_def sample_locked_def)

lemma sample_call_start:
  "handler_Payment sample_handler \<lparr>context_MD = sample_md 1 0 3, context_Info = i\<rparr> NewMemStorage = (Inr sample_tx, sample_locked)"
  by (simp add: sample_handler_def NewPaymentHandler_def Let_def paymentHandler_Payment_def paymentHandler_start_def
      sample_parse sample_start incomeValidator_Validate_def NewIncomeValidator_def paymentTransaction_Channel_def)
   (simp add: sample_tx_def)

lemma sample_handler_chosen: "getPaymentHandler (GrpcPaymentValidationInterceptor sample_handler [])
    \<lparr>context_MD = sample_md 1 0 3, context_Info = i\<rparr> = Inr sample_handler"
  by (simp add: getPaymentHandler_def GrpcPaymentValidationInterceptor_def sample_md_def PaymentTypeHeader_def
     PaymentChannelIDHeader_def PaymentChannelNonceHeader_def PaymentChannelAmountHeader_def PaymentChannelSignatureHeader_def)

lemma sample_call_paid: "sample_call (sample_md 1 0 3) (Returns None) NewMemStorage = (Returns None, sample_charged)"
  by (simp add: sample_call_def paymentValidationInterceptor_intercept_def getGrpcContext_def sample_handler_chosen
   sample_call_start intercept_deferred_def)
   (simp add: sample_handler_def NewPaymentHandler_def Let_def paymentHandler_Complete_def sample_commit)


lemma empty_tables [simp]:
  "channel_table ints_gob (memory_view NewMemStorage) k = None"
  "payment_table ints_gob (memory_view NewMemStorage) i = None"
  by (simp_all add: channel_table_def payment_table_def decoded_entry_def strip_def memory_view_def NewMemStorage_def
      split: sum.splits)

lemma sample_charged_table:
  "channel_table ints_gob (memory_view sample_charged) \<lparr>ID = i\<rparr> =
     (if i = 1 then Some (sample_channel\<lparr>AuthorizedAmount := 3, Signature := Some (sample_signature 7)\<rparr>) else None)"
  by (simp add: channel_table_def decoded_entry_def strip_def memory_view_def sample_charged_def ints_gob_def decoded_def)

text \<open>The same run as steps of the concurrent system.\<close>

abbreviation sample_reachable :: "memoryStorage escrow_sys \<Rightarrow> bool" where
  "sample_reachable \<equiv> escrow_reachable sample_eth sample_service (\<lambda>w. channel_table ints_gob (memory_view w))
     (\<lambda>w w'. memory_view w' = memory_view w) {IncrementChannelNonce} \<lparr>sys_world = NewMemStorage, sys_open = []\<rparr>"

lemma sample_started: "sample_reachable \<lparr>sys_world = sample_locked, sys_open = [(sample_tx, None)]\<rparr>"
proof (rule escrow_reachable.step [OF escrow_reachable.initial])
  show "escrow_step sample_eth sample_service (\<lambda>w. channel_table ints_gob (memory_view w))
     (\<lambda>w w'. memory_view w' = memory_view w) {IncrementChannelNonce} \<lparr>sys_world = NewMemStorage, sys_open = []\<rparr>
     \<lparr>sys_world = sample_locked, sys_open = [(sample_tx, None)]\<rparr>"
    using escrow_step.start [where s = "\<lparr>sys_world = NewMemStorage, sys_open = []\<rparr>", simplified, OF sample_start,
        of "\<lambda>w. channel_table ints_gob (memory_view w)"] by simp
qed

lemma sample_reached: "sample_reachable \<lparr>sys_world = sample_charged, sys_open = []\<rparr>"
  by (rule escrow_reachable.step [OF sample_started])
    (use escrow_step.commit [where s = "\<lparr>sys_world = sample_locked, sys_open = [(sample_tx, None)]\<rparr>" and xs = "[]" and ys = "[]",
        simplified, OF _ sample_commit] in simp)


section \<open>A sample claim\<close>

lemma memory_GetByKeyPrefix_none:
  assumes "\<And>k. memory_view w k \<noteq> None \<Longrightarrow> \<not> prefix pre k"
  shows "memoryStorage_GetByKeyPrefix key_order pre w = (Inr [], w)"
proof -
  obtain ks where "set ks = {k \<in> dom (memory_view w). prefix pre k}"
    and m: "map snd (filter (\<lambda>(k, v). prefix pre k) (key_order w)) = map (\<lambda>k. the (memory_view w k)) ks"
    using by_key.range_GetByKeyPrefix [of w pre] by blast
  moreover from assms have "{k \<in> dom (memory_view w). prefix pre k} = {}" by auto
  ultimately have "ks = []" by simp
  with m show ?thesis by (simp add: memoryStorage_GetByKeyPrefix_def)
qed

lemma memory_GetByKeyPrefix_one:
  assumes "{k \<in> dom (memory_view w). prefix pre k} = {k0}"
  shows "memoryStorage_GetByKeyPrefix key_order pre w = (Inr [the (memory_view w k0)], w)"
proof -
  obtain ks where "distinct ks" "set ks = {k0}"
    and m: "map snd (filter (\<lambda>(k, v). prefix pre k) (key_order w)) = map (\<lambda>k. the (memory_view w k)) ks"
    using by_key.range_GetByKeyPrefix [of w pre] assms by auto
  then have "length ks = 1" using distinct_card by fastforce
  with \<open>set ks = {k0}\<close> have "ks = [k0]" by (cases ks) auto
  with m show ?thesis by (simp add: memoryStorage_GetByKeyPrefix_def)
qed

definition sample_metadata :: ServiceMetadata where
  "sample_metadata =
     \<lparr>Version = 1, DisplayName = [], Encoding = ''proto'', ServiceType = ''grpc'', PaymentExpirationThreshold = 5,
      ModelIpfsHash = [], MpeAddress = ''0x0b'', PriceModel = ''fixed_price'', PriceInCogs = 3, Groups = [], Endpoints = [],
      daemonReplicaGroupIDString = [], daemonReplicaGroupID = 9, daemonGroupName = [], daemonEndPoint = [],
      recipientPaymentAddress = 7, multiPartyEscrowAddress = 11\<rparr>"

definition sample_control :: "memoryStorage ProviderControlService" where
  "sample_control = NewProviderControlService sample_service sample_metadata"

definition sample_request :: StartClaimRequest where
  "sample_request = \<lparr>claim_MpeAddress = ''0x0b'', claim_ChannelId = [1], claim_Signature = sample_signature 7\<rparr>"

lemma sample_control_simps [simp]:
  "channelService sample_control = sample_service" "serviceMetaData sample_control = sample_metadata"
  "GetPaymentAddress sample_metadata = 7" "MpeAddress sample_metadata = ''0x0b''"
  by (simp_all add: sample_control_def NewProviderControlService_def sample_metadata_def GetPaymentAddress_def)

lemma sample_request_simps [simp]:
  "claim_MpeAddress sample_request = ''0x0b''" "bytesToBigInt (claim_ChannelId sample_request) = 1"
  "claim_Signature sample_request = sample_signature 7"
  by (simp_all add: sample_request_def bytesToBigInt_def SetBytes_def of_be_bytes_def)

lemma sample_charged_view:
  "memory_view sample_charged k =
     (if k = lock_key (PaymentChannelKey_String \<lparr>ID = 1\<rparr>) then Some unlocked
      else if k = channel_prefix @ CHR ''/'' # show_int 1 then
        Some (enc_ints (channel_ints (sample_channel\<lparr>AuthorizedAmount := 3, Signature := Some (sample_signature 7)\<rparr>)))
      else None)"
  by (simp add: memory_view_def sample_charged_def)

lemma sample_charged_no_claims:
  "ListClaims sample_service sample_charged = (Inr [], sample_charged)"
proof -
  have "memoryStorage_GetByKeyPrefix key_order (payment_prefix @ ''/'') sample_charged = (Inr [], sample_charged)"
    by (rule memory_GetByKeyPrefix_none)
      (auto simp: sample_charged_view payment_prefix_def lock_prefix_def channel_prefix_def split: if_splits)
  then show ?thesis
    by (simp add: ListClaims_def PaymentStorage_defs TypedAtomicStorageImpl_GetAll_def as_AtomicStorage_def
        PrefixedAtomicStorage_defs memory_AtomicStorage_def)
qed

lemma sample_charged_keyed: "payments_keyed ints_gob (memory_view sample_charged)"
  by (simp add: payments_keyed_def payments_wf_def payment_table_def decoded_entry_def strip_def sample_charged_view
      payment_prefix_def lock_prefix_def channel_prefix_def split: sum.splits)

lemma sample_charged_channel:
  "PaymentChannel sample_service \<lparr>ID = 1\<rparr> sample_charged =
     (Inr (Some (sample_channel\<lparr>AuthorizedAmount := 3, Signature := Some (sample_signature 7)\<rparr>)), sample_charged)"
  by (simp add: PaymentChannel_def Let_def storage_run_defs sample_charged_view [unfolded memory_view_def] ints_gob_def
      decoded_def sample_from_chain MergeStorageAndBlockchainChannelState_def)

lemma sample_claim:
  "\<exists>w'. ProviderControlService_StartClaim sample_eth sample_control sample_request sample_charged =
     (Returns (Inr (payment_reply sample_eth (getPaymentFromChannel
        (sample_channel\<lparr>AuthorizedAmount := 3, Signature := Some (sample_signature 7)\<rparr>)))), w')"
proof -
  have "Int64 3 \<noteq> 0" by (simp add: Int64_eq_0_iff)
  then show ?thesis
    by (simp add: ProviderControlService_StartClaim_def checkMpeAddress_def verifySignerForStartClaim_def Let_def
      sample_charged_channel verifySigner_def sample_signer verifyPaymentAddress_def removeClaimedPayments_def
      sample_charged_no_claims beginClaimOnChannel_def StartClaim_def StartClaim_locked_def storage_run_defs
      sample_charged_view [unfolded memory_view_def] ints_gob_def decoded_def claimImpl_Payment_def payment_reply_def
      split: prod.splits)
     (simp add: getPaymentFromChannel_def sample_channel_def)
qed

text \<open>A claim in progress, and a blockchain on which it is done.\<close>

definition settled_reader :: "memoryStorage BlockchainChannelReader" where
  "settled_reader =
     \<lparr>readChannelFromBlockchain = (\<lambda>i w. Inr (Some (sample_onchain\<lparr>mpe_Nonce := 1\<rparr>))), reader_recipientPaymentAddress = 6\<rparr>"

abbreviation settled_service :: "memoryStorage lockingPaymentChannelService" where
  "settled_service \<equiv> memory_service settled_reader sample_validator 9"

definition settled_control :: "memoryStorage ProviderControlService" where
  "settled_control = NewProviderControlService settled_service sample_metadata"

definition settled_chain :: "PaymentChannelKey \<Rightarrow> PaymentChannelData option result" where
  "settled_chain key = Inr (Some (sample_channel\<lparr>ChannelID := ID key, Nonce := 1\<rparr>))"

definition sample_claimed :: memoryStorage where
  "sample_claimed =
     \<lparr>data = fmupd (payment_prefix @ CHR ''/'' # Payment_ID sample_payment) (enc_ints (payment_ints sample_payment)) fmempty\<rparr>"

lemma settled_from_chain: "GetChannelStateFromBlockchain settled_reader key w = settled_chain key"
  by (simp add: GetChannelStateFromBlockchain_def settled_reader_def settled_chain_def sample_onchain_def sample_channel_def)

lemma settled_service_simps [simp]:
  "channelService settled_control = settled_service" "blockchainReader settled_service = settled_reader"
  "paymentStorage settled_service = NewPaymentStorage ints_gob (memory_AtomicStorage key_order)"
  by (simp_all add: settled_control_def NewProviderControlService_def memory_service_def NewPaymentChannelService_def)

lemma sample_claimed_view:
  "memory_view sample_claimed = [payment_prefix @ CHR ''/'' # Payment_ID sample_payment \<mapsto> enc_ints (payment_ints sample_payment)]"
  by (simp add: fun_eq_iff memory_view_def sample_claimed_def)

lemma sample_claimed_table:
  "payment_table ints_gob (memory_view sample_claimed) = [Payment_ID sample_payment \<mapsto> sample_payment]"
  by (simp add: fun_eq_iff payment_table_def decoded_entry_def strip_def sample_claimed_view ints_gob_def decoded_def)

lemma sample_claimed_keyed: "payments_keyed ints_gob (memory_view sample_claimed)"
proof -
  have "payments_wf ints_gob (memory_view sample_claimed)"
    by (simp add: payments_wf_def strip_def sample_claimed_view ints_gob_def decoded_def)
  then show ?thesis by (auto simp: payments_keyed_def sample_claimed_table split: if_splits)
qed

lemma fmdrop_single: "fmdrop k (fmupd k v fmempty) = fmempty"
  by (rule fmap_ext) simp

lemma settled_removed_table: "payment_table ints_gob (memory_view (sample_claimed\<lparr>data := fmempty\<rparr>)) i = None"
  by (simp add: payment_table_def decoded_entry_def strip_def memory_view_def split: sum.splits)

lemma settled_lists:
  "ListClaims settled_service sample_claimed = (Inr [claim_of settled_service sample_payment], sample_claimed)"
proof -
  have "{k \<in> dom (memory_view sample_claimed). prefix (payment_prefix @ ''/'') k} =
      {payment_prefix @ CHR ''/'' # Payment_ID sample_payment}"
    by (auto simp: sample_claimed_view)
  from memory_GetByKeyPrefix_one [OF this] show ?thesis
    by (simp add: ListClaims_def PaymentStorage_defs TypedAtomicStorageImpl_GetAll_def as_AtomicStorage_def
        PrefixedAtomicStorage_defs memory_AtomicStorage_def ints_gob_def decoded_def sample_claimed_view)
qed

lemma settled_removes: "removeClaimedPayments settled_control sample_claimed = (Inr (), sample_claimed\<lparr>data := fmempty\<rparr>)"
  by (simp add: removeClaimedPayments_def settled_lists PaymentChannelFromBlockChain_def settled_from_chain settled_chain_def
      claimImpl_Payment_def claimImpl_Finish_def storage_run_defs ints_gob_def Let_def)
   (simp add: sample_claimed_def fmdrop_single)

text \<open>The client of the sample channel asks for its state.\<close>

lemma sample_state:
  "GetChannelState sample_eth sample_service \<lparr>state_ChannelId = [1], state_Signature = sample_signature 7\<rparr> sample_charged =
     (Inr \<lparr>CurrentNonce = bigIntToBytes sample_eth 0, CurrentSignedAmount = Some (bigIntToBytes sample_eth 3),
           CurrentSignature = Some (sample_signature 7)\<rparr>, sample_charged)"
  by (simp add: GetChannelState_def Let_def sample_signer bytesToBigInt_def SetBytes_def of_be_bytes_def sample_charged_channel)
    (simp add: sample_channel_def)

section \<open>Requests on an empty storage\<close>

lemma empty_view [simp]: "memory_view NewMemStorage k = None"
  by (simp add: memory_view_def NewMemStorage_def)

lemma empty_lists:
  "ListChannels sample_service NewMemStorage = (Inr [], NewMemStorage)"
  "ListClaims sample_service NewMemStorage = (Inr [], NewMemStorage)"
  using memory_GetByKeyPrefix_none [of NewMemStorage]
  by (simp_all add: ListChannels_def ListClaims_def PaymentChannelStorage_defs PaymentStorage_defs
      TypedAtomicStorageImpl_GetAll_def as_AtomicStorage_def PrefixedAtomicStorage_defs memory_AtomicStorage_def)

lemma sample_unclaimed:
  "GetListUnclaimed sample_eth (\<lambda>_. None) (\<lambda>_. Inr []) sample_control
     \<lparr>request_MpeAddress = ''0x0b'', CurrentBlock = 10, request_Signature = sample_signature 7\<rparr> NewMemStorage =
   (Inr [], NewMemStorage)"
  by (simp add: GetListUnclaimed_def checkMpeAddress_def control_currentBlock_def compareWithLatestBlockNumber_def big_Cmp_def
      Let_def verifySignerForListUnclaimed_def verifySigner_def verifyPaymentAddress_def sample_signer listChannels_def empty_lists)

lemma missing_channel: "PaymentChannel sample_service \<lparr>ID = 2\<rparr> NewMemStorage = (Inr None, NewMemStorage)"
  by (simp add: PaymentChannel_def Let_def storage_run_defs NewMemStorage_def ints_gob_def sample_from_chain)

end
