(* ===== verification/EtcdClient.thy ===== *)
theory EtcdClient
  imports AtomicStorage
begin

text \<open>
  \<^verbatim>\<open>etcddb/etcddb_client.go\<close>: the client of the etcd cluster that replicas of the daemon share. etcd and
  its client library are not part of the repository: the record \<open>etcdv3\<close> has the calls the code makes,
  and the locale \<open>etcd_cluster\<close> what etcd documents about them. \<open>view\<close> is the set of data keys; the keys a
  mutex of the concurrency package keeps below its name are not among them, and no range that the
  daemon reads contains one.

  The theory shows that the client keeps the contract of an \<^verbatim>\<open>AtomicStorage\<close>, and that \<open>PutIfAbsent\<close>,
  which is several requests under a mutex, writes only while the key is absent when replicas interleave.
\<close>

section \<open>The client\<close>

record 'w etcdv3 =
  etcd_Get :: "string \<Rightarrow> 'w \<Rightarrow> string list result \<times> 'w"
  etcd_GetRange :: "string \<Rightarrow> string \<Rightarrow> 'w \<Rightarrow> string list result \<times> 'w"
  etcd_Put :: "string \<Rightarrow> string \<Rightarrow> 'w \<Rightarrow> unit result \<times> 'w"
  etcd_Delete :: "string \<Rightarrow> 'w \<Rightarrow> unit result \<times> 'w"
  etcd_Txn :: "(string \<times> string) list \<Rightarrow> (string \<times> string) list \<Rightarrow> 'w \<Rightarrow> bool result \<times> 'w"
  GetPrefixRangeEnd :: "string \<Rightarrow> string"
  NewSession :: "'w \<Rightarrow> unit result \<times> 'w"
  Mutex_Lock :: "string \<Rightarrow> 'w \<Rightarrow> unit result \<times> 'w"
  Mutex_Unlock :: "string \<Rightarrow> 'w \<Rightarrow> unit result \<times> 'w"

record 'w EtcdClient =
  client_etcdv3 :: "'w etcdv3"

text \<open>The loop over the response returns at its first element.\<close>

definition EtcdClient_Get :: "'w EtcdClient \<Rightarrow> string \<Rightarrow> 'w \<Rightarrow> string option result \<times> 'w" where
  "EtcdClient_Get client key w =
     (case etcd_Get (client_etcdv3 client) key w of
        (Inl err, w') \<Rightarrow> (Inl err, w')
      | (Inr [], w') \<Rightarrow> (Inr None, w')
      | (Inr (kv # _), w') \<Rightarrow> (Inr (Some kv), w'))"

definition EtcdClient_GetByKeyPrefix :: "'w EtcdClient \<Rightarrow> string \<Rightarrow> 'w \<Rightarrow> string list result \<times> 'w" where
  "EtcdClient_GetByKeyPrefix client key w =
     (let keyEnd = GetPrefixRangeEnd (client_etcdv3 client) key in
      case etcd_GetRange (client_etcdv3 client) key keyEnd w of
        (Inl err, w') \<Rightarrow> (Inl err, w')
      | (Inr kvs, w') \<Rightarrow> (Inr kvs, w'))"

definition EtcdClient_Put :: "'w EtcdClient \<Rightarrow> string \<Rightarrow> string \<Rightarrow> 'w \<Rightarrow> unit result \<times> 'w" where
  "EtcdClient_Put client key v w = etcd_Put (client_etcdv3 client) key v w"

definition EtcdClient_Delete :: "'w EtcdClient \<Rightarrow> string \<Rightarrow> 'w \<Rightarrow> unit result \<times> 'w" where
  "EtcdClient_Delete client key w = etcd_Delete (client_etcdv3 client) key w"

text \<open>The mutex of \<^verbatim>\<open>clientv3/concurrency\<close>, which the payment code does not use.\<close>

record 'w concurrency_Mutex =
  mutex_Lock :: "'w \<Rightarrow> unit result \<times> 'w"
  mutex_Unlock :: "'w \<Rightarrow> unit result \<times> 'w"

record 'w EtcdClientMutex =
  mutex :: "'w concurrency_Mutex"

definition EtcdClientMutex_Lock :: "'w EtcdClientMutex \<Rightarrow> 'w \<Rightarrow> unit result \<times> 'w" where
  "EtcdClientMutex_Lock m w = mutex_Lock (mutex m) w"

definition EtcdClientMutex_Unlock :: "'w EtcdClientMutex \<Rightarrow> 'w \<Rightarrow> unit result \<times> 'w" where
  "EtcdClientMutex_Unlock m w = mutex_Unlock (mutex m) w"

definition EtcdClient_NewMutex :: "(string \<Rightarrow> 'w concurrency_Mutex) \<Rightarrow> string \<Rightarrow> 'w EtcdClientMutex result" where
  "EtcdClient_NewMutex concurrency_NewMutex key = (let m = concurrency_NewMutex key in Inr \<lparr>mutex = m\<rparr>)"

record EtcdKeyValue =
  kv_key :: string
  kv_value :: string

definition EtcdClient_Transaction ::
  "'w EtcdClient \<Rightarrow> EtcdKeyValue list \<Rightarrow> EtcdKeyValue list \<Rightarrow> 'w \<Rightarrow> bool result \<times> 'w" where
  "EtcdClient_Transaction client compare swap w =
     (let cmps = map (\<lambda>cmp. (kv_key cmp, kv_value cmp)) compare;
          ops = map (\<lambda>op. (kv_key op, kv_value op)) swap in
      case etcd_Txn (client_etcdv3 client) cmps ops w of
        (Inl err, w') \<Rightarrow> (Inl err, w')
      | (Inr succeeded, w') \<Rightarrow> (Inr succeeded, w'))"

definition EtcdClient_CompareAndSwap ::
  "'w EtcdClient \<Rightarrow> string \<Rightarrow> string \<Rightarrow> string \<Rightarrow> 'w \<Rightarrow> bool result \<times> 'w" where
  "EtcdClient_CompareAndSwap client key prevValue newValue w =
     EtcdClient_Transaction client [\<lparr>kv_key = key, kv_value = prevValue\<rparr>] [\<lparr>kv_key = key, kv_value = newValue\<rparr>] w"

text \<open>The requests of \<^verbatim>\<open>PutIfAbsent\<close> between taking and releasing the mutex.\<close>

definition putIfAbsent_locked :: "'w EtcdClient \<Rightarrow> string \<Rightarrow> string \<Rightarrow> 'w \<Rightarrow> bool result \<times> 'w" where
  "putIfAbsent_locked client key v w =
     (case etcd_Get (client_etcdv3 client) key w of
        (Inl err, w1) \<Rightarrow> (Inl err, w1)
      | (Inr kvs, w1) \<Rightarrow>
          if length kvs \<noteq> 0 then (Inr False, w1)
          else (case etcd_Put (client_etcdv3 client) key v w1 of
                  (Inl err, w2) \<Rightarrow> (Inl err, w2)
                | (Inr _, w2) \<Rightarrow> (Inr True, w2)))"

definition EtcdClient_PutIfAbsent :: "'w EtcdClient \<Rightarrow> string \<Rightarrow> string \<Rightarrow> 'w \<Rightarrow> bool result \<times> 'w" where
  "EtcdClient_PutIfAbsent client key v w =
     (case NewSession (client_etcdv3 client) w of
        (Inl err, w1) \<Rightarrow> (Inl err, w1)
      | (Inr _, w1) \<Rightarrow>
          (case Mutex_Lock (client_etcdv3 client) key w1 of
             (Inl err, w2) \<Rightarrow> (Inl err, w2)
           | (Inr _, w2) \<Rightarrow>
               (case putIfAbsent_locked client key v w2 of
                  (r, w3) \<Rightarrow> (case Mutex_Unlock (client_etcdv3 client) key w3 of (_, w4) \<Rightarrow> (r, w4)))))"

text \<open>\<^verbatim>\<open>*EtcdClient\<close> used as an \<^verbatim>\<open>AtomicStorage\<close>.\<close>

definition etcd_AtomicStorage :: "'w EtcdClient \<Rightarrow> 'w AtomicStorage" where
  "etcd_AtomicStorage client =
     \<lparr>Get = EtcdClient_Get client,
      GetByKeyPrefix = EtcdClient_GetByKeyPrefix client,
      Put = EtcdClient_Put client,
      PutIfAbsent = EtcdClient_PutIfAbsent client,
      CompareAndSwap = EtcdClient_CompareAndSwap client,
      Delete = EtcdClient_Delete client\<rparr>"

lemmas EtcdClient_defs =
  EtcdClient_Get_def EtcdClient_GetByKeyPrefix_def EtcdClient_Put_def EtcdClient_Delete_def
  EtcdClient_Transaction_def EtcdClient_CompareAndSwap_def EtcdClient_PutIfAbsent_def putIfAbsent_locked_def

section \<open>What etcd documents\<close>

text \<open>
  A write that returns an error (a timeout, a lost connection) may or may not have been applied. A
  transaction compares and writes in one step; a comparison with a missing key fails.
\<close>

locale etcd_cluster =
  fixes et :: "'w etcdv3"
    and view :: "'w \<Rightarrow> string \<Rightarrow> string option"
  assumes etcd_Get_view: "etcd_Get et k w = (r, w') \<Longrightarrow> view w' = view w"
    and etcd_Get_ok: "etcd_Get et k w = (Inr kvs, w') \<Longrightarrow> kvs = (case view w k of None \<Rightarrow> [] | Some v \<Rightarrow> [v])"
    and etcd_GetRange_view: "etcd_GetRange et k ke w = (l, w') \<Longrightarrow> view w' = view w"
    and etcd_GetRange_ok: "etcd_GetRange et p (GetPrefixRangeEnd et p) w = (Inr vs, w') \<Longrightarrow>
      \<exists>ks. distinct ks \<and> set ks = {k \<in> dom (view w). prefix p k} \<and> vs = map (\<lambda>k. the (view w k)) ks"
    and etcd_Put_ok: "etcd_Put et k v w = (Inr (), w') \<Longrightarrow> view w' = (view w)(k \<mapsto> v)"
    and etcd_Put_err: "etcd_Put et k v w = (Inl e, w') \<Longrightarrow> view w' = view w \<or> view w' = (view w)(k \<mapsto> v)"
    and etcd_Delete_ok: "etcd_Delete et k w = (Inr (), w') \<Longrightarrow> view w' = (view w)(k := None)"
    and etcd_Delete_err: "etcd_Delete et k w = (Inl e, w') \<Longrightarrow> view w' = view w \<or> view w' = (view w)(k := None)"
    and etcd_Txn_ok: "etcd_Txn et cs ps w = (Inr b, w') \<Longrightarrow>
      b = (\<forall>(k, v) \<in> set cs. view w k = Some v) \<and> view w' = (if b then view w ++ map_of (rev ps) else view w)"
    and etcd_Txn_err: "etcd_Txn et cs ps w = (Inl e, w') \<Longrightarrow>
      view w' = view w \<or> (\<forall>(k, v) \<in> set cs. view w k = Some v) \<and> view w' = view w ++ map_of (rev ps)"
    and NewSession_view: "NewSession et w = (r1, w') \<Longrightarrow> view w' = view w"
    and Mutex_Lock_view: "Mutex_Lock et k w = (r1, w') \<Longrightarrow> view w' = view w"
    and Mutex_Unlock_view: "Mutex_Unlock et k w = (r1, w') \<Longrightarrow> view w' = view w"
begin

lemma EtcdClient_Get_spec:
  assumes "EtcdClient_Get \<lparr>client_etcdv3 = et\<rparr> k w = (r, w')"
  shows "view w' = view w" and "r = Inr x \<Longrightarrow> x = view w k"
proof -
  from assms show "view w' = view w"
    by (auto simp: EtcdClient_Get_def split: prod.splits sum.splits list.splits dest: etcd_Get_view)
  from assms show "r = Inr x \<Longrightarrow> x = view w k"
    by (auto simp: EtcdClient_Get_def split: prod.splits sum.splits list.splits option.splits dest!: etcd_Get_ok)
qed

lemma EtcdClient_PutIfAbsent_cases:
  assumes "EtcdClient_PutIfAbsent \<lparr>client_etcdv3 = et\<rparr> k v w = (r, w')"
  obtains (early) e where "r = Inl e" "view w' = view w"
  | (present) "r = Inr False" "view w k \<noteq> None" "view w' = view w"
  | (written) "r = Inr True" "view w k = None" "view w' = (view w)(k \<mapsto> v)"
  | (failed) e where "r = Inl e" "view w k = None" "view w' = view w \<or> view w' = (view w)(k \<mapsto> v)"
proof -
  from assms consider (a) e where "r = Inl e" "view w' = view w"
    | (b) w1 w2 u1 u2 w3 u3 where "NewSession et w = (u1, w1)" "Mutex_Lock et k w1 = (u2, w2)"
        "putIfAbsent_locked \<lparr>client_etcdv3 = et\<rparr> k v w2 = (r, w3)" "Mutex_Unlock et k w3 = (u3, w')"
    by (auto simp: EtcdClient_PutIfAbsent_def split: prod.splits sum.splits dest!: NewSession_view Mutex_Lock_view)
  then show ?thesis
  proof cases
    case a
    then show ?thesis by (rule early)
  next
    case b
    have v2: "view w2 = view w" "view w' = view w3"
      using NewSession_view [OF b(1)] Mutex_Lock_view [OF b(2)] Mutex_Unlock_view [OF b(4)] by simp_all
    obtain g w4 where g: "etcd_Get et k w2 = (g, w4)" by (cases "etcd_Get et k w2")
    have v4: "view w4 = view w" using etcd_Get_view [OF g] v2 by simp
    from b(3) g consider (err) e where "r = Inl e" "w3 = w4"
      | (found) kvs where "g = Inr kvs" "kvs \<noteq> []" "r = Inr False" "w3 = w4"
      | (put) "g = Inr []" "etcd_Put et k v w4 = (Inr (), w3)" "r = Inr True"
      | (put_err) e where "g = Inr []" "etcd_Put et k v w4 = (Inl e, w3)" "r = Inl e"
      by (cases g) (auto simp: putIfAbsent_locked_def split: prod.splits sum.splits if_splits)
    then show ?thesis
    proof cases
      case err
      with v2 v4 show ?thesis using early by simp
    next
      case found
      with g etcd_Get_ok [of k w2] v2 v4 show ?thesis using present by (auto split: option.splits)
    next
      case put
      with g etcd_Get_ok [of k w2 "[]" w4] etcd_Put_ok [OF put(2)] v2 v4 show ?thesis
        using written by (auto split: option.splits)
    next
      case put_err
      with g etcd_Get_ok [of k w2 "[]" w4] etcd_Put_err [OF put_err(2)] v2 v4 show ?thesis
        using failed by (auto split: option.splits)
    qed
  qed
qed

end

sublocale etcd_cluster \<subseteq> client: atomic_storage "etcd_AtomicStorage \<lparr>client_etcdv3 = et\<rparr>" view
proof (unfold_locales, goal_cases)
  case (1 k w r w')
  then show ?case by (auto simp: etcd_AtomicStorage_def dest: EtcdClient_Get_spec)
next
  case (2 k w x w')
  then show ?case by (auto simp: etcd_AtomicStorage_def dest: EtcdClient_Get_spec)
next
  case (7 k v w b w')
  then show ?case by (auto simp: etcd_AtomicStorage_def elim: EtcdClient_PutIfAbsent_cases)
next
  case (8 k v w e w')
  then show ?case by (auto simp: etcd_AtomicStorage_def elim!: EtcdClient_PutIfAbsent_cases)
qed (auto simp: etcd_AtomicStorage_def EtcdClient_defs Let_def split: prod.splits sum.splits
      dest: etcd_GetRange_view etcd_GetRange_ok etcd_Put_ok etcd_Put_err etcd_Delete_ok etcd_Delete_err
      dest!: etcd_Txn_ok etcd_Txn_err)

section \<open>Replicas that put the same key\<close>

text \<open>
  \<^verbatim>\<open>PutIfAbsent\<close> request by request. The mutex excludes the other replicas (the premise of \<open>lock\<close>); other
  requests of the daemon may come in between as long as they do not create the key.
\<close>

datatype put_pc = PIdle | PLocked | PAbsent | PDone "bool result"

record 'w put_sys =
  put_world :: 'w
  put_pc :: "nat \<Rightarrow> put_pc"

abbreviation put_goto :: "'w put_sys \<Rightarrow> nat \<Rightarrow> put_pc \<Rightarrow> 'w \<Rightarrow> 'w put_sys" where
  "put_goto s i c w \<equiv> s\<lparr>put_world := w, put_pc := (put_pc s)(i := c)\<rparr>"

inductive put_step ::
  "'w etcdv3 \<Rightarrow> ('w \<Rightarrow> string \<Rightarrow> string option) \<Rightarrow> string \<Rightarrow> string \<Rightarrow> 'w put_sys \<Rightarrow> 'w put_sys \<Rightarrow> bool"
  for et view k v where
  lock: "put_pc s i = PIdle \<Longrightarrow> (\<And>j. put_pc s j = PIdle) \<Longrightarrow> Mutex_Lock et k (put_world s) = (Inr u, w') \<Longrightarrow>
    put_step et view k v s (put_goto s i PLocked w')"
| lock_failed: "put_pc s i = PIdle \<Longrightarrow> Mutex_Lock et k (put_world s) = (Inl e, w') \<Longrightarrow>
    put_step et view k v s (put_goto s i PIdle w')"
| read_absent: "put_pc s i = PLocked \<Longrightarrow> etcd_Get et k (put_world s) = (Inr [], w') \<Longrightarrow>
    put_step et view k v s (put_goto s i PAbsent w')"
| read_present: "put_pc s i = PLocked \<Longrightarrow> etcd_Get et k (put_world s) = (Inr (x # xs), w') \<Longrightarrow>
    put_step et view k v s (put_goto s i (PDone (Inr False)) w')"
| read_failed: "put_pc s i = PLocked \<Longrightarrow> etcd_Get et k (put_world s) = (Inl e, w') \<Longrightarrow>
    put_step et view k v s (put_goto s i (PDone (Inl e)) w')"
| put: "put_pc s i = PAbsent \<Longrightarrow> etcd_Put et k v (put_world s) = (Inr u, w') \<Longrightarrow>
    put_step et view k v s (put_goto s i (PDone (Inr True)) w')"
| put_failed: "put_pc s i = PAbsent \<Longrightarrow> etcd_Put et k v (put_world s) = (Inl e, w') \<Longrightarrow>
    put_step et view k v s (put_goto s i (PDone (Inl e)) w')"
| unlock: "put_pc s i = PDone b \<Longrightarrow> Mutex_Unlock et k (put_world s) = (r, w') \<Longrightarrow>
    put_step et view k v s (put_goto s i PIdle w')"
| other: "(view (put_world s) k = None \<longrightarrow> view w' k = None) \<Longrightarrow> put_step et view k v s (s\<lparr>put_world := w'\<rparr>)"

text \<open>
  The steps of one replica that runs alone are those of \<open>EtcdClient_PutIfAbsent\<close>: after the mutex is taken
  they lead to the result of the call, and releasing the mutex to its final state.
\<close>

lemma put_goto_twice [simp]: "put_goto (put_goto s i c w) i c' w' = put_goto s i c' w'"
  by simp

lemma put_run_locked:
  assumes "putIfAbsent_locked \<lparr>client_etcdv3 = et\<rparr> k v w = (r, w')"
  shows "(put_step et view k v)\<^sup>*\<^sup>* (put_goto s i PLocked w) (put_goto s i (PDone r) w')"
proof (cases "etcd_Get et k w")
  case (Pair g w1)
  consider (err) e where "g = Inl e" | (found) x xs where "g = Inr (x # xs)" | (absent) "g = Inr []"
    by (cases g) (simp, metis list.exhaust)
  then show ?thesis
  proof cases
    case err
    then show ?thesis
      using assms Pair put_step.read_failed [of "put_goto s i PLocked w" i et k _ w1 view v]
      by (auto simp: putIfAbsent_locked_def)
  next
    case found
    then show ?thesis
      using assms Pair put_step.read_present [of "put_goto s i PLocked w" i et k _ _ w1 view v]
      by (auto simp: putIfAbsent_locked_def)
  next
    case absent
    obtain p w2 where p: "etcd_Put et k v w1 = (p, w2)" by (cases "etcd_Put et k v w1")
    have "put_step et view k v (put_goto s i PLocked w) (put_goto s i PAbsent w1)"
      using Pair absent put_step.read_absent [of "put_goto s i PLocked w" i et k w1 view v] by simp
    moreover have "put_step et view k v (put_goto s i PAbsent w1) (put_goto s i (PDone r) w')"
      using assms Pair absent p put_step.put [of "put_goto s i PAbsent w1" i et k v _ w2 view]
        put_step.put_failed [of "put_goto s i PAbsent w1" i et k v _ w2 view]
      by (cases p) (auto simp: putIfAbsent_locked_def)
    ultimately show ?thesis by (meson converse_rtranclp_into_rtranclp r_into_rtranclp)
  qed
qed

lemma put_run_alone:
  assumes "\<And>j. put_pc s j = PIdle" "NewSession et w = (Inr u, put_world s)" "Mutex_Lock et k (put_world s) = (Inr u', w1)"
    and "EtcdClient_PutIfAbsent \<lparr>client_etcdv3 = et\<rparr> k v w = (r, w')"
  shows "\<exists>w3. (put_step et view k v)\<^sup>*\<^sup>* s (put_goto s i (PDone r) w3) \<and>
    put_step et view k v (put_goto s i (PDone r) w3) (put_goto s i PIdle w')"
proof -
  obtain r' w3 where l: "putIfAbsent_locked \<lparr>client_etcdv3 = et\<rparr> k v w1 = (r', w3)"
    by (cases "putIfAbsent_locked \<lparr>client_etcdv3 = et\<rparr> k v w1")
  obtain u'' w4 where u: "Mutex_Unlock et k w3 = (u'', w4)" by (cases "Mutex_Unlock et k w3")
  have r: "r' = r" "w4 = w'" using assms(2-4) l u by (simp_all add: EtcdClient_PutIfAbsent_def)
  have "put_step et view k v s (put_goto s i PLocked w1)" using assms(1,3) by (blast intro: put_step.lock)
  moreover have "put_step et view k v (put_goto s i (PDone r) w3) (put_goto s i PIdle w')"
    using u r put_step.unlock [of "put_goto s i (PDone r) w3" i r et k u'' w' view v] by simp
  ultimately show ?thesis
    using put_run_locked [OF l [unfolded r]] by (meson converse_rtranclp_into_rtranclp)
qed

inductive put_reachable ::
  "'w etcdv3 \<Rightarrow> ('w \<Rightarrow> string \<Rightarrow> string option) \<Rightarrow> string \<Rightarrow> string \<Rightarrow> 'w put_sys \<Rightarrow> bool"
  for et view k v where
  start: "(\<And>i. put_pc s i = PIdle) \<Longrightarrow> put_reachable et view k v s"
| step: "put_reachable et view k v s \<Longrightarrow> put_step et view k v s t \<Longrightarrow> put_reachable et view k v t"

definition put_inv :: "('w \<Rightarrow> string \<Rightarrow> string option) \<Rightarrow> string \<Rightarrow> 'w put_sys \<Rightarrow> bool" where
  "put_inv view k s \<longleftrightarrow>
     (\<forall>i. put_pc s i \<noteq> PIdle \<longrightarrow> (\<forall>j. j \<noteq> i \<longrightarrow> put_pc s j = PIdle) \<and>
        (put_pc s i = PAbsent \<longrightarrow> view (put_world s) k = None))"

text \<open>A replica that moves inside its section keeps the invariant if it may not see the key present.\<close>

lemma put_inv_goto:
  assumes "put_inv view k s" "put_pc s i \<noteq> PIdle" "c = PAbsent \<Longrightarrow> view w k = None"
  shows "put_inv view k (put_goto s i c w)"
  using assms by (auto simp: put_inv_def)

context etcd_cluster
begin

lemma client_atomic_storage: "atomic_storage (etcd_AtomicStorage \<lparr>client_etcdv3 = et\<rparr>) view"
  by (rule client.atomic_storage_axioms)

lemma put_step_inv: "put_step et view k v s t \<Longrightarrow> put_inv view k s \<Longrightarrow> put_inv view k t"
proof (induction rule: put_step.induct)
  case (lock s i u w')
  then show ?case by (auto simp: put_inv_def)
next
  case (lock_failed s i e w')
  then show ?case using Mutex_Lock_view [OF lock_failed(2)] by (auto simp: put_inv_def)
next
  case (read_absent s i w')
  then show ?case
    using etcd_Get_ok [OF read_absent(2)] etcd_Get_view [OF read_absent(2)]
    by (intro put_inv_goto) (auto split: option.splits)
next
  case (other s w')
  then show ?case by (auto simp: put_inv_def)
qed (auto intro: put_inv_goto)

lemma put_reachable_inv: "put_reachable et view k v s \<Longrightarrow> put_inv view k s"
proof (induction rule: put_reachable.induct)
  case (start s)
  then show ?case by (simp add: put_inv_def)
next
  case (step s t)
  then show ?case using put_step_inv by blast
qed

end

end
