(* ===== verification/EtcdDeployment.thy ===== *)
theory EtcdDeployment
  imports Deployment EtcdClient
begin

text \<open>
  The daemon with the storage type \<^verbatim>\<open>etcd\<close>: the service of \<^verbatim>\<open>snetd/cmd/components.go\<close> over the etcd client, for
  any etcd that keeps what it documents. A stand-in for etcd, which applies every request to a map at once
  and whose mutexes are free, shows that the documented behaviour can be had.
\<close>

definition etcd_service ::
  "gob \<Rightarrow> 'w EtcdClient \<Rightarrow> 'w BlockchainChannelReader \<Rightarrow> 'w ChannelPaymentValidator \<Rightarrow> bytes32 \<Rightarrow>
   'w lockingPaymentChannelService" where
  "etcd_service G client reader val gid =
     NewPaymentChannelService (NewPaymentChannelStorage G (etcd_AtomicStorage client))
       (NewPaymentStorage G (etcd_AtomicStorage client)) reader
       (NewEtcdLocker (etcd_AtomicStorage client)) val (gid, None)"

lemma etcd_payment_service:
  assumes "etcd_cluster et view" "gob_codec G"
  shows "payment_service (etcd_AtomicStorage \<lparr>client_etcdv3 = et\<rparr>) view G
    (etcd_service G \<lparr>client_etcdv3 = et\<rparr> reader val gid)"
  by (intro payment_service.intro payment_service_axioms.intro escrow_storage.intro assms
      etcd_cluster.client_atomic_storage)
    (simp_all add: etcd_service_def NewPaymentChannelService_def)

section \<open>A stand-in for etcd\<close>

definition memory_Txn :: "(string \<times> string) list \<Rightarrow> (string \<times> string) list \<Rightarrow> memoryStorage \<Rightarrow> bool result \<times> memoryStorage" where
  "memory_Txn cmps ops w =
     (if list_all (\<lambda>(k, v). fmlookup (data w) k = Some v) cmps
      then (Inr True, w\<lparr>data := fold (\<lambda>(k, v). fmupd k v) ops (data w)\<rparr>)
      else (Inr False, w))"

definition memory_etcd :: "memoryStorage etcdv3" where
  "memory_etcd =
     \<lparr>etcd_Get = (\<lambda>k w. (Inr (case fmlookup (data w) k of None \<Rightarrow> [] | Some v \<Rightarrow> [v]), w)),
      etcd_GetRange = (\<lambda>k keyEnd. memoryStorage_GetByKeyPrefix key_order k),
      etcd_Put = memoryStorage_Put, etcd_Delete = memoryStorage_Delete, etcd_Txn = memory_Txn,
      GetPrefixRangeEnd = id,
      NewSession = Pair (Inr ()), Mutex_Lock = (\<lambda>_. Pair (Inr ())), Mutex_Unlock = (\<lambda>_. Pair (Inr ()))\<rparr>"

lemma fold_fmupd: "fmlookup (fold (\<lambda>(k, v). fmupd k v) ops m) = fmlookup m ++ map_of (rev ops)"
  by (induction ops arbitrary: m) (auto simp: map_add_def fun_eq_iff split: option.splits)

interpretation memory_etcd: etcd_cluster memory_etcd memory_view
proof (unfold_locales, goal_cases)
  case 4
  then show ?case
    using by_key.range_GetByKeyPrefix by (auto simp: memory_etcd_def memoryStorage_GetByKeyPrefix_def)
next
  case (9 cs ps w b w')
  then show ?case
    by (auto simp: memory_etcd_def memory_Txn_def memory_view_def fold_fmupd list_all_iff split: if_splits)
next
  case (10 cs ps w e w')
  then show ?case by (auto simp: memory_etcd_def memory_Txn_def split: if_splits)
qed (auto simp: memory_etcd_def memoryStorage_defs memory_view_def split: option.splits)

abbreviation memory_client :: "memoryStorage EtcdClient" where
  "memory_client \<equiv> \<lparr>client_etcdv3 = memory_etcd\<rparr>"

interpretation memory_etcd_svc: payment_service "etcd_AtomicStorage memory_client" memory_view ints_gob
    "etcd_service ints_gob memory_client reader val gid" for reader val gid
  by (rule etcd_payment_service) unfold_locales

end
