(* ===== verification/EmbeddedEtcd.thy ===== *)
theory EmbeddedEtcd
  imports EtcdClient
begin

text \<open>
  \<^verbatim>\<open>etcddb/etcddb_conf.go\<close> and \<^verbatim>\<open>etcddb/etcddb_server.go\<close>: the configuration of the etcd client and of the etcd server that the
  daemon can run itself, and the start of that server. viper, capnslog and etcd are arguments.
\<close>

section \<open>Configuration\<close>

text \<open>A \<^verbatim>\<open>time.Duration\<close> is its number of nanoseconds.\<close>

record EtcdClientConf =
  ConnectionTimeout :: int
  RequestTimeout :: int
  conf_Endpoints :: "string list"

record EtcdServerConf =
  conf_ID :: string
  conf_Scheme :: string
  conf_Host :: string
  ClientPort :: int
  PeerPort :: int
  conf_Token :: string
  Cluster :: string
  StartupTimeout :: int
  conf_Enabled :: bool
  DataDir :: string
  LogLevel :: string

definition empty_client_conf :: EtcdClientConf where
  "empty_client_conf = \<lparr>ConnectionTimeout = 0, RequestTimeout = 0, conf_Endpoints = []\<rparr>"

definition empty_server_conf :: EtcdServerConf where
  "empty_server_conf =
     \<lparr>conf_ID = [], conf_Scheme = [], conf_Host = [], ClientPort = 0, PeerPort = 0, conf_Token = [], Cluster = [], StartupTimeout = 0,
      conf_Enabled = False, DataDir = [], LogLevel = []\<rparr>"

text \<open>
  What is asked of viper. Decoding fills in what the settings have, over what the struct holds, and may fail after a part of it.
  \<open>sub_Unmarshal\<close> is \<^verbatim>\<open>SubWithDefault(vip, key).Unmarshal\<close>, or None when the key has neither a value nor a default: then \<^verbatim>\<open>SubWithDefault\<close>
  returns nil. \<open>UnmarshalKey\<close> decodes the value in use, \<open>InConfig\<close> tells whether the configuration file has the key.
\<close>

record etcd_viper =
  sub_Unmarshal_client :: "string \<Rightarrow> (EtcdClientConf \<Rightarrow> EtcdClientConf \<times> error option) option"
  sub_Unmarshal :: "string \<Rightarrow> (EtcdServerConf \<Rightarrow> EtcdServerConf \<times> error option) option"
  UnmarshalKey :: "string \<Rightarrow> EtcdServerConf \<Rightarrow> EtcdServerConf \<times> error option"
  InConfig :: "string \<Rightarrow> bool"

definition PaymentChannelStorageClientKey :: string where "PaymentChannelStorageClientKey = ''payment_channel_storage_client''"
definition PaymentChannelStorageServerKey :: string where "PaymentChannelStorageServerKey = ''payment_channel_storage_server''"

definition GetEtcdClientConf :: "etcd_viper \<Rightarrow> (EtcdClientConf \<times> error option) go" where
  "GetEtcdClientConf vip =
     (case sub_Unmarshal_client vip PaymentChannelStorageClientKey of
        None \<Rightarrow> Panics nil_dereference
      | Some unmarshal \<Rightarrow> Returns (unmarshal empty_client_conf))"

text \<open>
  \<open>clientv3_New endpoints dial request\<close> gives the calls of a connected client, each of which is cancelled after the request timeout.
\<close>

record 'w clientv3 =
  clientv3_New :: "string list \<Rightarrow> int \<Rightarrow> int \<Rightarrow> 'w \<Rightarrow> 'w etcdv3 result \<times> 'w"
  concurrency_NewSession :: "'w etcdv3 \<Rightarrow> 'w \<Rightarrow> unit result \<times> 'w"

definition NewEtcdClientFromVip :: "'w clientv3 \<Rightarrow> etcd_viper \<Rightarrow> 'w \<Rightarrow> 'w EtcdClient result go \<times> 'w" where
  "NewEtcdClientFromVip lib vip w =
     (case GetEtcdClientConf vip of
        Panics m \<Rightarrow> (Panics m, w)
      | Returns (conf, Some err) \<Rightarrow> (Returns (Inl err), w)
      | Returns (conf, None) \<Rightarrow>
          (case clientv3_New lib (conf_Endpoints conf) (ConnectionTimeout conf) (RequestTimeout conf) w of
             (Inl err, w1) \<Rightarrow> (Returns (Inl err), w1)
           | (Inr etcdv3, w1) \<Rightarrow>
               (case concurrency_NewSession lib etcdv3 w1 of
                  (Inl err, w2) \<Rightarrow> (Returns (Inl err), w2)
                | (Inr _, w2) \<Rightarrow> (Returns (Inr \<lparr>client_etcdv3 = etcdv3\<rparr>), w2))))"

definition normalizeDefaultConf :: "string \<Rightarrow> string" where
  "normalizeDefaultConf conf = filter (\<lambda>c. c \<noteq> CHR ''_'') conf"

section \<open>Logging of etcd\<close>

datatype capnslog_LogLevel = CRITICAL | ERROR | WARNING | NOTICE | INFO | DEBUG | TRACE | OtherLevel int

datatype logrus_Level = logrus_Error | logrus_Warning | logrus_Info | logrus_Debug

fun Format :: "capnslog_LogLevel \<Rightarrow> logrus_Level" where
  "Format CRITICAL = logrus_Error"
| "Format ERROR = logrus_Error"
| "Format WARNING = logrus_Warning"
| "Format NOTICE = logrus_Warning"
| "Format INFO = logrus_Info"
| "Format DEBUG = logrus_Debug"
| "Format TRACE = logrus_Debug"
| "Format (OtherLevel n) = logrus_Warning"

text \<open>\<^verbatim>\<open>strings.ToUpper\<close> on the ASCII letters; the names of levels have no others.\<close>

definition ToUpper :: "string \<Rightarrow> string" where
  "ToUpper s = map (\<lambda>c. let n = of_char c :: nat in if 97 \<le> n \<and> n \<le> 122 then char_of (n - 32) else c) s"

record 'w capnslog =
  GetRepoLogger :: "string \<Rightarrow> unit result"
  ParseLevel :: "string \<Rightarrow> capnslog_LogLevel result"
  SetRepoLogLevel :: "capnslog_LogLevel \<Rightarrow> 'w \<Rightarrow> 'w"
  SetFormatter :: "(capnslog_LogLevel \<Rightarrow> logrus_Level) \<Rightarrow> 'w \<Rightarrow> 'w"

definition initEtcdLogger :: "'w capnslog \<Rightarrow> EtcdServerConf \<Rightarrow> 'w \<Rightarrow> error option \<times> 'w" where
  "initEtcdLogger log conf w =
     (case GetRepoLogger log ''github.com/coreos/etcd'' of
        Inl err \<Rightarrow> (Some err, w)
      | Inr _ \<Rightarrow>
          (case ParseLevel log (ToUpper (LogLevel conf)) of
             Inl err \<Rightarrow> (Some err, w)
           | Inr logLevel \<Rightarrow> (None, SetFormatter log Format (SetRepoLogLevel log logLevel w))))"

text \<open>\<^verbatim>\<open>strings.ToLower(key)\<close> is the key: it has no capital letters.\<close>

definition GetEtcdServerConf :: "etcd_viper \<Rightarrow> 'w capnslog \<Rightarrow> 'w \<Rightarrow> (EtcdServerConf \<times> error option) go \<times> 'w" where
  "GetEtcdServerConf vip log w =
     (case sub_Unmarshal vip PaymentChannelStorageServerKey of
        None \<Rightarrow> (Panics nil_dereference, w)
      | Some unmarshal \<Rightarrow>
          (case unmarshal empty_server_conf of
             (conf, Some err) \<Rightarrow> (Returns (conf, Some err), w)
           | (conf, None) \<Rightarrow>
               (if \<not> InConfig vip PaymentChannelStorageServerKey then (Returns (conf, None), w)
                else case UnmarshalKey vip PaymentChannelStorageServerKey (conf\<lparr>conf_Enabled := True\<rparr>) of
                       (conf, Some err) \<Rightarrow> (Returns (conf, Some err), w)
                     | (conf, None) \<Rightarrow> (case initEtcdLogger log conf w of (err, w') \<Rightarrow> (Returns (conf, err), w')))))"

section \<open>The server\<close>

record url_URL =
  url_Scheme :: string
  url_Host :: string

text \<open>The fields of \<^verbatim>\<open>embed.Config\<close> the daemon sets; the others keep what \<^verbatim>\<open>embed.NewConfig\<close> gives them.\<close>

record embed_Config =
  Name :: string
  Dir :: string
  LCUrls :: "url_URL list"
  ACUrls :: "url_URL list"
  LPUrls :: "url_URL list"
  APUrls :: "url_URL list"
  InitialCluster :: string
  InitialClusterToken :: string
  ClusterState :: string

definition getEtcdConf :: "EtcdServerConf \<Rightarrow> embed_Config" where
  "getEtcdConf conf =
     (let clientURL = \<lparr>url_Scheme = conf_Scheme conf, url_Host = conf_Host conf @ '':'' @ show_int (ClientPort conf)\<rparr>;
          peerURL = \<lparr>url_Scheme = conf_Scheme conf, url_Host = conf_Host conf @ '':'' @ show_int (PeerPort conf)\<rparr> in
      \<lparr>Name = conf_ID conf, Dir = DataDir conf, LCUrls = [clientURL], ACUrls = [clientURL], LPUrls = [peerURL], APUrls = [peerURL],
       InitialCluster = Cluster conf, InitialClusterToken = conf_Token conf, ClusterState = ''new''\<rparr>)"

text \<open>
  A running etcd is a handle. \<open>ready_before handle timeout\<close> tells which of \<^verbatim>\<open>ReadyNotify\<close> and \<^verbatim>\<open>time.After\<close> the \<^verbatim>\<open>select\<close> took.
\<close>

record 'w embed =
  StartEtcd :: "embed_Config \<Rightarrow> 'w \<Rightarrow> nat result \<times> 'w"
  ready_before :: "nat \<Rightarrow> int \<Rightarrow> 'w \<Rightarrow> bool \<times> 'w"
  Server_Stop :: "nat \<Rightarrow> 'w \<Rightarrow> 'w"
  etcd_Close :: "nat \<Rightarrow> 'w \<Rightarrow> 'w"

definition startEtcdServer :: "'w embed \<Rightarrow> EtcdServerConf \<Rightarrow> 'w \<Rightarrow> nat result \<times> 'w" where
  "startEtcdServer emb conf w =
     (case StartEtcd emb (getEtcdConf conf) w of
        (Inl err, w1) \<Rightarrow> (Inl err, w1)
      | (Inr etcd, w1) \<Rightarrow>
          (case ready_before emb etcd (StartupTimeout conf) w1 of
             (True, w2) \<Rightarrow> (Inr etcd, w2)
           | (False, w2) \<Rightarrow>
               (Inl (Error (Concat (Lit ''etcd server took too long to start: '') (Lit (conf_ID conf)))), Server_Stop emb etcd w2)))"

record EtcdServer =
  server_conf :: EtcdServerConf
  server_etcd :: "nat option"

definition IsEtcdServerEnabledInVip :: "etcd_viper \<Rightarrow> 'w capnslog \<Rightarrow> 'w \<Rightarrow> bool result go \<times> 'w" where
  "IsEtcdServerEnabledInVip vip log w =
     (case GetEtcdServerConf vip log w of
        (Panics m, w') \<Rightarrow> (Panics m, w')
      | (Returns (conf, Some err), w') \<Rightarrow> (Returns (Inl err), w')
      | (Returns (conf, None), w') \<Rightarrow> (Returns (Inr (conf_Enabled conf)), w'))"

text \<open>nil without an error for a server that is not enabled.\<close>

definition GetEtcdServerFromVip :: "etcd_viper \<Rightarrow> 'w capnslog \<Rightarrow> 'w \<Rightarrow> EtcdServer option result go \<times> 'w" where
  "GetEtcdServerFromVip vip log w =
     (case GetEtcdServerConf vip log w of
        (Panics m, w') \<Rightarrow> (Panics m, w')
      | (Returns (conf, Some err), w') \<Rightarrow> (Returns (Inl err), w')
      | (Returns (conf, None), w') \<Rightarrow>
          (Returns (Inr (if conf_Enabled conf then Some \<lparr>server_conf = conf, server_etcd = None\<rparr> else None)), w'))"

definition EtcdServer_Start :: "'w embed \<Rightarrow> EtcdServer \<Rightarrow> 'w \<Rightarrow> error option \<times> EtcdServer \<times> 'w" where
  "EtcdServer_Start emb server w =
     (case startEtcdServer emb (server_conf server) w of
        (Inl err, w') \<Rightarrow> (Some err, server, w')
      | (Inr etcd, w') \<Rightarrow> (None, server\<lparr>server_etcd := Some etcd\<rparr>, w'))"

text \<open>\<^verbatim>\<open>embed.Etcd.Close\<close> needs a server that was started.\<close>

definition EtcdServer_Close :: "'w embed \<Rightarrow> EtcdServer \<Rightarrow> 'w \<Rightarrow> unit go \<times> 'w" where
  "EtcdServer_Close emb server w =
     (case server_etcd server of None \<Rightarrow> (Panics nil_dereference, w) | Some etcd \<Rightarrow> (Returns (), etcd_Close emb etcd w))"

section \<open>Facts\<close>

text \<open>The configuration does not depend on the world: the two readings of it at start-up agree.\<close>

lemma GetEtcdServerConf_same:
  "fst (GetEtcdServerConf vip log w) = fst (GetEtcdServerConf vip log w')"
  by (simp add: GetEtcdServerConf_def initEtcdLogger_def split: option.splits prod.splits sum.splits)

lemma enabled_server_not_nil:
  assumes "fst (IsEtcdServerEnabledInVip vip log w) = Returns (Inr True)"
  obtains conf where "fst (GetEtcdServerFromVip vip log w') = Returns (Inr (Some \<lparr>server_conf = conf, server_etcd = None\<rparr>))" "conf_Enabled conf"
proof -
  from assms obtain conf where "fst (GetEtcdServerConf vip log w) = Returns (conf, None)" "conf_Enabled conf"
    by (auto simp: IsEtcdServerEnabledInVip_def split: prod.splits go.splits option.splits)
  with GetEtcdServerConf_same [of vip log w w'] that show thesis
    by (cases "GetEtcdServerConf vip log w'") (auto simp: GetEtcdServerFromVip_def)
qed

text \<open>
  A file that names the server enables it unless it says otherwise; without the file's section the default decides.
\<close>

lemma server_enabled_by_section:
  assumes "sub_Unmarshal vip PaymentChannelStorageServerKey = Some u" "u empty_server_conf = (conf, None)"
    and "InConfig vip PaymentChannelStorageServerKey"
    and "UnmarshalKey vip PaymentChannelStorageServerKey (conf\<lparr>conf_Enabled := True\<rparr>) = (conf', None)"
    and "initEtcdLogger log conf' w = (None, w')"
  shows "IsEtcdServerEnabledInVip vip log w = (Returns (Inr (conf_Enabled conf')), w')"
  using assms by (simp add: IsEtcdServerEnabledInVip_def GetEtcdServerConf_def)

text \<open>A server that was started is running and can be closed; one that was not is stopped before the error is reported.\<close>

lemma EtcdServer_Start_cases:
  assumes "EtcdServer_Start emb server w = (err, server', w')"
  obtains (started) etcd w1 where "err = None" "server' = server\<lparr>server_etcd := Some etcd\<rparr>"
      "StartEtcd emb (getEtcdConf (server_conf server)) w = (Inr etcd, w1)"
      "ready_before emb etcd (StartupTimeout (server_conf server)) w1 = (True, w')"
    | (refused) e where "err = Some e" "server' = server" "StartEtcd emb (getEtcdConf (server_conf server)) w = (Inl e, w')"
    | (late) e etcd w1 w2 where "err = Some e" "server' = server" "StartEtcd emb (getEtcdConf (server_conf server)) w = (Inr etcd, w1)"
      "ready_before emb etcd (StartupTimeout (server_conf server)) w1 = (False, w2)" "w' = Server_Stop emb etcd w2"
  using assms
  by (auto simp: EtcdServer_Start_def startEtcdServer_def split: prod.splits sum.splits bool.splits)

end
