(* ===== verification/Json.thy ===== *)
theory Json
  imports Prelude "HOL-Library.AList"
begin

text \<open>
  JSON texts, as \<^verbatim>\<open>encoding/json\<close> of the Go library reads and writes them: the default configuration, the network
  file and the payloads of the metrics services go through it. The reader is the state machine of its
  scanner, one step per character with a stack of the open arrays and objects, and a blank fed at the end of
  the text; strings are unquoted when they are complete. Numbers are kept as they are written.
  Texts are bytes, taken to be valid UTF-8.
\<close>

section \<open>Values\<close>

text \<open>\<open>interface{}\<close> values of a parsed JSON text, as far as the code looks at them.\<close>

datatype json = JString string | JNumber string | JBool bool | JNull | JArray "json list" | JObject "(string \<times> json) list"

section \<open>Strings\<close>

definition hex_value :: "char \<Rightarrow> nat option" where
  "hex_value c =
     (let n = of_char c :: nat in
      if 48 \<le> n \<and> n \<le> 57 then Some (n - 48)
      else if 97 \<le> n \<and> n \<le> 102 then Some (n - 87)
      else if 65 \<le> n \<and> n \<le> 70 then Some (n - 55) else None)"

definition hex_digit :: "nat \<Rightarrow> char" where
  "hex_digit n = char_of (if n < 10 then 48 + n else 87 + n)"

definition getu4 :: "string \<Rightarrow> nat" where
  "getu4 s = foldl (\<lambda>v c. 16 * v + (case hex_value c of None \<Rightarrow> 0 | Some d \<Rightarrow> d)) 0 (take 4 s)"

definition utf8 :: "nat \<Rightarrow> string" where
  "utf8 n =
     (if n < 0x80 then [char_of n]
      else if n < 0x800 then [char_of (0xC0 + n div 0x40), char_of (0x80 + n mod 0x40)]
      else if n < 0x10000 then
        [char_of (0xE0 + n div 0x1000), char_of (0x80 + n div 0x40 mod 0x40), char_of (0x80 + n mod 0x40)]
      else [char_of (0xF0 + n div 0x40000), char_of (0x80 + n div 0x1000 mod 0x40),
            char_of (0x80 + n div 0x40 mod 0x40), char_of (0x80 + n mod 0x40)])"

definition unescape :: "char \<Rightarrow> char" where
  "unescape c =
     (if c = CHR ''b'' then CHR 0x08 else if c = CHR ''f'' then CHR 0x0C else if c = CHR ''n'' then CHR 0x0A
      else if c = CHR ''r'' then CHR 0x0D else if c = CHR ''t'' then CHR 0x09 else c)"

text \<open>A surrogate without its other half is the replacement character.\<close>

function unquote :: "string \<Rightarrow> string" where
  "unquote s =
     (case s of
        [] \<Rightarrow> []
      | c # rest \<Rightarrow>
          if c \<noteq> CHR 0x5C then c # unquote rest
          else (case rest of
             [] \<Rightarrow> []
           | e # escaped \<Rightarrow>
               if e \<noteq> CHR ''u'' then unescape e # unquote escaped
               else (let rr = getu4 escaped; after = drop 4 escaped in
                 if 0xD800 \<le> rr \<and> rr < 0xE000 then
                   (let rr1 = (if take 2 after = [CHR 0x5C, CHR ''u''] then getu4 (drop 2 after) else 0) in
                    if rr < 0xDC00 \<and> 0xDC00 \<le> rr1 \<and> rr1 < 0xE000 then
                      utf8 (0x10000 + (rr - 0xD800) * 0x400 + (rr1 - 0xDC00)) @ unquote (drop 6 after)
                    else utf8 0xFFFD @ unquote after)
                 else utf8 rr @ unquote after)))"
  by pat_completeness auto
termination by (relation "measure length") auto

section \<open>The scanner\<close>

datatype frame = InArray "json list" | InObject "(string \<times> json) list" string

datatype mode =
  Fail | Complete json | Value | ElemOrEnd | AfterElem | KeyOrEnd | Key | Colon | AfterMember
| Str bool string | Escape bool string | Hex bool string nat | Number string | Word string json

definition is_space :: "char \<Rightarrow> bool" where
  "is_space c = (c = CHR '' '' \<or> c = CHR 0x09 \<or> c = CHR 0x0A \<or> c = CHR 0x0D)"

fun is_control :: "char \<Rightarrow> bool" where
  "is_control (Char b0 b1 b2 b3 b4 b5 b6 b7) = (\<not> b5 \<and> \<not> b6 \<and> \<not> b7)"

definition is_digit :: "char \<Rightarrow> bool" where
  "is_digit c = (let n = of_char c :: nat in 48 \<le> n \<and> n \<le> 57)"

definition number_char :: "char \<Rightarrow> bool" where
  "number_char c = (is_digit c \<or> c \<in> set ''+-.eE'')"

text \<open>An optional minus, an integer part without leading zeros, an optional fraction and an optional exponent.\<close>

definition valid_number :: "string \<Rightarrow> bool" where
  "valid_number s =
     (let t = (if take 1 s = ''-'' then drop 1 s else s);
          i = takeWhile is_digit t; u = dropWhile is_digit t;
          f = takeWhile is_digit (drop 1 u);
          v = (if take 1 u = ''.'' then dropWhile is_digit (drop 1 u) else u);
          e = drop 1 v; x = (if take 1 e = ''+'' \<or> take 1 e = ''-'' then drop 1 e else e) in
      i \<noteq> [] \<and> (hd i = CHR ''0'' \<longrightarrow> length i = 1) \<and> (take 1 u = ''.'' \<longrightarrow> f \<noteq> []) \<and>
      (v = [] \<or> (take 1 v = ''e'' \<or> take 1 v = ''E'') \<and> x \<noteq> [] \<and> list_all is_digit x))"

fun complete :: "json \<Rightarrow> frame list \<Rightarrow> mode \<times> frame list" where
  "complete v [] = (Complete v, [])"
| "complete v (InArray xs # s) = (AfterElem, InArray (xs @ [v]) # s)"
| "complete v (InObject ms k # s) = (AfterMember, InObject (AList.update k v ms) k # s)"

text \<open>What follows a value: the end of the text, or of the array or object around it, or the next member.\<close>

fun scan_after :: "mode \<times> frame list \<Rightarrow> char \<Rightarrow> mode \<times> frame list" where
  "scan_after (Complete v, s) c = (if is_space c then (Complete v, s) else (Fail, s))"
| "scan_after (AfterElem, InArray xs # s) c =
     (if is_space c then (AfterElem, InArray xs # s)
      else if c = CHR '','' then (Value, InArray xs # s)
      else if c = CHR '']'' then complete (JArray xs) s else (Fail, s))"
| "scan_after (AfterMember, InObject ms k # s) c =
     (if is_space c then (AfterMember, InObject ms k # s)
      else if c = CHR '','' then (Key, InObject ms k # s)
      else if c = CHR ''}'' then complete (JObject ms) s else (Fail, s))"
| "scan_after (m, s) c = (Fail, s)"

definition begin_value :: "frame list \<Rightarrow> char \<Rightarrow> mode \<times> frame list" where
  "begin_value s c =
     (if c = CHR 0x22 then (Str False [], s)
      else if c = CHR ''{'' then (KeyOrEnd, InObject [] [] # s)
      else if c = CHR ''['' then (ElemOrEnd, InArray [] # s)
      else if c = CHR ''t'' then (Word ''rue'' (JBool True), s)
      else if c = CHR ''f'' then (Word ''alse'' (JBool False), s)
      else if c = CHR ''n'' then (Word ''ull'' JNull, s)
      else if c = CHR ''-'' \<or> is_digit c then (Number [c], s)
      else (Fail, s))"

definition end_string :: "bool \<Rightarrow> string \<Rightarrow> frame list \<Rightarrow> mode \<times> frame list" where
  "end_string key raw s =
     (if key then (case s of InObject ms _ # s' \<Rightarrow> (Colon, InObject ms (unquote raw) # s') | _ \<Rightarrow> (Fail, s))
      else complete (JString (unquote raw)) s)"

fun scan :: "mode \<times> frame list \<Rightarrow> char \<Rightarrow> mode \<times> frame list" where
  "scan (Value, s) c = (if is_space c then (Value, s) else begin_value s c)"
| "scan (ElemOrEnd, s) c =
     (if is_space c then (ElemOrEnd, s)
      else if c = CHR '']'' then complete (JArray []) (tl s) else begin_value s c)"
| "scan (KeyOrEnd, s) c =
     (if is_space c then (KeyOrEnd, s) else if c = CHR 0x22 then (Str True [], s)
      else if c = CHR ''}'' then complete (JObject []) (tl s) else (Fail, s))"
| "scan (Key, s) c = (if is_space c then (Key, s) else if c = CHR 0x22 then (Str True [], s) else (Fail, s))"
| "scan (Colon, s) c = (if is_space c then (Colon, s) else if c = CHR '':'' then (Value, s) else (Fail, s))"
| "scan (Str key raw, s) c =
     (if c = CHR 0x22 then end_string key raw s
      else if c = CHR 0x5C then (Escape key (raw @ [c]), s)
      else if is_control c then (Fail, s) else (Str key (raw @ [c]), s))"
| "scan (Escape key raw, s) c =
     (if c = CHR ''u'' then (Hex key (raw @ [c]) 0, s)
      else if c \<in> set [CHR ''b'', CHR ''f'', CHR ''n'', CHR ''r'', CHR ''t'', CHR 0x5C, CHR ''/'', CHR 0x22]
      then (Str key (raw @ [c]), s) else (Fail, s))"
| "scan (Hex key raw n, s) c =
     (if hex_value c = None then (Fail, s)
      else if n < 3 then (Hex key (raw @ [c]) (Suc n), s) else (Str key (raw @ [c]), s))"
| "scan (Number raw, s) c =
     (if number_char c then (Number (raw @ [c]), s)
      else if valid_number raw then scan_after (complete (JNumber raw) s) c else (Fail, s))"
| "scan (Word w v, s) c =
     (case w of [] \<Rightarrow> (Fail, s)
      | x # xs \<Rightarrow> if c \<noteq> x then (Fail, s) else if xs = [] then complete v s else (Word xs v, s))"
| "scan (m, s) c = scan_after (m, s) c"

definition unmarshal_json :: "string \<Rightarrow> json result" where
  "unmarshal_json data =
     (case foldl scan (Value, []) (data @ '' '') of
        (Complete v, _) \<Rightarrow> Inr v
      | _ \<Rightarrow> Inl (errors_New ''invalid JSON''))"

text \<open>Into a \<^verbatim>\<open>map[string]interface{}\<close>: any value but an object or null is an error, null leaves the map empty.\<close>

definition unmarshal_map :: "string \<Rightarrow> (string \<times> json) list result" where
  "unmarshal_map data =
     (case unmarshal_json data of
        Inl err \<Rightarrow> Inl err
      | Inr (JObject ms) \<Rightarrow> Inr ms
      | Inr JNull \<Rightarrow> Inr []
      | Inr _ \<Rightarrow> Inl (errors_New ''json: cannot unmarshal into Go value of type map[string]interface {}''))"

text \<open>\<^verbatim>\<open>strings.ToLower\<close> on the ASCII letters: names of settings and struct fields are compared without case.\<close>

definition ToLower :: "string \<Rightarrow> string" where
  "ToLower s = map (\<lambda>c. let n = of_char c :: nat in if 65 \<le> n \<and> n \<le> 90 then char_of (n + 32) else c) s"

section \<open>The printer\<close>

text \<open>\<^verbatim>\<open>json.Marshal\<close> escapes quotes, backslashes, control characters and, for the sake of HTML, angle brackets and ampersands.\<close>

definition quote_char :: "char \<Rightarrow> string" where
  "quote_char c =
     (let n = of_char c :: nat in
      if c = CHR 0x22 \<or> c = CHR 0x5C then [CHR 0x5C, c]
      else if n = 10 then [CHR 0x5C, CHR ''n'']
      else if n = 13 then [CHR 0x5C, CHR ''r'']
      else if n = 9 then [CHR 0x5C, CHR ''t'']
      else if n < 32 \<or> c \<in> set ''<>&'' then [CHR 0x5C, CHR ''u'', CHR ''0'', CHR ''0'', hex_digit (n div 16), hex_digit (n mod 16)]
      else [c])"

definition quote :: "string \<Rightarrow> string" where
  "quote s = CHR 0x22 # concat (map quote_char s) @ [CHR 0x22]"

fun commas :: "string list \<Rightarrow> string" where
  "commas [] = []"
| "commas [x] = x"
| "commas (x # xs) = x @ '','' @ commas xs"

fun marshal_json :: "json \<Rightarrow> string" where
  "marshal_json (JString s) = quote s"
| "marshal_json (JNumber n) = n"
| "marshal_json (JBool b) = (if b then ''true'' else ''false'')"
| "marshal_json JNull = ''null''"
| "marshal_json (JArray xs) = ''['' @ commas (map marshal_json xs) @ '']''"
| "marshal_json (JObject ms) = ''{'' @ commas (map (\<lambda>(k, v). quote k @ '':'' @ marshal_json v) ms) @ ''}''"

text \<open>Values as Go has them: numbers print as JSON numbers, objects have distinct keys.\<close>

fun json_wf :: "json \<Rightarrow> bool" where
  "json_wf (JNumber n) = (valid_number n \<and> list_all number_char n)"
| "json_wf (JArray xs) = list_all json_wf xs"
| "json_wf (JObject ms) = (distinct (map fst ms) \<and> list_all (\<lambda>(k, v). json_wf v) ms)"
| "json_wf _ = True"

section \<open>Reading what was written\<close>

lemma is_control_iff: "is_control c \<longleftrightarrow> (of_char c :: nat) < 32"
proof (cases c)
  case (Char b0 b1 b2 b3 b4 b5 b6 b7)
  then show ?thesis by (cases b5; cases b6; cases b7) (auto simp: of_char_Char of_bool_def)
qed

lemma hex_value_digit: "n < 16 \<Longrightarrow> hex_value (hex_digit n) = Some n"
  by (auto simp: hex_value_def hex_digit_def Let_def)

declare unquote.simps [simp del]

lemma unquote_Nil [simp]: "unquote [] = []"
  by (simp add: unquote.simps)

lemma unquote_plain: "c \<noteq> CHR 0x5C \<Longrightarrow> unquote (c # s) = c # unquote s"
  by (simp add: unquote.simps [of "c # s"])

lemma unquote_escape: "e \<noteq> CHR ''u'' \<Longrightarrow> unquote (CHR 0x5C # e # s) = unescape e # unquote s"
  by (simp add: unquote.simps [of "CHR 0x5C # e # s"])

lemma unquote_unicode:
  assumes "getu4 (take 4 t) < 0x80" "length t = 4"
  shows "unquote (CHR 0x5C # CHR ''u'' # t @ s) = char_of (getu4 t) # unquote s"
proof -
  have "getu4 (t @ s) = getu4 t" using assms(2) by (simp add: getu4_def)
  then show ?thesis
    using assms by (simp add: unquote.simps [of "CHR 0x5C # CHR ''u'' # t @ s"] Let_def utf8_def)
qed

lemma unquote_quote_char: "unquote (quote_char c @ s) = c # unquote s"
proof -
  let ?n = "of_char c :: nat"
  have n: "?n < 256" by simp
  consider "c = CHR 0x22 \<or> c = CHR 0x5C" | "?n \<in> {10, 13, 9}" "c \<notin> {CHR 0x22, CHR 0x5C}"
    | (hex) "?n < 32 \<or> c \<in> set ''<>&''" "?n \<notin> {10, 13, 9}" "c \<notin> {CHR 0x22, CHR 0x5C}"
    | "\<not> (?n < 32 \<or> c \<in> set ''<>&'')" "c \<notin> {CHR 0x22, CHR 0x5C}" by auto
  then show ?thesis
  proof cases
    case 1
    then show ?thesis by (auto simp: quote_char_def unquote_escape unescape_def)
  next
    case 2
    then have "c = char_of ?n" "?n = 10 \<or> ?n = 13 \<or> ?n = 9" by simp_all
    moreover have "char_of (10::nat) = CHR 0x0A" "char_of (13::nat) = CHR 0x0D" "char_of (9::nat) = CHR 0x09" by code_simp+
    ultimately have "c = CHR 0x0A \<or> c = CHR 0x0D \<or> c = CHR 0x09" by (elim disjE) simp_all
    then show ?thesis by (elim disjE) (simp_all add: quote_char_def unquote_escape unescape_def)
  next
    case hex
    then have q: "quote_char c = [CHR 0x5C, CHR ''u''] @ [CHR ''0'', CHR ''0'', hex_digit (?n div 16), hex_digit (?n mod 16)]"
      by (auto simp: quote_char_def Let_def)
    have "?n < 128" using hex(1) by auto
    moreover have "getu4 [CHR ''0'', CHR ''0'', hex_digit (?n div 16), hex_digit (?n mod 16)] = ?n"
    proof -
      have "hex_value (CHR ''0'') = Some 0" by (simp add: hex_value_def)
      moreover have "?n div 16 < 16" using n by linarith
      ultimately show ?thesis by (simp add: getu4_def hex_value_digit)
    qed
    ultimately show ?thesis
      unfolding q using unquote_unicode [of "[CHR ''0'', CHR ''0'', hex_digit (?n div 16), hex_digit (?n mod 16)]" s] by simp
  next
    case 4
    then show ?thesis by (auto simp: quote_char_def unquote_plain)
  qed
qed

lemma unquote_quoted: "unquote (concat (map quote_char s)) = s"
  by (induction s) (simp_all add: unquote_quote_char)

lemma scan_quote_char: "foldl scan (Str key raw, s) (quote_char c) = (Str key (raw @ quote_char c), s)"
proof -
  let ?n = "of_char c :: nat"
  have "?n < 256" by simp
  then have "?n div 16 < 16" "?n mod 16 < 16" by linarith+
  then have h: "hex_value (hex_digit (?n div 16)) \<noteq> None" "hex_value (hex_digit (?n mod 16)) \<noteq> None" "hex_value (CHR ''0'') \<noteq> None"
    by (simp_all add: hex_value_digit) (simp add: hex_value_def)
  have e: "foldl scan (Str key raw, s) [CHR 0x5C, x] = (Str key (raw @ [CHR 0x5C, x]), s)"
    if "x \<in> set [CHR ''n'', CHR ''r'', CHR ''t'', CHR 0x5C, CHR 0x22]" for x
    using that by auto
  show ?thesis
  proof (cases "c = CHR 0x22 \<or> c = CHR 0x5C \<or> ?n \<in> {10, 13, 9}")
    case True
    then consider "c = CHR 0x22" | "c = CHR 0x5C" | "c \<noteq> CHR 0x22" "c \<noteq> CHR 0x5C" "?n = 10"
      | "c \<noteq> CHR 0x22" "c \<noteq> CHR 0x5C" "?n = 13" | "c \<noteq> CHR 0x22" "c \<noteq> CHR 0x5C" "?n = 9" by auto
    then have "quote_char c \<in> (\<lambda>x. [CHR 0x5C, x]) ` set [CHR ''n'', CHR ''r'', CHR ''t'', CHR 0x5C, CHR 0x22]"
      by cases (simp_all add: quote_char_def Let_def)
    then obtain x where "x \<in> set [CHR ''n'', CHR ''r'', CHR ''t'', CHR 0x5C, CHR 0x22]" "quote_char c = [CHR 0x5C, x]"
      by (elim imageE)
    with e show ?thesis by simp
  next
    case False
    then show ?thesis
      using h by (cases "?n < 32 \<or> c \<in> set ''<>&''")
        (simp_all add: quote_char_def Let_def is_control_iff numeral_2_eq_2)
  qed
qed

lemma scan_quoted: "foldl scan (Str key raw, s) (concat (map quote_char t)) = (Str key (raw @ concat (map quote_char t)), s)"
  by (induction t arbitrary: raw) (simp_all add: scan_quote_char)

lemma scan_string: "foldl scan (Value, s) (quote t) = complete (JString t) s"
  by (simp add: quote_def is_space_def begin_value_def scan_quoted end_string_def unquote_quoted)

lemma scan_key:
  "m = Key \<or> m = KeyOrEnd \<Longrightarrow>
    foldl scan (m, InObject ms k # s) (quote t @ '':'') = (Value, InObject ms t # s)"
  by (auto simp: quote_def is_space_def scan_quoted end_string_def unquote_quoted)

text \<open>What \<open>complete\<close> leads to expects the end of something.\<close>

lemma scan_complete: "scan (complete v s) c = scan_after (complete v s) c"
  by (cases "(v, s)" rule: complete.cases) simp_all

lemma scan_digits: "list_all number_char t \<Longrightarrow> foldl scan (Number raw, s) t = (Number (raw @ t), s)"
  by (induction t arbitrary: raw) simp_all

lemma valid_number_hd:
  assumes "valid_number n"
  shows "n \<noteq> [] \<and> (hd n = CHR ''-'' \<or> is_digit (hd n))"
proof (cases "take 1 n = ''-''")
  case True
  then show ?thesis by (cases n) simp_all
next
  case False
  from assms have "takeWhile is_digit (if take 1 n = ''-'' then drop 1 n else n) \<noteq> []"
    unfolding valid_number_def Let_def by (rule conjunct1)
  with False have "takeWhile is_digit n \<noteq> []" by (simp only: if_False not_False_eq_True)
  then show ?thesis by (cases n) (simp_all split: if_splits)
qed

lemma begin_number:
  assumes "c = CHR ''-'' \<or> is_digit c"
  shows "begin_value s c = (Number [c], s)" "\<not> is_space c" "c \<noteq> CHR '']''"
proof -
  have "is_digit c \<Longrightarrow> c \<noteq> d" if "\<not> is_digit d" for d using that by auto
  moreover have "\<forall>d \<in> set [CHR 0x22, CHR ''{'', CHR ''['', CHR ''t'', CHR ''f'', CHR ''n'', CHR '' '', CHR 0x09, CHR 0x0A, CHR 0x0D, CHR '']''].
      \<not> is_digit d" by code_simp
  ultimately have "\<forall>d \<in> set [CHR 0x22, CHR ''{'', CHR ''['', CHR ''t'', CHR ''f'', CHR ''n'', CHR '' '', CHR 0x09, CHR 0x0A, CHR 0x0D, CHR '']''].
      c \<noteq> d" using assms by auto
  with assms show "begin_value s c = (Number [c], s)" "\<not> is_space c" "c \<noteq> CHR '']''"
    by (simp_all add: begin_value_def is_space_def)
qed

text \<open>A value is recognised by the delimiter after it, at the latest.\<close>

definition reads :: "json \<Rightarrow> bool" where
  "reads v \<longleftrightarrow> (\<forall>s d. \<not> number_char d \<longrightarrow> scan (foldl scan (Value, s) (marshal_json v)) d = scan_after (complete v s) d)"

lemma readsI: "(\<And>s. foldl scan (Value, s) (marshal_json v) = complete v s) \<Longrightarrow> reads v"
  by (simp add: reads_def scan_complete)

lemma reads_number:
  assumes "json_wf (JNumber n)"
  shows "reads (JNumber n)"
proof -
  obtain c t where n: "n = c # t" "c = CHR ''-'' \<or> is_digit c" using assms valid_number_hd [of n] by (cases n) auto
  have "foldl scan (Value, s) n = (Number n, s)" for s
    using assms n begin_number [OF n(2)] by (simp add: scan_digits)
  with assms show ?thesis by (simp add: reads_def)
qed

lemma delimiters [simp]: "\<not> number_char (CHR '','')" "\<not> number_char (CHR '']'')" "\<not> number_char (CHR ''}'')" "\<not> number_char (CHR '' '')"
  by (simp_all add: number_char_def is_digit_def)

lemma space_delimiters [simp]: "\<not> is_space (CHR '','')" "\<not> is_space (CHR '']'')" "\<not> is_space (CHR ''}'')" "is_space (CHR '' '')"
  by (simp_all add: is_space_def)

lemma commas_Cons: "commas (x # xs) = x @ (if xs = [] then [] else CHR '','' # commas xs)"
  by (cases xs) simp_all

lemma scan_elements:
  "\<forall>v \<in> set vs. reads v \<Longrightarrow> vs \<noteq> [] \<Longrightarrow>
    foldl scan (Value, InArray xs # s) (commas (map marshal_json vs) @ '']'') = complete (JArray (xs @ vs)) s"
proof (induction vs arbitrary: xs)
  case (Cons v vs)
  then have "scan (foldl scan (Value, InArray xs # s) (marshal_json v)) d = scan_after (complete v (InArray xs # s)) d"
    if "\<not> number_char d" for d using that by (simp add: reads_def)
  with Cons show ?case by (cases "vs = []") (simp_all add: commas_Cons)
qed simp

lemma update_new: "k \<notin> fst ` set al \<Longrightarrow> AList.update k v al = al @ [(k, v)]"
  by (induction al) auto

lemma scan_members:
  "\<forall>(k, v) \<in> set ms. reads v \<Longrightarrow> ms \<noteq> [] \<Longrightarrow> distinct (map fst (ns @ ms)) \<Longrightarrow> m = Key \<or> m = KeyOrEnd \<Longrightarrow>
    foldl scan (m, InObject ns k # s) (commas (map (\<lambda>(k, v). quote k @ '':'' @ marshal_json v) ms) @ ''}'') =
    complete (JObject (ns @ ms)) s"
proof (induction ms arbitrary: m ns k)
  case (Cons x ms)
  obtain l v where x: "x = (l, v)" by (cases x)
  have k: "foldl scan (m, InObject ns k # s) (quote l @ '':'') = (Value, InObject ns l # s)"
    using Cons.prems(4) by (rule scan_key)
  have new: "AList.update l v ns = ns @ [(l, v)]"
    using Cons.prems(3) x by (intro update_new) auto
  have v: "scan (foldl scan (Value, InObject ns l # s) (marshal_json v)) d = scan_after (AfterMember, InObject (ns @ [(l, v)]) l # s) d"
    if "\<not> number_char d" for d using that Cons.prems(1) x new by (simp add: reads_def)
  show ?case
    using Cons k v x by (cases "ms = []") (simp_all add: commas_Cons)
qed simp

lemma begin_not_end: "foldl scan (ElemOrEnd, s) (marshal_json v @ t) = foldl scan (Value, s) (marshal_json v @ t)" if "json_wf v"
proof -
  have "marshal_json v \<noteq> [] \<and> \<not> is_space (hd (marshal_json v)) \<and> hd (marshal_json v) \<noteq> CHR '']''"
  proof (cases v)
    case (JNumber n)
    with that valid_number_hd [of n] begin_number(2,3) [of "hd n"] show ?thesis by auto
  qed (auto simp: quote_def is_space_def)
  then show ?thesis by (cases "marshal_json v") simp_all
qed

lemma json_wf_reads: "json_wf v \<Longrightarrow> reads v"
proof (induction v)
  case (JString t)
  then show ?case by (intro readsI) (simp add: scan_string)
next
  case (JNumber n)
  then show ?case by (rule reads_number)
next
  case (JBool b)
  then show ?case by (intro readsI) (simp add: is_space_def begin_value_def)
next
  case JNull
  then show ?case by (intro readsI) (simp add: is_space_def begin_value_def)
next
  case (JArray vs)
  show ?case
  proof (cases vs)
    case Nil
    then show ?thesis by (intro readsI) (simp add: is_space_def begin_value_def)
  next
    case (Cons v us)
    have "foldl scan (ElemOrEnd, InArray [] # s) (commas (map marshal_json vs) @ '']'') = complete (JArray vs) s" for s
      using scan_elements [of vs "[]" s] JArray Cons begin_not_end [of v "InArray [] # s"]
      by (simp add: commas_Cons list_all_iff del: foldl_append)
    then show ?thesis by (intro readsI) (simp add: is_space_def begin_value_def)
  qed
next
  case (JObject ms)
  show ?case
  proof (cases ms)
    case Nil
    then show ?thesis by (intro readsI) (simp add: is_space_def begin_value_def)
  next
    case (Cons m us)
    have "\<forall>(k, v) \<in> set ms. reads v" using JObject by (fastforce simp: list_all_iff)
    with scan_members [of ms "[]" KeyOrEnd "[]"] JObject Cons show ?thesis
      by (intro readsI) (simp add: is_space_def begin_value_def)
  qed
qed

lemma json_roundtrip: "json_wf v \<Longrightarrow> unmarshal_json (marshal_json v) = Inr v"
  using json_wf_reads [of v] by (simp add: reads_def unmarshal_json_def)

end
