(* ===== verification/Config.thy ===== *)
theory Config
  imports Json
begin

text \<open>
  The \<^verbatim>\<open>config\<close> package: validation of the configuration (\<^verbatim>\<open>config.go\<close>), the version check (\<^verbatim>\<open>version.go\<close>)
  and the details of the selected blockchain network (\<^verbatim>\<open>blockchain_network_config.go\<close>).

  viper is not part of the repository: the record \<open>viper\<close> has the lookups the code makes. Parsing of URLs,
  files and HTTP are arguments; \<^verbatim>\<open>net.SplitHostPort\<close> and the regular expression for e-mail
  addresses are spelled out.
\<close>

section \<open>Keys\<close>

definition BlockChainNetworkSelected :: string where "BlockChainNetworkSelected = ''blockchain_network_selected''"
definition BurstSize :: string where "BurstSize = ''burst_size''"
definition DaemonTypeKey :: string where "DaemonTypeKey = ''daemon_type''"
definition DaemonEndPoint :: string where "DaemonEndPoint = ''daemon_end_point''"
definition MaxMessageSizeInMB :: string where "MaxMessageSizeInMB = ''max_message_size_in_mb''"
definition MonitoringEnabled :: string where "MonitoringEnabled = ''monitoring_enabled''"
definition MonitoringServiceEndpoint :: string where "MonitoringServiceEndpoint = ''monitoring_svc_end_point''"
definition OrganizationId :: string where "OrganizationId = ''organization_id''"
definition ServiceId :: string where "ServiceId = ''service_id''"
definition PassthroughEndpointKey :: string where "PassthroughEndpointKey = ''passthrough_endpoint''"
definition RateLimitPerMinute :: string where "RateLimitPerMinute = ''rate_limit_per_minute''"
definition SSLCertPathKey :: string where "SSLCertPathKey = ''ssl_cert''"
definition SSLKeyPathKey :: string where "SSLKeyPathKey = ''ssl_key''"
definition PaymentChannelStorageTypeKey :: string where "PaymentChannelStorageTypeKey = ''payment_channel_storage_type''"
definition AlertsEMail :: string where "AlertsEMail = ''alerts_email''"
definition HeartbeatServiceEndpoint :: string where "HeartbeatServiceEndpoint = ''heartbeat_svc_end_point''"
definition NotificationServiceEndpoint :: string where "NotificationServiceEndpoint = ''notification_svc_end_point''"
definition ServiceHeartbeatType :: string where "ServiceHeartbeatType = ''service_heartbeat_type''"

record viper =
  vip_GetString :: "string \<Rightarrow> string"
  vip_GetInt :: "string \<Rightarrow> int"
  vip_GetBool :: "string \<Rightarrow> bool"

section \<open>E-mail addresses\<close>

text \<open>The regular expression \<^verbatim>\<open>^[a-z0-9._%+\-]+@[a-z0-9.\-]+\.[a-z]{2,4}$\<close>, tried at every pair of split points.\<close>

definition lower_char :: "char \<Rightarrow> bool" where
  "lower_char c = (let n = of_char c :: nat in 97 \<le> n \<and> n \<le> 122)"

definition digit :: "char \<Rightarrow> bool" where
  "digit c = (let n = of_char c :: nat in 48 \<le> n \<and> n \<le> 57)"

definition domain_char :: "char \<Rightarrow> bool" where
  "domain_char c = (lower_char c \<or> digit c \<or> c \<in> set ''.-'')"

definition local_char :: "char \<Rightarrow> bool" where
  "local_char c = (lower_char c \<or> digit c \<or> c \<in> set ''._%+-'')"

definition email_parts :: "string \<Rightarrow> string \<Rightarrow> string \<Rightarrow> bool" where
  "email_parts user domain tld =
     (user \<noteq> [] \<and> list_all local_char user \<and> domain \<noteq> [] \<and> list_all domain_char domain \<and>
      2 \<le> length tld \<and> length tld \<le> 4 \<and> list_all lower_char tld)"

definition ValidateEmail :: "string \<Rightarrow> bool" where
  "ValidateEmail email =
     list_ex (\<lambda>i. list_ex (\<lambda>j.
         email ! i = CHR ''@'' \<and> email ! j = CHR ''.'' \<and>
         email_parts (take i email) (drop (Suc i) (take j email)) (drop (Suc j) email))
       [Suc i..<length email]) [0..<length email]"

section \<open>Endpoints\<close>

text \<open>The index of the last occurrence of a character, and of the first one.\<close>

fun byte_index :: "string \<Rightarrow> char \<Rightarrow> nat option" where
  "byte_index [] c = None"
| "byte_index (x # xs) c = (if x = c then Some 0 else map_option Suc (byte_index xs c))"

definition last_index :: "string \<Rightarrow> char \<Rightarrow> nat option" where
  "last_index s c = map_option (\<lambda>i. length s - Suc i) (byte_index (rev s) c)"

text \<open>\<^verbatim>\<open>net.SplitHostPort\<close>, with the error dropped: the code does not look at it.\<close>

definition SplitHostPort :: "string \<Rightarrow> (string \<times> string) option" where
  "SplitHostPort hostport =
     (case last_index hostport (CHR '':'') of
        None \<Rightarrow> None
      | Some i \<Rightarrow>
          (let found =
             (if hd hostport = CHR ''['' then
                (case byte_index hostport (CHR '']'') of
                   None \<Rightarrow> None
                 | Some close \<Rightarrow>
                     if close + 1 = i then Some (drop 1 (take close hostport), 1, close + 1) else None)
              else
                (let host = take i hostport in
                 if byte_index host (CHR '':'') \<noteq> None then None else Some (host, 0, 0))) in
           case found of
             None \<Rightarrow> None
           | Some (host, j, k) \<Rightarrow>
               if byte_index (drop j hostport) (CHR ''['') \<noteq> None \<or> byte_index (drop k hostport) (CHR '']'') \<noteq> None
               then None
               else Some (host, drop (i + 1) hostport)))"

text \<open>\<open>url_Parse\<close> gives host name and port of a URL that parses.\<close>

definition ValidateEndpoints :: "(string \<Rightarrow> (string \<times> string) option) \<Rightarrow> string \<Rightarrow> string \<Rightarrow> error option" where
  "ValidateEndpoints url_Parse daemonEndpoint passthroughEndpoint =
     (case url_Parse passthroughEndpoint of
        None \<Rightarrow> Some (errors_New ''passthrough endpoint must be a valid URL'')
      | Some (hostname, port) \<Rightarrow>
          (case SplitHostPort daemonEndpoint of
             None \<Rightarrow> Some (errors_New (''couldn'' @ CHR 0x27 # ''t split host:post of daemon endpoint''))
           | Some (daemonHost, daemonPort) \<Rightarrow>
               if daemonHost = hostname \<and> daemonPort = port then
                 Some (errors_New (''passthrough endpoint can'' @ CHR 0x27 # ''t be the same as daemon endpoint!''))
               else if daemonPort = port \<and> daemonHost = ''0.0.0.0'' \<and>
                       (hostname = ''127.0.0.1'' \<or> hostname = ''localhost'') then
                 Some (errors_New (''passthrough endpoint can'' @ CHR 0x27 # ''t be the same as daemon endpoint!''))
               else None))"

section \<open>Version\<close>

text \<open>What the build puts into the binary.\<close>

record build_info =
  bi_versionTag :: string
  bi_sha1Revision :: string
  bi_buildTime :: string

definition GetVersionTag :: "build_info \<Rightarrow> string" where "GetVersionTag b = bi_versionTag b"
definition GetSha1Revision :: "build_info \<Rightarrow> string" where "GetSha1Revision b = bi_sha1Revision b"
definition GetBuildTime :: "build_info \<Rightarrow> string" where "GetBuildTime b = bi_buildTime b"

text \<open>
  \<open>response\<close> is the answer of GitHub: an error, or the status code and the tag name read from the body (if it
  could be read and parsed). The variable that is set is not the one that is returned.
\<close>

definition GetLatestDaemonVersion :: "(int \<times> string option) result \<Rightarrow> string \<times> error option" where
  "GetLatestDaemonVersion response =
     (case response of
        Inl err \<Rightarrow> ([], Some err)
      | Inr (statusCode, tag) \<Rightarrow>
          (let version = (if statusCode = 200 then (case tag of Some t \<Rightarrow> t | None \<Rightarrow> []) else []) in
           ([], None)))"

definition CheckVersionOfDaemon :: "string \<Rightarrow> (int \<times> string option) result \<Rightarrow> message option \<times> error option" where
  "CheckVersionOfDaemon versionTag response =
     (case GetLatestDaemonVersion response of
        (latestVersionFromGit, err) \<Rightarrow>
          (if length versionTag > 0 \<and> err = None \<and> latestVersionFromGit \<noteq> versionTag then
             Some (Sprintf
               (Lit ''There is a newer version of the Daemon %v available. You are currently on %v, please consider upgrading.'')
               [Lit latestVersionFromGit, Lit versionTag])
           else None, err))"

section \<open>The blockchain network\<close>

text \<open>
  \<^verbatim>\<open>fmt.Sprintf("%v", x)\<close>. A number is the text Go prints for it, and an object lists its members in the order
  of their keys.
\<close>

fun spaced :: "string list \<Rightarrow> string" where
  "spaced [] = []"
| "spaced [x] = x"
| "spaced (x # xs) = x @ '' '' @ spaced xs"

fun sprint_json :: "json \<Rightarrow> string" where
  "sprint_json (JString s) = s"
| "sprint_json (JNumber n) = n"
| "sprint_json (JBool b) = (if b then ''true'' else ''false'')"
| "sprint_json JNull = ''<nil>''"
| "sprint_json (JArray xs) = ''['' @ spaced (map sprint_json xs) @ '']''"
| "sprint_json (JObject xs) = ''map['' @ spaced (map (\<lambda>(k, v). k @ '':'' @ sprint_json v) xs) @ '']''"

record NetworkSelected =
  NetworkName :: string
  EthereumJSONRPCEndpoint :: string
  net_NetworkId :: string
  net_RegistryAddressKey :: string

definition EthereumJsonRpcEndpointKey :: string where "EthereumJsonRpcEndpointKey = ''ethereum_json_rpc_endpoint''"
definition NetworkId :: string where "NetworkId = ''network_id''"
definition RegistryAddressKey :: string where "RegistryAddressKey = ''registry_address_key''"

definition getDetailsFromJsonOrConfig :: "viper \<Rightarrow> json option \<Rightarrow> string \<Rightarrow> string" where
  "getDetailsFromJsonOrConfig vip details configName =
     (if length (vip_GetString vip configName) > 0 then vip_GetString vip configName
      else case details of None \<Rightarrow> [] | Some JNull \<Rightarrow> [] | Some d \<Rightarrow> sprint_json d)"

text \<open>
  The type assertion \<^verbatim>\<open>.(map[string]interface{})\<close> panics when the file does not list the network. A missing
  network id is printed as \<^verbatim>\<open><nil>\<close>.
\<close>

definition determineNetworkSelected ::
  "viper \<Rightarrow> string \<Rightarrow> NetworkSelected \<Rightarrow> error option go \<times> NetworkSelected" where
  "determineNetworkSelected vip data networkSelected =
     (let networkName = vip_GetString vip BlockChainNetworkSelected in
      case unmarshal_map data of
        Inl err \<Rightarrow> (Returns (Some err), networkSelected)
      | Inr dynamicBinding \<Rightarrow>
          (let networkSelected = networkSelected\<lparr>NetworkName := networkName\<rparr> in
           case map_of dynamicBinding networkName of
             Some (JObject details) \<Rightarrow>
               (Returns None, networkSelected\<lparr>
                  net_RegistryAddressKey := getDetailsFromJsonOrConfig vip (map_of details RegistryAddressKey) RegistryAddressKey,
                  EthereumJSONRPCEndpoint :=
                    getDetailsFromJsonOrConfig vip (map_of details EthereumJsonRpcEndpointKey) EthereumJsonRpcEndpointKey,
                  net_NetworkId := (case map_of details NetworkId of None \<Rightarrow> ''<nil>'' | Some d \<Rightarrow> sprint_json d)\<rparr>)
           | _ \<Rightarrow> (Panics (Lit ''interface conversion: interface {} is not map[string]interface {}''), networkSelected)))"

definition deriveDatafromJSON ::
  "viper \<Rightarrow> string \<Rightarrow> NetworkSelected \<Rightarrow> error option go \<times> NetworkSelected" where
  "deriveDatafromJSON vip data networkSelected =
     (case unmarshal_map data of
        Inl err \<Rightarrow>
          (Returns (Some (fmt_Errorf ''cannot parse the Registry JSON file for the network %v , the error is : %v''
             [Lit (vip_GetString vip BlockChainNetworkSelected), error_text err])), networkSelected)
      | Inr m \<Rightarrow>
          (case map_of m (net_NetworkId networkSelected) of
             None \<Rightarrow> (Returns None, networkSelected)
           | Some JNull \<Rightarrow> (Returns None, networkSelected)
           | Some (JObject details) \<Rightarrow>
               (Returns None, networkSelected\<lparr>net_RegistryAddressKey :=
                  (case map_of details ''address'' of None \<Rightarrow> ''<nil>'' | Some d \<Rightarrow> sprint_json d)\<rparr>)
           | _ \<Rightarrow> (Panics (Lit ''interface conversion: interface {} is not map[string]interface {}''), networkSelected)))"

definition ReadFromFile :: "(string \<Rightarrow> string result) \<Rightarrow> string \<Rightarrow> string result" where
  "ReadFromFile read filename =
     (case read filename of
        Inr file \<Rightarrow> Inr file
      | Inl _ \<Rightarrow>
          (case read (''../'' @ filename) of
             Inr file \<Rightarrow> Inr file
           | Inl err \<Rightarrow> Inl (fmt_Errorf ''could not read file: %v: %v'' [Lit filename, error_text err])))"

definition setRegistryAddress ::
  "viper \<Rightarrow> (string \<Rightarrow> string result) \<Rightarrow> string \<Rightarrow> string \<Rightarrow> NetworkSelected
    \<Rightarrow> error option go \<times> NetworkSelected" where
  "setRegistryAddress vip read registryAddressJson fileName networkSelected =
     (if length (net_RegistryAddressKey networkSelected) > 0 then (Returns None, networkSelected)
      else if length registryAddressJson > 0 then deriveDatafromJSON vip registryAddressJson networkSelected
      else case ReadFromFile read fileName of
        Inl err \<Rightarrow>
          (Returns (Some (fmt_Errorf
             ''cannot parse the JSON file at %v to determine registry address of %v network, the error is :%v''
             [Lit fileName, Lit (vip_GetString vip BlockChainNetworkSelected), error_text err])), networkSelected)
      | Inr data \<Rightarrow> deriveDatafromJSON vip data networkSelected)"

definition registry_file :: string where
  "registry_file = ''resources/blockchain/node_modules/singularitynet-platform-contracts/networks/Registry.json''"

definition setBlockChainNetworkDetails ::
  "viper \<Rightarrow> (string \<Rightarrow> string result) \<Rightarrow> string \<Rightarrow> string \<Rightarrow> string
    \<Rightarrow> NetworkSelected \<Rightarrow> error option go \<times> NetworkSelected" where
  "setBlockChainNetworkDetails vip read networkIdNameMapping registryAddressJson fileName networkSelected =
     (case (if length networkIdNameMapping > 0 then Inr networkIdNameMapping else ReadFromFile read fileName) of
        Inl err \<Rightarrow>
          (Returns (Some (fmt_Errorf ''cannot read the file %v , error is %v'' [Lit fileName, error_text err])), networkSelected)
      | Inr data \<Rightarrow>
          (case determineNetworkSelected vip data networkSelected of
             (Returns None, networkSelected) \<Rightarrow>
               setRegistryAddress vip read registryAddressJson registry_file networkSelected
           | (out, networkSelected) \<Rightarrow> (out, networkSelected)))"

definition BlockChainNetworkFileName :: string where
  "BlockChainNetworkFileName = ''resources/blockchain_network_config.json''"

definition GetNetworkId :: "NetworkSelected \<Rightarrow> string" where
  "GetNetworkId networkSelected = net_NetworkId networkSelected"

definition GetBlockChainEndPoint :: "NetworkSelected \<Rightarrow> string" where
  "GetBlockChainEndPoint networkSelected = EthereumJSONRPCEndpoint networkSelected"

definition GetRegistryAddress :: "NetworkSelected \<Rightarrow> string" where
  "GetRegistryAddress networkSelected = net_RegistryAddressKey networkSelected"

section \<open>Validation\<close>

text \<open>
  \<open>network\<close> is the result of \<^verbatim>\<open>setBlockChainNetworkDetails\<close>; \<open>ParseRequestURI\<close> says whether a URL parses. The
  version check only logs.
\<close>

definition IsValidUrl :: "(string \<Rightarrow> bool) \<Rightarrow> string \<Rightarrow> bool" where
  "IsValidUrl ParseRequestURI urlToTest = ParseRequestURI urlToTest"

definition Validate_config ::
  "viper \<Rightarrow> (string \<Rightarrow> (string \<times> string) option) \<Rightarrow> (string \<Rightarrow> bool) \<Rightarrow> error option go \<Rightarrow> error option go" where
  "Validate_config vip url_Parse ParseRequestURI network =
     (let dType = vip_GetString vip DaemonTypeKey in
      if dType \<noteq> ''grpc'' \<and> dType \<noteq> ''http'' then
        Returns (Some (fmt_Errorf (''unrecognized DAEMON_TYPE '' @ CHR 0x27 # ''%+v'' @ [CHR 0x27]) [Lit dType]))
      else case network of
        Panics m \<Rightarrow> Panics m
      | Returns (Some err) \<Rightarrow> Returns (Some err)
      | Returns None \<Rightarrow>
          (let certPath = vip_GetString vip SSLCertPathKey; keyPath = vip_GetString vip SSLKeyPathKey;
               monitoring = vip_GetString vip MonitoringServiceEndpoint in
           if certPath \<noteq> [] \<and> keyPath = [] \<or> certPath = [] \<and> keyPath \<noteq> [] then
             Returns (Some (errors_New ''SSL requires both key and certificate when enabled''))
           else if vip_GetBool vip MonitoringEnabled \<and> monitoring \<noteq> [] \<and> \<not> IsValidUrl ParseRequestURI monitoring then
             Returns (Some (errors_New ''service endpoint must be a valid URL''))
           else case ValidateEndpoints url_Parse (vip_GetString vip DaemonEndPoint) (vip_GetString vip PassthroughEndpointKey) of
             Some err \<Rightarrow> Returns (Some err)
           | None \<Rightarrow>
               (let maxMessageSize = vip_GetInt vip MaxMessageSizeInMB in
                if maxMessageSize \<le> 0 \<or> maxMessageSize > 2048 then
                  Returns (Some (errors_New
                    '' max_message_size_in_mb cannot be more than 2GB (i.e 2048 MB) and has to be a positive number''))
                else Returns None)))"

section \<open>Facts\<close>

lemma byte_index_None [simp]: "byte_index s c = None \<longleftrightarrow> c \<notin> set s"
  by (induction s) auto

lemma byte_index_append: "c \<notin> set a \<Longrightarrow> byte_index (a @ c # b) c = Some (length a)"
  by (induction a) auto

lemma last_index_append: "c \<notin> set b \<Longrightarrow> last_index (a @ c # b) c = Some (length a)"
  using byte_index_append [of c "rev b" "rev a"] by (simp add: last_index_def)

text \<open>Host and port come back from the text they are joined to.\<close>

lemma SplitHostPort_join:
  assumes "set host \<inter> {CHR '':'', CHR ''['', CHR '']''} = {}" "set port \<inter> {CHR '':'', CHR ''['', CHR '']''} = {}"
  shows "SplitHostPort (host @ CHR '':'' # port) = Some (host, port)"
proof -
  have "hd (host @ CHR '':'' # port) \<noteq> CHR ''[''" using assms(1) by (cases host) auto
  with assms show ?thesis by (auto simp: SplitHostPort_def last_index_append Let_def)
qed

lemma ValidateEmail_iff:
  "ValidateEmail s \<longleftrightarrow> (\<exists>user domain tld. s = user @ CHR ''@'' # domain @ CHR ''.'' # tld \<and> email_parts user domain tld)"
  (is "?l \<longleftrightarrow> ?r")
proof
  assume ?l
  then obtain i j where ij: "i < length s" "Suc i \<le> j" "j < length s" "s ! i = CHR ''@''" "s ! j = CHR ''.''"
    "email_parts (take i s) (drop (Suc i) (take j s)) (drop (Suc j) s)"
    by (auto simp: ValidateEmail_def list_ex_iff)
  have "s = take j s @ CHR ''.'' # drop (Suc j) s" "take j s = take i s @ CHR ''@'' # drop (Suc i) (take j s)"
    using ij id_take_nth_drop [of j s] id_take_nth_drop [of i "take j s"] by simp_all
  then have "s = take i s @ CHR ''@'' # drop (Suc i) (take j s) @ CHR ''.'' # drop (Suc j) s"
    by (metis append.assoc append_Cons)
  with ij(6) show ?r by blast
next
  assume ?r
  then obtain user domain tld where s: "s = user @ CHR ''@'' # domain @ CHR ''.'' # tld" "email_parts user domain tld" by blast
  let ?i = "length user" and ?j = "length user + Suc (length domain)"
  have j: "?j \<in> set [Suc ?i..<length s]" unfolding set_upt by (simp add: s(1))
  have "s ! ?i = CHR ''@''" "s ! ?j = CHR ''.''" "take ?i s = user" "drop (Suc ?i) (take ?j s) = domain" "drop (Suc ?j) s = tld"
    by (simp_all add: s(1) nth_append)
  then have "\<exists>j \<in> set [Suc ?i..<length s]. s ! ?i = CHR ''@'' \<and> s ! j = CHR ''.'' \<and>
      email_parts (take ?i s) (drop (Suc ?i) (take j s)) (drop (Suc j) s)"
    using s(2) j by (intro bexI [OF _ j]) simp
  moreover have "?i \<in> set [0..<length s]" unfolding set_upt by (simp add: s(1))
  ultimately show ?l unfolding ValidateEmail_def list_ex_iff by blast
qed

section \<open>Properties\<close>

text \<open>
  The endpoint check accepts a daemon address \<^verbatim>\<open>host:port\<close> exactly when the passthrough endpoint parses
  and names neither the same host and port nor, for a daemon on all interfaces, the same port of the local host.
\<close>

theorem accepted_endpoints:
  assumes "set host \<inter> {CHR '':'', CHR ''['', CHR '']''} = {}" "set port \<inter> {CHR '':'', CHR ''['', CHR '']''} = {}"
  shows "ValidateEndpoints url_Parse (host @ CHR '':'' # port) passthroughEndpoint = None \<longleftrightarrow>
    (\<exists>h p. url_Parse passthroughEndpoint = Some (h, p) \<and> (h, p) \<noteq> (host, port) \<and>
       \<not> (p = port \<and> host = ''0.0.0.0'' \<and> h \<in> {''127.0.0.1'', ''localhost''}))"
  by (auto simp: ValidateEndpoints_def SplitHostPort_join [OF assms] split: option.splits)

theorem accepted_endpoints_witness:
  "ValidateEndpoints (\<lambda>_. Some (''localhost'', ''8080'')) ''0.0.0.0:8080'' ''http://localhost:8080'' \<noteq> None \<and>
   ValidateEndpoints (\<lambda>_. Some (''localhost'', ''8081'')) ''0.0.0.0:8080'' ''http://localhost:8081'' = None"
  using accepted_endpoints [of "''0.0.0.0''" "''8080''" "\<lambda>_. Some (''localhost'', ''8080'')" "''http://localhost:8080''"]
    accepted_endpoints [of "''0.0.0.0''" "''8080''" "\<lambda>_. Some (''localhost'', ''8081'')" "''http://localhost:8081''"]
  by simp


text \<open>A configuration that is accepted.\<close>

definition sample_vip :: viper where
  "sample_vip =
     \<lparr>vip_GetString = (\<lambda>k. if k = DaemonTypeKey then ''grpc'' else if k = DaemonEndPoint then ''127.0.0.1:8080'' else []),
      vip_GetInt = (\<lambda>_. 4), vip_GetBool = (\<lambda>_. True)\<rparr>"


text \<open>
  An e-mail address is accepted exactly when it is a user, an at sign, a domain, a dot and two to four lower-case
  letters, with the characters the pattern allows.
\<close>

theorem email_pattern:
  "ValidateEmail s \<longleftrightarrow> (\<exists>user domain tld. s = user @ CHR ''@'' # domain @ CHR ''.'' # tld \<and>
     user \<noteq> [] \<and> set user \<subseteq> Collect local_char \<and> domain \<noteq> [] \<and> set domain \<subseteq> Collect domain_char \<and>
     length tld \<in> {2..4} \<and> set tld \<subseteq> Collect lower_char)"
  by (auto simp: ValidateEmail_iff email_parts_def list_all_iff subset_eq)

text \<open>
  A network name that the network file does not list makes the daemon panic while it validates its
  configuration, instead of being reported.
\<close>

theorem unknown_network_panics:
  assumes "(if networkIdNameMapping = [] then ReadFromFile read fileName else Inr networkIdNameMapping) = Inr data"
    and "unmarshal_map data = Inr networks" "map_of networks (vip_GetString vip BlockChainNetworkSelected) = None"
    and "vip_GetString vip DaemonTypeKey \<in> {''grpc'', ''http''}"
  shows "\<exists>m. Validate_config vip url_Parse ParseRequestURI
    (fst (setBlockChainNetworkDetails vip read networkIdNameMapping registryAddressJson fileName networkSelected)) = Panics m"
  using assms
  by (auto simp: Validate_config_def setBlockChainNetworkDetails_def determineNetworkSelected_def Let_def split: if_splits)

theorem unknown_network_panics_witness:
  "\<exists>m. Validate_config sample_vip (\<lambda>_. None) (\<lambda>_. False)
     (fst (setBlockChainNetworkDetails sample_vip (\<lambda>_. Inr ''{\"ropsten\":null}'') [] []
       ''resources/blockchain_network_config.json''
       \<lparr>NetworkName = [], EthereumJSONRPCEndpoint = [], net_NetworkId = [], net_RegistryAddressKey = []\<rparr>)) = Panics m"
proof (rule unknown_network_panics [where data = "''{\"ropsten\":null}''" and networks = "[(''ropsten'', JNull)]"])
  show "unmarshal_map ''{\"ropsten\":null}'' = Inr [(''ropsten'', JNull)]" by code_simp
qed (simp_all add: ReadFromFile_def sample_vip_def BlockChainNetworkSelected_def DaemonTypeKey_def DaemonEndPoint_def)

text \<open>
  The version check does not see the latest version: whatever GitHub answers, a daemon that has a version tag
  is told of a newer version with an empty name, also when the tag is the latest one.
\<close>

theorem version_check_always_warns:
  assumes "versionTag \<noteq> []"
  shows "CheckVersionOfDaemon versionTag (Inr answer) =
    (Some (Sprintf
       (Lit ''There is a newer version of the Daemon %v available. You are currently on %v, please consider upgrading.'')
       [Lit [], Lit versionTag]), None)"
  using assms by (cases answer) (simp add: CheckVersionOfDaemon_def GetLatestDaemonVersion_def Let_def)

theorem version_check_always_warns_witness:
  "fst (CheckVersionOfDaemon ''v0.1.7'' (Inr (200, Some ''v0.1.7''))) \<noteq> None"
  using version_check_always_warns [of "''v0.1.7''" "(200, Some ''v0.1.7'')"] by simp

end
