(* ===== verification/Metrics.thy ===== *)
theory Metrics
  imports Config Interceptors
begin

text \<open>
  The \<^verbatim>\<open>metrics\<close> package: registration with the monitoring service and publishing of events (\<^verbatim>\<open>clients.go\<close>,
  \<^verbatim>\<open>register.go\<close>, \<^verbatim>\<open>utils.go\<close>), notifications (\<^verbatim>\<open>Notifications.go\<close>), the heartbeat (\<^verbatim>\<open>heartbeat.go\<close>), the
  statistics of a request (\<^verbatim>\<open>request_stats.go\<close>, \<^verbatim>\<open>response_stats.go\<close>), and the monitoring interceptor of
  \<^verbatim>\<open>handler/interceptors.go\<close>.

  The package's global variables are a record; HTTP, the health client, hashing and the JSON
  encodings, which \<open>Payloads\<close> spells out, are arguments.
\<close>

section \<open>Globals and outside calls\<close>

record http_request =
  req_url :: string
  req_header :: "(string \<times> string) list"
  req_body :: string

record http_response =
  StatusCode :: int
  response_Body :: "string result"

text \<open>\<open>NewRequest_ok\<close> says whether \<^verbatim>\<open>http.NewRequest\<close> accepts a URL.\<close>

record 'w http =
  NewRequest_ok :: "string \<Rightarrow> bool"
  http_Do :: "http_request \<Rightarrow> 'w \<Rightarrow> http_response result \<times> 'w"
  http_Get :: "string \<Rightarrow> 'w \<Rightarrow> http_response result \<times> 'w"

text \<open>The settings the package reads, and the encodings it uses.\<close>

record metrics_env =
  env_vip :: viper
  env_RegistryAddress :: string
  env_BlockChainEndPoint :: string
  env_VersionTag :: string
  sha256_hex :: "string \<Rightarrow> string"
  register_payload :: "string \<Rightarrow> string"
  token_of_body :: "string \<Rightarrow> string"

record 'w metrics_sys =
  isNoHeartbeatURL :: bool
  isNoAlertsConfig :: bool
  daemonGroupId :: string
  daemonAuthorizationToken :: string
  net :: 'w

section \<open>Registration\<close>

definition GetDaemonID :: "metrics_env \<Rightarrow> 'w metrics_sys \<Rightarrow> string" where
  "GetDaemonID env s =
     sha256_hex env (vip_GetString (env_vip env) OrganizationId @ vip_GetString (env_vip env) ServiceId @
       daemonGroupId s @ env_RegistryAddress env)"

definition SetDaemonGrpId :: "string \<Rightarrow> 'w metrics_sys \<Rightarrow> 'w metrics_sys" where
  "SetDaemonGrpId grpId s = s\<lparr>daemonGroupId := grpId\<rparr>"

text \<open>A body that is no JSON gives the empty token and success, as the error of \<^verbatim>\<open>json.Unmarshal\<close> is ignored.\<close>

definition getTokenFromResponse :: "metrics_env \<Rightarrow> http_response option \<Rightarrow> string \<times> bool" where
  "getTokenFromResponse env response =
     (case response of
        None \<Rightarrow> ([], False)
      | Some r \<Rightarrow>
          if StatusCode r \<noteq> 200 then ([], False)
          else (case response_Body r of
                  Inl err \<Rightarrow> ([], False)
                | Inr body \<Rightarrow> (token_of_body env body, True)))"

definition buildPayLoadForServiceRegistration :: "metrics_env \<Rightarrow> 'w metrics_sys \<Rightarrow> string" where
  "buildPayLoadForServiceRegistration env s = register_payload env (GetDaemonID env s)"

text \<open>The headers are set before the error of \<^verbatim>\<open>http.NewRequest\<close> is looked at; with an error the request is nil.\<close>

definition callRegisterService ::
  "metrics_env \<Rightarrow> 'w http \<Rightarrow> string \<Rightarrow> string \<Rightarrow> 'w metrics_sys \<Rightarrow> bool go \<times> 'w metrics_sys" where
  "callRegisterService env H daemonID serviceURL s =
     (if \<not> NewRequest_ok H serviceURL then (Panics nil_dereference, s)
      else
        (let req = \<lparr>req_url = serviceURL,
                    req_header = [(''Content-Type'', ''application/json''), (''Access-Token'', daemonID)],
                    req_body = buildPayLoadForServiceRegistration env s\<rparr> in
         case http_Do H req (net s) of
           (Inl err, n) \<Rightarrow> (Returns False, s\<lparr>net := n\<rparr>)
         | (Inr response, n) \<Rightarrow>
             (case getTokenFromResponse env (Some response) of
                (token, status) \<Rightarrow> (Returns status, s\<lparr>net := n, daemonAuthorizationToken := token\<rparr>))))"

definition RegisterDaemon ::
  "metrics_env \<Rightarrow> 'w http \<Rightarrow> string \<Rightarrow> 'w metrics_sys \<Rightarrow> bool go \<times> 'w metrics_sys" where
  "RegisterDaemon env H serviceURL s = callRegisterService env H (GetDaemonID env s) serviceURL s"

section \<open>Publishing\<close>

definition sendRequest ::
  "metrics_env \<Rightarrow> 'w http \<Rightarrow> string \<Rightarrow> string \<Rightarrow> 'w metrics_sys \<Rightarrow> http_response result \<times> 'w metrics_sys" where
  "sendRequest env H json serviceURL s =
     (if \<not> NewRequest_ok H serviceURL then (Inl (Error (Lit ''invalid request'')), s)
      else
        (let req = \<lparr>req_url = serviceURL,
                    req_header = [(''Content-Type'', ''application/json''), (''X-Daemonid'', GetDaemonID env s),
                                  (''X-Token'', daemonAuthorizationToken s)],
                    req_body = json\<rparr> in
         case http_Do H req (net s) of (r, n) \<Rightarrow> (r, s\<lparr>net := n\<rparr>)))"

definition checkForSuccessfulResponse ::
  "metrics_env \<Rightarrow> 'w http \<Rightarrow> http_response option \<Rightarrow> 'w metrics_sys \<Rightarrow> (bool \<times> bool) go \<times> 'w metrics_sys" where
  "checkForSuccessfulResponse env H response s =
     (case response of
        None \<Rightarrow> (Returns (False, False), s)
      | Some r \<Rightarrow>
          if StatusCode r \<noteq> 200 then
            (case RegisterDaemon env H (vip_GetString (env_vip env) MonitoringServiceEndpoint @ ''/register'') s of
               (Panics m, s') \<Rightarrow> (Panics m, s')
             | (Returns status, s') \<Rightarrow> (Returns (False, status), s'))
          else (Returns (True, False), s))"

function publishJson ::
  "metrics_env \<Rightarrow> 'w http \<Rightarrow> string \<Rightarrow> string \<Rightarrow> bool \<Rightarrow> 'w metrics_sys \<Rightarrow> bool go \<times> 'w metrics_sys" where
  "publishJson env H json serviceURL reTry s =
     (case sendRequest env H json serviceURL s of
        (Inl err, s1) \<Rightarrow> (Returns False, s1)
      | (Inr response, s1) \<Rightarrow>
          (case checkForSuccessfulResponse env H (Some response) s1 of
             (Panics m, s2) \<Rightarrow> (Panics m, s2)
           | (Returns (status, reRegister), s2) \<Rightarrow>
               if reRegister \<and> reTry then publishJson env H json serviceURL False s2
               else (Returns status, s2)))"
  by pat_completeness auto

termination publishJson
  by (relation "measure (\<lambda>(env, H, json, url, reTry, s). if reTry then 1 else 0)") auto

declare publishJson.simps [simp del]

text \<open>\<open>marshal\<close> is the JSON encoding of the payload.\<close>

definition Publish ::
  "metrics_env \<Rightarrow> 'w http \<Rightarrow> string result \<Rightarrow> string \<Rightarrow> 'w metrics_sys \<Rightarrow> bool go \<times> 'w metrics_sys" where
  "Publish env H marshalled serviceUrl s =
     (case marshalled of
        Inl err \<Rightarrow> (Returns False, s)
      | Inr jsonBytes \<Rightarrow> publishJson env H jsonBytes serviceUrl True s)"

section \<open>Notifications\<close>

record Notification =
  notification_DaemonID :: string
  notification_Timestamp :: string
  Recipient_email :: string
  notification_Message :: string
  Details :: message
  Component :: string
  notification_Type :: string
  notification_Level :: string

definition SetIsNoAlertsConfig :: "bool \<Rightarrow> 'w metrics_sys \<Rightarrow> 'w metrics_sys" where
  "SetIsNoAlertsConfig state s = s\<lparr>isNoAlertsConfig := state\<rparr>"

text \<open>
  The alert is encoded to JSON and the bytes are then published, which encodes them a second time
  (\<open>marshal_bytes\<close>).
\<close>

definition Notification_Send ::
  "metrics_env \<Rightarrow> 'w http \<Rightarrow> (Notification \<Rightarrow> string result) \<Rightarrow> (string \<Rightarrow> string result) \<Rightarrow> Notification
    \<Rightarrow> 'w metrics_sys \<Rightarrow> bool go \<times> 'w metrics_sys" where
  "Notification_Send env H marshal marshal_bytes alert s =
     (if isNoAlertsConfig s then (Returns False, s)
      else
        (let serviceURL = vip_GetString (env_vip env) NotificationServiceEndpoint in
         case marshal alert of
           Inl err \<Rightarrow> (Returns False, s)
         | Inr jsonAlert \<Rightarrow> Publish env H (marshal_bytes jsonAlert) serviceURL s))"

definition ValidateNotificationConfig ::
  "metrics_env \<Rightarrow> (string \<Rightarrow> bool) \<Rightarrow> 'w metrics_sys \<Rightarrow> error option \<times> 'w metrics_sys" where
  "ValidateNotificationConfig env ParseRequestURI s =
     (let s = SetIsNoAlertsConfig False s;
          endpoint = vip_GetString (env_vip env) NotificationServiceEndpoint;
          email = vip_GetString (env_vip env) AlertsEMail in
      if endpoint = [] \<or> email = [] then (None, SetIsNoAlertsConfig True s)
      else if \<not> (IsValidUrl ParseRequestURI endpoint \<and> ValidateEmail email) then
        (Some (errors_New ''service endpoint  and alerts email id must be valid''), s)
      else (None, s))"

section \<open>Heartbeat\<close>

type_synonym heartbeat_Status = int

definition Offline :: heartbeat_Status where "Offline = 0"
definition Online :: heartbeat_Status where "Online = 1"
definition Warning :: heartbeat_Status where "Warning = 2"
definition Critical :: heartbeat_Status where "Critical = 3"

definition Status_String :: "heartbeat_Status \<Rightarrow> string" where
  "Status_String state =
     (let listStatus = [''Offline'', ''Online'', ''Warning'', ''Critical''] in
      if state < Offline \<or> state > Critical then ''Unknown'' else listStatus ! nat state)"

record DaemonHeartbeat =
  heartbeat_DaemonID :: string
  heartbeat_Timestamp :: string
  heartbeat_Status :: string
  ServiceHeartbeat :: string

definition SetNoHeartbeatURLState :: "bool \<Rightarrow> 'w metrics_sys \<Rightarrow> 'w metrics_sys" where
  "SetNoHeartbeatURLState state s = s\<lparr>isNoHeartbeatURL := state\<rparr>"

definition ValidateHeartbeatConfig ::
  "metrics_env \<Rightarrow> (string \<Rightarrow> bool) \<Rightarrow> 'w metrics_sys \<Rightarrow> error option \<times> 'w metrics_sys" where
  "ValidateHeartbeatConfig env ParseRequestURI s =
     (let s = SetNoHeartbeatURLState False s;
          hbType = vip_GetString (env_vip env) ServiceHeartbeatType;
          endpoint = vip_GetString (env_vip env) HeartbeatServiceEndpoint in
      if hbType \<noteq> ''grpc'' \<and> hbType \<noteq> ''http'' \<and> hbType \<noteq> ''https'' \<and> hbType \<noteq> ''none'' \<and> hbType \<noteq> [] then
        (Some (fmt_Errorf (''unrecognized heartbet service type : '' @ CHR 0x27 # ''%+v'' @ [CHR 0x27]) [Lit hbType]), s)
      else if hbType = [] \<or> hbType = ''none'' \<or> endpoint = [] then (None, SetNoHeartbeatURLState True s)
      else if \<not> IsValidUrl ParseRequestURI endpoint then (Some (errors_New ''service endpoint must be a valid URL''), s)
      else (None, s))"

text \<open>\<^verbatim>\<open>HealthCheckResponse_ServingStatus\<close> and its names.\<close>

datatype ServingStatus = UNKNOWN | SERVING | NOT_SERVING | SERVICE_UNKNOWN

fun ServingStatus_String :: "ServingStatus \<Rightarrow> string" where
  "ServingStatus_String UNKNOWN = ''UNKNOWN''"
| "ServingStatus_String SERVING = ''SERVING''"
| "ServingStatus_String NOT_SERVING = ''NOT_SERVING''"
| "ServingStatus_String SERVICE_UNKNOWN = ''SERVICE_UNKNOWN''"

text \<open>\<open>dial\<close> and \<open>check\<close> are the connection and the request of the health client.\<close>

definition callgRPCServiceHeartbeat ::
  "(string \<Rightarrow> 'w \<Rightarrow> unit result \<times> 'w) \<Rightarrow> (string \<Rightarrow> 'w \<Rightarrow> ServingStatus result \<times> 'w) \<Rightarrow> metrics_env \<Rightarrow> string
    \<Rightarrow> 'w metrics_sys \<Rightarrow> (ServingStatus \<times> error option) \<times> 'w metrics_sys" where
  "callgRPCServiceHeartbeat dial check env serviceUrl s =
     (case dial serviceUrl (net s) of
        (Inl err, n) \<Rightarrow> ((NOT_SERVING, Some err), s\<lparr>net := n\<rparr>)
      | (Inr _, n) \<Rightarrow>
          (case check (vip_GetString (env_vip env) ServiceId) n of
             (Inl err, n') \<Rightarrow> ((UNKNOWN, Some err), s\<lparr>net := n'\<rparr>)
           | (Inr status, n') \<Rightarrow> ((status, None), s\<lparr>net := n'\<rparr>)))"

text \<open>The error of reading the body is ignored; a body that could not be read is empty.\<close>

definition callHTTPServiceHeartbeat ::
  "'w http \<Rightarrow> string \<Rightarrow> 'w metrics_sys \<Rightarrow> string result \<times> 'w metrics_sys" where
  "callHTTPServiceHeartbeat H serviceURL s =
     (case http_Get H serviceURL (net s) of
        (Inl err, n) \<Rightarrow> (Inl err, s\<lparr>net := n\<rparr>)
      | (Inr response, n) \<Rightarrow>
          if StatusCode response \<noteq> 200 then (Inl (errors_New ''unexpected error with the service''), s\<lparr>net := n\<rparr>)
          else
            (let serviceHeartbeat = (case response_Body response of Inl _ \<Rightarrow> [] | Inr body \<Rightarrow> body) in
             if serviceHeartbeat = [] then (Inl (errors_New ''empty service response''), s\<lparr>net := n\<rparr>)
             else (Inr serviceHeartbeat, s\<lparr>net := n\<rparr>)))"

definition service_json :: "string \<Rightarrow> string \<Rightarrow> string" where
  "service_json serviceID status =
     ''{\"serviceID\":\"'' @ serviceID @ ''\",\"status\":\"'' @ status @ ''\"}''"

text \<open>
  The call of the service: status (which only a gRPC heartbeat sets), body and error. A type that is neither
  gRPC nor HTTP makes no call.
\<close>

definition heartbeat_call ::
  "(string \<Rightarrow> 'w \<Rightarrow> unit result \<times> 'w) \<Rightarrow> (string \<Rightarrow> 'w \<Rightarrow> ServingStatus result \<times> 'w) \<Rightarrow> 'w http \<Rightarrow> metrics_env
    \<Rightarrow> string \<Rightarrow> string \<Rightarrow> 'w metrics_sys \<Rightarrow> (string \<times> string \<times> error option) \<times> 'w metrics_sys" where
  "heartbeat_call dial check H env serviceURL serviceType s =
     (if serviceType = ''grpc'' then
        (case callgRPCServiceHeartbeat dial check env serviceURL s of
           ((response, err), s') \<Rightarrow> ((ServingStatus_String response, [], err), s'))
      else if serviceType = ''http'' \<or> serviceType = ''https'' then
        (case callHTTPServiceHeartbeat H serviceURL s of
           (Inl err, s') \<Rightarrow> ((Status_String Online, [], Some err), s')
         | (Inr body, s') \<Rightarrow> ((Status_String Online, body, None), s'))
      else ((Status_String Online, [], None), s))"

definition GetHeartbeat ::
  "(string \<Rightarrow> 'w \<Rightarrow> unit result \<times> 'w) \<Rightarrow> (string \<Rightarrow> 'w \<Rightarrow> ServingStatus result \<times> 'w) \<Rightarrow> 'w http
    \<Rightarrow> (Notification \<Rightarrow> string result) \<Rightarrow> (string \<Rightarrow> string result) \<Rightarrow> metrics_env \<Rightarrow> string \<Rightarrow> string \<Rightarrow> string \<Rightarrow> string \<Rightarrow> string
    \<Rightarrow> 'w metrics_sys \<Rightarrow> (DaemonHeartbeat \<times> error option) go \<times> 'w metrics_sys" where
  "GetHeartbeat dial check H marshal marshal_bytes env epoch now serviceURL serviceType serviceID s =
     (let heartbeat = \<lparr>heartbeat_DaemonID = GetDaemonID env s, heartbeat_Timestamp = epoch,
                       heartbeat_Status = Status_String Online, ServiceHeartbeat = ''{}''\<rparr> in
      if serviceType = ''none'' \<or> serviceType = [] \<or> isNoHeartbeatURL s then
        (Returns (heartbeat\<lparr>ServiceHeartbeat := service_json serviceID ''SERVING''\<rparr>, None), s)
      else
        (case heartbeat_call dial check H env serviceURL serviceType s of
           ((status, svcHeartbeat, None), s1) \<Rightarrow>
             (Returns (heartbeat\<lparr>heartbeat_Status := status, ServiceHeartbeat := svcHeartbeat\<rparr>, None), s1)
         | ((status, svcHeartbeat, Some err), s1) \<Rightarrow>
             (case Notification_Send env H marshal marshal_bytes
                     \<lparr>notification_DaemonID = GetDaemonID env s1, notification_Timestamp = now,
                      Recipient_email = vip_GetString (env_vip env) AlertsEMail,
                      notification_Message = ''Problem in calling Service Heartbeat endpoint.'',
                      Details = error_text err, Component = ''Daemon'', notification_Type = [], notification_Level = ''ERROR''\<rparr> s1 of
                (Panics m, s2) \<Rightarrow> (Panics m, s2)
              | (Returns _, s2) \<Rightarrow>
                  (Returns (heartbeat\<lparr>heartbeat_Status := Status_String Warning,
                              ServiceHeartbeat := service_json serviceID ''NOT_SERVING''\<rparr>, Some err), s2))))"

text \<open>\<^verbatim>\<open>Check\<close> appends the text of the error, also when there is none.\<close>

definition DaemonHeartbeat_Check ::
  "(string \<Rightarrow> 'w \<Rightarrow> unit result \<times> 'w) \<Rightarrow> (string \<Rightarrow> 'w \<Rightarrow> ServingStatus result \<times> 'w) \<Rightarrow> 'w http
    \<Rightarrow> (Notification \<Rightarrow> string result) \<Rightarrow> (string \<Rightarrow> string result) \<Rightarrow> metrics_env \<Rightarrow> string \<Rightarrow> string
    \<Rightarrow> 'w metrics_sys \<Rightarrow> (ServingStatus \<times> error option) go \<times> 'w metrics_sys" where
  "DaemonHeartbeat_Check dial check H marshal marshal_bytes env epoch now s =
     (case GetHeartbeat dial check H marshal marshal_bytes env epoch now
             (vip_GetString (env_vip env) HeartbeatServiceEndpoint)
             (vip_GetString (env_vip env) ServiceHeartbeatType) (vip_GetString (env_vip env) ServiceId) s of
        (Panics m, s') \<Rightarrow> (Panics m, s')
      | (Returns (heartbeat, err), s') \<Rightarrow>
          if heartbeat_Status heartbeat = Status_String Online then (Returns (SERVING, None), s')
          else (case err of
                  None \<Rightarrow> (Panics nil_dereference, s')
                | Some e \<Rightarrow>
                    (Returns (SERVICE_UNKNOWN, Some (Error (Concat (Lit ''Service heartbeat unknown '') (error_text e)))), s')))"

text \<open>\<^verbatim>\<open>Watch\<close> is not implemented: it ends at once, without an error.\<close>

definition DaemonHeartbeat_Watch :: "'w metrics_sys \<Rightarrow> error option \<times> 'w metrics_sys" where
  "DaemonHeartbeat_Watch s = (None, s)"

section \<open>Statistics of a request\<close>

record CommonStats =
  stats_ID :: string
  stats_ServiceMethod :: string
  stats_RequestReceivedTime :: string
  stats_OrganizationID :: string
  stats_ServiceID :: string
  stats_GroupID :: string
  stats_DaemonEndPoint :: string
  stats_Version :: string

text \<open>\<open>xid\<close> is the fresh id of \<^verbatim>\<open>GenXid\<close>. The endpoint of the daemon is not set.\<close>

definition BuildCommonStats :: "metrics_env \<Rightarrow> string \<Rightarrow> 'w metrics_sys \<Rightarrow> string \<Rightarrow> string \<Rightarrow> CommonStats" where
  "BuildCommonStats env xid s receivedTime methodName =
     \<lparr>stats_ID = xid, stats_ServiceMethod = methodName, stats_RequestReceivedTime = receivedTime,
      stats_OrganizationID = vip_GetString (env_vip env) OrganizationId,
      stats_ServiceID = vip_GetString (env_vip env) ServiceId, stats_GroupID = daemonGroupId s,
      stats_DaemonEndPoint = [], stats_Version = env_VersionTag env\<rparr>"

record RequestStats =
  rq_Type :: string
  rq_RegistryAddressKey :: string
  rq_EthereumJsonRpcEndpointKey :: string
  rq_RequestID :: string
  InputDataSize :: string
  rq_ServiceMethod :: string
  rq_RequestReceivedTime :: string
  rq_OrganizationID :: string
  rq_ServiceID :: string
  rq_GroupID :: string
  rq_DaemonEndPoint :: string
  rq_Version :: string

definition createRequestStat :: "metrics_env \<Rightarrow> CommonStats \<Rightarrow> RequestStats" where
  "createRequestStat env commonStat =
     \<lparr>rq_Type = ''request'', rq_RegistryAddressKey = env_RegistryAddress env,
      rq_EthereumJsonRpcEndpointKey = env_BlockChainEndPoint env, rq_RequestID = stats_ID commonStat,
      InputDataSize = [], rq_ServiceMethod = stats_ServiceMethod commonStat,
      rq_RequestReceivedTime = stats_RequestReceivedTime commonStat,
      rq_OrganizationID = stats_OrganizationID commonStat, rq_ServiceID = stats_ServiceID commonStat,
      rq_GroupID = stats_GroupID commonStat, rq_DaemonEndPoint = stats_DaemonEndPoint commonStat,
      rq_Version = stats_Version commonStat\<rparr>"

text \<open>\<open>GetSize\<close> of the metadata, as printed.\<close>

definition setDataFromContext :: "(MD \<Rightarrow> string) \<Rightarrow> MD \<Rightarrow> RequestStats \<Rightarrow> RequestStats" where
  "setDataFromContext GetSize md request = request\<lparr>InputDataSize := GetSize md\<rparr>"

definition PublishRequestStats ::
  "metrics_env \<Rightarrow> 'w http \<Rightarrow> (RequestStats \<Rightarrow> string result) \<Rightarrow> (MD \<Rightarrow> string) \<Rightarrow> CommonStats \<Rightarrow> MD option
    \<Rightarrow> 'w metrics_sys \<Rightarrow> bool go \<times> 'w metrics_sys" where
  "PublishRequestStats env H marshal GetSize commonStat incoming s =
     (let request = createRequestStat env commonStat;
          request = (case incoming of None \<Rightarrow> request | Some md \<Rightarrow> setDataFromContext GetSize md request) in
      Publish env H (marshal request) (vip_GetString (env_vip env) MonitoringServiceEndpoint @ ''/event'') s)"

text \<open>The code of an error as \<^verbatim>\<open>status.FromError\<close> gives it: OK for nil, the code of a status, else Unknown.\<close>

datatype response_code = CodeOK | CodeUnknown | StatusCodeOf codes_Code

fun getErrorCode :: "error option \<Rightarrow> response_code" where
  "getErrorCode None = CodeOK"
| "getErrorCode (Some (StatusErr st)) = StatusCodeOf (status_code st)"
| "getErrorCode (Some _) = CodeUnknown"

fun getErrorMessage :: "error option \<Rightarrow> message" where
  "getErrorMessage None = Lit []"
| "getErrorMessage (Some e) = error_text e"

record ResponseStats =
  rs_Type :: string
  rs_RegistryAddressKey :: string
  rs_EthereumJsonRpcEndpointKey :: string
  rs_RequestID :: string
  rs_OrganizationID :: string
  rs_ServiceID :: string
  rs_GroupID :: string
  rs_ServiceMethod :: string
  ResponseSentTime :: string
  rs_RequestReceivedTime :: string
  ResponseTime :: string
  ResponseCode :: response_code
  ErrorMessage :: message
  rs_Version :: string

definition createResponseStats ::
  "metrics_env \<Rightarrow> 'w metrics_sys \<Rightarrow> string \<Rightarrow> CommonStats \<Rightarrow> string \<Rightarrow> error option \<Rightarrow> ResponseStats" where
  "createResponseStats env s now commonStat duration err =
     \<lparr>rs_Type = ''response'', rs_RegistryAddressKey = env_RegistryAddress env,
      rs_EthereumJsonRpcEndpointKey = env_BlockChainEndPoint env, rs_RequestID = stats_ID commonStat,
      rs_OrganizationID = stats_OrganizationID commonStat, rs_ServiceID = stats_ServiceID commonStat,
      rs_GroupID = daemonGroupId s, rs_ServiceMethod = stats_ServiceMethod commonStat, ResponseSentTime = now,
      rs_RequestReceivedTime = stats_RequestReceivedTime commonStat, ResponseTime = duration,
      ResponseCode = getErrorCode err, ErrorMessage = getErrorMessage err, rs_Version = stats_Version commonStat\<rparr>"

definition PublishResponseStats ::
  "metrics_env \<Rightarrow> 'w http \<Rightarrow> (ResponseStats \<Rightarrow> string result) \<Rightarrow> string \<Rightarrow> CommonStats \<Rightarrow> string \<Rightarrow> error option
    \<Rightarrow> 'w metrics_sys \<Rightarrow> bool go \<times> 'w metrics_sys" where
  "PublishResponseStats env H marshal now commonStats duration err s =
     Publish env H (marshal (createResponseStats env s now commonStats duration err))
       (vip_GetString (env_vip env) MonitoringServiceEndpoint @ ''/event'') s"

section \<open>The monitoring interceptor\<close>

text \<open>
  The two goroutines the interceptor starts. \<open>spawn\<close> is the \<^verbatim>\<open>go\<close> statement; \<open>elapsed\<close> the duration measured at
  the end. The deferred function runs on a panic too, and then reports the error variable as it was
  initialised.
\<close>

datatype monitoring_task =
    RequestTask CommonStats
  | ResponseTask CommonStats string "error option"

definition interceptMonitoring ::
  "(monitoring_task \<Rightarrow> 'w \<Rightarrow> 'w) \<Rightarrow> ('w \<Rightarrow> string) \<Rightarrow> CommonStats \<Rightarrow> 'w StreamHandler \<Rightarrow> 'w StreamHandler" where
  "interceptMonitoring spawn elapsed commonStats handler w =
     (case handler (spawn (RequestTask commonStats) w) of
        (Returns e, w1) \<Rightarrow> (Returns e, spawn (ResponseTask commonStats (elapsed w1) e) w1)
      | (Panics m, w1) \<Rightarrow> (Panics m, spawn (ResponseTask commonStats (elapsed w1) None) w1))"

section \<open>Facts\<close>

text \<open>Only a registration that reached the service changes the token; nothing else changes the globals.\<close>

lemma callRegisterService_globals:
  assumes "callRegisterService env H d url s = (r, s')"
  shows "isNoHeartbeatURL s' = isNoHeartbeatURL s" "isNoAlertsConfig s' = isNoAlertsConfig s"
    "daemonGroupId s' = daemonGroupId s"
  using assms by (auto simp: callRegisterService_def Let_def split: if_splits prod.splits sum.splits)

lemma ServingStatus_not_Online: "ServingStatus_String x \<noteq> Status_String Online"
  by (cases x) (simp_all add: Status_String_def Offline_def Online_def Critical_def Let_def)

text \<open>Posting: one request when it is accepted, a registration and a second one with the new token when not.\<close>

lemma publishJson_accepted:
  assumes "sendRequest env H json url s = (Inr r, s1)" "StatusCode r = 200"
  shows "publishJson env H json url reTry s = (Returns True, s1)"
  using assms by (subst publishJson.simps) (simp add: checkForSuccessfulResponse_def)

lemma publishJson_retried:
  assumes "sendRequest env H json url s = (Inr r, s1)" "StatusCode r \<noteq> 200"
    and "RegisterDaemon env H (vip_GetString (env_vip env) MonitoringServiceEndpoint @ ''/register'') s1 = (Returns True, s2)"
  shows "publishJson env H json url True s = publishJson env H json url False s2"
  using assms by (subst publishJson.simps) (simp add: checkForSuccessfulResponse_def)

text \<open>A server that answers from a list and keeps what it was asked.\<close>

fun scripted_Do ::
  "http_request \<Rightarrow> http_response result list \<times> http_request list
    \<Rightarrow> http_response result \<times> http_response result list \<times> http_request list" where
  "scripted_Do r ([], seen) = (Inl (Error (Lit ''closed'')), [], seen @ [r])"
| "scripted_Do r (x # xs, seen) = (x, xs, seen @ [r])"


definition scripted_http :: "(http_response result list \<times> http_request list) http" where
  "scripted_http =
     \<lparr>NewRequest_ok = (\<lambda>_. True), http_Do = scripted_Do, http_Get = (\<lambda>_ n. (Inl (Error (Lit ''unused'')), n))\<rparr>"





section \<open>Properties\<close>

text \<open>A configuration with a monitoring service and a gRPC service to watch.\<close>

definition sample_env :: "string \<Rightarrow> metrics_env" where
  "sample_env hbType =
     \<lparr>env_vip = \<lparr>vip_GetString = (\<lambda>k. if k = ServiceHeartbeatType then hbType
                              else if k = MonitoringServiceEndpoint then ''http://monitor'' else []),
                vip_GetInt = (\<lambda>_. 0), vip_GetBool = (\<lambda>_. True)\<rparr>,
      env_RegistryAddress = [], env_BlockChainEndPoint = [], env_VersionTag = [],
      sha256_hex = id, register_payload = id, token_of_body = id\<rparr>"

definition sample_sys :: "'w \<Rightarrow> 'w metrics_sys" where
  "sample_sys n =
     \<lparr>isNoHeartbeatURL = False, isNoAlertsConfig = True, daemonGroupId = [], daemonAuthorizationToken = ''old'', net = n\<rparr>"

lemma sample_MonitoringServiceEndpoint [simp]:
  "vip_GetString (env_vip (sample_env t)) MonitoringServiceEndpoint = ''http://monitor''"
  by (simp add: sample_env_def MonitoringServiceEndpoint_def ServiceHeartbeatType_def)



text \<open>
  When the service refuses an event, the daemon registers, takes the token of the answer and posts the event again with
  it: the service sees the event with the old token, the registration, and the event with the new token.
\<close>

abbreviation event_request :: "metrics_env \<Rightarrow> 'w metrics_sys \<Rightarrow> string \<Rightarrow> string \<Rightarrow> string \<Rightarrow> http_request" where
  "event_request env s token url json \<equiv>
     \<lparr>req_url = url, req_header = [(''Content-Type'', ''application/json''), (''X-Daemonid'', GetDaemonID env s),
        (''X-Token'', token)], req_body = json\<rparr>"

theorem refused_event_posted_with_new_token:
  assumes "net s = (Inr refusal # Inr registered # Inr answer # rest, seen)"
    and "StatusCode refusal \<noteq> 200" "StatusCode registered = 200" "response_Body registered = Inr body"
    and "StatusCode answer = 200"
  shows "publishJson env scripted_http json url True s =
    (Returns True, s\<lparr>daemonAuthorizationToken := token_of_body env body,
       net := (rest, seen @
         [event_request env s (daemonAuthorizationToken s) url json,
          \<lparr>req_url = vip_GetString (env_vip env) MonitoringServiceEndpoint @ ''/register'',
           req_header = [(''Content-Type'', ''application/json''), (''Access-Token'', GetDaemonID env s)],
           req_body = register_payload env (GetDaemonID env s)\<rparr>,
          event_request env s (token_of_body env body) url json])\<rparr>)"
  using assms
  by (subst publishJson.simps, subst publishJson.simps)
    (simp add: sendRequest_def checkForSuccessfulResponse_def RegisterDaemon_def callRegisterService_def
      getTokenFromResponse_def buildPayLoadForServiceRegistration_def scripted_http_def GetDaemonID_def Let_def)

theorem refused_event_posted_with_new_token_witness:
  "fst (publishJson (sample_env []) scripted_http [] ''http://monitor/event'' True
     (sample_sys ([Inr \<lparr>StatusCode = 401, response_Body = Inr []\<rparr>, Inr \<lparr>StatusCode = 200, response_Body = Inr ''new''\<rparr>,
       Inr \<lparr>StatusCode = 200, response_Body = Inr []\<rparr>], []))) = Returns True"
  by (subst refused_event_posted_with_new_token [where body = "''new''"]) (auto simp: sample_sys_def)

text \<open>
  The monitoring interceptor passes the outcome of a call on unchanged and reports it once, with the code of its error. The
  report of a call that panicked says that it succeeded.
\<close>

theorem monitored_call:
  assumes "handler (spawn (RequestTask commonStats) w) = (out, w1)"
  shows "\<exists>err. interceptMonitoring spawn elapsed commonStats handler w =
      (out, spawn (ResponseTask commonStats (elapsed w1) err) w1) \<and>
    ResponseCode (createResponseStats env s now commonStats (elapsed w1) err) =
      (case out of
         Returns None \<Rightarrow> CodeOK
       | Returns (Some (StatusErr st)) \<Rightarrow> StatusCodeOf (status_code st)
       | Returns (Some _) \<Rightarrow> CodeUnknown
       | Panics m \<Rightarrow> CodeOK)"
  using assms
  by (cases out) (auto simp: interceptMonitoring_def createResponseStats_def split: option.splits error.splits intro: exI [of _ None])

theorem monitored_call_witness:
  "\<exists>err. interceptMonitoring (\<lambda>t w. w @ [t]) (\<lambda>_. []) (BuildCommonStats (sample_env []) [] (sample_sys ()) [] [])
      (\<lambda>w. (Panics nil_dereference, w)) [] =
      (Panics nil_dereference,
       [RequestTask (BuildCommonStats (sample_env []) [] (sample_sys ()) [] []),
        ResponseTask (BuildCommonStats (sample_env []) [] (sample_sys ()) [] []) [] err])"
  using monitored_call [of "\<lambda>w. (Panics nil_dereference, w)" "\<lambda>t w. w @ [t]"
      "BuildCommonStats (sample_env []) [] (sample_sys ()) [] []" "[]" "Panics nil_dereference"
      "[RequestTask (BuildCommonStats (sample_env []) [] (sample_sys ()) [] [])]" "\<lambda>_. []" "sample_env []" "sample_sys ()" "[]"]
  by auto

text \<open>
  The health check of a daemon that watches a gRPC service panics whenever the service answers, also when it is serving:
  the status of a gRPC service is never the text \<^verbatim>\<open>Online\<close> the check looks for, and without an error there is nothing to report.
\<close>

theorem grpc_heartbeat_check_panics:
  assumes "vip_GetString (env_vip env) ServiceHeartbeatType = ''grpc''" "\<not> isNoHeartbeatURL s"
    and "dial (vip_GetString (env_vip env) HeartbeatServiceEndpoint) (net s) = (Inr (), n1)"
    and "check (vip_GetString (env_vip env) ServiceId) n1 = (Inr status, n2)"
  shows "DaemonHeartbeat_Check dial check H marshal marshal_bytes env epoch now s = (Panics nil_dereference, s\<lparr>net := n2\<rparr>)"
  using assms ServingStatus_not_Online [of status]
  by (simp add: DaemonHeartbeat_Check_def GetHeartbeat_def heartbeat_call_def callgRPCServiceHeartbeat_def Let_def)

theorem grpc_heartbeat_check_panics_witness:
  "DaemonHeartbeat_Check (\<lambda>_ n. (Inr (), n)) (\<lambda>_ n. (Inr SERVING, n)) scripted_http (\<lambda>_. Inr []) Inr (sample_env ''grpc'')
     [] [] (sample_sys ([], [])) = (Panics nil_dereference, sample_sys ([], []))"
  by (subst grpc_heartbeat_check_panics)
    (simp_all add: sample_env_def sample_sys_def ServiceHeartbeatType_def)

text \<open>
  With an HTTP service to watch, and alerts not configured, the health check reports serving exactly when the service answers 200
  with a non-empty body, and otherwise an error; it does not panic.
\<close>

theorem http_heartbeat_check:
  assumes "vip_GetString (env_vip env) ServiceHeartbeatType \<in> {''http'', ''https''}" "\<not> isNoHeartbeatURL s" "isNoAlertsConfig s"
    and "http_Get H (vip_GetString (env_vip env) HeartbeatServiceEndpoint) (net s) = (answer, n)"
  shows "\<exists>status err. DaemonHeartbeat_Check dial check H marshal marshal_bytes env epoch now s =
      (Returns (status, err), s\<lparr>net := n\<rparr>) \<and> (status = SERVING \<longleftrightarrow> err = None) \<and>
    (status = SERVING \<longleftrightarrow> (\<exists>r c cs. answer = Inr r \<and> StatusCode r = 200 \<and> response_Body r = Inr (c # cs)))"
  using assms
  by (auto simp: DaemonHeartbeat_Check_def GetHeartbeat_def heartbeat_call_def callHTTPServiceHeartbeat_def Notification_Send_def
      Status_String_def Offline_def Online_def Warning_def Critical_def Let_def neq_Nil_conv split: sum.splits)

theorem http_heartbeat_check_witness:
  "\<exists>err. DaemonHeartbeat_Check (\<lambda>_ n. (Inr (), n)) (\<lambda>_ n. (Inr SERVING, n)) scripted_http (\<lambda>_. Inr []) Inr (sample_env ''http'')
     [] [] (sample_sys ([], [])) = (Returns err, sample_sys ([], [])) \<and> fst err \<noteq> SERVING"
proof -
  have "http_Get scripted_http u ([], []) = (Inl (Error (Lit ''unused'')), [], [])" for u by (simp add: scripted_http_def)
  moreover have "vip_GetString (env_vip (sample_env ''http'')) ServiceHeartbeatType = ''http''" by (simp add: sample_env_def)
  ultimately show ?thesis
    using http_heartbeat_check [of "sample_env ''http''" "sample_sys ([], [])" scripted_http "Inl (Error (Lit ''unused''))" "([], [])"
        "\<lambda>_ n. (Inr (), n)" "\<lambda>_ n. (Inr SERVING, n)" "\<lambda>_. Inr []" Inr "[]" "[]"]
    by (fastforce simp: sample_sys_def)
qed

end
