(* ===== verification/Metadata.thy ===== *)
theory Metadata
  imports Blockchain Config
begin

text \<open>
  Where the service metadata comes from: the registry contract and IPFS, or a local file (\<^verbatim>\<open>blockchain/serviceMetadata.go\<close>,
  \<^verbatim>\<open>ipfsutils/ipfsutils.go\<close>), and the blockchain processor (\<^verbatim>\<open>blockchain/blockchain.go\<close>, \<^verbatim>\<open>ethereumClient.go\<close>).

  The IPFS shell, the registry contract, the connection to Ethereum and the decoding of JSON are arguments.
\<close>

section \<open>IPFS\<close>

text \<open>\<open>sh_Cat\<close> and \<open>sh_Read\<close> open and read a file; \<open>sh_Add\<close> is \<^verbatim>\<open>Add\<close> with \<^verbatim>\<open>OnlyHash\<close>: it computes the hash of a content.\<close>

record 'r ipfs_shell =
  sh_Cat :: "string \<Rightarrow> 'r result"
  sh_Read :: "'r \<Rightarrow> string result"
  sh_Add :: "string \<Rightarrow> string result"

definition IpfsEndPoint :: string where "IpfsEndPoint = ''ipfs_end_point''"
definition IpfsTimeout :: string where "IpfsTimeout = ''ipfs_timeout''"

text \<open>\<open>NewShell\<close> is \<^verbatim>\<open>shell.NewShell\<close> followed by \<^verbatim>\<open>SetTimeout\<close>, in nanoseconds; the product is one of 64 bits.\<close>

definition GetIpfsShell :: "(string \<Rightarrow> 64 word \<Rightarrow> 'r ipfs_shell) \<Rightarrow> viper \<Rightarrow> 'r ipfs_shell" where
  "GetIpfsShell NewShell vip = NewShell (vip_GetString vip IpfsEndPoint) (word_of_int (vip_GetInt vip IpfsTimeout) * 1000000000)"

definition GetIpfsFile :: "'r ipfs_shell \<Rightarrow> string \<Rightarrow> string go" where
  "GetIpfsFile sh hash =
     (case sh_Cat sh hash of
        Inl err \<Rightarrow> Panics (Lit ''error executing the cat command in ipfs'')
      | Inr cid \<Rightarrow>
          (case sh_Read sh cid of
             Inl err \<Rightarrow> Panics (Lit ''error: in Reading the meta data file %s'')
           | Inr jsondata \<Rightarrow>
               (case sh_Add sh jsondata of
                  Inl err \<Rightarrow> Panics (Lit ''error in generating the hash for the meta data read from IPFS : %v'')
                | Inr newHash \<Rightarrow>
                    if newHash \<noteq> hash then
                      Panics (Lit ''IPFS hash verification failed. Generated hash doesnt match with expected hash %s'')
                    else Returns jsondata)))"

section \<open>The registry\<close>

record registry =
  rpc_Dial :: "string \<Rightarrow> unit result"
  NewRegistryCaller :: "Address \<Rightarrow> unit result"
  GetServiceRegistrationById :: "Address \<Rightarrow> bytes32 \<Rightarrow> bytes32 \<Rightarrow> (bool \<times> bytes) result"

definition GetEthereumClient :: "registry \<Rightarrow> NetworkSelected \<Rightarrow> unit result" where
  "GetEthereumClient reg network =
     (case rpc_Dial reg (EthereumJSONRPCEndpoint network) of
        Inl err \<Rightarrow> Inl (Error (Concat (Lit ''error creating RPC client: '') (error_text err)))
      | Inr client \<Rightarrow> Inr client)"

definition getRegistryAddressKey :: "go_ethereum \<Rightarrow> NetworkSelected \<Rightarrow> Address" where
  "getRegistryAddressKey E network = common_HexToAddress E (net_RegistryAddressKey network)"

text \<open>The error of the connection is overwritten before it is looked at; without a connection the client is nil.\<close>

definition getMetaDataUrifromRegistry ::
  "go_ethereum \<Rightarrow> registry \<Rightarrow> viper \<Rightarrow> NetworkSelected \<Rightarrow> bytes go" where
  "getMetaDataUrifromRegistry E reg vip network =
     (case GetEthereumClient reg network of
        Inl err \<Rightarrow> Panics nil_dereference
      | Inr _ \<Rightarrow>
          (let registryContractAddress = getRegistryAddressKey E network in
           case NewRegistryCaller reg registryContractAddress of
             Inl err \<Rightarrow> Panics (Lit ''Error instantiating Registry contract for the given Contract Address'')
           | Inr _ \<Rightarrow>
               (let orgId = StringToBytes32 (vip_GetString vip OrganizationId);
                    serviceId = StringToBytes32 (vip_GetString vip ServiceId) in
                case GetServiceRegistrationById reg registryContractAddress orgId serviceId of
                  Inl err \<Rightarrow> Panics (Lit ''Error Retrieving contract details for the Given Organization and Service Ids '')
                | Inr (found, metadataURI) \<Rightarrow>
                    if \<not> found then
                      Panics (Lit ''Error Retrieving contract details for the Given Organization and Service Ids '')
                    else Returns metadataURI)))"

section \<open>The metadata\<close>

definition GetServiceMetaDataFromIPFS ::
  "go_ethereum \<Rightarrow> 'r ipfs_shell \<Rightarrow> (string \<Rightarrow> ServiceMetadata result) \<Rightarrow> string \<Rightarrow> string \<Rightarrow> (ServiceMetadata option \<times> error option) go" where
  "GetServiceMetaDataFromIPFS E sh unmarshal groupName hash =
     (case GetIpfsFile sh hash of
        Panics m \<Rightarrow> Panics m
      | Returns jsondata \<Rightarrow> Returns (InitServiceMetaDataFromJson E unmarshal groupName jsondata))"

definition readServiceMetaDataFromLocalFile ::
  "go_ethereum \<Rightarrow> (string \<Rightarrow> string result) \<Rightarrow> (string \<Rightarrow> ServiceMetadata result) \<Rightarrow> string \<Rightarrow> string
    \<Rightarrow> ServiceMetadata option \<times> error option" where
  "readServiceMetaDataFromLocalFile E readFile unmarshal groupName filename =
     (case readFile filename of
        Inl err \<Rightarrow> (None, Some (fmt_Errorf ''could not read file: %v: %v'' [Lit filename, error_text err]))
      | Inr strJson \<Rightarrow>
          (case InitServiceMetaDataFromJson E unmarshal groupName strJson of
             (_, Some err) \<Rightarrow> (None, Some (fmt_Errorf ''error reading local file service_metadata.json '' []))
           | (metadata, None) \<Rightarrow> (metadata, None)))"

definition BlockchainEnabledKey :: string where "BlockchainEnabledKey = ''blockchain_enabled''"
definition DaemonGroupName :: string where "DaemonGroupName = ''daemon_group_name''"

text \<open>\<^verbatim>\<open>string(bytes)\<close>.\<close>

definition bytes_string :: "bytes \<Rightarrow> string" where
  "bytes_string bs = map (\<lambda>b. char_of (unat b)) bs"

text \<open>Any error is a panic; a nil result without an error does not occur, as \<^verbatim>\<open>InitServiceMetaDataFromJson\<close> allocates the result.\<close>

definition ServiceMetaData ::
  "go_ethereum \<Rightarrow> registry \<Rightarrow> 'r ipfs_shell \<Rightarrow> (string \<Rightarrow> string result) \<Rightarrow> (string \<Rightarrow> ServiceMetadata result) \<Rightarrow> viper
    \<Rightarrow> NetworkSelected \<Rightarrow> ServiceMetadata option go" where
  "ServiceMetaData E reg sh readFile unmarshal vip network =
     (let groupName = vip_GetString vip DaemonGroupName;
          loaded =
            (if vip_GetBool vip BlockchainEnabledKey then
               (case getMetaDataUrifromRegistry E reg vip network of
                  Panics m \<Rightarrow> Panics m
                | Returns ipfsHash \<Rightarrow>
                    GetServiceMetaDataFromIPFS E sh unmarshal groupName (FormatHash (bytes_string ipfsHash)))
             else Returns (readServiceMetaDataFromLocalFile E readFile unmarshal groupName ''service_metadata.json'')) in
      case loaded of
        Panics m \<Rightarrow> Panics m
      | Returns (metadata, Some err) \<Rightarrow> Panics (Lit ''error on determining service metadata from file'')
      | Returns (metadata, None) \<Rightarrow> Returns metadata)"

section \<open>The processor\<close>

record Processor =
  enabled :: bool
  escrowContractAddress :: Address

definition Processor_Enabled :: "Processor \<Rightarrow> bool" where
  "Processor_Enabled processor = enabled processor"

definition Processor_EscrowContractAddress :: "Processor \<Rightarrow> Address" where
  "Processor_EscrowContractAddress processor = escrowContractAddress processor"

text \<open>\<open>NewMultiPartyEscrow\<close> binds the escrow contract. A processor that is not enabled has no client and the zero address.\<close>

definition NewProcessor ::
  "registry \<Rightarrow> (Address \<Rightarrow> unit result) \<Rightarrow> viper \<Rightarrow> NetworkSelected \<Rightarrow> ServiceMetadata \<Rightarrow> Processor result" where
  "NewProcessor reg NewMultiPartyEscrow vip network metadata =
     (let p = \<lparr>enabled = vip_GetBool vip BlockchainEnabledKey, escrowContractAddress = 0\<rparr> in
      if \<not> enabled p then Inr p
      else case GetEthereumClient reg network of
        Inl err \<Rightarrow> Inl (Error (Concat (Lit ''error creating RPC client: '') (error_text err)))
      | Inr _ \<Rightarrow>
          (let p = p\<lparr>escrowContractAddress := GetMpeAddress metadata\<rparr> in
           case NewMultiPartyEscrow (escrowContractAddress p) of
             Inl err \<Rightarrow> Inl (Error (Concat (Lit ''error instantiating MultiPartyEscrow contract: '') (error_text err)))
           | Inr _ \<Rightarrow> Inr p))"

section \<open>Properties\<close>

lemma GetIpfsFile_hash: "GetIpfsFile sh hash = Returns jsondata \<Longrightarrow> sh_Add sh jsondata = Inr hash"
  by (auto simp: GetIpfsFile_def split: sum.splits if_splits)

lemma find_group_member: "find_group name gs = Some g \<Longrightarrow> g \<in> set gs \<and> Group_GroupName g = name"
  by (auto simp: find_group_Some)

text \<open>What a successful derivation of the fields says: the group is named in the configuration and in an endpoint.\<close>

lemma setDerivedFields_ok:
  assumes "setDerivedFields E groupName m = (None, metadata)"
  shows "\<exists>g \<in> set (Groups m). Group_GroupName g = groupName \<and> groupName \<in> Endpoint_GroupName ` set (Endpoints m) \<and>
    recipientPaymentAddress metadata = common_HexToAddress E (Group_PaymentAddress g) \<and>
    ConvertBase64Encoding (Group_GroupID g) = (daemonReplicaGroupID metadata, None) \<and>
    multiPartyEscrowAddress metadata = common_HexToAddress E (MpeAddress m) \<and> PriceInCogs metadata = PriceInCogs m"
proof -
  let ?m = "m\<lparr>daemonGroupName := groupName\<rparr>"
  from assms have e: "groupName \<in> Endpoint_GroupName ` set (Endpoints m)"
    by (auto simp: setDerivedFields_def setDaemonGroupName_def list_ex_iff Let_def split: if_splits)
  with assms obtain x where x: "setDaemonGroupIDAndPaymentAddress E ?m = (None, x)" "metadata = setMultiPartyEscrowAddress E x"
    by (auto simp: setDerivedFields_def setDaemonGroupName_def list_ex_iff Let_def split: if_splits prod.splits option.splits)
  from x(1) obtain g where g: "find_group groupName (Groups m) = Some g"
    by (auto simp: setDaemonGroupIDAndPaymentAddress_def Let_def split: option.splits)
  with x find_group_member [OF g] e show ?thesis
    by (intro bexI [of _ g])
      (auto simp: setDaemonGroupIDAndPaymentAddress_def setMultiPartyEscrowAddress_def Let_def split: prod.splits option.splits)
qed

text \<open>
  C29. With the blockchain enabled, the metadata the daemon works with is authentic: it was decoded from a file whose IPFS hash is the one the
  registry contract holds for the configured organization and service. The payment address, the group id, the address of the escrow
  contract and the price are those of this file, for the configured group.
\<close>

theorem metadata_authentic:
  assumes "ServiceMetaData E reg sh readFile unmarshal vip network = Returns (Some metadata)" "vip_GetBool vip BlockchainEnabledKey"
  shows "\<exists>uri jsondata m. GetServiceRegistrationById reg (common_HexToAddress E (net_RegistryAddressKey network))
      (StringToBytes32 (vip_GetString vip OrganizationId)) (StringToBytes32 (vip_GetString vip ServiceId)) = Inr (True, uri) \<and>
    sh_Add sh jsondata = Inr (FormatHash (bytes_string uri)) \<and> unmarshal jsondata = Inr m \<and>
    PriceInCogs metadata = PriceInCogs m \<and> GetMpeAddress metadata = common_HexToAddress E (MpeAddress m) \<and>
    (\<exists>g \<in> set (Groups m). Group_GroupName g = vip_GetString vip DaemonGroupName \<and>
       GetPaymentAddress metadata = common_HexToAddress E (Group_PaymentAddress g) \<and>
       ConvertBase64Encoding (Group_GroupID g) = (GetDaemonGroupID metadata, None))"
proof -
  from assms obtain uri where uri: "getMetaDataUrifromRegistry E reg vip network = Returns uri"
    by (auto simp: ServiceMetaData_def Let_def split: go.splits)
  with assms obtain jsondata where j: "GetIpfsFile sh (FormatHash (bytes_string uri)) = Returns jsondata"
    and i: "InitServiceMetaDataFromJson E unmarshal (vip_GetString vip DaemonGroupName) jsondata = (Some metadata, None)"
    by (auto simp: ServiceMetaData_def GetServiceMetaDataFromIPFS_def Let_def split: go.splits prod.splits option.splits)
  from i obtain m where m: "unmarshal jsondata = Inr m"
      "setDerivedFields E (vip_GetString vip DaemonGroupName) m = (None, metadata)"
    by (auto simp: InitServiceMetaDataFromJson_def split: sum.splits prod.splits)
  from uri have "GetServiceRegistrationById reg (common_HexToAddress E (net_RegistryAddressKey network))
      (StringToBytes32 (vip_GetString vip OrganizationId)) (StringToBytes32 (vip_GetString vip ServiceId)) = Inr (True, uri)"
    by (auto simp: getMetaDataUrifromRegistry_def getRegistryAddressKey_def Let_def split: sum.splits if_splits)
  with GetIpfsFile_hash [OF j] m setDerivedFields_ok [OF m(2)] show ?thesis
    by (auto simp: GetMpeAddress_def GetPaymentAddress_def GetDaemonGroupID_def)
qed

text \<open>A registry with one service, whose metadata has one group.\<close>

definition published_metadata :: ServiceMetadata where
  "published_metadata =
     \<lparr>Version = 1, DisplayName = [], Encoding = ''proto'', ServiceType = ''grpc'', PaymentExpirationThreshold = 5,
      ModelIpfsHash = [], MpeAddress = ''0x0b'', PriceModel = ''fixed_price'', PriceInCogs = 3,
      Groups = [\<lparr>Group_GroupName = ''default_group'', Group_GroupID = [], Group_PaymentAddress = ''0x07''\<rparr>],
      Endpoints = [\<lparr>Endpoint_GroupName = ''default_group'', Endpoint_Endpoint = []\<rparr>],
      daemonReplicaGroupIDString = [], daemonReplicaGroupID = 0, daemonGroupName = [], daemonEndPoint = [],
      recipientPaymentAddress = 0, multiPartyEscrowAddress = 0\<rparr>"

definition published_registry :: registry where
  "published_registry =
     \<lparr>rpc_Dial = (\<lambda>_. Inr ()), NewRegistryCaller = (\<lambda>_. Inr ()), GetServiceRegistrationById = (\<lambda>_ _ _. Inr (True, []))\<rparr>"

definition published_vip :: viper where
  "published_vip =
     \<lparr>vip_GetString = (\<lambda>k. if k = DaemonGroupName then ''default_group'' else []), vip_GetInt = (\<lambda>_. 0), vip_GetBool = (\<lambda>_. True)\<rparr>"

definition length_eth :: go_ethereum where
  "length_eth =
     \<lparr>Keccak256 = concat, SigToPub = (\<lambda>_ _. Inr []), PubkeyToAddress = (\<lambda>_. 0), BigToHash = (\<lambda>n. word_of_int n),
      FromHex = string_bytes, BytesToAddress = (\<lambda>_. 0), common_HexToAddress = (\<lambda>s. word_of_nat (length s)), abi_U256 = (\<lambda>_. [])\<rparr>"

theorem metadata_authentic_witness:
  "\<exists>metadata. ServiceMetaData length_eth published_registry
      \<lparr>sh_Cat = (\<lambda>_. Inr ()), sh_Read = (\<lambda>_. Inr ''{}''), sh_Add = (\<lambda>_. Inr [])\<rparr> (\<lambda>_. Inr []) (\<lambda>_. Inr published_metadata) published_vip
      \<lparr>NetworkName = [], EthereumJSONRPCEndpoint = [], net_NetworkId = [], net_RegistryAddressKey = []\<rparr> =
      Returns (Some metadata) \<and> PriceInCogs metadata = 3"
proof -
  let ?sh = "\<lparr>sh_Cat = (\<lambda>_. Inr ()), sh_Read = (\<lambda>_. Inr ''{}''), sh_Add = (\<lambda>_. Inr [])\<rparr>"
  let ?n = "\<lparr>NetworkName = [], EthereumJSONRPCEndpoint = [], net_NetworkId = [], net_RegistryAddressKey = []\<rparr>"
  let ?load = "ServiceMetaData length_eth published_registry ?sh (\<lambda>_. Inr []) (\<lambda>_. Inr published_metadata) published_vip ?n"
  have "FormatHash [] = []" by (simp add: FormatHash_def RemoveSpecialCharactersfromHash_def)
  then obtain metadata where l: "?load = Returns (Some metadata)"
    by (simp add: ServiceMetaData_def getMetaDataUrifromRegistry_def GetEthereumClient_def published_registry_def published_vip_def
        GetServiceMetaDataFromIPFS_def GetIpfsFile_def bytes_string_def InitServiceMetaDataFromJson_def setDerivedFields_def
        setDaemonGroupName_def setDaemonGroupIDAndPaymentAddress_def published_metadata_def ConvertBase64Encoding_def
        StdEncoding_DecodeString_def Let_def)
  have "vip_GetBool published_vip BlockchainEnabledKey" by (simp add: published_vip_def)
  from metadata_authentic [OF l this] l show ?thesis by (auto simp: published_metadata_def)
qed

end
