(* ===== verification/Components.thy ===== *)
theory Components
  imports EmbeddedEtcd PaymentHandler ControlService Metrics Metadata
begin

text \<open>
  \<^verbatim>\<open>snetd/cmd/components.go\<close>: the parts of the daemon, built on demand and kept. Every accessor returns the part it built before, if any,
  and builds it from other parts otherwise.

  The construction of what is outside of the repository (the etcd client and server, the connection to Ethereum) and of what lives in Go's heap
  (the in-memory storage) is an argument, as is \<^verbatim>\<open>ChainStreamServer\<close> of the gRPC middleware, whose documented order is a hypothesis where
  it matters.
\<close>

section \<open>State\<close>

type_synonym 'w StreamInterceptor = "MD option \<Rightarrow> string \<Rightarrow> 'w StreamHandler \<Rightarrow> 'w StreamHandler"

text \<open>A nil field is None. A state service is its channel service, a heartbeat its daemon id.\<close>

record 'w Components =
  comp_serviceMetadata :: "ServiceMetadata option"
  comp_blockchain :: "Processor option"
  comp_etcdClient :: "'w EtcdClient option"
  comp_etcdServer :: "EtcdServer option"
  comp_atomicStorage :: "'w AtomicStorage option"
  comp_paymentChannelService :: "'w lockingPaymentChannelService option"
  comp_escrowPaymentHandler :: "('w, 'w paymentTransaction) PaymentHandler option"
  comp_grpcInterceptor :: "'w StreamInterceptor option"
  comp_paymentChannelStateService :: "'w lockingPaymentChannelService option"
  comp_etcdLockerStorage :: "'w PrefixedAtomicStorage option"
  comp_providerControlService :: "'w ProviderControlService option"
  comp_daemonHeartbeat :: "string option"

definition no_components :: "'w Components" where
  "no_components =
     \<lparr>comp_serviceMetadata = None, comp_blockchain = None, comp_etcdClient = None, comp_etcdServer = None,
      comp_atomicStorage = None, comp_paymentChannelService = None, comp_escrowPaymentHandler = None,
      comp_grpcInterceptor = None, comp_paymentChannelStateService = None, comp_etcdLockerStorage = None,
      comp_providerControlService = None, comp_daemonHeartbeat = None\<rparr>"

text \<open>
  What the accessors use besides the components: the configuration, the loading of metadata (\<open>ServiceMetaData\<close>) and of the processor
  (\<open>NewProcessor\<close>), the constructors of storages, the blockchain calls, and the interceptors' collaborators.
\<close>

record 'w daemon_env =
  d_vip :: viper
  d_gob :: gob
  d_eth :: go_ethereum
  d_md_Get :: "MD \<Rightarrow> string \<Rightarrow> string list"
  d_metadata :: "ServiceMetadata go"
  d_processor :: "ServiceMetadata \<Rightarrow> Processor result"
  d_etcd_vip :: etcd_viper
  d_capnslog :: "'w capnslog"
  d_embed :: "'w embed"
  d_clientv3 :: "'w clientv3"
  d_mem_storage :: "'w \<Rightarrow> 'w AtomicStorage \<times> 'w"
  d_Channels :: "int \<Rightarrow> 'w \<Rightarrow> MultiPartyEscrowChannel result"
  d_eth_blockNumber :: "'w \<Rightarrow> string result"
  d_set_group :: "string \<Rightarrow> 'w \<Rightarrow> 'w"
  d_daemon_id :: "'w \<Rightarrow> string"
  d_ParseRequestURI :: "string \<Rightarrow> bool"
  d_RegisterDaemon :: "string \<Rightarrow> 'w \<Rightarrow> bool go \<times> 'w"
  d_chain :: "'w StreamInterceptor list \<Rightarrow> 'w StreamInterceptor"
  d_Allow :: "'w \<Rightarrow> bool \<times> 'w"
  d_spawn :: "monitoring_task \<Rightarrow> 'w \<Rightarrow> 'w"
  d_elapsed :: "'w \<Rightarrow> string"
  d_commonStats :: "string \<Rightarrow> 'w \<Rightarrow> CommonStats"

type_synonym ('w, 'a) build = "'w Components \<times> 'w \<Rightarrow> 'a go \<times> 'w Components \<times> 'w"

text \<open>A panic ends the construction; what was built before it stays.\<close>

definition and_then :: "('w, 'a) build \<Rightarrow> ('a \<Rightarrow> ('w, 'b) build) \<Rightarrow> ('w, 'b) build" where
  "and_then m f s = (case m s of (Returns x, s') \<Rightarrow> f x s' | (Panics e, s') \<Rightarrow> (Panics e, s'))"

definition built :: "'a \<Rightarrow> ('w, 'a) build" where
  "built x s = (Returns x, s)"

text \<open>The pattern of every accessor: the kept part, or build it and keep it.\<close>

definition kept ::
  "('w Components \<Rightarrow> 'a option) \<Rightarrow> ('a option \<Rightarrow> 'w Components \<Rightarrow> 'w Components) \<Rightarrow> ('w, 'a) build \<Rightarrow> ('w, 'a) build" where
  "kept get put build s =
     (case get (fst s) of
        Some x \<Rightarrow> (Returns x, s)
      | None \<Rightarrow> and_then build (\<lambda>x s'. (Returns x, (put (Some x) (fst s'), snd s'))) s)"

text \<open>An operation on the world whose error is logged as a panic.\<close>

definition or_panic :: "string \<Rightarrow> ('w \<Rightarrow> 'a result \<times> 'w) \<Rightarrow> ('w, 'a) build" where
  "or_panic m op s =
     (case op (snd s) of
        (Inl err, w) \<Rightarrow> (Panics (Lit m), (fst s, w))
      | (Inr x, w) \<Rightarrow> (Returns x, (fst s, w)))"

section \<open>Accessors\<close>

definition Components_ServiceMetaData :: "'w daemon_env \<Rightarrow> ('w, ServiceMetadata) build" where
  "Components_ServiceMetaData env =
     kept comp_serviceMetadata (\<lambda>x c. c\<lparr>comp_serviceMetadata := x\<rparr>) (\<lambda>s. (d_metadata env, s))"

definition Components_Blockchain :: "'w daemon_env \<Rightarrow> ('w, Processor) build" where
  "Components_Blockchain env =
     kept comp_blockchain (\<lambda>x c. c\<lparr>comp_blockchain := x\<rparr>)
       (and_then (Components_ServiceMetaData env)
         (\<lambda>metadata. or_panic ''unable to initialize blockchain processor'' (Pair (d_processor env metadata))))"

text \<open>
  The server that is disabled is not kept; the accessor returns nil for it. The configuration is read twice; a nil server the second time
  would be dereferenced.
\<close>

definition Components_EtcdServer :: "'w daemon_env \<Rightarrow> ('w, EtcdServer option) build" where
  "Components_EtcdServer env s =
     (case s of (c, w) \<Rightarrow>
      case comp_etcdServer c of
        Some server \<Rightarrow> (Returns (Some server), (c, w))
      | None \<Rightarrow>
          (case IsEtcdServerEnabledInVip (d_etcd_vip env) (d_capnslog env) w of
             (Panics m, w1) \<Rightarrow> (Panics m, (c, w1))
           | (Returns (Inl err), w1) \<Rightarrow> (Panics (Lit ''error during etcd config parsing''), (c, w1))
           | (Returns (Inr False), w1) \<Rightarrow> (Returns None, (c, w1))
           | (Returns (Inr True), w1) \<Rightarrow>
               (case GetEtcdServerFromVip (d_etcd_vip env) (d_capnslog env) w1 of
                  (Panics m, w2) \<Rightarrow> (Panics m, (c, w2))
                | (Returns (Inl err), w2) \<Rightarrow> (Panics (Lit ''error during etcd config parsing''), (c, w2))
                | (Returns (Inr None), w2) \<Rightarrow> (Panics nil_dereference, (c, w2))
                | (Returns (Inr (Some server)), w2) \<Rightarrow>
                    (case EtcdServer_Start (d_embed env) server w2 of
                       (Some err, _, w3) \<Rightarrow> (Panics (Lit ''error during etcd server starting''), (c, w3))
                     | (None, server, w3) \<Rightarrow> (Returns (Some server), (c\<lparr>comp_etcdServer := Some server\<rparr>, w3))))))"

definition Components_EtcdClient :: "'w daemon_env \<Rightarrow> ('w, 'w EtcdClient) build" where
  "Components_EtcdClient env =
     kept comp_etcdClient (\<lambda>x c. c\<lparr>comp_etcdClient := x\<rparr>)
       (\<lambda>(c, w). case NewEtcdClientFromVip (d_clientv3 env) (d_etcd_vip env) w of
          (Panics m, w') \<Rightarrow> (Panics m, (c, w'))
        | (Returns (Inl err), w') \<Rightarrow> (Panics (Lit ''unable to create etcd client''), (c, w'))
        | (Returns (Inr client), w') \<Rightarrow> (Returns client, (c, w')))"

definition Components_AtomicStorage :: "'w daemon_env \<Rightarrow> ('w, 'w AtomicStorage) build" where
  "Components_AtomicStorage env =
     kept comp_atomicStorage (\<lambda>x c. c\<lparr>comp_atomicStorage := x\<rparr>)
       (if vip_GetString (d_vip env) PaymentChannelStorageTypeKey = ''etcd''
        then and_then (Components_EtcdClient env) (\<lambda>client. built (etcd_AtomicStorage client))
        else (\<lambda>s. case d_mem_storage env (snd s) of (st, w) \<Rightarrow> (Returns st, (fst s, w))))"

definition Components_LockerStorage :: "'w daemon_env \<Rightarrow> ('w, 'w PrefixedAtomicStorage) build" where
  "Components_LockerStorage env =
     kept comp_etcdLockerStorage (\<lambda>x c. c\<lparr>comp_etcdLockerStorage := x\<rparr>)
       (and_then (Components_AtomicStorage env) (\<lambda>st. built (NewLockerStorage st)))"

text \<open>
  The service over a storage. The group id is read at every use; the metadata is kept, so it is always the same, and there is no
  error.
\<close>

definition service_of :: "'w daemon_env \<Rightarrow> 'w AtomicStorage \<Rightarrow> ServiceMetadata \<Rightarrow> 'w lockingPaymentChannelService" where
  "service_of env st metadata =
     NewPaymentChannelService (NewPaymentChannelStorage (d_gob env) st) (NewPaymentStorage (d_gob env) st)
       (NewBlockchainChannelReader (d_Channels env) metadata) (NewEtcdLocker st)
       (NewChannelPaymentValidator (d_eth env) (d_eth_blockNumber env) metadata) (GetDaemonGroupID metadata, None)"

definition Components_PaymentChannelService :: "'w daemon_env \<Rightarrow> ('w, 'w lockingPaymentChannelService) build" where
  "Components_PaymentChannelService env =
     kept comp_paymentChannelService (\<lambda>x c. c\<lparr>comp_paymentChannelService := x\<rparr>)
       (and_then (Components_AtomicStorage env) (\<lambda>st.
        and_then (Components_Blockchain env) (\<lambda>_.
        and_then (Components_ServiceMetaData env) (\<lambda>metadata. built (service_of env st metadata)))))"

definition Components_EscrowPaymentHandler ::
  "'w daemon_env \<Rightarrow> ('w, ('w, 'w paymentTransaction) PaymentHandler) build" where
  "Components_EscrowPaymentHandler env =
     kept comp_escrowPaymentHandler (\<lambda>x c. c\<lparr>comp_escrowPaymentHandler := x\<rparr>)
       (and_then (Components_PaymentChannelService env) (\<lambda>svc.
        and_then (Components_Blockchain env) (\<lambda>processor.
        and_then (Components_ServiceMetaData env) (\<lambda>metadata.
          built (NewPaymentHandler (d_eth env) (d_md_Get env) svc (escrowContractAddress processor)
            (NewIncomeValidator (GetPriceInCogs metadata)))))))"

definition Components_GrpcPaymentValidationInterceptor :: "'w daemon_env \<Rightarrow> ('w, 'w StreamInterceptor) build" where
  "Components_GrpcPaymentValidationInterceptor env =
     and_then (Components_Blockchain env) (\<lambda>processor.
       if \<not> enabled processor then built (\<lambda>_ _. NoOpInterceptor)
       else and_then (Components_EscrowPaymentHandler env) (\<lambda>h.
         built (paymentValidationInterceptor_intercept (GrpcPaymentValidationInterceptor h []))))"

definition monitoring_interceptor :: "'w daemon_env \<Rightarrow> 'w StreamInterceptor" where
  "monitoring_interceptor env incoming info h w =
     interceptMonitoring (d_spawn env) (d_elapsed env) (d_commonStats env info w) h w"

definition rate_limit_interceptor :: "'w daemon_env \<Rightarrow> 'w StreamInterceptor" where
  "rate_limit_interceptor env incoming info = rateLimitInterceptor_intercept (d_Allow env)"

definition monitoring_registered :: "'w daemon_env \<Rightarrow> ('w, bool) build" where
  "monitoring_registered env s =
     (let endpoint = vip_GetString (d_vip env) MonitoringServiceEndpoint in
      if vip_GetBool (d_vip env) MonitoringEnabled \<and> IsValidUrl (d_ParseRequestURI env) endpoint
      then (case d_RegisterDaemon env (endpoint @ ''/register'') (snd s) of (r, w) \<Rightarrow> (r, (fst s, w)))
      else (Returns False, s))"

definition set_daemon_group :: "'w daemon_env \<Rightarrow> ServiceMetadata \<Rightarrow> ('w, unit) build" where
  "set_daemon_group env metadata s = (Returns (), (fst s, d_set_group env (GetDaemonGroupIDString metadata) (snd s)))"

definition Components_GrpcInterceptor :: "'w daemon_env \<Rightarrow> ('w, 'w StreamInterceptor) build" where
  "Components_GrpcInterceptor env =
     kept comp_grpcInterceptor (\<lambda>x c. c\<lparr>comp_grpcInterceptor := x\<rparr>)
       (and_then (Components_ServiceMetaData env) (\<lambda>metadata.
        and_then (set_daemon_group env metadata) (\<lambda>_.
        and_then (monitoring_registered env) (\<lambda>registered.
        and_then (Components_GrpcPaymentValidationInterceptor env) (\<lambda>payment_interceptor.
          built (d_chain env
            (if registered then [monitoring_interceptor env, rate_limit_interceptor env, payment_interceptor]
             else [rate_limit_interceptor env, payment_interceptor])))))))"

definition Components_PaymentChannelStateService :: "'w daemon_env \<Rightarrow> ('w, 'w lockingPaymentChannelService) build" where
  "Components_PaymentChannelStateService env =
     kept comp_paymentChannelStateService (\<lambda>x c. c\<lparr>comp_paymentChannelStateService := x\<rparr>) (Components_PaymentChannelService env)"

definition Components_ProviderControlService :: "'w daemon_env \<Rightarrow> ('w, 'w ProviderControlService) build" where
  "Components_ProviderControlService env =
     kept comp_providerControlService (\<lambda>x c. c\<lparr>comp_providerControlService := x\<rparr>)
       (and_then (Components_PaymentChannelService env) (\<lambda>svc.
        and_then (Components_ServiceMetaData env) (\<lambda>metadata. built (NewProviderControlService svc metadata))))"

definition Components_DaemonHeartBeat :: "'w daemon_env \<Rightarrow> ('w, string) build" where
  "Components_DaemonHeartBeat env =
     kept comp_daemonHeartbeat (\<lambda>x c. c\<lparr>comp_daemonHeartbeat := x\<rparr>)
       (and_then (Components_ServiceMetaData env) (\<lambda>metadata.
        and_then (set_daemon_group env metadata) (\<lambda>_ s. (Returns (d_daemon_id env (snd s)), s))))"

section \<open>The parts fit together\<close>

text \<open>
  Everything that was built is a function of the metadata, the processor and the one storage: the same storage is below the channels, the
  payments being claimed and the locks, in the services, the payment handler and the commands.
\<close>

definition handler_of ::
  "'w daemon_env \<Rightarrow> 'w AtomicStorage \<Rightarrow> ServiceMetadata \<Rightarrow> Processor \<Rightarrow> ('w, 'w paymentTransaction) PaymentHandler" where
  "handler_of env st metadata processor =
     NewPaymentHandler (d_eth env) (d_md_Get env) (service_of env st metadata) (escrowContractAddress processor)
       (NewIncomeValidator (GetPriceInCogs metadata))"

definition is_metadata :: "'w daemon_env \<Rightarrow> ServiceMetadata \<Rightarrow> 'w AtomicStorage option \<Rightarrow> bool" where
  "is_metadata env m so \<longleftrightarrow> d_metadata env = Returns m"

definition is_processor :: "'w daemon_env \<Rightarrow> Processor \<Rightarrow> 'w AtomicStorage option \<Rightarrow> bool" where
  "is_processor env p so \<longleftrightarrow> (\<exists>m. d_metadata env = Returns m \<and> d_processor env m = Inr p)"

definition is_storage :: "'w AtomicStorage \<Rightarrow> 'w AtomicStorage option \<Rightarrow> bool" where
  "is_storage st so \<longleftrightarrow> so = Some st"

definition is_service :: "'w daemon_env \<Rightarrow> 'w lockingPaymentChannelService \<Rightarrow> 'w AtomicStorage option \<Rightarrow> bool" where
  "is_service env svc so \<longleftrightarrow> (\<exists>st m. so = Some st \<and> d_metadata env = Returns m \<and> svc = service_of env st m)"

definition is_handler :: "'w daemon_env \<Rightarrow> ('w, 'w paymentTransaction) PaymentHandler \<Rightarrow> 'w AtomicStorage option \<Rightarrow> bool" where
  "is_handler env h so \<longleftrightarrow> (\<exists>st m p. so = Some st \<and> d_metadata env = Returns m \<and> d_processor env m = Inr p \<and>
     h = handler_of env st m p)"

definition is_payment_interceptor :: "'w daemon_env \<Rightarrow> 'w StreamInterceptor \<Rightarrow> 'w AtomicStorage option \<Rightarrow> bool" where
  "is_payment_interceptor env i so \<longleftrightarrow> (\<exists>m p. d_metadata env = Returns m \<and> d_processor env m = Inr p \<and>
     (if enabled p
      then \<exists>st. so = Some st \<and>
             i = paymentValidationInterceptor_intercept (GrpcPaymentValidationInterceptor (handler_of env st m p) [])
      else i = (\<lambda>_ _. NoOpInterceptor)))"

definition is_interceptor :: "'w daemon_env \<Rightarrow> 'w StreamInterceptor \<Rightarrow> 'w AtomicStorage option \<Rightarrow> bool" where
  "is_interceptor env i so \<longleftrightarrow> (\<exists>pay. is_payment_interceptor env pay so \<and>
     (i = d_chain env [monitoring_interceptor env, rate_limit_interceptor env, pay] \<or>
      i = d_chain env [rate_limit_interceptor env, pay]))"

definition is_control :: "'w daemon_env \<Rightarrow> 'w ProviderControlService \<Rightarrow> 'w AtomicStorage option \<Rightarrow> bool" where
  "is_control env x so \<longleftrightarrow> (\<exists>st m. so = Some st \<and> d_metadata env = Returns m \<and>
     x = NewProviderControlService (service_of env st m) m)"

definition is_locker :: "'w PrefixedAtomicStorage \<Rightarrow> 'w AtomicStorage option \<Rightarrow> bool" where
  "is_locker x so \<longleftrightarrow> (\<exists>st. so = Some st \<and> x = NewLockerStorage st)"

lemmas part_defs =
  is_metadata_def is_processor_def is_storage_def is_service_def is_handler_def is_payment_interceptor_def is_interceptor_def
  is_control_def is_locker_def

definition comp_inv :: "'w daemon_env \<Rightarrow> 'w Components \<Rightarrow> bool" where
  "comp_inv env c \<longleftrightarrow>
     (\<forall>x. comp_serviceMetadata c = Some x \<longrightarrow> is_metadata env x (comp_atomicStorage c)) \<and>
     (\<forall>x. comp_blockchain c = Some x \<longrightarrow> is_processor env x (comp_atomicStorage c)) \<and>
     (\<forall>x. comp_etcdServer c = Some x \<longrightarrow> server_etcd x \<noteq> None) \<and>
     (\<forall>x. comp_paymentChannelService c = Some x \<longrightarrow> is_service env x (comp_atomicStorage c)) \<and>
     (\<forall>x. comp_escrowPaymentHandler c = Some x \<longrightarrow> is_handler env x (comp_atomicStorage c)) \<and>
     (\<forall>x. comp_grpcInterceptor c = Some x \<longrightarrow> is_interceptor env x (comp_atomicStorage c)) \<and>
     (\<forall>x. comp_paymentChannelStateService c = Some x \<longrightarrow> is_service env x (comp_atomicStorage c)) \<and>
     (\<forall>x. comp_etcdLockerStorage c = Some x \<longrightarrow> is_locker x (comp_atomicStorage c)) \<and>
     (\<forall>x. comp_providerControlService c = Some x \<longrightarrow> is_control env x (comp_atomicStorage c))"

text \<open>What holds of the storage stays true while more parts are built.\<close>

definition same_storage :: "'w Components \<Rightarrow> 'w Components \<Rightarrow> bool" where
  "same_storage c c' \<longleftrightarrow> (comp_atomicStorage c = None \<or> comp_atomicStorage c' = comp_atomicStorage c)"

definition storage_stable :: "('w AtomicStorage option \<Rightarrow> bool) \<Rightarrow> bool" where
  "storage_stable P \<longleftrightarrow> (P None \<longrightarrow> (\<forall>st. P (Some st)))"

lemma stableD: "storage_stable P \<Longrightarrow> same_storage c c' \<Longrightarrow> P (comp_atomicStorage c) \<Longrightarrow> P (comp_atomicStorage c')"
  by (cases "comp_atomicStorage c"; cases "comp_atomicStorage c'") (auto simp: storage_stable_def same_storage_def)

lemma stable_parts [simp]:
  "storage_stable (is_metadata env m)" "storage_stable (is_processor env p)" "storage_stable (is_storage st)" "storage_stable (is_service env svc)"
  "storage_stable (is_handler env h)" "storage_stable (\<lambda>c. True)"
  by (auto simp: storage_stable_def part_defs)

lemma stable_interceptors [simp]:
  "storage_stable (is_payment_interceptor env i)" "storage_stable (is_interceptor env i)"
proof -
  show p: "storage_stable (is_payment_interceptor env i)" for i
    by (auto simp: storage_stable_def is_payment_interceptor_def)
  then show "storage_stable (is_interceptor env i)"
    unfolding storage_stable_def is_interceptor_def by blast
qed

lemma stable_others [simp]: "storage_stable (is_control env x)" "storage_stable (is_locker y)"
  by (auto simp: storage_stable_def part_defs)

lemma comp_inv_storage:
  assumes "comp_inv env c" "comp_atomicStorage c = None"
  shows "comp_inv env (c\<lparr>comp_atomicStorage := Some st\<rparr>)"
proof -
  have s: "P None \<Longrightarrow> P (Some st)" if "storage_stable P" for P using that by (simp add: storage_stable_def)
  show ?thesis
    using assms
    by (simp add: comp_inv_def stable_parts [THEN s] stable_interceptors [THEN s] stable_others [THEN s])
qed

lemma comp_inv_etcdClient [simp]: "comp_inv env (c\<lparr>comp_etcdClient := x\<rparr>) = comp_inv env c"
  by (simp add: comp_inv_def)

lemma storage_stable_conj [simp]: "storage_stable P \<Longrightarrow> storage_stable Q \<Longrightarrow> storage_stable (\<lambda>c. P c \<and> Q c)"
  by (auto simp: storage_stable_def)

lemmas stable = storage_stable_conj stable_parts stable_interceptors stable_others

text \<open>
  A construction, from components with \<open>P\<close>, keeps the invariant and the storage, and what it returns satisfies \<open>Q\<close>.
\<close>

definition builds ::
  "'w daemon_env \<Rightarrow> ('w AtomicStorage option \<Rightarrow> bool) \<Rightarrow> ('w, 'a) build \<Rightarrow> ('a \<Rightarrow> 'w AtomicStorage option \<Rightarrow> bool) \<Rightarrow> bool" where
  "builds env P m Q \<longleftrightarrow>
     (\<forall>c w r c' w'. comp_inv env c \<longrightarrow> P (comp_atomicStorage c) \<longrightarrow> m (c, w) = (r, c', w') \<longrightarrow>
        comp_inv env c' \<and> same_storage c c' \<and> (\<forall>x. r = Returns x \<longrightarrow> Q x (comp_atomicStorage c')))"

lemma buildsI:
  assumes "\<And>c w r c' w'. comp_inv env c \<Longrightarrow> P (comp_atomicStorage c) \<Longrightarrow> m (c, w) = (r, c', w') \<Longrightarrow>
    comp_inv env c' \<and> same_storage c c' \<and> (\<forall>x. r = Returns x \<longrightarrow> Q x (comp_atomicStorage c'))"
  shows "builds env P m Q"
  using assms by (auto simp: builds_def)

lemma builds_pre: "builds env (\<lambda>_. True) m Q \<Longrightarrow> builds env P m Q"
  by (auto simp: builds_def)

lemma builds_post: "builds env P m Q \<Longrightarrow> (\<And>x c. Q x c \<Longrightarrow> R x c) \<Longrightarrow> builds env P m R"
  unfolding builds_def by blast

lemma builds_built: "(\<And>c. P c \<Longrightarrow> Q x c) \<Longrightarrow> builds env P (built x) Q"
  by (auto simp: builds_def built_def same_storage_def)

lemma builds_and_then:
  assumes "builds env P m Q" "\<And>x. builds env (\<lambda>c. P c \<and> Q x c) (f x) R" "storage_stable P"
  shows "builds env P (and_then m f) R"
proof (rule buildsI)
  fix c w r c' w'
  assume c: "comp_inv env c" "P (comp_atomicStorage c)" and run: "and_then m f (c, w) = (r, c', w')"
  obtain r1 c1 w1 where m: "m (c, w) = (r1, c1, w1)" by (cases "m (c, w)") auto
  with assms(1) c have 1: "comp_inv env c1" "same_storage c c1" "\<And>x. r1 = Returns x \<Longrightarrow> Q x (comp_atomicStorage c1)"
    unfolding builds_def by blast+
  show "comp_inv env c' \<and> same_storage c c' \<and> (\<forall>x. r = Returns x \<longrightarrow> R x (comp_atomicStorage c'))"
  proof (cases r1)
    case (Panics e)
    with m run 1 show ?thesis by (auto simp: and_then_def)
  next
    case (Returns x)
    with m run have f: "f x (c1, w1) = (r, c', w')" by (simp add: and_then_def)
    have "P (comp_atomicStorage c1)" using stableD [OF assms(3) 1(2) c(2)] .
    with assms(2) [of x] 1 Returns f have "comp_inv env c' \<and> same_storage c1 c' \<and> (\<forall>x. r = Returns x \<longrightarrow> R x (comp_atomicStorage c'))"
      unfolding builds_def by blast
    with 1(2) show ?thesis by (auto simp: same_storage_def)
  qed
qed

lemma builds_or_panic:
  assumes "\<And>w x w'. op w = (Inr x, w') \<Longrightarrow> P x"
  shows "builds env R (or_panic m op) (\<lambda>x c. P x \<and> R c)"
  using assms by (auto simp: builds_def or_panic_def same_storage_def split: prod.splits sum.splits)

text \<open>A part that is kept in a field of its own.\<close>

lemma builds_kept:
  assumes "builds env (\<lambda>_. True) b Q"
    and "\<And>c x. comp_inv env c \<Longrightarrow> get c = Some x \<Longrightarrow> Q x (comp_atomicStorage c)"
    and "\<And>c x. comp_inv env c \<Longrightarrow> Q x (comp_atomicStorage c) \<Longrightarrow> comp_inv env (put (Some x) c)"
    and "\<And>c x. comp_atomicStorage (put x c) = comp_atomicStorage c"
  shows "builds env P (kept get put b) Q"
proof (rule buildsI)
  fix c w r c' w'
  assume c: "comp_inv env c" and run: "kept get put b (c, w) = (r, c', w')"
  show "comp_inv env c' \<and> same_storage c c' \<and> (\<forall>x. r = Returns x \<longrightarrow> Q x (comp_atomicStorage c'))"
  proof (cases "get c")
    case (Some x)
    with run c assms(2) show ?thesis by (auto simp: kept_def same_storage_def)
  next
    case None
    obtain r1 c1 w1 where b: "b (c, w) = (r1, c1, w1)" by (cases "b (c, w)") auto
    with assms(1) c have 1: "comp_inv env c1" "same_storage c c1" "\<And>x. r1 = Returns x \<Longrightarrow> Q x (comp_atomicStorage c1)"
      unfolding builds_def by blast+
    with run b None assms(3,4) show ?thesis
      by (cases r1) (auto simp: kept_def and_then_def same_storage_def)
  qed
qed

section \<open>Every accessor keeps them together\<close>

lemma ServiceMetaData_builds: "builds env P (Components_ServiceMetaData env) (is_metadata env)"
  unfolding Components_ServiceMetaData_def
  by (rule builds_kept) (auto simp: builds_def same_storage_def comp_inv_def is_metadata_def)

lemma Blockchain_builds: "builds env P (Components_Blockchain env) (is_processor env)"
  unfolding Components_Blockchain_def
proof (rule builds_kept)
  show "builds env (\<lambda>_. True) (and_then (Components_ServiceMetaData env)
      (\<lambda>metadata. or_panic ''unable to initialize blockchain processor'' (Pair (d_processor env metadata)))) (is_processor env)"
  proof (rule builds_and_then [OF ServiceMetaData_builds])
    fix m
    show "builds env (\<lambda>c. True \<and> is_metadata env m c)
        (or_panic ''unable to initialize blockchain processor'' (Pair (d_processor env m))) (is_processor env)"
      by (rule builds_post [OF builds_or_panic [where P = "\<lambda>p. d_processor env m = Inr p"]]) (auto simp: part_defs)
  qed simp
qed (auto simp: comp_inv_def)

lemma AtomicStorage_builds: "builds env P (Components_AtomicStorage env) is_storage"
proof (rule buildsI)
  fix c w r c' w'
  assume c: "comp_inv env c" and run: "Components_AtomicStorage env (c, w) = (r, c', w')"
  show "comp_inv env c' \<and> same_storage c c' \<and> (\<forall>st. r = Returns st \<longrightarrow> is_storage st (comp_atomicStorage c'))"
  proof (cases "comp_atomicStorage c")
    case (Some st)
    with run c show ?thesis by (auto simp: Components_AtomicStorage_def kept_def same_storage_def is_storage_def)
  next
    case None
    with run have "c' = c \<or> (\<exists>x. c' = c\<lparr>comp_etcdClient := x\<rparr>) \<or> (\<exists>x st. r = Returns st \<and> c' = c\<lparr>comp_etcdClient := x, comp_atomicStorage := Some st\<rparr>) \<or>
        (\<exists>st. r = Returns st \<and> c' = c\<lparr>comp_atomicStorage := Some st\<rparr>)"
      "\<And>st. r = Returns st \<Longrightarrow> comp_atomicStorage c' = Some st"
      by (auto simp: Components_AtomicStorage_def Components_EtcdClient_def kept_def and_then_def or_panic_def built_def
          split: if_splits option.splits prod.splits sum.splits go.splits)
    with c None show ?thesis
      using comp_inv_storage [of env c] comp_inv_storage [of env "c\<lparr>comp_etcdClient := _\<rparr>"]
      by (auto simp: same_storage_def is_storage_def)
  qed
qed

lemma LockerStorage_builds: "builds env P (Components_LockerStorage env) is_locker"
  unfolding Components_LockerStorage_def
  by (rule builds_kept, rule builds_and_then [OF AtomicStorage_builds], rule builds_built)
    (auto simp: comp_inv_def is_storage_def is_locker_def)

lemma PaymentChannelService_builds: "builds env P (Components_PaymentChannelService env) (is_service env)"
  unfolding Components_PaymentChannelService_def
proof (rule builds_kept)
  show "builds env (\<lambda>_. True) (and_then (Components_AtomicStorage env) (\<lambda>st. and_then (Components_Blockchain env)
      (\<lambda>_. and_then (Components_ServiceMetaData env) (\<lambda>metadata. built (service_of env st metadata))))) (is_service env)"
    by (intro builds_and_then [OF AtomicStorage_builds] builds_and_then [OF Blockchain_builds]
        builds_and_then [OF ServiceMetaData_builds] builds_built stable)
      (auto simp: is_storage_def is_metadata_def is_service_def)
qed (auto simp: comp_inv_def)

lemma EscrowPaymentHandler_builds: "builds env P (Components_EscrowPaymentHandler env) (is_handler env)"
  unfolding Components_EscrowPaymentHandler_def
proof (rule builds_kept)
  show "builds env (\<lambda>_. True) (and_then (Components_PaymentChannelService env) (\<lambda>svc. and_then (Components_Blockchain env)
      (\<lambda>processor. and_then (Components_ServiceMetaData env) (\<lambda>metadata.
        built (NewPaymentHandler (d_eth env) (d_md_Get env) svc (escrowContractAddress processor)
            (NewIncomeValidator (GetPriceInCogs metadata))))))) (is_handler env)"
    by (intro builds_and_then [OF PaymentChannelService_builds] builds_and_then [OF Blockchain_builds]
        builds_and_then [OF ServiceMetaData_builds] builds_built stable)
      (auto simp: is_service_def is_processor_def is_metadata_def is_handler_def handler_of_def)
qed (auto simp: comp_inv_def)

lemma GrpcPaymentValidationInterceptor_builds:
  "builds env P (Components_GrpcPaymentValidationInterceptor env) (is_payment_interceptor env)"
proof (rule builds_pre)
  have "builds env (\<lambda>c. True \<and> is_processor env p c)
      (if \<not> enabled p then built (\<lambda>_ _. NoOpInterceptor)
       else and_then (Components_EscrowPaymentHandler env) (\<lambda>h.
         built (paymentValidationInterceptor_intercept (GrpcPaymentValidationInterceptor h [])))) (is_payment_interceptor env)" for p
  proof (cases "enabled p")
    case True
    have "builds env (\<lambda>c. True \<and> is_processor env p c) (and_then (Components_EscrowPaymentHandler env) (\<lambda>h.
         built (paymentValidationInterceptor_intercept (GrpcPaymentValidationInterceptor h [])))) (is_payment_interceptor env)"
      by (intro builds_and_then [OF EscrowPaymentHandler_builds] builds_built stable)
        (use True in \<open>auto simp: is_processor_def is_handler_def is_payment_interceptor_def\<close>)
    with True show ?thesis by simp
  next
    case False
    then show ?thesis by (auto intro!: builds_built simp: is_processor_def is_payment_interceptor_def)
  qed
  then show "builds env (\<lambda>_. True) (Components_GrpcPaymentValidationInterceptor env) (is_payment_interceptor env)"
    unfolding Components_GrpcPaymentValidationInterceptor_def by (intro builds_and_then [OF Blockchain_builds]) simp_all
qed

lemma world_only_builds: "(\<And>c w. \<exists>r w'. m (c, w) = (r, c, w')) \<Longrightarrow> builds env P m (\<lambda>x c. P c)"
proof (rule buildsI)
  fix c w r c' w'
  assume "\<And>c w. \<exists>r w'. m (c, w) = (r, c, w')" "m (c, w) = (r, c', w')"
  then have "c' = c" by (metis prod.inject)
  then show "comp_inv env c \<Longrightarrow> P (comp_atomicStorage c) \<Longrightarrow>
      comp_inv env c' \<and> same_storage c c' \<and> (\<forall>x. r = Returns x \<longrightarrow> P (comp_atomicStorage c'))"
    by (simp add: same_storage_def)
qed

lemma set_daemon_group_builds: "builds env P (set_daemon_group env metadata) (\<lambda>x c. P c)"
  by (rule world_only_builds) (simp add: set_daemon_group_def)

lemma monitoring_registered_builds: "builds env P (monitoring_registered env) (\<lambda>x c. P c)"
  by (rule world_only_builds) (simp add: monitoring_registered_def Let_def split: prod.splits)

lemma GrpcInterceptor_builds: "builds env P (Components_GrpcInterceptor env) (is_interceptor env)"
  unfolding Components_GrpcInterceptor_def
proof (rule builds_kept)
  show "builds env (\<lambda>_. True) (and_then (Components_ServiceMetaData env) (\<lambda>metadata. and_then (set_daemon_group env metadata)
      (\<lambda>_. and_then (monitoring_registered env) (\<lambda>registered.
        and_then (Components_GrpcPaymentValidationInterceptor env) (\<lambda>pay.
          built (d_chain env (if registered then [monitoring_interceptor env, rate_limit_interceptor env, pay]
             else [rate_limit_interceptor env, pay]))))))) (is_interceptor env)"
    by (intro builds_and_then [OF ServiceMetaData_builds] builds_and_then [OF set_daemon_group_builds]
        builds_and_then [OF monitoring_registered_builds] builds_and_then [OF GrpcPaymentValidationInterceptor_builds]
        builds_built stable)
      (auto simp: is_interceptor_def)
qed (auto simp: comp_inv_def)

lemma PaymentChannelStateService_builds: "builds env P (Components_PaymentChannelStateService env) (is_service env)"
  unfolding Components_PaymentChannelStateService_def
  by (rule builds_kept [OF PaymentChannelService_builds]) (auto simp: comp_inv_def)

lemma ProviderControlService_builds: "builds env P (Components_ProviderControlService env) (is_control env)"
  unfolding Components_ProviderControlService_def
proof (rule builds_kept)
  show "builds env (\<lambda>_. True) (and_then (Components_PaymentChannelService env) (\<lambda>svc.
      and_then (Components_ServiceMetaData env) (\<lambda>metadata. built (NewProviderControlService svc metadata)))) (is_control env)"
    by (intro builds_and_then [OF PaymentChannelService_builds] builds_and_then [OF ServiceMetaData_builds]
        builds_built stable)
      (auto simp: is_service_def is_metadata_def is_control_def)
qed (auto simp: comp_inv_def)

section \<open>The deployed call\<close>

text \<open>The documented order of \<^verbatim>\<open>ChainStreamServer\<close>: the first interceptor is the outermost.\<close>

definition chain_order :: "('w StreamInterceptor list \<Rightarrow> 'w StreamInterceptor) \<Rightarrow> bool" where
  "chain_order chain \<longleftrightarrow> (\<forall>i is md info h. chain (i # is) md info h = i md info (chain is md info h)) \<and>
     (\<forall>md info h. chain [] md info h = h)"

text \<open>A call through the interceptors that was accepted went through the payment interceptor.\<close>

lemma chained_call:
  assumes "chain_order (d_chain env)"
    and "intercept = d_chain env [monitoring_interceptor env, rate_limit_interceptor env, pay] \<or>
      intercept = d_chain env [rate_limit_interceptor env, pay]"
    and "intercept incoming info handler w = (Returns None, w')"
    and "\<And>t w. view (d_spawn env t w) = view w" "\<And>b w w'. d_Allow env w = (b, w') \<Longrightarrow> view w' = view w"
  shows "\<exists>w1 w2. view w1 = view w \<and> pay incoming info handler w1 = (Returns None, w2) \<and> view w' = view w2"
proof -
  have chain: "d_chain env [i, j, k] incoming info handler = i incoming info (j incoming info (k incoming info handler))"
    "d_chain env [i, j] incoming info handler = i incoming info (j incoming info handler)" for i j k
    using assms(1) by (auto simp: chain_order_def)
  have limited: "\<exists>w1. view w1 = view w \<and> pay incoming info handler w1 = (Returns None, w')"
    if "rate_limit_interceptor env incoming info (pay incoming info handler) w = (Returns None, w')" for w w'
    using that assms(5) [of w]
    by (auto simp: rate_limit_interceptor_def rateLimitInterceptor_intercept_def split: prod.splits bool.splits)
  from assms(2) show ?thesis
  proof
    assume "intercept = d_chain env [rate_limit_interceptor env, pay]"
    with assms(3) chain limited [of w w'] show ?thesis by auto
  next
    assume "intercept = d_chain env [monitoring_interceptor env, rate_limit_interceptor env, pay]"
    with assms(3) obtain w1 w2 where w2: "rate_limit_interceptor env incoming info (pay incoming info handler) w1 = (Returns None, w2)"
      "view w1 = view w" "view w' = view w2"
      by (auto simp: chain monitoring_interceptor_def interceptMonitoring_def assms(4) split: prod.splits go.splits)
    with limited [OF w2(1)] show ?thesis by auto
  qed
qed

text \<open>Any sequence of calls of accessors, from a daemon that has just been started.\<close>

datatype part =
  ServiceMetaDataPart | BlockchainPart | EtcdServerPart | EtcdClientPart | LockerStoragePart | AtomicStoragePart |
  PaymentChannelServicePart | EscrowPaymentHandlerPart | GrpcInterceptorPart | GrpcPaymentValidationInterceptorPart |
  PaymentChannelStateServicePart | ProviderControlServicePart | DaemonHeartBeatPart

fun access :: "'w daemon_env \<Rightarrow> part \<Rightarrow> 'w Components \<times> 'w \<Rightarrow> 'w Components \<times> 'w" where
  "access env ServiceMetaDataPart = snd \<circ> Components_ServiceMetaData env"
| "access env BlockchainPart = snd \<circ> Components_Blockchain env"
| "access env EtcdServerPart = snd \<circ> Components_EtcdServer env"
| "access env EtcdClientPart = snd \<circ> Components_EtcdClient env"
| "access env LockerStoragePart = snd \<circ> Components_LockerStorage env"
| "access env AtomicStoragePart = snd \<circ> Components_AtomicStorage env"
| "access env PaymentChannelServicePart = snd \<circ> Components_PaymentChannelService env"
| "access env EscrowPaymentHandlerPart = snd \<circ> Components_EscrowPaymentHandler env"
| "access env GrpcInterceptorPart = snd \<circ> Components_GrpcInterceptor env"
| "access env GrpcPaymentValidationInterceptorPart = snd \<circ> Components_GrpcPaymentValidationInterceptor env"
| "access env PaymentChannelStateServicePart = snd \<circ> Components_PaymentChannelStateService env"
| "access env ProviderControlServicePart = snd \<circ> Components_ProviderControlService env"
| "access env DaemonHeartBeatPart = snd \<circ> Components_DaemonHeartBeat env"

definition assemble :: "'w daemon_env \<Rightarrow> part list \<Rightarrow> 'w \<Rightarrow> 'w Components \<times> 'w" where
  "assemble env parts w = fold (access env) parts (no_components, w)"

lemma EtcdClient_builds: "builds env P (Components_EtcdClient env) (\<lambda>x so. P so)"
  by (rule buildsI)
    (auto simp: Components_EtcdClient_def kept_def and_then_def or_panic_def same_storage_def
      split: option.splits prod.splits sum.splits go.splits)

lemma EtcdServer_builds: "builds env P (Components_EtcdServer env) (\<lambda>x so. P so)"
  by (rule buildsI)
    (auto simp: Components_EtcdServer_def same_storage_def comp_inv_def elim!: EtcdServer_Start_cases
      split: option.splits prod.splits sum.splits bool.splits go.splits)

lemma heartbeat_kept: "comp_inv env c \<Longrightarrow> comp_inv env (c\<lparr>comp_daemonHeartbeat := x\<rparr>)"
  by (simp add: comp_inv_def)

lemma DaemonHeartBeat_builds: "builds env P (Components_DaemonHeartBeat env) (\<lambda>x so. True)"
  unfolding Components_DaemonHeartBeat_def
proof (rule builds_kept)
  have "builds env Q (\<lambda>s. (Returns (d_daemon_id env (snd s)), s)) (\<lambda>x so. True)" for Q
    by (rule buildsI) (auto simp: same_storage_def)
  then show "builds env (\<lambda>_. True) (and_then (Components_ServiceMetaData env) (\<lambda>metadata.
      and_then (set_daemon_group env metadata) (\<lambda>_ s. (Returns (d_daemon_id env (snd s)), s)))) (\<lambda>x so. True)"
    by (intro builds_and_then [OF ServiceMetaData_builds] builds_and_then [OF set_daemon_group_builds] stable)
qed (simp_all add: heartbeat_kept)

lemma builds_access: "builds env (\<lambda>_. True) m Q \<Longrightarrow> comp_inv env (fst s) \<Longrightarrow> comp_inv env (fst ((snd \<circ> m) s))"
proof -
  assume b: "builds env (\<lambda>_. True) m Q" and c: "comp_inv env (fst s)"
  have "m (fst s, snd s) = (fst (m s), fst (snd (m s)), snd (snd (m s)))" by simp
  with b c show ?thesis unfolding builds_def o_apply by blast
qed

lemmas accessor_builds =
  ServiceMetaData_builds Blockchain_builds EtcdServer_builds EtcdClient_builds LockerStorage_builds AtomicStorage_builds
  PaymentChannelService_builds EscrowPaymentHandler_builds GrpcInterceptor_builds GrpcPaymentValidationInterceptor_builds
  PaymentChannelStateService_builds ProviderControlService_builds DaemonHeartBeat_builds

lemma access_inv: "comp_inv env (fst s) \<Longrightarrow> comp_inv env (fst (access env p s))"
  by (cases p) (simp_all only: access.simps accessor_builds [THEN builds_access])

lemma assemble_inv: "comp_inv env (fst (assemble env parts w))"
proof -
  have "comp_inv env (fst (fold (access env) parts s))" if "comp_inv env (fst s)" for s :: "'a Components \<times> 'a"
    using that by (induction parts arbitrary: s) (simp_all add: access_inv)
  moreover have "comp_inv env no_components" by (simp add: comp_inv_def no_components_def)
  ultimately show ?thesis by (simp add: assemble_def)
qed

end
