(* ===== verification/Commands.thy ===== *)
theory Commands
  imports Components
begin

text \<open>
  The commands of \<^verbatim>\<open>snetd/cmd\<close> that end: \<^verbatim>\<open>channel --unlock\<close>, \<^verbatim>\<open>list channels\<close>, \<^verbatim>\<open>list claims\<close>, \<^verbatim>\<open>version\<close> and \<^verbatim>\<open>init\<close>, with what every command
  does before and after it: the configuration file, the components, their cleanup.

  The command line (cobra) and the closing of third-party clients are arguments.
\<close>

section \<open>Cleanup\<close>

text \<open>
  The clients are outside of the repository. A blockchain client is passed as whether it is there: a processor that is not enabled has nil
  clients and calls \<^verbatim>\<open>Close\<close> on them.
\<close>

record 'w closing =
  session_Close :: "'w EtcdClient \<Rightarrow> 'w \<Rightarrow> 'w"
  etcdv3_Close :: "'w EtcdClient \<Rightarrow> 'w \<Rightarrow> 'w"
  closing_embed :: "'w embed"
  ethClient_Close :: "bool \<Rightarrow> 'w \<Rightarrow> unit go \<times> 'w"
  rawClient_Close :: "bool \<Rightarrow> 'w \<Rightarrow> unit go \<times> 'w"

text \<open>Both calls are deferred: the last one runs first.\<close>

definition EtcdClient_Close :: "'w closing \<Rightarrow> 'w EtcdClient \<Rightarrow> 'w \<Rightarrow> 'w" where
  "EtcdClient_Close cl client w = session_Close cl client (etcdv3_Close cl client w)"

definition Processor_Close :: "'w closing \<Rightarrow> Processor \<Rightarrow> 'w \<Rightarrow> unit go \<times> 'w" where
  "Processor_Close cl processor w =
     (case ethClient_Close cl (enabled processor) w of
        (Panics m, w1) \<Rightarrow> (Panics m, w1)
      | (Returns _, w1) \<Rightarrow> rawClient_Close cl (enabled processor) w1)"

definition Components_Close :: "'w closing \<Rightarrow> 'w Components \<Rightarrow> 'w \<Rightarrow> unit go \<times> 'w" where
  "Components_Close cl components w =
     (let w1 = (case comp_etcdClient components of None \<Rightarrow> w | Some client \<Rightarrow> EtcdClient_Close cl client w) in
      case (case comp_etcdServer components of
              None \<Rightarrow> (Returns (), w1)
            | Some server \<Rightarrow> EtcdServer_Close (closing_embed cl) server w1) of
        (Panics m, w2) \<Rightarrow> (Panics m, w2)
      | (Returns _, w2) \<Rightarrow>
          (case comp_blockchain components of
             None \<Rightarrow> (Returns (), w2)
           | Some processor \<Rightarrow> Processor_Close cl processor w2))"

section \<open>Initialisation\<close>

text \<open>The flag \<^verbatim>\<open>--config\<close>: its value and whether the user gave it; \<open>LoadConfig\<close> gives the configuration after reading a file.\<close>

definition loadConfigFileFromCommandLine ::
  "(string \<Rightarrow> bool) \<Rightarrow> (string \<Rightarrow> viper result) \<Rightarrow> string \<times> bool \<Rightarrow> viper \<Rightarrow> viper go" where
  "loadConfigFileFromCommandLine isFileExist LoadConfig configFlag vip =
     (case configFlag of (configFile, Changed) \<Rightarrow>
        if Changed \<or> isFileExist configFile
        then (case LoadConfig configFile of
                Inl err \<Rightarrow> Panics (Lit ''Error reading configuration file'')
              | Inr vip' \<Rightarrow> Returns vip')
        else Returns vip)"

text \<open>
  The deferred function turns any panic into another one, after closing the components, of which there are none yet.
\<close>

definition InitComponents ::
  "(string \<Rightarrow> bool) \<Rightarrow> (string \<Rightarrow> viper result) \<Rightarrow> 'w closing \<Rightarrow> string \<times> bool \<Rightarrow> viper \<Rightarrow> 'w \<Rightarrow> (viper \<times> 'w Components) go \<times> 'w" where
  "InitComponents isFileExist LoadConfig cl configFlag vip w =
     (case loadConfigFileFromCommandLine isFileExist LoadConfig configFlag vip of
        Returns vip' \<Rightarrow> (Returns (vip', no_components), w)
      | Panics m \<Rightarrow>
          (case Components_Close cl no_components w of
             (Panics m', w') \<Rightarrow> (Panics m', w')
           | (Returns _, w') \<Rightarrow> (Panics (Lit ''re-panic after components cleanup''), w')))"

text \<open>
  A command is its \<^verbatim>\<open>Run\<close> method, which prints lines. \<open>Inl err\<close> is a constructor that failed. The components are closed at the end, also
  after a panic, and a panic while closing is the one that is seen.
\<close>

type_synonym 'w Command = "'w \<Rightarrow> error option go \<times> message list \<times> 'w"

definition RunAndCleanup ::
  "'w closing \<Rightarrow> ('w Components) go \<times> 'w \<Rightarrow> ('w, 'w Command result) build \<Rightarrow> error option go \<times> message list \<times> 'w" where
  "RunAndCleanup cl init constructor =
     (case init of
        (Panics m, w) \<Rightarrow> (Panics m, [], w)
      | (Returns components, w) \<Rightarrow>
          (case constructor (components, w) of (r, components, w) \<Rightarrow>
           case (case r of
                   Panics m \<Rightarrow> (Panics m, [], w)
                 | Returns (Inl err) \<Rightarrow> (Returns (Some err), [], w)
                 | Returns (Inr command) \<Rightarrow> command w) of (result, printed, w) \<Rightarrow>
           case Components_Close cl components w of
             (Panics m, w) \<Rightarrow> (Panics m, printed, w)
           | (Returns _, w) \<Rightarrow> (result, printed, w)))"

section \<open>channel --unlock\<close>

record 'w channelCommand =
  command_storage :: "'w PrefixedAtomicStorage"
  command_paymentChannelId :: "int option"

text \<open>The argument is the value of the flag \<^verbatim>\<open>--unlock\<close>, empty when it is not given.\<close>

definition getPaymentChannelId :: "string \<Rightarrow> int option result" where
  "getPaymentChannelId paymentChannelId =
     (if paymentChannelId = [] then Inr None
      else case UnmarshalText paymentChannelId of
             None \<Rightarrow> Inl (fmt_Errorf ''Incorrect decimal number format: %v, error: %v''
               [Lit paymentChannelId, Sprintf (Lit ''math/big: cannot unmarshal %q into a *big.Int'') [Lit paymentChannelId]])
           | Some value \<Rightarrow> Inr (Some value))"

definition channelCommand_unlockChannel :: "'w channelCommand \<Rightarrow> 'w Command" where
  "channelCommand_unlockChannel command w =
     (let key = PaymentChannelKey_String \<lparr>ID = the (command_paymentChannelId command)\<rparr> in
      case PrefixedAtomicStorage_Get (command_storage command) key w of
        (Inl err, w1) \<Rightarrow> (Returns (Some err), [Sprintf (Lit ''Error: Channel %s not found'') [Lit key]], w1)
      | (Inr None, w1) \<Rightarrow> (Returns None, [Sprintf (Lit ''Error: Channel %s not found'') [Lit key]], w1)
      | (Inr (Some _), w1) \<Rightarrow>
          (case PrefixedAtomicStorage_Delete (command_storage command) key w1 of
             (Inl err, w2) \<Rightarrow> (Returns (Some err), [Sprintf (Lit ''Error: Unable to unlock the channel -%s'') [Lit key]], w2)
           | (Inr _, w2) \<Rightarrow> (Returns None, [Sprintf (Lit ''Success: Channel %s unlocked'') [Lit key]], w2)))"

definition channelCommand_Run :: "'w channelCommand \<Rightarrow> 'w Command" where
  "channelCommand_Run command w =
     (if command_paymentChannelId command = None
      then (Returns (Some (fmt_Errorf ''--unlock channel-id must be set'' [])), [], w)
      else channelCommand_unlockChannel command w)"

definition newChannelCommand :: "'w daemon_env \<Rightarrow> string \<Rightarrow> ('w, 'w Command result) build" where
  "newChannelCommand env paymentChannelId =
     (case getPaymentChannelId paymentChannelId of
        Inl err \<Rightarrow> built (Inl err)
      | Inr channelId \<Rightarrow>
          and_then (Components_LockerStorage env) (\<lambda>st.
            built (Inr (channelCommand_Run \<lparr>command_storage = st, command_paymentChannelId = channelId\<rparr>))))"

section \<open>list channels, list claims\<close>

text \<open>\<^verbatim>\<open>String\<close> of a channel and of a payment.\<close>

definition PaymentChannelData_String :: "PaymentChannelData \<Rightarrow> message" where
  "PaymentChannelData_String data =
     Sprintf (Lit ''{ChannelID: %v, Nonce: %v, State: %v, Sender: %v, Recipient: %v, GroupId: %v, FullAmount: %v, Expiration: %v, Signer: %v, AuthorizedAmount: %v, Signature: %v'')
       [IntArg (ChannelID data), IntArg (Nonce data), Lit (PaymentChannelState_String (State data)), AddressArg (Sender data),
        AddressArg (Recipient data), Bytes32Arg (GroupID data), IntArg (FullAmount data), IntArg (Expiration data),
        AddressArg (Signer data), IntArg (AuthorizedAmount data), Lit (BytesToBase64 (slice_bytes (Signature data)))]"

definition Payment_String :: "Payment \<Rightarrow> message" where
  "Payment_String p =
     Sprintf (Lit ''{MpeContractAddress: %v, ChannelID: %v, ChannelNonce: %v, Amount: %v, Signature: %v}'')
       [AddressArg (MpeContractAddress p), IntArg (payment_ChannelID p), IntArg (ChannelNonce p), IntArg (Amount p),
        Lit (BytesToBase64 (slice_bytes (payment_Signature p)))]"

definition listChannelsCommand_Run :: "'w lockingPaymentChannelService \<Rightarrow> 'w Command" where
  "listChannelsCommand_Run h w =
     (case ListChannels h w of
        (Inl err, w') \<Rightarrow> (Returns (Some err), [], w')
      | (Inr channels, w') \<Rightarrow>
          (Returns None,
           (if channels = [] then [Lit ''no channels in shared storage''] else []) @
           map (\<lambda>channel. Sprintf (Lit ''%v: %v'') [IntArg (ChannelID channel), PaymentChannelData_String channel]) channels, w'))"

definition newListChannelsCommand :: "'w daemon_env \<Rightarrow> ('w, 'w Command result) build" where
  "newListChannelsCommand env =
     and_then (Components_PaymentChannelService env) (\<lambda>svc. built (Inr (listChannelsCommand_Run svc)))"

definition listClaimsCommand_Run :: "'w lockingPaymentChannelService \<Rightarrow> 'w Command" where
  "listClaimsCommand_Run h w =
     (case ListClaims h w of
        (Inl err, w') \<Rightarrow> (Returns (Some err), [], w')
      | (Inr claims, w') \<Rightarrow>
          (Returns None,
           (if claims = [] then [Lit ''no claims in shared storage''] else []) @
           map (\<lambda>claim. Sprintf (Lit ''%v: %v'') [Lit (Payment_ID (claim_payment claim)), Payment_String (claim_payment claim)]) claims, w'))"

definition newListClaimsCommand :: "'w daemon_env \<Rightarrow> ('w, 'w Command result) build" where
  "newListClaimsCommand env =
     and_then (Components_PaymentChannelService env) (\<lambda>svc. built (Inr (listClaimsCommand_Run svc)))"

section \<open>version, init\<close>

text \<open>What \<^verbatim>\<open>version\<close> prints, from the variables the linker sets, before it ends the process.\<close>

definition ListVersionCommand_Run :: "string \<Rightarrow> string \<Rightarrow> string \<Rightarrow> message list" where
  "ListVersionCommand_Run versionTag buildTime sha1Revision =
     [Sprintf (Lit ''version tag: %s'') [Lit versionTag], Sprintf (Lit ''built on: %s'') [Lit buildTime],
      Sprintf (Lit ''sha1 revision: %s'') [Lit sha1Revision]]"

definition newListVersionCommand :: "build_info \<Rightarrow> ('w, 'w Command result) build" where
  "newListVersionCommand b =
     built (Inr (\<lambda>w. (Returns None, ListVersionCommand_Run (GetVersionTag b) (GetBuildTime b) (GetSha1Revision b), w)))"

text \<open>What cobra runs for each command; \<open>init\<close> is the outcome of \<open>InitComponents\<close>.\<close>

definition ChannelCmd_RunE ::
  "'w daemon_env \<Rightarrow> 'w closing \<Rightarrow> ('w Components) go \<times> 'w \<Rightarrow> string \<Rightarrow> error option go \<times> message list \<times> 'w" where
  "ChannelCmd_RunE env cl init paymentChannelId = RunAndCleanup cl init (newChannelCommand env paymentChannelId)"

definition ListChannelsCmd_RunE ::
  "'w daemon_env \<Rightarrow> 'w closing \<Rightarrow> ('w Components) go \<times> 'w \<Rightarrow> error option go \<times> message list \<times> 'w" where
  "ListChannelsCmd_RunE env cl init = RunAndCleanup cl init (newListChannelsCommand env)"

definition ListClaimsCmd_RunE ::
  "'w daemon_env \<Rightarrow> 'w closing \<Rightarrow> ('w Components) go \<times> 'w \<Rightarrow> error option go \<times> message list \<times> 'w" where
  "ListClaimsCmd_RunE env cl init = RunAndCleanup cl init (newListClaimsCommand env)"

definition VersionCmd_RunE ::
  "build_info \<Rightarrow> 'w closing \<Rightarrow> ('w Components) go \<times> 'w \<Rightarrow> error option go \<times> message list \<times> 'w" where
  "VersionCmd_RunE b cl init = RunAndCleanup cl init (newListVersionCommand b)"

text \<open>\<^verbatim>\<open>Fatal\<close> ends the process; it is a panic here. \<open>WriteConfig\<close> is viper's.\<close>

definition InitCmd_Run ::
  "('w \<Rightarrow> string \<Rightarrow> bool) \<Rightarrow> (string \<Rightarrow> 'w \<Rightarrow> error option \<times> 'w) \<Rightarrow> string \<Rightarrow> 'w \<Rightarrow> unit go \<times> 'w" where
  "InitCmd_Run isFileExist WriteConfig configFile w =
     (if isFileExist w configFile then (Panics (Lit ''configFile already exists, please remove file first''), w)
      else case WriteConfig configFile w of
             (Some err, w') \<Rightarrow> (Panics (Lit ''Cannot write default configuration''), w')
           | (None, w') \<Rightarrow> (Returns (), w'))"

section \<open>Properties\<close>

lemma no_components_Close [simp]: "Components_Close cl no_components w = (Returns (), w)"
  by (simp add: Components_Close_def no_components_def)

text \<open>Closing what is not a blockchain client does not change what the storage holds.\<close>

definition closing_keeps :: "('w \<Rightarrow> string \<Rightarrow> string option) \<Rightarrow> 'w closing \<Rightarrow> bool" where
  "closing_keeps view cl \<longleftrightarrow>
     (\<forall>client w. view (session_Close cl client w) = view w) \<and> (\<forall>client w. view (etcdv3_Close cl client w) = view w) \<and>
     (\<forall>server w. view (etcd_Close (closing_embed cl) server w) = view w) \<and>
     (\<forall>b w. view (snd (ethClient_Close cl b w)) = view w) \<and> (\<forall>b w. view (snd (rawClient_Close cl b w)) = view w)"

lemma Components_Close_view: "closing_keeps view cl \<Longrightarrow> view (snd (Components_Close cl c w)) = view w"
  by (auto simp: closing_keeps_def Components_Close_def Processor_Close_def EtcdClient_Close_def EtcdServer_Close_def Let_def
      split: option.splits prod.splits go.splits) (metis snd_conv)+

context etcd_lock
begin

lemma unlockChannel_effect:
  assumes "channelCommand_unlockChannel \<lparr>command_storage = NewLockerStorage st, command_paymentChannelId = Some i\<rparr> w = (r, printed, w')"
  defines "n \<equiv> PaymentChannelKey_String \<lparr>ID = i\<rparr>"
  shows "view w' = view w \<or> view w' = (view w)(lock_key n := None)"
    and "lock_table (view w) n = None \<Longrightarrow> view w' = view w"
    and "r = Returns None \<Longrightarrow> lock_table (view w') n = None"
    and "printed = [Sprintf (Lit ''Success: Channel %s unlocked'') [Lit n]] \<longleftrightarrow> r = Returns None \<and> lock_table (view w) n \<noteq> None"
proof -
  let ?k = "lock_prefix @ ''/'' @ n"
  note run = assms(1) [unfolded channelCommand_unlockChannel_def Let_def PrefixedAtomicStorage_defs NewLockerStorage_def
      channelCommand.simps PrefixedAtomicStorage.simps option.sel, folded n_def]
  obtain g w1 where g: "Get st ?k w = (g, w1)" by (cases "Get st ?k w")
  have t: "lock_table (view w) n = view w ?k" for w by (simp add: lock_table_def strip_def)
  have v: "view w1 = view w" "\<And>x. g = Inr x \<Longrightarrow> lock_table (view w) n = x"
    using g Get_view [OF g] Get_ok t by auto
  have "(view w' = view w \<or> view w' = (view w)(lock_key n := None)) \<and>
    (lock_table (view w) n = None \<longrightarrow> view w' = view w) \<and> (r = Returns None \<longrightarrow> lock_table (view w') n = None) \<and>
    (printed = [Sprintf (Lit ''Success: Channel %s unlocked'') [Lit n]] \<longleftrightarrow> r = Returns None \<and> lock_table (view w) n \<noteq> None)"
  proof (cases "\<exists>x. g = Inr (Some x)")
    case True
    then obtain x where x: "g = Inr (Some x)" by blast
    obtain d w2 where d: "Delete st ?k w1 = (d, w2)" by (cases "Delete st ?k w1")
    show ?thesis
    proof (cases d)
      case (Inl e)
      with run g x d Delete_err [of ?k w1 e w2] v show ?thesis by auto
    next
      case (Inr u)
      with run g x d have "r = Returns None" "printed = [Sprintf (Lit ''Success: Channel %s unlocked'') [Lit n]]" "w' = w2"
        by simp_all
      moreover have "view w2 = (view w)(lock_key n := None)" "lock_table (view w) n = Some x"
        using Delete_ok [of ?k w1 w2] d Inr v x by simp_all
      ultimately show ?thesis by simp
    qed
  next
    case False
    with run g v show ?thesis by (cases g) (auto split: option.splits)
  qed
  then show "view w' = view w \<or> view w' = (view w)(lock_key n := None)"
    and "lock_table (view w) n = None \<Longrightarrow> view w' = view w"
    and "r = Returns None \<Longrightarrow> lock_table (view w') n = None"
    and "printed = [Sprintf (Lit ''Success: Channel %s unlocked'') [Lit n]] \<longleftrightarrow> r = Returns None \<and> lock_table (view w) n \<noteq> None"
    by blast+
qed

end

text \<open>The storage the daemon is configured for can be opened: it is an atomic storage, and opening it changes nothing in it.\<close>

definition storage_opens :: "'w daemon_env \<Rightarrow> ('w \<Rightarrow> string \<Rightarrow> string option) \<Rightarrow> bool" where
  "storage_opens env view \<longleftrightarrow>
     (\<forall>w. view (snd (snd (Components_AtomicStorage env (no_components, w)))) = view w) \<and>
     (\<forall>w st. fst (Components_AtomicStorage env (no_components, w)) = Returns st \<longrightarrow> atomic_storage st view)"

lemma getPaymentChannelId_show [simp]: "getPaymentChannelId (show_int i) = Inr (Some i)"
proof -
  have "UnmarshalText [] = None" by code_simp
  then have "show_int i \<noteq> []" using UnmarshalText_show_int [of i] by auto
  then show ?thesis by (simp add: getPaymentChannelId_def UnmarshalText_show_int)
qed

lemma newChannelCommand_no_components:
  "newChannelCommand env (show_int i) (no_components, w) =
     (case Components_AtomicStorage env (no_components, w) of
        (Returns st, c, w1) \<Rightarrow> (Returns (Inr (channelCommand_unlockChannel
           \<lparr>command_storage = NewLockerStorage st, command_paymentChannelId = Some i\<rparr>)),
         c\<lparr>comp_etcdLockerStorage := Some (NewLockerStorage st)\<rparr>, w1)
      | (Panics m, s) \<Rightarrow> (Panics m, s))"
  by (auto simp: newChannelCommand_def Components_LockerStorage_def kept_def and_then_def built_def no_components_def
      channelCommand_Run_def fun_eq_iff split: prod.splits go.splits)

end
