(* ===== verification/Daemon.thy ===== *)
theory Daemon
  imports Deployment Commands
begin



text \<open>A daemon with the storage type \<^verbatim>\<open>memory\<close>, without monitoring, over the sample blockchain.\<close>

definition daemon_metadata :: ServiceMetadata where
  "daemon_metadata = published_metadata\<lparr>daemonReplicaGroupID := 9, recipientPaymentAddress := 6\<rparr>"

definition memory_embed :: "memoryStorage embed" where
  "memory_embed =
     \<lparr>StartEtcd = (\<lambda>_. Pair (Inr 0)), ready_before = (\<lambda>_ _. Pair True), Server_Stop = (\<lambda>_ w. w), etcd_Close = (\<lambda>_ w. w)\<rparr>"

definition memory_daemon :: "memoryStorage daemon_env" where
  "memory_daemon =
     \<lparr>d_vip = \<lparr>vip_GetString = (\<lambda>_. []), vip_GetInt = (\<lambda>_. 0), vip_GetBool = (\<lambda>_. False)\<rparr>,
      d_gob = ints_gob, d_eth = sample_eth, d_md_Get = sample_md_Get, d_metadata = Returns daemon_metadata,
      d_processor = (\<lambda>_. Inr \<lparr>enabled = True, escrowContractAddress = 11\<rparr>),
      d_etcd_vip = \<lparr>sub_Unmarshal_client = (\<lambda>_. None), sub_Unmarshal = (\<lambda>_. None), UnmarshalKey = (\<lambda>_ conf. (conf, None)),
        InConfig = (\<lambda>_. False)\<rparr>,
      d_capnslog = \<lparr>GetRepoLogger = (\<lambda>_. Inr ()), ParseLevel = (\<lambda>_. Inr INFO), SetRepoLogLevel = (\<lambda>_ w. w), SetFormatter = (\<lambda>_ w. w)\<rparr>,
      d_embed = memory_embed,
      d_clientv3 = \<lparr>clientv3_New = (\<lambda>_ _ _. Pair (Inl (errors_New []))), concurrency_NewSession = (\<lambda>_. Pair (Inr ()))\<rparr>,
      d_mem_storage = Pair (memory_AtomicStorage key_order),
      d_Channels = (\<lambda>i w. Inr (if i = 1 then sample_onchain else sample_onchain\<lparr>mpe_Sender := 0\<rparr>)),
      d_eth_blockNumber = (\<lambda>_. Inr [char_of (10 :: nat)]), d_set_group = (\<lambda>_ w. w), d_daemon_id = (\<lambda>_. []),
      d_ParseRequestURI = (\<lambda>_. True), d_RegisterDaemon = (\<lambda>_. Pair (Returns True)),
      d_chain = (\<lambda>is md info h. foldr (\<lambda>i. i md info) is h), d_Allow = Pair True, d_spawn = (\<lambda>_ w. w),
      d_elapsed = (\<lambda>_. []), d_commonStats = (\<lambda>info w. \<lparr>stats_ID = [], stats_ServiceMethod = info, stats_RequestReceivedTime = [], stats_OrganizationID = [],
        stats_ServiceID = [], stats_GroupID = [], stats_DaemonEndPoint = [], stats_Version = []\<rparr>)\<rparr>"








text \<open>
  C28. \<^verbatim>\<open>snetd channel --unlock <id>\<close>, from the command line to the cleanup: whatever happens, channels, payments and the locks of other
  channels stay as they are; a run that ends without an error leaves the channel's lock free, whoever held it; without a lock entry nothing
  changes at all, and success is printed only for a lock entry that was there.
\<close>

theorem unlock_command:
  assumes "storage_opens env view" "closing_keeps view cl"
    and "ChannelCmd_RunE env cl (Returns no_components, w) (show_int i) = (r, printed, w')"
  defines "n \<equiv> PaymentChannelKey_String \<lparr>ID = i\<rparr>"
  shows "channel_table G (view w') = channel_table G (view w) \<and> payment_table G (view w') = payment_table G (view w) \<and>
    (\<forall>m. m \<noteq> n \<longrightarrow> lock_table (view w') m = lock_table (view w) m) \<and>
    (r = Returns None \<longrightarrow> lock_free (view w') n) \<and>
    (lock_table (view w) n = None \<longrightarrow> view w' = view w) \<and>
    (printed = [Sprintf (Lit ''Success: Channel %s unlocked'') [Lit n]] \<longrightarrow> lock_table (view w) n \<noteq> None \<and> lock_free (view w') n)"
proof -
  obtain q c w1 where opened: "Components_AtomicStorage env (no_components, w) = (q, c, w1)"
    by (cases "Components_AtomicStorage env (no_components, w)") auto
  with assms(1) have v1: "view w1 = view w" by (auto simp: storage_opens_def dest: spec [of _ w])
  show ?thesis
  proof (cases q)
    case (Panics m)
    have "view (snd (Components_Close cl c w1)) = view w1" by (rule Components_Close_view [OF assms(2)])
    with Panics assms(3) opened v1 show ?thesis
      by (auto simp: ChannelCmd_RunE_def RunAndCleanup_def newChannelCommand_no_components split: prod.splits go.splits)
  next
    case (Returns st)
    with opened assms(1) have "atomic_storage st view" by (auto simp: storage_opens_def dest: spec [of _ w])
    then have lock: "etcd_lock st view" by (rule etcd_lock.intro)
    let ?command = "\<lparr>command_storage = NewLockerStorage st, command_paymentChannelId = Some i\<rparr>"
    obtain r2 p2 w2 where run: "channelCommand_unlockChannel ?command w1 = (r2, p2, w2)"
      by (cases "channelCommand_unlockChannel ?command w1") auto
    let ?c = "c\<lparr>comp_etcdLockerStorage := Some (NewLockerStorage st)\<rparr>"
    have v2: "view (snd (Components_Close cl ?c w2)) = view w2" by (rule Components_Close_view [OF assms(2)])
    with assms(3) opened Returns run have ends: "view w' = view w2" "printed = p2" "r = Returns None \<Longrightarrow> r2 = Returns None"
      by (auto simp: ChannelCmd_RunE_def RunAndCleanup_def newChannelCommand_no_components split: prod.splits go.splits)
    note e = etcd_lock.unlockChannel_effect [OF lock run, folded n_def, unfolded v1]
    show ?thesis
      unfolding ends(1,2) using e ends(3) by (auto simp: lock_free_def)
  qed
qed

lemma memory_daemon_AtomicStorage: "Components_AtomicStorage memory_daemon (no_components, w) =
    (Returns (memory_AtomicStorage key_order), no_components\<lparr>comp_atomicStorage := Some (memory_AtomicStorage key_order)\<rparr>, w)"
  by (simp add: Components_AtomicStorage_def kept_def and_then_def no_components_def memory_daemon_def)

lemma memory_daemon_opens: "storage_opens memory_daemon memory_view"
  by (simp add: storage_opens_def memory_daemon_AtomicStorage by_key.mem.atomic_storage_axioms)

definition memory_closing :: "memoryStorage closing" where
  "memory_closing =
     \<lparr>session_Close = (\<lambda>_ w. w), etcdv3_Close = (\<lambda>_ w. w), closing_embed = memory_embed,
      ethClient_Close = (\<lambda>b w. (if b then Returns () else Panics nil_dereference, w)),
      rawClient_Close = (\<lambda>b w. (if b then Returns () else Panics nil_dereference, w))\<rparr>"

text \<open>The lock of channel 1, held by a transaction, is removed.\<close>

theorem unlock_command_witness:
  "fst (ChannelCmd_RunE memory_daemon memory_closing (Returns no_components, sample_locked) (show_int 1)) = Returns None \<and>
   lock_table (memory_view sample_locked) (PaymentChannelKey_String \<lparr>ID = 1\<rparr>) = Some locked \<and>
   lock_free (memory_view (snd (snd
     (ChannelCmd_RunE memory_daemon memory_closing (Returns no_components, sample_locked) (show_int 1)))))
     (PaymentChannelKey_String \<lparr>ID = 1\<rparr>)"
proof -
  let ?run = "ChannelCmd_RunE memory_daemon memory_closing (Returns no_components, sample_locked) (show_int 1)"
  have "closing_keeps memory_view memory_closing" by (simp add: closing_keeps_def memory_closing_def memory_embed_def)
  from unlock_command [OF memory_daemon_opens this, of sample_locked 1 "fst ?run" "fst (snd ?run)" "snd (snd ?run)"]
  have "fst ?run = Returns None \<longrightarrow> lock_free (memory_view (snd (snd ?run))) (PaymentChannelKey_String \<lparr>ID = 1\<rparr>)" by simp
  moreover have "fst ?run = Returns None"
    by (simp add: ChannelCmd_RunE_def RunAndCleanup_def newChannelCommand_no_components memory_daemon_AtomicStorage
        channelCommand_unlockChannel_def Let_def storage_run_defs sample_locked_def)
      (simp add: Components_Close_def no_components_def)
  ultimately show ?thesis by (simp add: lock_table_def strip_def memory_view_def sample_locked_def)
qed

end
