(* ===== verification/Ledger.thy ===== *)
theory Ledger
  imports Deployment
begin

text \<open>
  What the payment machinery promises to the provider, as an abstract ledger: one balance per channel,
  what may still be claimed. A completed call adds the price, a claim hands out the balance and clears it.
  The theory runs the payment handler (\<^verbatim>\<open>escrow/payment_handler.go\<close>) and the claims of the provider
  (\<^verbatim>\<open>escrow/escrow.go\<close>) on any number of replicas, in any order, with any storage request failing or
  failing after it took effect, and shows that every such run is a run of the ledger, and that what is
  stored stays well typed: channels under their own key, each amount backed by a signature.
\<close>

section \<open>The ledger\<close>

text \<open>
  A charge is \<open>anew\<close> when the blockchain had a newer nonce than the storage: the balance was claimed
  there and does not count any more. A request that reports an error may have taken effect.
\<close>

datatype ledger_event =
  Charge PaymentChannelKey bool
| ChargeFailed PaymentChannelKey bool
| HandOut PaymentChannelKey int
| HandOutFailed PaymentChannelKey
| Silent

type_synonym balances = "PaymentChannelKey \<Rightarrow> int"

definition charged :: "int \<Rightarrow> PaymentChannelKey \<Rightarrow> bool \<Rightarrow> balances \<Rightarrow> balances" where
  "charged price k anew b = b(k := (if anew then 0 else b k) + price)"

inductive ledger_step :: "int \<Rightarrow> balances \<Rightarrow> ledger_event \<Rightarrow> balances \<Rightarrow> bool" for price where
  charge: "ledger_step price b (Charge k anew) (charged price k anew b)"
| charge_failed: "b' = b \<or> b' = charged price k anew b \<Longrightarrow> ledger_step price b (ChargeFailed k anew) b'"
| hand_out: "ledger_step price b (HandOut k (b k)) (b(k := 0))"
| hand_out_failed: "b' = b \<or> b' = b(k := 0) \<Longrightarrow> ledger_step price b (HandOutFailed k) b'"
| silent: "ledger_step price b Silent b"


inductive ledger_run :: "int \<Rightarrow> balances \<Rightarrow> ledger_event list \<Rightarrow> balances \<Rightarrow> bool" for price b0 where
  start: "ledger_run price b0 [] b0"
| step: "ledger_run price b0 es b \<Longrightarrow> ledger_step price b e b' \<Longrightarrow> ledger_run price b0 (es @ [e]) b'"







section \<open>The payment machinery\<close>

abbreviation charged_anew :: "'w paymentTransaction \<times> PaymentChannelData option \<Rightarrow> bool" where
  "charged_anew x \<equiv> (case snd x of None \<Rightarrow> False | Some c \<Rightarrow> Nonce c < Nonce (tx_channel (fst x)))"

inductive payment_step ::
  "go_ethereum \<Rightarrow> (MD \<Rightarrow> string \<Rightarrow> string list) \<Rightarrow> 'w paymentChannelPaymentHandler \<Rightarrow>
   ('w \<Rightarrow> PaymentChannelKey \<Rightarrow> PaymentChannelData option) \<Rightarrow> ('w \<Rightarrow> 'w \<Rightarrow> bool) \<Rightarrow>
   'w escrow_sys \<Rightarrow> ledger_event \<Rightarrow> 'w escrow_sys \<Rightarrow> bool"
  for E md_Get hp stored env where
  paid: "paymentHandler_Payment E md_Get hp ctx (sys_world s) = (Inr tx, w') \<Longrightarrow>
    payment_step E md_Get hp stored env s Silent
      \<lparr>sys_world = w', sys_open = (tx, stored (sys_world s) (payment_key (tx_payment tx))) # sys_open s\<rparr>"
| refused: "paymentHandler_Payment E md_Get hp ctx (sys_world s) = (Inl e, w') \<Longrightarrow>
    payment_step E md_Get hp stored env s Silent (s\<lparr>sys_world := w'\<rparr>)"
| complete: "sys_open s = xs @ x # ys \<Longrightarrow> paymentHandler_Complete (fst x) (sys_world s) = (None, w') \<Longrightarrow>
    payment_step E md_Get hp stored env s (Charge (open_key x) (charged_anew x)) \<lparr>sys_world = w', sys_open = xs @ ys\<rparr>"
| complete_failed: "sys_open s = xs @ x # ys \<Longrightarrow> paymentHandler_Complete (fst x) (sys_world s) = (Some err, w') \<Longrightarrow>
    payment_step E md_Get hp stored env s (ChargeFailed (open_key x) (charged_anew x)) \<lparr>sys_world = w', sys_open = xs @ ys\<rparr>"
| complete_after_error: "sys_open s = xs @ x # ys \<Longrightarrow>
    paymentHandler_CompleteAfterError (fst x) cause (sys_world s) = (r, w') \<Longrightarrow>
    payment_step E md_Get hp stored env s Silent \<lparr>sys_world = w', sys_open = xs @ ys\<rparr>"
| claim: "StartClaim (service hp) key IncrementChannelNonce (sys_world s) = (Inr c, w') \<Longrightarrow>
    payment_step E md_Get hp stored env s (HandOut key (Amount (claimImpl_Payment c))) (s\<lparr>sys_world := w'\<rparr>)"
| claim_failed: "StartClaim (service hp) key IncrementChannelNonce (sys_world s) = (Inl e, w') \<Longrightarrow>
    payment_step E md_Get hp stored env s (HandOutFailed key) (s\<lparr>sys_world := w'\<rparr>)"
| finish: "claimImpl_Finish \<lparr>claim_paymentStorage = paymentStorage (service hp), claim_payment = p\<rparr> (sys_world s) = (r, w') \<Longrightarrow>
    payment_step E md_Get hp stored env s Silent (s\<lparr>sys_world := w'\<rparr>)"
| environment: "env (sys_world s) w' \<Longrightarrow> payment_step E md_Get hp stored env s Silent (s\<lparr>sys_world := w'\<rparr>)"

inductive payment_run ::
  "go_ethereum \<Rightarrow> (MD \<Rightarrow> string \<Rightarrow> string list) \<Rightarrow> 'w paymentChannelPaymentHandler \<Rightarrow>
   ('w \<Rightarrow> PaymentChannelKey \<Rightarrow> PaymentChannelData option) \<Rightarrow> ('w \<Rightarrow> 'w \<Rightarrow> bool) \<Rightarrow>
   'w escrow_sys \<Rightarrow> ledger_event list \<Rightarrow> 'w escrow_sys \<Rightarrow> bool"
  for E md_Get hp stored env s0 where
  start: "payment_run E md_Get hp stored env s0 [] s0"
| step: "payment_run E md_Get hp stored env s0 es s \<Longrightarrow> payment_step E md_Get hp stored env s e t \<Longrightarrow>
    payment_run E md_Get hp stored env s0 (es @ [e]) t"

section \<open>Well-typed states\<close>

text \<open>
  A stored channel is kept under its own id; what is authorised on it is signed: either nothing is, or the
  stored signature is the signer's for exactly this contract, channel, nonce and amount, so that the
  blockchain will pay it out. An open transaction carries a payment of the price on the channel it read.
\<close>

definition signed_channel :: "go_ethereum \<Rightarrow> Address \<Rightarrow> PaymentChannelData \<Rightarrow> bool" where
  "signed_channel E addr c \<longleftrightarrow> AuthorizedAmount c = 0 \<and> Signature c = None \<or>
     getSignerAddressFromPayment E ((getPaymentFromChannel c)\<lparr>MpeContractAddress := addr\<rparr>) = Inr (Signer c)"

definition typed_channel :: "go_ethereum \<Rightarrow> Address \<Rightarrow> PaymentChannelKey \<Rightarrow> PaymentChannelData \<Rightarrow> bool" where
  "typed_channel E addr key c \<longleftrightarrow> ChannelID c = ID key \<and> channel_storable c \<and> signed_channel E addr c"

definition typed_table :: "go_ethereum \<Rightarrow> Address \<Rightarrow> (PaymentChannelKey \<Rightarrow> PaymentChannelData option) \<Rightarrow> bool" where
  "typed_table E addr m \<longleftrightarrow> (\<forall>key c. m key = Some c \<longrightarrow> typed_channel E addr key c)"

definition typed_open :: "Address \<Rightarrow> int \<Rightarrow> 'w paymentTransaction \<Rightarrow> bool" where
  "typed_open addr price tx \<longleftrightarrow> MpeContractAddress (tx_payment tx) = addr \<and>
     ChannelID (tx_channel tx) = payment_ChannelID (tx_payment tx) \<and>
     Amount (tx_payment tx) = AuthorizedAmount (tx_channel tx) + price"

definition typed_sys ::
  "go_ethereum \<Rightarrow> gob \<Rightarrow> ('w \<Rightarrow> string \<Rightarrow> string option) \<Rightarrow> 'w paymentChannelPaymentHandler \<Rightarrow> 'w escrow_sys \<Rightarrow> bool" where
  "typed_sys E G view hp s \<longleftrightarrow> typed_table E (mpeContractAddress hp) (channel_table G (view (sys_world s))) \<and>
     (\<forall>x \<in> set (sys_open s). typed_open (mpeContractAddress hp) (priceInCogs (handler_incomeValidator hp)) (fst x))"

lemma typed_tableD: "typed_table E addr m \<Longrightarrow> m key = Some c \<Longrightarrow> typed_channel E addr key c"
  by (simp add: typed_table_def)

lemma typed_table_upd: "typed_table E addr m \<Longrightarrow> typed_channel E addr key c \<Longrightarrow> typed_table E addr (m(key \<mapsto> c))"
  by (simp add: typed_table_def)

lemma typed_committed:
  assumes "typed_open addr price tx" "ChannelPaymentValidator_Validate E v (tx_payment tx) (tx_channel tx) w = None"
  shows "typed_channel E addr (payment_key (tx_payment tx)) (committed_channel tx)"
proof -
  have sig: "getSignerAddressFromPayment E (tx_payment tx) = Inr (Signer (tx_channel tx))"
    and n: "ChannelNonce (tx_payment tx) = Nonce (tx_channel tx)"
    using assms(2) by (simp_all add: Validate_ok_iff)
  have p: "(getPaymentFromChannel (committed_channel tx))\<lparr>MpeContractAddress := addr\<rparr> = tx_payment tx"
    using assms(1) n by (cases "tx_payment tx") (simp add: getPaymentFromChannel_def committed_channel_def typed_open_def)
  from sig have "payment_Signature (tx_payment tx) \<noteq> Some []" using signed_payment_signature by fastforce
  then have "channel_storable (committed_channel tx)" by (simp add: channel_storable_def committed_channel_def)
  moreover have "signed_channel E addr (committed_channel tx)"
    unfolding signed_channel_def p sig by (simp add: committed_channel_def)
  moreover have "ChannelID (committed_channel tx) = payment_ChannelID (tx_payment tx)"
    using assms(1) by (simp add: committed_channel_def typed_open_def)
  ultimately show ?thesis by (simp add: typed_channel_def)
qed

lemma typed_increment: "typed_channel E addr key c \<Longrightarrow> typed_channel E addr key (IncrementChannelNonce c)"
  by (simp add: typed_channel_def signed_channel_def channel_storable_def IncrementChannelNonce_def)

lemma latest_channel_id:
  "latest_channel gid stored bc = Inr (Some ch) \<Longrightarrow>
     (\<exists>c. stored = Some c \<and> ChannelID ch = ChannelID c) \<or> bc = Inr (Some ch)"
  by (cases "(gid, stored, bc)" rule: latest_channel.cases) (auto split: option.splits if_splits)

text \<open>The balances of the stored channels: the refinement mapping to the ledger.\<close>

definition amount_of :: "PaymentChannelData option \<Rightarrow> int" where
  "amount_of c = (case c of None \<Rightarrow> 0 | Some c \<Rightarrow> AuthorizedAmount c)"

definition balances_of :: "(PaymentChannelKey \<Rightarrow> PaymentChannelData option) \<Rightarrow> balances" where
  "balances_of m = (\<lambda>key. amount_of (m key))"

lemma balances_of_upd: "balances_of (m(key \<mapsto> c)) = (balances_of m)(key := AuthorizedAmount c)"
  by (auto simp: balances_of_def amount_of_def)

lemma latest_channel_amount:
  assumes "latest_channel gid stored bc = Inr (Some ch)" "\<And>c. bc = Inr (Some c) \<Longrightarrow> AuthorizedAmount c = 0"
  shows "AuthorizedAmount ch = (if case stored of None \<Rightarrow> False | Some c \<Rightarrow> Nonce c < Nonce ch then 0 else amount_of stored)"
proof (cases "(gid, stored, bc)" rule: latest_channel.cases)
  case (3 gid' bc')
  with assms(1) assms(2) [of bc'] show ?thesis by (simp add: amount_of_def split: option.splits)
next
  case (4 gid' c bc')
  with assms(1) assms(2) [of bc'] show ?thesis by (auto simp: amount_of_def split: if_splits)
qed (use assms(1) in \<open>simp_all add: amount_of_def\<close>)

section \<open>Refinement\<close>

context payment_service
begin

lemma Payment_started:
  assumes "paymentHandler_Payment E md_Get hp ctx w = (Inr tx, w')" "service hp = h"
  shows "StartPaymentTransaction E h (tx_payment tx) w = (Inr tx, w')"
    and "MpeContractAddress (tx_payment tx) = mpeContractAddress hp"
    and "Amount (tx_payment tx) = AuthorizedAmount (tx_channel tx) + priceInCogs (handler_incomeValidator hp)"
proof -
  have *: "getPaymentFromContext md_Get hp ctx = Inr (tx_payment tx)"
    "Amount (tx_payment tx) = AuthorizedAmount (tx_channel tx) + priceInCogs (handler_incomeValidator hp)"
    using paymentHandler_Payment_ok(4) [OF assms] by (simp_all add: tx_accepted_def)
  with assms show "StartPaymentTransaction E h (tx_payment tx) w = (Inr tx, w')"
    by (auto simp: paymentHandler_Payment_def paymentHandler_start_def Let_def split: sum.splits prod.splits option.splits)
  show "MpeContractAddress (tx_payment tx) = mpeContractAddress hp"
    using *(1) by (cases "tx_payment tx") (auto simp: getPaymentFromContext_def split: sum.splits)
  show "Amount (tx_payment tx) = AuthorizedAmount (tx_channel tx) + priceInCogs (handler_incomeValidator hp)"
    by (rule *(2))
qed

text \<open>A step of the handler is a step of the service, or two of them: a transaction started and rolled back.\<close>

lemma payment_step_inv:
  assumes "payment_step E md_Get hp (\<lambda>w. channel_table G (view w)) (\<lambda>w w'. view w' = view w) s e t"
    and "service hp = h" "escrow_inv E st view G h s"
  shows "escrow_inv E st view G h t"
  using assms
proof (induction rule: payment_step.induct)
  case (paid ctx s tx w')
  then show ?case using escrow_step_inv [OF escrow_step.start [OF Payment_started(1) [OF paid(1,2)]] paid(3)] by simp
next
  case (refused ctx s e w')
  show ?case
  proof (cases "getPaymentFromContext md_Get hp ctx")
    case (Inl err)
    with refused(1) have "s\<lparr>sys_world := w'\<rparr> = s" by (simp add: paymentHandler_Payment_def)
    with refused(3) show ?thesis by simp
  next
    case (Inr p)
    with refused(1,2) consider (start) e' where "StartPaymentTransaction E h p (sys_world s) = (Inl e', w')"
      | (income) tx w1 u where "StartPaymentTransaction E h p (sys_world s) = (Inr tx, w1)" "Rollback tx w1 = (u, w')"
      by (auto simp: paymentHandler_Payment_def paymentHandler_start_def Let_def
          split: option.splits prod.splits sum.splits)
    then show ?thesis
    proof cases
      case start
      then show ?thesis using escrow_step_inv [OF escrow_step.start_failed [OF start] refused(3)] by blast
    next
      case income
      let ?s = "\<lparr>sys_world = w1, sys_open = (tx, channel_table G (view (sys_world s)) (payment_key p)) # sys_open s\<rparr>"
      have "escrow_inv E st view G h ?s"
        by (rule escrow_step_inv [OF escrow_step.start [OF income(1)] refused(3)])
      from escrow_step_inv [OF escrow_step.rollback [of ?s "[]", simplified, OF _ income(2)] this]
      show ?thesis by (simp add: escrow_inv_def)
    qed
  qed
next
  case (complete s xs x ys w')
  then obtain r where "Commit (fst x) (sys_world s) = (r, w')"
    by (auto simp: paymentHandler_Complete_def split: prod.splits)
  with complete(1) show ?case
    using escrow_step_inv [OF escrow_step.commit [of s xs "fst x" "snd x"] complete(4)] by simp
next
  case (complete_failed s xs x ys err w')
  then obtain r where "Commit (fst x) (sys_world s) = (r, w')"
    by (auto simp: paymentHandler_Complete_def split: prod.splits)
  with complete_failed(1) show ?case
    using escrow_step_inv [OF escrow_step.commit [of s xs "fst x" "snd x"] complete_failed(4)] by simp
next
  case (complete_after_error s xs x ys cause r w')
  then obtain r where "Rollback (fst x) (sys_world s) = (r, w')"
    by (auto simp: paymentHandler_CompleteAfterError_def split: prod.splits)
  with complete_after_error(1) show ?case
    using escrow_step_inv [OF escrow_step.rollback [of s xs "fst x" "snd x"] complete_after_error(4)] by simp
next
  case (claim key s c w')
  then show ?case using escrow_step_inv [OF escrow_step.claim claim(3), of IncrementChannelNonce UNIV] by simp
next
  case (claim_failed key s e w')
  then show ?case using escrow_step_inv [OF escrow_step.claim claim_failed(3), of IncrementChannelNonce UNIV] by simp
next
  case (finish p s r w')
  then show ?case using escrow_step_inv [OF escrow_step.finish finish(3)] by simp
next
  case (environment s w')
  then show ?case by (simp add: escrow_inv_def)
qed

text \<open>What a commit or a claim does to a well-typed table.\<close>

lemma open_typed:
  assumes "open_ok E st G h m x" "typed_open addr price (fst x)"
  shows "typed_channel E addr (open_key x) (committed_channel (fst x))"
    and "balances_of ((channel_table G m)(open_key x \<mapsto> committed_channel (fst x))) =
      charged price (open_key x) (charged_anew x) (balances_of (channel_table G m))"
proof -
  from assms(1) obtain w where l: "latest_channel (fst (replicaGroupID h)) (snd x)
        (GetChannelStateFromBlockchain (blockchainReader h) (open_key x) w) = Inr (Some (tx_channel (fst x)))"
    and v: "ChannelPaymentValidator_Validate E (validator h) (tx_payment (fst x)) (tx_channel (fst x)) w = None"
    and m: "channel_table G m (open_key x) = snd x"
    by (auto simp: open_ok_def)
  show "typed_channel E addr (open_key x) (committed_channel (fst x))" by (rule typed_committed [OF assms(2) v])
  have "AuthorizedAmount (tx_channel (fst x)) = (if charged_anew x then 0 else amount_of (snd x))"
    by (rule latest_channel_amount [OF l]) (simp add: blockchain_channel_unused)
  moreover have "AuthorizedAmount (committed_channel (fst x)) = AuthorizedAmount (tx_channel (fst x)) + price"
    using assms(2) by (simp add: committed_channel_def typed_open_def)
  ultimately show "balances_of ((channel_table G m)(open_key x \<mapsto> committed_channel (fst x))) =
      charged price (open_key x) (charged_anew x) (balances_of (channel_table G m))"
    using m by (simp add: balances_of_upd charged_def) (simp add: balances_of_def)
qed

lemma committed_step:
  assumes "open_ok E st G h m x" "typed_open addr price (fst x)" "typed_table E addr (channel_table G m)"
    and "channel_table G m' = (channel_table G m)(open_key x \<mapsto> committed_channel (fst x))"
  shows "typed_table E addr (channel_table G m')"
    and "balances_of (channel_table G m') = charged price (open_key x) (charged_anew x) (balances_of (channel_table G m))"
  unfolding assms(4) by (rule typed_table_upd [OF assms(3) open_typed(1) [OF assms(1,2)]], rule open_typed(2) [OF assms(1,2)])

lemma Payment_typed_open:
  assumes "paymentHandler_Payment E md_Get hp ctx w = (Inr tx, w')" "service hp = h"
    and "typed_table E (mpeContractAddress hp) (channel_table G (view w))"
  shows "typed_open (mpeContractAddress hp) (priceInCogs (handler_incomeValidator hp)) tx"
proof -
  note tx = Payment_started [OF assms(1,2)]
  from tx(1) obtain w1 where w1: "view w1 = (view w)(channel_lock (payment_key (tx_payment tx)) \<mapsto> locked)"
    and c: "PaymentChannel h (payment_key (tx_payment tx)) w1 = (Inr (Some (tx_channel tx)), w')"
    by (elim StartPaymentTransaction_cases)
  have t: "channel_table G (view w1) = channel_table G (view w)" unfolding w1 by simp
  have "ChannelID (tx_channel tx) = payment_ChannelID (tx_payment tx)"
    using latest_channel_id [OF PaymentChannel_latest [OF c]]
  proof (elim disjE exE conjE)
    fix c' assume "channel_table G (view w1) (payment_key (tx_payment tx)) = Some c'"
      and "ChannelID (tx_channel tx) = ChannelID c'"
    with typed_tableD [OF assms(3)] t show ?thesis by (simp add: typed_channel_def)
  next
    assume "GetChannelStateFromBlockchain (blockchainReader h) (payment_key (tx_payment tx)) w' = Inr (Some (tx_channel tx))"
    from blockchain_channel_unused [OF this] show ?thesis by simp
  qed
  with tx(2,3) show ?thesis by (simp add: typed_open_def)
qed

text \<open>
  The channel tables that a step can lead to, by its event; the sum of what the storage lemmas say.
\<close>

lemma payment_step_table:
  assumes "payment_step E md_Get hp (\<lambda>w. channel_table G (view w)) (\<lambda>w w'. view w' = view w) s e t"
    and "service hp = h" "escrow_inv E st view G h s" "typed_sys E G view hp s"
  shows "typed_table E (mpeContractAddress hp) (channel_table G (view (sys_world t))) \<and>
    ledger_step (priceInCogs (handler_incomeValidator hp)) (balances_of (channel_table G (view (sys_world s)))) e
      (balances_of (channel_table G (view (sys_world t))))"
  using assms
proof (induction rule: payment_step.induct)
  case (paid ctx s tx w')
  then show ?case using paymentHandler_Payment_ok(1) [OF paid(1,2)] by (simp add: typed_sys_def ledger_step.silent)
next
  case (refused ctx s e w')
  then show ?case using paymentHandler_Payment_err(1) [OF refused(1,2)] by (simp add: typed_sys_def ledger_step.silent)
next
  case (complete s xs x ys w')
  then have x: "open_ok E st G h (view (sys_world s)) x"
    "typed_open (mpeContractAddress hp) (priceInCogs (handler_incomeValidator hp)) (fst x)"
    by (simp_all add: escrow_inv_def typed_sys_def)
  from complete(2) have "Commit (fst x) (sys_world s) = (Inr (), w')"
    by (auto simp: paymentHandler_Complete_def paymentErrorToGrpcError_None split: prod.splits)
  from Commit_ok [OF this] x(1) have "channel_table G (view w') =
      (channel_table G (view (sys_world s)))(open_key x \<mapsto> committed_channel (fst x))" by (simp add: open_ok_def)
  from committed_step [OF x _ this] complete(5) show ?case by (simp add: typed_sys_def ledger_step.charge)
next
  case (complete_failed s xs x ys err w')
  then have x: "open_ok E st G h (view (sys_world s)) x"
    "typed_open (mpeContractAddress hp) (priceInCogs (handler_incomeValidator hp)) (fst x)"
    by (simp_all add: escrow_inv_def typed_sys_def)
  from complete_failed(2) obtain r where "Commit (fst x) (sys_world s) = (r, w')"
    by (auto simp: paymentHandler_Complete_def split: prod.splits)
  from Commit_table [OF this] x(1) have "channel_table G (view w') = channel_table G (view (sys_world s)) \<or>
      channel_table G (view w') = (channel_table G (view (sys_world s)))(open_key x \<mapsto> committed_channel (fst x))"
    by (simp add: open_ok_def)
  then show ?case
  proof
    assume "channel_table G (view w') = channel_table G (view (sys_world s))"
    with complete_failed(5) show ?case by (simp add: typed_sys_def ledger_step.charge_failed)
  next
    assume "channel_table G (view w') = (channel_table G (view (sys_world s)))(open_key x \<mapsto> committed_channel (fst x))"
    from committed_step [OF x _ this] complete_failed(5) show ?case by (simp add: typed_sys_def ledger_step.charge_failed)
  qed
next
  case (complete_after_error s xs x ys cause r w')
  then have "transaction_of st h (fst x)" by (simp add: escrow_inv_def open_ok_def)
  moreover from complete_after_error(2) obtain r' where "Rollback (fst x) (sys_world s) = (r', w')"
    by (auto simp: paymentHandler_CompleteAfterError_def split: prod.splits)
  ultimately show ?case
    using Rollback_frame(1) complete_after_error(5) by (simp add: typed_sys_def ledger_step.silent)
next
  case (claim key s c w')
  let ?m = "channel_table G (view (sys_world s))"
  have typed: "typed_table E (mpeContractAddress hp) ?m" using claim(4) by (simp add: typed_sys_def)
  then have "channel_storable ch \<and> channel_storable (IncrementChannelNonce ch)" if "?m key = Some ch" for ch
    using typed_tableD [OF typed that] typed_increment [of E "mpeContractAddress hp" key ch] by (simp add: typed_channel_def)
  with claim(1,2) obtain ch where ch: "?m key = Some ch"
    "c = \<lparr>claim_paymentStorage = NewPaymentStorage G st, claim_payment = getPaymentFromChannel ch\<rparr>"
    "channel_table G (view w') = ?m(key \<mapsto> IncrementChannelNonce ch)"
    using StartClaim_ok [of key IncrementChannelNonce "sys_world s" c w'] by auto
  have "Amount (claimImpl_Payment c) = balances_of ?m key"
    by (simp add: ch(1,2) balances_of_def amount_of_def claimImpl_Payment_def getPaymentFromChannel_def)
  moreover have "balances_of (channel_table G (view w')) = (balances_of ?m)(key := 0)"
    by (simp add: ch(3) balances_of_upd IncrementChannelNonce_def)
  ultimately have "ledger_step (priceInCogs (handler_incomeValidator hp)) (balances_of ?m)
      (HandOut key (Amount (claimImpl_Payment c))) (balances_of (channel_table G (view w')))"
    by (metis ledger_step.hand_out)
  then show ?case
    using typed_table_upd [OF typed typed_increment [OF typed_tableD [OF typed ch(1)]], folded ch(3)] by simp
next
  case (claim_failed key s e w')
  let ?m = "channel_table G (view (sys_world s))"
  have typed: "typed_table E (mpeContractAddress hp) ?m" using claim_failed(4) by (simp add: typed_sys_def)
  have "channel_storable (IncrementChannelNonce ch)" for ch by (simp add: channel_storable_def IncrementChannelNonce_def)
  from StartClaim_table [OF claim_failed(1) [unfolded claim_failed(2)] this] show ?case
  proof (elim disjE exE conjE)
    assume "channel_table G (view w') = ?m"
    with typed show ?case by (simp add: ledger_step.hand_out_failed)
  next
    fix ch assume ch: "?m key = Some ch" "channel_table G (view w') = ?m(key \<mapsto> IncrementChannelNonce ch)"
    then have "balances_of (channel_table G (view w')) = (balances_of ?m)(key := 0)"
      by (simp add: balances_of_upd IncrementChannelNonce_def)
    then have "ledger_step (priceInCogs (handler_incomeValidator hp)) (balances_of ?m) (HandOutFailed key)
        (balances_of (channel_table G (view w')))" by (intro ledger_step.hand_out_failed disjI2)
    with typed_table_upd [OF typed typed_increment [OF typed_tableD [OF typed ch(1)]], folded ch(2)]
    show ?case by simp
  qed
next
  case (finish p s r w')
  then show ?case using claimImpl_Finish_frame(1) [of p "sys_world s" r w'] by (simp add: typed_sys_def ledger_step.silent)
next
  case (environment s w')
  then show ?case by (simp add: typed_sys_def ledger_step.silent)
qed

lemma payment_step_typed:
  assumes "payment_step E md_Get hp (\<lambda>w. channel_table G (view w)) (\<lambda>w w'. view w' = view w) s e t"
    and "service hp = h" "escrow_inv E st view G h s" "typed_sys E G view hp s"
  shows "typed_sys E G view hp t"
proof -
  have "typed_open (mpeContractAddress hp) (priceInCogs (handler_incomeValidator hp)) (fst x)" if "x \<in> set (sys_open t)" for x
    using assms(1) that
  proof (cases rule: payment_step.cases)
    case (paid ctx tx w')
    have "typed_table E (mpeContractAddress hp) (channel_table G (view (sys_world s)))"
      using assms(4) by (simp add: typed_sys_def)
    with Payment_typed_open [OF paid(3) assms(2)] assms(4) paid(2) that show ?thesis by (auto simp: typed_sys_def)
  qed (use assms(4) in \<open>auto simp: typed_sys_def\<close>)
  with payment_step_table [OF assms] show ?thesis by (simp add: typed_sys_def)
qed

lemma payment_run_refines:
  assumes "payment_run E md_Get hp (\<lambda>w. channel_table G (view w)) (\<lambda>w w'. view w' = view w) s0 es s"
    and "service hp = h" "sys_open s0 = []"
    and "typed_table E (mpeContractAddress hp) (channel_table G (view (sys_world s0)))"
  shows "escrow_inv E st view G h s \<and> typed_sys E G view hp s \<and>
    ledger_run (priceInCogs (handler_incomeValidator hp)) (balances_of (channel_table G (view (sys_world s0)))) es
      (balances_of (channel_table G (view (sys_world s))))"
  using assms
proof (induction rule: payment_run.induct)
  case start
  then show ?case by (simp add: escrow_inv_def typed_sys_def ledger_run.start)
next
  case (step es s e t)
  then have I: "escrow_inv E st view G h s" "typed_sys E G view hp s" by simp_all
  note square = payment_step_inv [OF step(2,4) I(1)] payment_step_typed [OF step(2,4) I]
    payment_step_table [OF step(2,4) I]
  with step show ?case by (blast intro: ledger_run.step)
qed

end

section \<open>A sample run\<close>

abbreviation sample_hp :: "memoryStorage paymentChannelPaymentHandler" where
  "sample_hp \<equiv> \<lparr>service = sample_service, mpeContractAddress = 11, handler_incomeValidator = NewIncomeValidator 3\<rparr>"

abbreviation sample_run :: "ledger_event list \<Rightarrow> memoryStorage escrow_sys \<Rightarrow> bool" where
  "sample_run \<equiv> payment_run sample_eth sample_md_Get sample_hp (\<lambda>w. channel_table ints_gob (memory_view w))
     (\<lambda>w w'. memory_view w' = memory_view w) \<lparr>sys_world = NewMemStorage, sys_open = []\<rparr>"

lemma sample_run_paid: "sample_run [Silent] \<lparr>sys_world = sample_locked, sys_open = [(sample_tx, None)]\<rparr>"
proof -
  have "paymentHandler_Payment sample_eth sample_md_Get sample_hp \<lparr>context_MD = sample_md 1 0 3, context_Info = i\<rparr>
      NewMemStorage = (Inr sample_tx, sample_locked)" for i
    using sample_call_start by (simp add: sample_handler_def NewPaymentHandler_def Let_def)
  from payment_run.step [OF payment_run.start payment_step.paid [where s = "\<lparr>sys_world = NewMemStorage, sys_open = []\<rparr>", simplified, OF this],
      of "\<lambda>w. channel_table ints_gob (memory_view w)" "\<lambda>w w'. memory_view w' = memory_view w"]
  show ?thesis by simp
qed

lemma sample_run_charged: "sample_run [Silent, Charge \<lparr>ID = 1\<rparr> False] \<lparr>sys_world = sample_charged, sys_open = []\<rparr>"
proof -
  have "paymentHandler_Complete sample_tx sample_locked = (None, sample_charged)"
    by (simp add: paymentHandler_Complete_def sample_commit)
  with payment_run.step [OF sample_run_paid payment_step.complete [where xs = "[]" and ys = "[]" and x = "(sample_tx, None)"]]
  show ?thesis by (simp add: sample_tx_def)
qed


lemma sample_empty_typed: "typed_table E addr (channel_table ints_gob (memory_view NewMemStorage))"
  by (simp add: typed_table_def)

section \<open>Properties\<close>

text \<open>
  C4. The daemon's accounts are right. Whatever calls, completions, claims and failures are interleaved on
  any number of replicas, the run is a run of the ledger: each call that was completed added exactly the
  price to the balance of its channel, each granted claim handed out exactly the balance, a request
  that reported an error either took effect or did not, and nothing else changed any balance.
\<close>

theorem payment_machinery_refines_ledger:
  assumes "payment_service st view G (service hp)" "sys_open s0 = []"
    and "typed_table E (mpeContractAddress hp) (channel_table G (view (sys_world s0)))"
    and "payment_run E md_Get hp (\<lambda>w. channel_table G (view w)) (\<lambda>w w'. view w' = view w) s0 es s"
  shows "ledger_run (priceInCogs (handler_incomeValidator hp)) (balances_of (channel_table G (view (sys_world s0)))) es
    (balances_of (channel_table G (view (sys_world s))))"
  using payment_service.payment_run_refines [OF assms(1,4) refl assms(2,3)] by blast

theorem payment_machinery_refines_ledger_witness:
  "ledger_run 3 (balances_of (channel_table ints_gob (memory_view NewMemStorage))) [Silent, Charge \<lparr>ID = 1\<rparr> False]
     (balances_of (channel_table ints_gob (memory_view sample_charged)))"
  using payment_machinery_refines_ledger [of _ _ _ sample_hp, simplified, OF sample_payment_service _ _ sample_run_charged]
  by (simp add: sample_empty_typed NewIncomeValidator_def)



text \<open>
  C11. The storage stays well typed. In every state the daemon can reach, a channel is stored under its own
  id, and what is authorised on it is backed: either nothing is, or the stored signature is that of the
  channel's signer on exactly this contract, channel, nonce and amount. This is
  what claims are made of (C12): the payment a claim hands out is one that the signer signed.
\<close>

theorem stored_channels_typed:
  assumes "payment_service st view G (service hp)" "sys_open s0 = []"
    and "typed_table E (mpeContractAddress hp) (channel_table G (view (sys_world s0)))"
    and "payment_run E md_Get hp (\<lambda>w. channel_table G (view w)) (\<lambda>w w'. view w' = view w) s0 es s"
    and "channel_table G (view (sys_world s)) key = Some c"
  shows "ChannelID c = ID key \<and> channel_storable c \<and>
    (AuthorizedAmount c \<noteq> 0 \<longrightarrow> getSignerAddressFromPayment E
       \<lparr>MpeContractAddress = mpeContractAddress hp, payment_ChannelID = ID key, ChannelNonce = Nonce c,
        Amount = AuthorizedAmount c, payment_Signature = Signature c\<rparr> = Inr (Signer c))"
proof -
  have "typed_channel E (mpeContractAddress hp) key c"
    using payment_service.payment_run_refines [OF assms(1,4) refl assms(2,3)] assms(5)
    by (auto simp: typed_sys_def intro: typed_tableD)
  then show ?thesis by (auto simp: typed_channel_def signed_channel_def getPaymentFromChannel_def)
qed

theorem stored_channels_typed_witness:
  "getSignerAddressFromPayment sample_eth
     \<lparr>MpeContractAddress = 11, payment_ChannelID = 1, ChannelNonce = 0, Amount = 3,
      payment_Signature = Some (sample_signature 7)\<rparr> = Inr 7"
proof -
  let ?c = "sample_channel\<lparr>AuthorizedAmount := 3, Signature := Some (sample_signature 7)\<rparr>"
  have "channel_table ints_gob (memory_view sample_charged) \<lparr>ID = 1\<rparr> = Some ?c" by (simp add: sample_charged_table)
  with stored_channels_typed [of _ _ _ sample_hp, simplified, OF sample_payment_service _ _ sample_run_charged, of "\<lparr>ID = 1\<rparr>" ?c]
  show ?thesis by (simp add: sample_empty_typed) (simp add: sample_channel_def)
qed

end
