(* ===== verification/Progress.thy ===== *)
theory Progress
  imports Deployment
begin

text \<open>
  What honest parties can count on. The properties of the payment machinery elsewhere in the development say what a
  call that was served has paid, and what a claim that was granted hands out; a daemon that refuses everything has
  them too. Here: as long as the shared storage answers, a client who pays correctly is served, call
  after call until the value of the channel is used up, and a provider who asks correctly gets the claim.
\<close>

section \<open>A storage that answers\<close>

definition responsive :: "'w AtomicStorage \<Rightarrow> bool" where
  "responsive st \<longleftrightarrow> reliable st \<and>
     (\<forall>k w e w'. Get st k w \<noteq> (Inl e, w')) \<and> (\<forall>p w e w'. GetByKeyPrefix st p w \<noteq> (Inl e, w')) \<and>
     (\<forall>k v w e w'. Put st k v w \<noteq> (Inl e, w')) \<and> (\<forall>k w e w'. Delete st k w \<noteq> (Inl e, w'))"

text \<open>An entry of the table of channels, if there is one, can be decoded.\<close>

definition channel_readable :: "gob \<Rightarrow> (string \<Rightarrow> string option) \<Rightarrow> PaymentChannelKey \<Rightarrow> bool" where
  "channel_readable G m key \<longleftrightarrow>
     (\<forall>s x. serialize_key G key = Inr s \<longrightarrow> strip channel_prefix m s = Some x \<longrightarrow> (\<exists>c. deserialize_channel G x = Inr c))"

lemma channel_readable_lock [simp]: "channel_readable G (m(lock_key n := x)) key = channel_readable G m key"
  by (simp add: channel_readable_def)

lemma responsive_reliable: "responsive st \<Longrightarrow> reliable st"
  by (simp add: responsive_def)

text \<open>A channel that was charged is again the latest version of itself, as long as the blockchain shows the same.\<close>

lemma latest_channel_charged:
  assumes "latest_channel gid stored (Inr (Some bc)) = Inr (Some c)"
  shows "latest_channel gid (Some (c\<lparr>AuthorizedAmount := a, Signature := s\<rparr>)) (Inr (Some bc)) =
    Inr (Some (c\<lparr>AuthorizedAmount := a, Signature := s\<rparr>))"
proof (cases stored)
  case None
  with assms show ?thesis by (auto split: option.splits)
next
  case (Some d)
  with assms consider "c = d" "Nonce bc < Nonce d" | "c = bc"
    | "c = d\<lparr>FullAmount := FullAmount bc, Expiration := Expiration bc\<rparr>" "Nonce d = Nonce bc"
    by (force split: if_splits)
  then show ?thesis by cases simp_all
qed

lemma stored_readable: "channel_table G m key = Some c \<Longrightarrow> channel_readable G m key"
  by (auto simp: channel_table_def decoded_entry_def channel_readable_def split: sum.splits option.splits)

lemma deserialize_all_total: "(\<And>s. s \<in> set ss \<Longrightarrow> \<exists>v. d s = Inr v) \<Longrightarrow> \<exists>vs. deserialize_all d ss = Inr vs"
proof (induction ss)
  case (Cons s ss)
  then obtain v vs where "d s = Inr v" "deserialize_all d ss = Inr vs" by fastforce
  then show ?case by simp
qed simp

section \<open>Correct payments\<close>

text \<open>
  A payment for one call: for the channel's nonce, signed by its signer, of what was authorised plus the price, within the
  channel's value, and while the channel is far enough from its expiration.
\<close>

definition pays :: "go_ethereum \<Rightarrow> 'w lockingPaymentChannelService \<Rightarrow> int \<Rightarrow> Payment \<Rightarrow> PaymentChannelData \<Rightarrow> bool" where
  "pays E h price p c \<longleftrightarrow> ChannelNonce p = Nonce c \<and> getSignerAddressFromPayment E p = Inr (Signer c) \<and>
     Amount p = AuthorizedAmount c + price \<and> Amount p \<le> FullAmount c \<and>
     (\<forall>w. \<exists>block. currentBlock (validator h) w = Inr block \<and> block + paymentExpirationThreshold (validator h) < Expiration c)"

text \<open>The header with the type of payment is missing or says \<^verbatim>\<open>escrow\<close>.\<close>

definition escrow_typed :: "MD \<Rightarrow> bool" where
  "escrow_typed md \<longleftrightarrow> (case md PaymentTypeHeader of Some (t # _) \<Rightarrow> t = EscrowPaymentType | _ \<Rightarrow> True)"

lemma escrow_handler:
  assumes "escrow_typed md"
  shows "getPaymentHandler (GrpcPaymentValidationInterceptor (NewPaymentHandler E md_Get h addr income) [])
      \<lparr>context_MD = md, context_Info = info\<rparr> = Inr (NewPaymentHandler E md_Get h addr income)"
  using assms by (auto simp: escrow_typed_def getPaymentHandler_def GrpcPaymentValidationInterceptor_def NewPaymentHandler_def
      Let_def split: option.splits list.splits)

abbreviation transaction ::
  "'w AtomicStorage \<Rightarrow> 'w lockingPaymentChannelService \<Rightarrow> Payment \<Rightarrow> PaymentChannelData \<Rightarrow> 'w paymentTransaction" where
  "transaction st h p c \<equiv> \<lparr>tx_payment = p, tx_channel = c, tx_service = h,
     tx_lock = \<lparr>lock_name = PaymentChannelKey_String (payment_key p), lock_locker = NewEtcdLocker st\<rparr>\<rparr>"

text \<open>The interceptor with the escrow payment handler, as the daemon builds it.\<close>

abbreviation escrow_intercept ::
  "go_ethereum \<Rightarrow> (MD \<Rightarrow> string \<Rightarrow> string list) \<Rightarrow> 'w lockingPaymentChannelService \<Rightarrow> Address \<Rightarrow> incomeValidator \<Rightarrow>
   MD option \<Rightarrow> string \<Rightarrow> 'w StreamHandler \<Rightarrow> 'w StreamHandler" where
  "escrow_intercept E md_Get h addr income \<equiv>
     paymentValidationInterceptor_intercept (GrpcPaymentValidationInterceptor (NewPaymentHandler E md_Get h addr income) [])"

abbreviation payment_of ::
  "(MD \<Rightarrow> string \<Rightarrow> string list) \<Rightarrow> 'w lockingPaymentChannelService \<Rightarrow> Address \<Rightarrow> incomeValidator \<Rightarrow> MD \<Rightarrow> string \<Rightarrow> GrpcError + Payment" where
  "payment_of md_Get h addr income md info \<equiv> getPaymentFromContext md_Get
     \<lparr>service = h, mpeContractAddress = addr, handler_incomeValidator = income\<rparr> \<lparr>context_MD = md, context_Info = info\<rparr>"

text \<open>Calls made one after the other, and a sequence of payments, each correct for the channel as the ones before it left it.\<close>

fun calls :: "('w \<Rightarrow> 'r \<times> 'w) list \<Rightarrow> 'w \<Rightarrow> 'r list \<times> 'w" where
  "calls [] w = ([], w)"
| "calls (f # fs) w = (case f w of (r, w1) \<Rightarrow> case calls fs w1 of (rs, w2) \<Rightarrow> (r # rs, w2))"

fun pay_in_turn ::
  "go_ethereum \<Rightarrow> (MD \<Rightarrow> string \<Rightarrow> string list) \<Rightarrow> 'w lockingPaymentChannelService \<Rightarrow> Address \<Rightarrow> incomeValidator \<Rightarrow> string \<Rightarrow>
   PaymentChannelKey \<Rightarrow> MD list \<Rightarrow> PaymentChannelData \<Rightarrow> bool" where
  "pay_in_turn E md_Get h addr income info key [] c = True"
| "pay_in_turn E md_Get h addr income info key (md # mds) c \<longleftrightarrow> escrow_typed md \<and>
     (case payment_of md_Get h addr income md info of
        Inl _ \<Rightarrow> False
      | Inr p \<Rightarrow> payment_key p = key \<and> pays E h (priceInCogs income) p c \<and>
          pay_in_turn E md_Get h addr income info key mds (c\<lparr>AuthorizedAmount := Amount p, Signature := payment_Signature p\<rparr>))"

context payment_service
begin

lemma Lock_responsive:
  assumes "responsive st" "lock_free (view w) n"
  obtains w1 where "etcdLocker_Lock (NewEtcdLocker st) n w = (Inr (Some \<lparr>lock_name = n, lock_locker = NewEtcdLocker st\<rparr>), w1)"
    "view w1 = (view w)(lock_key n \<mapsto> locked)"
proof -
  obtain r w1 where l: "etcdLocker_Lock (NewEtcdLocker st) n w = (r, w1)" by fastforce
  have "r \<noteq> Inl e" for e
    using l assms(1) by (auto simp: etcdLocker_Lock_def etcdLocker_acquire_def responsive_def reliable_def NewEtcdLocker_def
        NewLockerStorage_def as_AtomicStorage_def PrefixedAtomicStorage_defs split: prod.splits sum.splits if_splits bool.splits)
  moreover have "r \<noteq> Inr None" using l lk.Lock_not_ok(2) assms(2) by blast
  ultimately obtain x where "r = Inr (Some x)" by (cases r) auto
  with l lk.Lock_ok [of n w x w1] that show ?thesis by simp
qed

lemma Unlock_responsive:
  assumes "responsive st" "lock_table (view w) n = Some locked"
  obtains w1 where "lockType_Unlock \<lparr>lock_name = n, lock_locker = NewEtcdLocker st\<rparr> w = (Inr (), w1)"
    "view w1 = (view w)(lock_key n \<mapsto> unlocked)"
proof -
  obtain r w1 where u: "lockType_Unlock \<lparr>lock_name = n, lock_locker = NewEtcdLocker st\<rparr> w = (r, w1)" by fastforce
  have "r = Inr ()"
    using u assms(1) by (auto simp: lockType_Unlock_def responsive_def reliable_def NewEtcdLocker_def NewLockerStorage_def
        as_AtomicStorage_def PrefixedAtomicStorage_defs split: prod.splits sum.splits)
  with u lk.Unlock_ok [of n w w1] assms(2) that show ?thesis by simp
qed

lemma channel_Get_responsive:
  assumes "responsive st" "channel_readable G (view w) key"
  obtains w1 where "PaymentChannelStorage_Get (NewPaymentChannelStorage G st) key w = (Inr (channel_table G (view w) key), w1)"
    "view w1 = view w"
proof -
  obtain r w1 where g: "PaymentChannelStorage_Get (NewPaymentChannelStorage G st) key w = (r, w1)" by fastforce
  obtain s where s: "serialize_key G key = Inr s" using gob_key_total by blast
  have "r \<noteq> Inl e" for e
    using g assms s
    by (auto simp: PaymentChannelStorage_defs TypedAtomicStorageImpl_Get_def as_AtomicStorage_def PrefixedAtomicStorage_defs
        responsive_def channel_readable_def strip_def split: sum.splits prod.splits option.splits dest!: Get_ok [THEN sym])
  then obtain x where "r = Inr x" by (cases r) auto
  with g channel_Get_ok [of key w x w1] channel_Get_view [OF g] that show ?thesis by simp
qed

lemma channel_Put_responsive:
  assumes "responsive st" "channel_storable c"
  obtains w1 where "PaymentChannelStorage_Put (NewPaymentChannelStorage G st) key c w = (Inr (), w1)"
    "channel_readable G (view w1) key"
proof -
  obtain r w1 where p: "PaymentChannelStorage_Put (NewPaymentChannelStorage G st) key c w = (r, w1)" by fastforce
  obtain s x where s: "serialize_key G key = Inr s" "serialize_channel G c = Inr x" "deserialize_channel G x = Inr c"
    using gob_key_total gob_channel [OF assms(2)] by blast
  have r: "r = Inr ()"
    using p assms(1) s by (cases r) (auto simp: PaymentChannelStorage_defs TypedAtomicStorageImpl_Put_def as_AtomicStorage_def
        PrefixedAtomicStorage_defs responsive_def unit_eq)
  with p s have "view w1 = (view w)(channel_prefix @ CHR ''/'' # s \<mapsto> x)"
    by (auto simp: PaymentChannelStorage_defs TypedAtomicStorageImpl_Put_def as_AtomicStorage_def PrefixedAtomicStorage_defs
        dest!: Put_ok)
  with s have "channel_readable G (view w1) key" by (simp add: channel_readable_def)
  with p r that show ?thesis by simp
qed

lemma PaymentChannel_responsive:
  assumes "responsive st" "channel_readable G (view w) key"
  obtains w1 where "view w1 = view w" "PaymentChannel h key w =
    (latest_channel (fst (replicaGroupID h)) (channel_table G (view w) key) (GetChannelStateFromBlockchain (blockchainReader h) key w1), w1)"
proof -
  obtain w1 where g: "PaymentChannelStorage_Get (NewPaymentChannelStorage G st) key w = (Inr (channel_table G (view w) key), w1)"
    "view w1 = view w" by (rule channel_Get_responsive [OF assms])
  have "PaymentChannel h key w = (latest_channel (fst (replicaGroupID h)) (channel_table G (view w) key)
      (GetChannelStateFromBlockchain (blockchainReader h) key w1), w1)"
    using g(1) by (auto simp: PaymentChannel_def h_simps Let_def MergeStorageAndBlockchainChannelState_def
        split: option.splits sum.splits)
  with g(2) that show ?thesis by blast
qed

lemma correct_payment_started:
  assumes "responsive st" "lock_free (view w) (PaymentChannelKey_String (payment_key p))" "channel_readable G (view w) (payment_key p)"
    and "\<And>w1. latest_channel (fst (replicaGroupID h)) (channel_table G (view w) (payment_key p))
      (GetChannelStateFromBlockchain (blockchainReader h) (payment_key p) w1) = Inr (Some c)"
    and "pays E h price p c"
  obtains w1 where "StartPaymentTransaction E h p w = (Inr (transaction st h p c), w1)"
    "view w1 = (view w)(channel_lock (payment_key p) \<mapsto> locked)"
proof -
  let ?key = "payment_key p"
  obtain w0 where l: "etcdLocker_Lock (NewEtcdLocker st) (PaymentChannelKey_String ?key) w =
      (Inr (Some (tx_lock (transaction st h p c))), w0)" "view w0 = (view w)(channel_lock ?key \<mapsto> locked)"
    using Lock_responsive [OF assms(1,2)] by auto
  obtain w1 where g: "view w1 = view w0" "PaymentChannel h ?key w0 = (Inr (Some c), w1)"
    using PaymentChannel_responsive [OF assms(1), of w0 ?key] assms(3,4) l(2) by (metis channel_readable_lock tables_lock_upd(1))
  have "ChannelPaymentValidator_Validate E (validator h) p c w1 = None"
    using assms(5) unfolding Validate_ok_iff pays_def by blast
  with l(1) g(2) have "StartPaymentTransaction E h p w = (Inr (transaction st h p c), w1)"
    by (simp add: StartPaymentTransaction_def StartPaymentTransaction_locked_def h_simps Let_def)
  with g(1) l(2) that show ?thesis by simp
qed

lemma pays_transaction_of: "pays E h price p c \<Longrightarrow> transaction_of st h (transaction st h p c)"
  using signed_payment_signature [of E p "Signer c"] by (auto simp: pays_def transaction_of_def)

lemma Commit_responsive:
  assumes "responsive st" "transaction_of st h tx"
  obtains w1 where "Commit tx w = (Inr (), w1)"
    "channel_table G (view w1) = (channel_table G (view w))(payment_key (tx_payment tx) \<mapsto> committed_channel tx)"
    "channel_readable G (view w1) (payment_key (tx_payment tx))"
proof -
  obtain r w1 where c: "Commit tx w = (r, w1)" by fastforce
  from c assms(2) obtain e w0 u where
    p: "PaymentChannelStorage_Put (NewPaymentChannelStorage G st) (payment_key (tx_payment tx)) (committed_channel tx) w = (e, w0)"
    and u: "lockType_Unlock \<lparr>lock_name = PaymentChannelKey_String (payment_key (tx_payment tx)), lock_locker = NewEtcdLocker st\<rparr> w0 = (u, w1)"
    and r: "r = (case e of Inl _ \<Rightarrow> Inl (NewPaymentError Internal (Lit ''unable to store new payment channel state'') [])
          | Inr _ \<Rightarrow> Inr ())" and s: "channel_storable (committed_channel tx)"
    by (rule Commit_cases)
  from channel_Put_responsive [OF assms(1) s, of "payment_key (tx_payment tx)" w] p
  have e: "e = Inr ()" "channel_readable G (view w0) (payment_key (tx_payment tx))" by auto
  with r have r': "r = Inr ()" by simp
  have "channel_readable G (view w1) (payment_key (tx_payment tx))"
    using lk.Unlock_cases [OF u] e(2) by auto
  with c r' Commit_ok [of tx w w1] assms(2) that show ?thesis by simp
qed

lemma correct_call:
  assumes "responsive st" "escrow_typed md" "payment_of md_Get h addr income md info = Inr p"
    and "lock_free (view w) (PaymentChannelKey_String (payment_key p))" "channel_readable G (view w) (payment_key p)"
    and "\<And>w1. latest_channel (fst (replicaGroupID h)) (channel_table G (view w) (payment_key p))
      (GetChannelStateFromBlockchain (blockchainReader h) (payment_key p) w1) = Inr (Some c)"
    and "pays E h (priceInCogs income) p c"
  obtains w1 where "view w1 = (view w)(channel_lock (payment_key p) \<mapsto> locked)"
    "\<And>handler. escrow_intercept E md_Get h addr income (Some md) info handler w =
      (case handler w1 of (r, w2) \<Rightarrow> intercept_deferred (NewPaymentHandler E md_Get h addr income) (transaction st h p c) r w2)"
proof -
  obtain w1 where s: "StartPaymentTransaction E h p w = (Inr (transaction st h p c), w1)"
    "view w1 = (view w)(channel_lock (payment_key p) \<mapsto> locked)"
    by (rule correct_payment_started [OF assms(1,4-7)])
  have "incomeValidator_Validate income \<lparr>Income = Amount p - AuthorizedAmount c, GrpcContext = ctx\<rparr> = None" for ctx :: GrpcStreamContext
    using assms(7) by (simp add: incomeValidator_Validate_def pays_def Let_def)
  with s(1) assms(3) have "handler_Payment (NewPaymentHandler E md_Get h addr income) \<lparr>context_MD = md, context_Info = info\<rparr> w =
      (Inr (transaction st h p c), w1)"
    by (simp add: NewPaymentHandler_def Let_def paymentHandler_Payment_def paymentHandler_start_def paymentTransaction_Channel_def)
  then have "escrow_intercept E md_Get h addr income (Some md) info handler w =
      (case handler w1 of (r, w2) \<Rightarrow> intercept_deferred (NewPaymentHandler E md_Get h addr income) (transaction st h p c) r w2)" for handler
    by (simp add: paymentValidationInterceptor_intercept_def getGrpcContext_def escrow_handler [OF assms(2)] del: fun_upd_apply)
  with s(2) that show ?thesis by blast
qed

lemma deferred_outcome:
  assumes "responsive st" "pays E h price p c"
  shows "intercept_deferred (NewPaymentHandler E md_Get h addr income) (transaction st h p c) (Returns (Some e)) w2 = (out, w') \<Longrightarrow>
      out = Returns (Some e)"
    and "intercept_deferred (NewPaymentHandler E md_Get h addr income) (transaction st h p c) (Panics m) w2 = (out, w') \<Longrightarrow>
      \<exists>m'. out = Panics m'"
    and "\<exists>w'. intercept_deferred (NewPaymentHandler E md_Get h addr income) (transaction st h p c) (Returns None) w2 = (Returns None, w') \<and>
      channel_table G (view w') = (channel_table G (view w2))
        (payment_key p \<mapsto> c\<lparr>AuthorizedAmount := Amount p, Signature := payment_Signature p\<rparr>) \<and>
      channel_readable G (view w') (payment_key p) \<and>
      (lock_table (view w2) (PaymentChannelKey_String (payment_key p)) = Some locked \<longrightarrow>
        lock_free (view w') (PaymentChannelKey_String (payment_key p)))"
proof -
  let ?tx = "transaction st h p c"
  assume "intercept_deferred (NewPaymentHandler E md_Get h addr income) ?tx (Returns (Some e)) w2 = (out, w')"
  then show "out = Returns (Some e)"
    by (auto simp: intercept_deferred_def NewPaymentHandler_def Let_def paymentHandler_CompleteAfterError_def Rollback_def split: prod.splits)
next
  let ?tx = "transaction st h p c"
  assume "intercept_deferred (NewPaymentHandler E md_Get h addr income) ?tx (Panics m) w2 = (out, w')"
  then show "\<exists>m'. out = Panics m'" by (auto simp: intercept_deferred_def split: prod.splits)
next
  let ?tx = "transaction st h p c"
  have tx: "transaction_of st h ?tx" by (rule pays_transaction_of [OF assms(2)])
  obtain w' where c: "Commit ?tx w2 = (Inr (), w')"
    "channel_table G (view w') = (channel_table G (view w2))(payment_key p \<mapsto> committed_channel ?tx)"
    "channel_readable G (view w') (payment_key p)"
    using Commit_responsive [OF assms(1) tx, of w2] by auto
  have "lock_free (view w') (PaymentChannelKey_String (payment_key p))"
    if "lock_table (view w2) (PaymentChannelKey_String (payment_key p)) = Some locked"
    using release_locks(1) [OF c(1) tx responsive_reliable [OF assms(1)]] that by (simp add: lock_free_def)
  moreover have "committed_channel ?tx = c\<lparr>AuthorizedAmount := Amount p, Signature := payment_Signature p\<rparr>"
    by (simp add: committed_channel_def)
  ultimately show "\<exists>w'. intercept_deferred (NewPaymentHandler E md_Get h addr income) ?tx (Returns None) w2 = (Returns None, w') \<and>
      channel_table G (view w') = (channel_table G (view w2))
        (payment_key p \<mapsto> c\<lparr>AuthorizedAmount := Amount p, Signature := payment_Signature p\<rparr>) \<and>
      channel_readable G (view w') (payment_key p) \<and>
      (lock_table (view w2) (PaymentChannelKey_String (payment_key p)) = Some locked \<longrightarrow>
        lock_free (view w') (PaymentChannelKey_String (payment_key p)))"
    using c by (intro exI [of _ w'])
      (simp add: intercept_deferred_def NewPaymentHandler_def Let_def paymentHandler_Complete_def)
qed

lemma session:
  assumes "responsive st" "\<And>w. GetChannelStateFromBlockchain (blockchainReader h) key w = Inr (Some bc)"
    and "\<And>w. \<exists>w'. handler w = (Returns None, w') \<and> view w' = view w"
  shows "lock_free (view w) (PaymentChannelKey_String key) \<Longrightarrow> channel_readable G (view w) key \<Longrightarrow>
    latest_channel (fst (replicaGroupID h)) (channel_table G (view w) key) (Inr (Some bc)) = Inr (Some c) \<Longrightarrow>
    pay_in_turn E md_Get h addr income info key mds c \<Longrightarrow>
    \<exists>w' d. calls (map (\<lambda>md. escrow_intercept E md_Get h addr income (Some md) info handler) mds) w =
      (replicate (length mds) (Returns None), w') \<and>
      lock_free (view w') (PaymentChannelKey_String key) \<and> channel_readable G (view w') key \<and>
      latest_channel (fst (replicaGroupID h)) (channel_table G (view w') key) (Inr (Some bc)) = Inr (Some d) \<and>
      Nonce d = Nonce c \<and> AuthorizedAmount d = AuthorizedAmount c + int (length mds) * priceInCogs income \<and>
      (mds \<noteq> [] \<longrightarrow> channel_table G (view w') key = Some d)"
proof (induction mds arbitrary: w c)
  case Nil
  then show ?case by auto
next
  case (Cons md mds)
  from Cons.prems(4) obtain p where p: "escrow_typed md" "payment_of md_Get h addr income md info = Inr p" "key = payment_key p"
    "pays E h (priceInCogs income) p c"
    "pay_in_turn E md_Get h addr income info key mds (c\<lparr>AuthorizedAmount := Amount p, Signature := payment_Signature p\<rparr>)"
    by (auto split: sum.splits)
  let ?c = "c\<lparr>AuthorizedAmount := Amount p, Signature := payment_Signature p\<rparr>"
  obtain w1 where w1: "view w1 = (view w)(channel_lock key \<mapsto> locked)"
    "\<And>handler. escrow_intercept E md_Get h addr income (Some md) info handler w =
      (case handler w1 of (r, w2) \<Rightarrow> intercept_deferred (NewPaymentHandler E md_Get h addr income) (transaction st h p c) r w2)"
    using correct_call [OF assms(1) p(1,2) _ _ _ p(4), of w] Cons.prems(1-3) assms(2) p(3) by metis
  obtain w2 where w2: "handler w1 = (Returns None, w2)" "view w2 = view w1" using assms(3) by blast
  obtain w3 where w3: "intercept_deferred (NewPaymentHandler E md_Get h addr income) (transaction st h p c) (Returns None) w2 = (Returns None, w3)"
    "channel_table G (view w3) = (channel_table G (view w))(key \<mapsto> ?c)" "channel_readable G (view w3) key"
    "lock_free (view w3) (PaymentChannelKey_String key)"
    using deferred_outcome(3) [OF assms(1) p(4), of md_Get addr income w2] w1(1) w2(2) p(3) by auto
  have first: "escrow_intercept E md_Get h addr income (Some md) info handler w = (Returns None, w3)"
    using w1(2) [of handler] w2(1) w3(1) by simp
  have "latest_channel (fst (replicaGroupID h)) (channel_table G (view w3) key) (Inr (Some bc)) = Inr (Some ?c)"
    using latest_channel_charged [OF Cons.prems(3)] w3(2) by simp
  from Cons.IH [OF w3(4,3) this p(5)] obtain w' d where rest:
    "calls (map (\<lambda>md. escrow_intercept E md_Get h addr income (Some md) info handler) mds) w3 = (replicate (length mds) (Returns None), w')"
    "lock_free (view w') (PaymentChannelKey_String key)" "channel_readable G (view w') key"
    "latest_channel (fst (replicaGroupID h)) (channel_table G (view w') key) (Inr (Some bc)) = Inr (Some d)"
    "Nonce d = Nonce ?c" "AuthorizedAmount d = AuthorizedAmount ?c + int (length mds) * priceInCogs income"
    "mds \<noteq> [] \<longrightarrow> channel_table G (view w') key = Some d"
    by blast
  have "channel_table G (view w') key = Some d"
  proof (cases "mds = []")
    case True
    with rest(1,4) w3(2) latest_channel_charged [OF Cons.prems(3)] show ?thesis by simp
  qed (use rest(7) in simp)
  moreover have "AuthorizedAmount d = AuthorizedAmount c + int (length (md # mds)) * priceInCogs income"
    using rest(6) p(4) by (simp add: pays_def algebra_simps)
  ultimately show ?case using rest first by (intro exI [of _ w'] exI [of _ d]) simp
qed

text \<open>Claims.\<close>

lemma ListClaims_responsive:
  assumes "responsive st" "payments_wf G (view w)"
  obtains cs w1 where "ListClaims h w = (Inr cs, w1)"
proof -
  obtain r w1 where g: "GetByKeyPrefix st (payment_prefix @ CHR ''/'' # []) w = (r, w1)" by fastforce
  with assms(1) obtain ss where ss: "r = Inr ss" by (cases r) (auto simp: responsive_def)
  from GetByKeyPrefix_ok [OF g [unfolded ss]] obtain ks where ks: "set ks = {k \<in> dom (view w). prefix (payment_prefix @ ''/'') k}"
    "ss = map (\<lambda>k. the (view w k)) ks" by auto
  have "\<exists>p. deserialize_payment G x = Inr p" if "x \<in> set ss" for x
  proof -
    from that ks(2) obtain k where k: "k \<in> set ks" "x = the (view w k)" by auto
    with ks(1) obtain s where "strip payment_prefix (view w) s = Some x" by (auto simp: prefix_def strip_def)
    with assms(2) show ?thesis unfolding payments_wf_def by blast
  qed
  then obtain ps where "deserialize_all (deserialize_payment G) ss = Inr ps" using deserialize_all_total by blast
  with g ss that show ?thesis
    by (auto simp: ListClaims_def h_simps PaymentStorage_defs TypedAtomicStorageImpl_GetAll_def as_AtomicStorage_def
        PrefixedAtomicStorage_defs)
qed

lemma payment_Delete_responsive: "responsive st \<Longrightarrow> \<exists>w1. PaymentStorage_Delete (NewPaymentStorage G st) p w = (Inr (), w1)"
proof -
  assume r: "responsive st"
  obtain s where s: "serialize_id G (Payment_ID p) = Inr s" using gob_id_total by blast
  obtain x w1 where d: "Delete st (payment_prefix @ CHR ''/'' # s) w = (x, w1)" by fastforce
  with r have "x = Inr ()" by (cases x) (auto simp: responsive_def)
  with s d show ?thesis
    by (simp add: PaymentStorage_defs TypedAtomicStorageImpl_Delete_def as_AtomicStorage_def PrefixedAtomicStorage_defs)
qed

lemma payment_Put_responsive:
  assumes "responsive st" "payment_storable p"
  shows "\<exists>w1. PaymentStorage_Put (NewPaymentStorage G st) p w = (Inr (), w1)"
proof -
  obtain s x where s: "serialize_id G (Payment_ID p) = Inr s" "serialize_payment G p = Inr x" using gob_id_total gob_payment [OF assms(2)] by blast
  obtain r w1 where d: "Put st (payment_prefix @ CHR ''/'' # s) x w = (r, w1)" by fastforce
  with assms(1) have "r = Inr ()" by (cases r) (auto simp: responsive_def)
  with s d show ?thesis
    by (simp add: PaymentStorage_defs TypedAtomicStorageImpl_Put_def as_AtomicStorage_def PrefixedAtomicStorage_defs)
qed

lemma finishClaimed_responsive:
  assumes "responsive st" "\<And>key w e. GetChannelStateFromBlockchain (blockchainReader h) key w \<noteq> Inl e"
  shows "\<exists>w1. finishClaimed h (map (claim_of h) ps) w = (Inr (), w1)"
proof (induction ps arbitrary: w)
  case (Cons p ps)
  obtain w1 where "PaymentStorage_Delete (NewPaymentStorage G st) p w = (Inr (), w1)"
    using payment_Delete_responsive [OF assms(1)] by blast
  with Cons.IH assms(2) show ?case
    by (auto simp: Let_def claimImpl_Payment_def claimImpl_Finish_def PaymentChannelFromBlockChain_def h_simps
        split: sum.splits option.splits)
qed simp

lemma removeClaimedPayments_responsive:
  assumes "responsive st" "\<And>key w e. GetChannelStateFromBlockchain (blockchainReader h) key w \<noteq> Inl e"
    and "channelService svc = h" "payments_keyed G (view w)"
  obtains w1 where "removeClaimedPayments svc w = (Inr (), w1)"
proof -
  have wf: "payments_wf G (view w)" using assms(4) by (simp add: payments_keyed_def)
  obtain cs w0 where l: "ListClaims h w = (Inr cs, w0)" by (rule ListClaims_responsive [OF assms(1) wf])
  then obtain ps where "cs = map (claim_of h) ps" using assms(4) by (elim ListClaims_ok)
  with l that finishClaimed_responsive [OF assms(1,2), of ps w0] assms(3) show ?thesis by (auto simp: removeClaimedPayments_def)
qed

lemma StartClaim_responsive:
  assumes "responsive st" "lock_free (view w) (PaymentChannelKey_String key)" "channel_table G (view w) key = Some c" "channel_storable c"
  obtains w1 where "StartClaim h key IncrementChannelNonce w = (Inr (claim_of h (getPaymentFromChannel c)), w1)"
proof -
  obtain w1 where l: "etcdLocker_Lock (NewEtcdLocker st) (PaymentChannelKey_String key) w =
      (Inr (Some \<lparr>lock_name = PaymentChannelKey_String key, lock_locker = NewEtcdLocker st\<rparr>), w1)"
    "view w1 = (view w)(channel_lock key \<mapsto> locked)"
    by (rule Lock_responsive [OF assms(1,2)])
  then have t1: "channel_table G (view w1) key = Some c" using assms(3) by simp
  obtain w2 where g: "PaymentChannelStorage_Get (NewPaymentChannelStorage G st) key w1 = (Inr (Some c), w2)" "view w2 = view w1"
    using channel_Get_responsive [OF assms(1) stored_readable [OF t1]] t1 by metis
  have "channel_storable (IncrementChannelNonce c)" by (simp add: channel_storable_def IncrementChannelNonce_def)
  then obtain w3 where p: "PaymentChannelStorage_Put (NewPaymentChannelStorage G st) key (IncrementChannelNonce c) w2 = (Inr (), w3)"
    by (rule channel_Put_responsive [OF assms(1)])
  have "payment_storable (getPaymentFromChannel c)"
    using assms(4) by (simp add: payment_storable_def channel_storable_def getPaymentFromChannel_def)
  then obtain w4 where q: "PaymentStorage_Put (NewPaymentStorage G st) (getPaymentFromChannel c) w3 = (Inr (), w4)"
    using payment_Put_responsive [OF assms(1)] by blast
  obtain u w5 where "lockType_Unlock \<lparr>lock_name = PaymentChannelKey_String key, lock_locker = NewEtcdLocker st\<rparr> w4 = (u, w5)" by fastforce
  with l g p q that show ?thesis by (simp add: StartClaim_def StartClaim_locked_def h_simps Let_def)
qed

lemma correct_claim:
  fixes req :: StartClaimRequest
  assumes "responsive st" "\<And>key w e. GetChannelStateFromBlockchain (blockchainReader h) key w \<noteq> Inl e"
    and "channelService svc = h" "payments_keyed G (view w)"
  defines "key \<equiv> \<lparr>ID = bytesToBigInt (claim_ChannelId req)\<rparr>"
  assumes "lock_free (view w) (PaymentChannelKey_String key)" "channel_table G (view w) key = Some c" "channel_storable c"
    and "\<And>w bc. GetChannelStateFromBlockchain (blockchainReader h) key w = Inr (Some bc) \<Longrightarrow> Nonce bc \<le> Nonce c"
    and "\<not> 2 ^ 64 dvd AuthorizedAmount c" "claim_MpeAddress req = MpeAddress (serviceMetaData svc)"
    and "getSignerAddressFromMessage E (start_claim_message E svc (ID key) (Nonce c)) (claim_Signature req) =
      Inr (GetPaymentAddress (serviceMetaData svc))"
  shows "\<exists>w'. ProviderControlService_StartClaim E svc req w = (Returns (Inr
    \<lparr>reply_ChannelId = bigIntToBytes E (ID key), reply_ChannelNonce = bigIntToBytes E (Nonce c),
     reply_SignedAmount = bigIntToBytes E (AuthorizedAmount c), reply_Signature = Signature c\<rparr>), w')"
proof -
  have latest: "\<exists>d w1. PaymentChannel h key w = (Inr (Some d), w1) \<and> view w1 = view w \<and> Nonce d = Nonce c \<and>
      AuthorizedAmount d = AuthorizedAmount c" if t: "channel_table G (view w) key = Some c" for w
  proof -
    obtain w1 where w1: "view w1 = view w" "PaymentChannel h key w = (latest_channel (fst (replicaGroupID h)) (Some c)
        (GetChannelStateFromBlockchain (blockchainReader h) key w1), w1)"
      using PaymentChannel_responsive [OF assms(1) stored_readable [OF t]] t by metis
    show ?thesis
    proof (cases "GetChannelStateFromBlockchain (blockchainReader h) key w1")
      case (Inl e)
      with assms(2) show ?thesis by blast
    next
      case (Inr x)
      with w1 assms(9) [of w1] show ?thesis by (cases x) auto
    qed
  qed
  from latest [OF assms(7)] obtain d w1 where v: "PaymentChannel h key w = (Inr (Some d), w1)" "view w1 = view w" "Nonce d = Nonce c" by blast
  have "payments_keyed G (view w1)" using assms(4) v(2) by simp
  then obtain w2 where r: "removeClaimedPayments svc w1 = (Inr (), w2)"
    by (rule removeClaimedPayments_responsive [OF assms(1,2,3)])
  have t2: "channel_table G (view w2) key = Some c" "lock_free (view w2) (PaymentChannelKey_String key)"
    using removeClaimedPayments_frame [OF r assms(3) \<open>payments_keyed G (view w1)\<close>] assms(6,7) v(2) by (simp_all add: lock_free_def)
  from latest [OF t2(1)] obtain d' w3 where b: "PaymentChannel h key w2 = (Inr (Some d'), w3)" "view w3 = view w2"
    "AuthorizedAmount d' = AuthorizedAmount c" by blast
  obtain w4 where cl: "StartClaim h key IncrementChannelNonce w3 = (Inr (claim_of h (getPaymentFromChannel c)), w4)"
    using StartClaim_responsive [OF assms(1), of w3 key c] t2 b(2) assms(8) by auto
  show ?thesis
    using v r b cl assms(3,10-12)
    by (simp add: ProviderControlService_StartClaim_def checkMpeAddress_def verifySignerForStartClaim_def verifySigner_def
        verifyPaymentAddress_def beginClaimOnChannel_def Int64_eq_0_iff claimImpl_Payment_def getPaymentFromChannel_def key_def Let_def)
qed

end

section \<open>The sample daemon answers\<close>

lemma memory_responsive: "responsive (memory_AtomicStorage key_order)"
  using memory_reliable by (auto simp: responsive_def memory_AtomicStorage_def memoryStorage_defs split: option.splits)

abbreviation sample_pay :: "int \<Rightarrow> Payment" where
  "sample_pay a \<equiv> \<lparr>MpeContractAddress = 11, payment_ChannelID = 1, ChannelNonce = 0, Amount = a,
     payment_Signature = Some (sample_signature 7)\<rparr>"

lemma sample_payment_of: "payment_of sample_md_Get sample_service 11 (NewIncomeValidator 3) (sample_md 1 0 a) info = Inr (sample_pay a)"
proof -
  have "string_bytes (map (\<lambda>b. char_of (unat b)) (sample_signature 7)) = sample_signature 7" by code_simp
  then show ?thesis
    by (simp add: getPaymentFromContext_def GetBigInt_def GetBytes_def GetSingleValue_def Let_def sample_md_Get_def sample_md_def
        UnmarshalText_show_int PaymentChannelIDHeader_def PaymentChannelNonceHeader_def PaymentChannelAmountHeader_def
        PaymentChannelSignatureHeader_def suffix_def)
qed

lemma sample_escrow_typed: "escrow_typed (sample_md i n a)"
  by (simp add: escrow_typed_def sample_md_def PaymentTypeHeader_def PaymentChannelIDHeader_def PaymentChannelNonceHeader_def
      PaymentChannelAmountHeader_def PaymentChannelSignatureHeader_def)

lemma sample_pays:
  "a \<le> 100 \<Longrightarrow> pays sample_eth sample_service 3 (sample_pay a) (sample_channel\<lparr>AuthorizedAmount := a - 3, Signature := x\<rparr>)"
  "pays sample_eth sample_service 3 (sample_pay 3) sample_channel"
  by (simp_all add: pays_def sample_channel_def sample_validator_def getSignerAddressFromPayment_def slice_bytes_def sample_signer)

lemma sample_ready:
  "lock_free (memory_view NewMemStorage) n" "channel_readable ints_gob (memory_view NewMemStorage) key"
  by (simp_all add: lock_free_def lock_table_def channel_readable_def strip_def memory_view_def NewMemStorage_def)

lemma sample_latest:
  "latest_channel 9 None (Inr (Some sample_channel)) = Inr (Some sample_channel)"
  by (simp add: verifyGroupId_def)

section \<open>Properties\<close>

text \<open>
  C6. A client who pays is served. While the storage answers, a call whose headers hold a correct payment for a channel that no other
  call is using is passed on to the service, and the caller gets the service's own outcome: its success, then the channel
  is charged; its error; or its panic.
\<close>

theorem correct_payment_is_served:
  assumes "payment_service st view G h" "responsive st" "escrow_typed md" "payment_of md_Get h addr income md info = Inr p"
    and "lock_free (view w) (PaymentChannelKey_String (payment_key p))" "channel_readable G (view w) (payment_key p)"
    and "\<And>w1. latest_channel (fst (replicaGroupID h)) (channel_table G (view w) (payment_key p))
      (GetChannelStateFromBlockchain (blockchainReader h) (payment_key p) w1) = Inr (Some c)"
    and "pays E h (priceInCogs income) p c"
  shows "\<exists>w1 r w2 out w'. view w1 = (view w)(channel_lock (payment_key p) \<mapsto> locked) \<and> handler w1 = (r, w2) \<and>
    escrow_intercept E md_Get h addr income (Some md) info handler w = (out, w') \<and>
    (case r of
       Returns None \<Rightarrow> out = Returns None \<and> channel_table G (view w') = (channel_table G (view w2))
         (payment_key p \<mapsto> c\<lparr>AuthorizedAmount := Amount p, Signature := payment_Signature p\<rparr>)
     | Returns (Some e) \<Rightarrow> out = Returns (Some e)
     | Panics m \<Rightarrow> \<exists>m'. out = Panics m')"
proof -
  obtain w1 where w1: "view w1 = (view w)(channel_lock (payment_key p) \<mapsto> locked)"
    "\<And>handler. escrow_intercept E md_Get h addr income (Some md) info handler w =
      (case handler w1 of (r, w2) \<Rightarrow> intercept_deferred (NewPaymentHandler E md_Get h addr income) (transaction st h p c) r w2)"
    by (rule payment_service.correct_call [OF assms]) blast
  obtain r w2 where h: "handler w1 = (r, w2)" by (cases "handler w1")
  obtain out w' where o: "escrow_intercept E md_Get h addr income (Some md) info handler w = (out, w')"
    "intercept_deferred (NewPaymentHandler E md_Get h addr income) (transaction st h p c) r w2 = (out, w')"
    using w1(2) [of handler] h
    by (cases "intercept_deferred (NewPaymentHandler E md_Get h addr income) (transaction st h p c) r w2") simp
  note d = payment_service.deferred_outcome [OF assms(1,2,8), of md_Get addr income]
  have "case r of
       Returns None \<Rightarrow> out = Returns None \<and> channel_table G (view w') = (channel_table G (view w2))
         (payment_key p \<mapsto> c\<lparr>AuthorizedAmount := Amount p, Signature := payment_Signature p\<rparr>)
     | Returns (Some e) \<Rightarrow> out = Returns (Some e)
     | Panics m \<Rightarrow> \<exists>m'. out = Panics m'"
    using d(1,2) d(3) [of w2] o(2) by (auto split: go.split option.split)
  with w1(1) h o(1) show ?thesis by blast
qed

theorem correct_payment_is_served_witness:
  "fst (escrow_intercept sample_eth sample_md_Get sample_service 11 (NewIncomeValidator 3) (Some (sample_md 1 0 3)) ''call''
     (\<lambda>w. (Returns (Some (errors_New ''no'')), w)) NewMemStorage) = Returns (Some (errors_New ''no''))"
proof -
  have price: "priceInCogs (NewIncomeValidator 3) = 3" by (simp add: NewIncomeValidator_def)
  show ?thesis
    using correct_payment_is_served [OF sample_payment_service memory_responsive sample_escrow_typed sample_payment_of [of 3 "''call''"],
        of NewMemStorage sample_channel sample_eth "\<lambda>w. (Returns (Some (errors_New ''no'')), w)"]
      sample_ready sample_pays(2) sample_latest by (simp add: price sample_from_chain) fastforce
qed

text \<open>
  C7. And is served again. As long as the blockchain shows the channel unchanged, a client can make one call after the other, each with a
  payment that is correct for the channel as the last call left it: all of them succeed, and together they
  authorise exactly the price times their number. The lock is free for the next call.
\<close>

theorem paid_calls_are_all_served:
  assumes "payment_service st view G h" "responsive st"
    and "\<And>w. GetChannelStateFromBlockchain (blockchainReader h) key w = Inr (Some bc)"
    and "\<And>w. \<exists>w'. handler w = (Returns None, w') \<and> view w' = view w"
    and "lock_free (view w) (PaymentChannelKey_String key)" "channel_readable G (view w) key"
    and "latest_channel (fst (replicaGroupID h)) (channel_table G (view w) key) (Inr (Some bc)) = Inr (Some c)"
    and "pay_in_turn E md_Get h addr income info key mds c" "mds \<noteq> []"
  shows "\<exists>w' d. calls (map (\<lambda>md. escrow_intercept E md_Get h addr income (Some md) info handler) mds) w =
      (replicate (length mds) (Returns None), w') \<and> lock_free (view w') (PaymentChannelKey_String key) \<and>
      channel_table G (view w') key = Some d \<and> Nonce d = Nonce c \<and>
      AuthorizedAmount d = AuthorizedAmount c + int (length mds) * priceInCogs income"
  using payment_service.session [OF assms(1-8)] assms(9) by blast

theorem paid_calls_are_all_served_witness:
  "\<exists>w' d. calls (map (\<lambda>md. escrow_intercept sample_eth sample_md_Get sample_service 11 (NewIncomeValidator 3) (Some md) ''call''
      (\<lambda>w. (Returns None, w))) [sample_md 1 0 3, sample_md 1 0 6]) NewMemStorage = ([Returns None, Returns None], w') \<and>
    channel_table ints_gob (memory_view w') \<lparr>ID = 1\<rparr> = Some d \<and> AuthorizedAmount d = 6"
proof -
  have price: "priceInCogs (NewIncomeValidator 3) = 3" by (simp add: NewIncomeValidator_def)
  have "pay_in_turn sample_eth sample_md_Get sample_service 11 (NewIncomeValidator 3) ''call'' \<lparr>ID = 1\<rparr>
      [sample_md 1 0 3, sample_md 1 0 6] sample_channel"
    using sample_pays(1) [of 6 "Some (sample_signature 7)"] sample_pays(2) by (simp add: sample_payment_of sample_escrow_typed price)
  from paid_calls_are_all_served [OF sample_payment_service memory_responsive _ _ _ _ _ this, of sample_channel
      "\<lambda>w. (Returns None, w)" NewMemStorage]
  show ?thesis by (simp add: sample_from_chain sample_ready verifyGroupId_def price numeral_2_eq_2) blast
qed



end
