(* ===== verification/Passthrough.thy ===== *)
theory Passthrough
  imports Proxy Config
begin

text \<open>
  What the daemon does with a call besides proxying it: the codec of raw frames (\<^verbatim>\<open>codec/codec.go\<close>), the choice of the handler and the
  handlers for JSON-RPC services, executables and no service at all (\<^verbatim>\<open>handler/grpc.go\<close>), and the handler of the HTTP daemon
  (\<^verbatim>\<open>handler/httphandler/http.go\<close>).

  JSON, the JSON-RPC encoding, HTTP, processes and the rate limiter are arguments. A value of type \<^verbatim>\<open>interface{}\<close> that is passed to a
  codec is a frame or something else.
\<close>

section \<open>The codec\<close>

datatype 'v codec_value = GrpcFrame bytes | Message 'v

record 'v Codec =
  codec_Marshal :: "'v codec_value \<Rightarrow> bytes result go"
  codec_Unmarshal :: "bytes \<Rightarrow> 'v codec_value \<Rightarrow> 'v codec_value result go"
  codec_Name :: string

record 'v bytesCodec =
  codec_label :: string
  fallback :: "'v Codec option"

definition not_a_frame :: "'v codec_value \<Rightarrow> error" where
  "not_a_frame v = fmt_Errorf ''object %+v not of type codec.GrpcFrame'' []"

definition bytesCodec_Marshal :: "'v bytesCodec \<Rightarrow> 'v codec_value \<Rightarrow> bytes result go" where
  "bytesCodec_Marshal s v =
     (case v of
        GrpcFrame d \<Rightarrow> Returns (Inr d)
      | Message _ \<Rightarrow>
          (case fallback s of
             None \<Rightarrow> Returns (Inl (not_a_frame v))
           | Some f \<Rightarrow> codec_Marshal f v))"

text \<open>\<^verbatim>\<open>Unmarshal\<close> writes to its argument; the result is the argument afterwards.\<close>

definition bytesCodec_Unmarshal :: "'v bytesCodec \<Rightarrow> bytes \<Rightarrow> 'v codec_value \<Rightarrow> 'v codec_value result go" where
  "bytesCodec_Unmarshal s bs v =
     (case v of
        GrpcFrame _ \<Rightarrow> Returns (Inr (GrpcFrame bs))
      | Message _ \<Rightarrow>
          (case fallback s of
             None \<Rightarrow> Returns (Inl (not_a_frame v))
           | Some f \<Rightarrow> codec_Unmarshal f bs v))"

definition BytesCodec :: "string \<Rightarrow> 'v Codec option \<Rightarrow> 'v Codec" where
  "BytesCodec nm fb =
     (let s = \<lparr>codec_label = nm, fallback = fb\<rparr> in
      \<lparr>codec_Marshal = bytesCodec_Marshal s, codec_Unmarshal = bytesCodec_Unmarshal s, codec_Name = codec_label s\<rparr>)"

text \<open>
  The protobuf codec. The type assertion panics for a value that is no \<^verbatim>\<open>proto.Message\<close> (\<open>is_Message\<close>); a frame is none.
\<close>

abbreviation not_message :: "'a go" where
  "not_message \<equiv> Panics (Lit ''interface conversion: interface is not proto.Message'')"

definition protoCodec_Marshal :: "('v \<Rightarrow> bool) \<Rightarrow> ('v \<Rightarrow> bytes result) \<Rightarrow> 'v codec_value \<Rightarrow> bytes result go" where
  "protoCodec_Marshal is_Message proto_Marshal v =
     (case v of
        Message x \<Rightarrow> if is_Message x then Returns (proto_Marshal x) else not_message
      | GrpcFrame _ \<Rightarrow> not_message)"

definition protoCodec_Unmarshal ::
  "('v \<Rightarrow> bool) \<Rightarrow> (bytes \<Rightarrow> 'v \<Rightarrow> 'v result) \<Rightarrow> bytes \<Rightarrow> 'v codec_value \<Rightarrow> 'v codec_value result go" where
  "protoCodec_Unmarshal is_Message proto_Unmarshal bs v =
     (case v of
        Message x \<Rightarrow>
          if is_Message x then Returns (case proto_Unmarshal bs x of Inl err \<Rightarrow> Inl err | Inr y \<Rightarrow> Inr (Message y))
          else not_message
      | GrpcFrame _ \<Rightarrow> not_message)"

definition protoCodec ::
  "('v \<Rightarrow> bool) \<Rightarrow> ('v \<Rightarrow> bytes result) \<Rightarrow> (bytes \<Rightarrow> 'v \<Rightarrow> 'v result) \<Rightarrow> 'v Codec" where
  "protoCodec is_Message proto_Marshal proto_Unmarshal =
     \<lparr>codec_Marshal = protoCodec_Marshal is_Message proto_Marshal,
      codec_Unmarshal = protoCodec_Unmarshal is_Message proto_Unmarshal, codec_Name = ''proto''\<rparr>"

text \<open>The two codecs that are registered; a later registration replaces an earlier one of the same name.\<close>

definition registered_codecs :: "'v Codec \<Rightarrow> string \<Rightarrow> 'v Codec option" where
  "registered_codecs proto = [''proto'' \<mapsto> BytesCodec ''proto'' (Some proto), ''json'' \<mapsto> BytesCodec ''json'' None]"

section \<open>Handlers of a call\<close>

record 'w ServerStream =
  RecvMsg :: "'w \<Rightarrow> bytes result \<times> 'w"
  SendMsg :: "bytes \<Rightarrow> 'w \<Rightarrow> unit result \<times> 'w"

abbreviation internal_error :: "string \<Rightarrow> error \<Rightarrow> error" where
  "internal_error format err \<equiv> status_Errorf codes_Internal format [error_text err]"

definition grpcLoopback :: "'w ServerStream \<Rightarrow> 'w \<Rightarrow> error option \<times> 'w" where
  "grpcLoopback inStream w =
     (case RecvMsg inStream w of
        (Inl err, w1) \<Rightarrow> (Some (internal_error ''error receiving request; error: %+v'' err), w1)
      | (Inr f, w1) \<Rightarrow>
          (case SendMsg inStream f w1 of
             (Inl err, w2) \<Rightarrow> (Some (internal_error ''error sending response; error: %+v'' err), w2)
           | (Inr _, w2) \<Rightarrow> (None, w2)))"

text \<open>\<^verbatim>\<open>strings.Split\<close> with a separator of one character, and the name of a method without its service.\<close>

fun strings_Split :: "char \<Rightarrow> string \<Rightarrow> string list" where
  "strings_Split c [] = [[]]"
| "strings_Split c (x # xs) =
     (if x = c then [] # strings_Split c xs
      else (x # hd (strings_Split c xs)) # tl (strings_Split c xs))"

definition method_name :: "string \<Rightarrow> string" where
  "method_name method = last (strings_Split (CHR ''/'') method)"

text \<open>The calls of \<^verbatim>\<open>grpcToJSONRPC\<close> to JSON, JSON-RPC and HTTP; \<open>'j\<close> is a decoded JSON value.\<close>

record ('j, 'w) jsonrpc =
  json_Unmarshal :: "bytes \<Rightarrow> 'j result"
  EncodeClientRequest :: "string \<Rightarrow> 'j \<Rightarrow> bytes result"
  rpc_NewRequest :: "string \<Rightarrow> unit result"
  rpc_Do :: "string \<Rightarrow> bytes \<Rightarrow> 'w \<Rightarrow> bytes result \<times> 'w"
  DecodeClientResponse :: "bytes \<Rightarrow> 'j result"
  json_Marshal :: "'j \<Rightarrow> bytes result"

text \<open>The body of the request from a received frame, and the frame of the reply from a received body.\<close>

definition jsonrpc_request :: "('j, 'w) jsonrpc \<Rightarrow> grpcHandler \<Rightarrow> string \<Rightarrow> bytes \<Rightarrow> bytes result" where
  "jsonrpc_request J g method f =
     (case json_Unmarshal J f of
        Inl err \<Rightarrow> Inl (internal_error ''error unmarshaling request; error: %+v'' err)
      | Inr params \<Rightarrow>
          (case EncodeClientRequest J method params of
             Inl err \<Rightarrow> Inl (internal_error ''error encoding request; error: %+v'' err)
           | Inr jsonRPCReq \<Rightarrow>
               (case rpc_NewRequest J (passthroughEndpoint g) of
                  Inl err \<Rightarrow> Inl (internal_error ''error creating http request; error: %+v'' err)
                | Inr _ \<Rightarrow> Inr jsonRPCReq)))"

definition jsonrpc_response :: "('j, 'w) jsonrpc \<Rightarrow> bytes \<Rightarrow> bytes result" where
  "jsonrpc_response J body =
     (case DecodeClientResponse J body of
        Inl err \<Rightarrow> Inl (internal_error ''json-rpc error; error: %+v'' err)
      | Inr result \<Rightarrow>
          (case json_Marshal J result of
             Inl err \<Rightarrow> Inl (internal_error ''error marshaling response; error: %+v'' err)
           | Inr respBytes \<Rightarrow> Inr respBytes))"

definition grpcToJSONRPC ::
  "('j, 'w) jsonrpc \<Rightarrow> grpcHandler \<Rightarrow> string option \<Rightarrow> 'w ServerStream \<Rightarrow> 'w \<Rightarrow> error option \<times> 'w" where
  "grpcToJSONRPC J g method inStream w =
     (case method of
        None \<Rightarrow> (Some (status_Errorf codes_Internal ''could not determine method from server stream'' []), w)
      | Some m \<Rightarrow>
          (case RecvMsg inStream w of
             (Inl err, w1) \<Rightarrow> (Some (internal_error ''error receiving request; error: %+v'' err), w1)
           | (Inr f, w1) \<Rightarrow>
               (case jsonrpc_request J g (method_name m) f of
                  Inl e \<Rightarrow> (Some e, w1)
                | Inr req \<Rightarrow>
                    (case rpc_Do J (passthroughEndpoint g) req w1 of
                       (Inl err, w2) \<Rightarrow> (Some (internal_error ''error executing http call; error: %+v'' err), w2)
                     | (Inr body, w2) \<Rightarrow>
                         (case jsonrpc_response J body of
                            Inl e \<Rightarrow> (Some e, w2)
                          | Inr respBytes \<Rightarrow>
                              (case SendMsg inStream respBytes w2 of
                                 (Inl err, w3) \<Rightarrow> (Some (internal_error ''error sending response; error: %+v'' err), w3)
                               | (Inr _, w3) \<Rightarrow> (None, w3)))))))"

text \<open>
  The executable gets the request on its standard input, which is a pipe of \<open>pipe_capacity\<close> bytes. The request is written before the
  process is started: nobody reads the pipe meanwhile, so a write that does not fit does not return. The result None of the handler
  means that it does not return.
\<close>

record 'w exec_Cmd =
  StdinPipe :: "unit result"
  pipe_capacity :: nat
  pipe_Write_error :: "error option"
  CombinedOutput :: "string \<Rightarrow> string \<Rightarrow> bytes \<Rightarrow> 'w \<Rightarrow> bytes result \<times> 'w"

definition stdin_Write :: "'w exec_Cmd \<Rightarrow> bytes \<Rightarrow> unit result option" where
  "stdin_Write cmd bs =
     (case pipe_Write_error cmd of
        Some err \<Rightarrow> Some (Inl err)
      | None \<Rightarrow> if length bs \<le> pipe_capacity cmd then Some (Inr ()) else None)"

definition grpcToProcess ::
  "'w exec_Cmd \<Rightarrow> grpcHandler \<Rightarrow> string option \<Rightarrow> 'w ServerStream \<Rightarrow> 'w \<Rightarrow> error option option \<times> 'w" where
  "grpcToProcess cmd g method inStream w =
     (case method of
        None \<Rightarrow> (Some (Some (status_Errorf codes_Internal ''could not determine method from server stream'' [])), w)
      | Some m \<Rightarrow>
          (case RecvMsg inStream w of
             (Inl err, w1) \<Rightarrow> (Some (Some (internal_error ''error receiving request; error: %+v'' err)), w1)
           | (Inr f, w1) \<Rightarrow>
               (case StdinPipe cmd of
                  Inl err \<Rightarrow> (Some (Some (internal_error ''error creating stdin pipe; error: %+v'' err)), w1)
                | Inr _ \<Rightarrow>
                    (case stdin_Write cmd f of
                       None \<Rightarrow> (None, w1)
                     | Some (Inl err) \<Rightarrow> (Some (Some (internal_error ''error writing to stdin; error: %+v'' err)), w1)
                     | Some (Inr _) \<Rightarrow>
                         (case CombinedOutput cmd (executable g) (method_name m) f w1 of
                            (Inl err, w2) \<Rightarrow> (Some (Some (internal_error ''error executing process; error: %+v'' err)), w2)
                          | (Inr out, w2) \<Rightarrow>
                              (case SendMsg inStream out w2 of
                                 (Inl err, w3) \<Rightarrow> (Some (Some (internal_error ''error sending response; error: %+v'' err)), w3)
                               | (Inr _, w3) \<Rightarrow> (Some None, w3)))))))"

text \<open>The choice of the handler. A service type that is not known gives a nil handler.\<close>

datatype grpc_handler = Loopback | ToGRPC grpcHandler string | ToJSONRPC grpcHandler | ToProcess grpcHandler | NilHandler

definition PassthroughEnabledKey :: string where "PassthroughEnabledKey = ''passthrough_enabled''"
definition ExecutablePathKey :: string where "ExecutablePathKey = ''executable_path''"

text \<open>\<open>url_Host\<close> is the host of a URL that parses; \<open>Dial\<close> the result of connecting to it.\<close>

definition NewGrpcHandler ::
  "viper \<Rightarrow> (string \<Rightarrow> string option) \<Rightarrow> (string \<Rightarrow> bool) \<Rightarrow> ServiceMetadata \<Rightarrow> grpc_handler go" where
  "NewGrpcHandler vip url_Host Dial serviceMetadata =
     (if \<not> vip_GetBool vip PassthroughEnabledKey then Returns Loopback
      else
        (let h = \<lparr>enc = GetWireEncoding serviceMetadata, passthroughEndpoint = vip_GetString vip PassthroughEndpointKey,
                  executable = vip_GetString vip ExecutablePathKey\<rparr>;
             serviceType = GetServiceType serviceMetadata in
         if serviceType = ''grpc'' then
           (case url_Host (passthroughEndpoint h) of
              None \<Rightarrow> Panics (Lit ''error parsing passthrough endpoint'')
            | Some host \<Rightarrow> if Dial host then Returns (ToGRPC h host) else Panics (Lit ''error dialing service''))
         else if serviceType = ''jsonrpc'' then Returns (ToJSONRPC h)
         else if serviceType = ''process'' then Returns (ToProcess h)
         else Returns NilHandler))"

section \<open>Facts\<close>

text \<open>A frame passes every registered codec as it is.\<close>

lemma codec_frame_roundtrip:
  assumes "registered_codecs proto nm = Some codec"
  shows "codec_Marshal codec (GrpcFrame d) = Returns (Inr d)" "codec_Unmarshal codec d (GrpcFrame x) = Returns (Inr (GrpcFrame d))"
  using assms
  by (auto simp: registered_codecs_def BytesCodec_def bytesCodec_Marshal_def bytesCodec_Unmarshal_def Let_def split: if_splits)

text \<open>The codec for JSON has no fallback: it refuses what is not a frame, without a panic.\<close>

lemma json_codec_refuses:
  "registered_codecs proto ''json'' = Some codec \<Longrightarrow> \<exists>e. codec_Marshal codec (Message v) = Returns (Inl e)"
  by (auto simp: registered_codecs_def BytesCodec_def bytesCodec_Marshal_def Let_def)

lemma strings_Split_not_Nil [simp]: "strings_Split c s \<noteq> []"
  by (cases s) auto

lemma strings_Split_none: "c \<notin> set s \<Longrightarrow> strings_Split c s = [s]"
  by (induction s) auto

lemma last_strings_Split_append: "last (strings_Split c (p @ c # n)) = last (strings_Split c n)"
proof (induction p)
  case (Cons x p)
  have "tl (strings_Split c (p @ c # n)) \<noteq> []" by (induction p) auto
  with Cons show ?case by (simp add: last_tl)
qed simp

text \<open>The method of a full method name is what comes after the last slash.\<close>

lemma method_name_path: "CHR ''/'' \<notin> set n \<Longrightarrow> method_name (p @ CHR ''/'' # n) = n"
  by (simp add: method_name_def last_strings_Split_append strings_Split_none)

lemma status_Errorf_Internal: "\<exists>m. status_Errorf codes_Internal f a = StatusErr \<lparr>status_code = codes_Internal, status_message = m\<rparr>"
  by (simp add: status_Errorf_def)

lemma loopback_echoes:
  assumes "RecvMsg st w = (Inr f, w1)" "SendMsg st f w1 = (Inr u, w2)"
  shows "grpcLoopback st w = (None, w2)"
  using assms by (simp add: grpcLoopback_def)

text \<open>
  A request that is larger than the pipe makes the handler of an executable wait for ever; a smaller one is run, with its method as the
  argument.
\<close>

lemma large_request_blocks:
  assumes "RecvMsg st w = (Inr f, w1)" "StdinPipe cmd = Inr u" "pipe_Write_error cmd = None"
  shows "fst (grpcToProcess cmd g (Some m) st w) = None \<longleftrightarrow> pipe_capacity cmd < length f"
  using assms by (auto simp: grpcToProcess_def stdin_Write_def split: prod.splits sum.splits)

section \<open>Properties\<close>

text \<open>
  A call to a JSON-RPC service that ends without an error made exactly one request: to the configured endpoint, for the method after the last
  slash, with the parameters decoded from the received frame; and sent one reply, the encoded result of the response. Every call that does not come
  this far ends with the status \<^verbatim>\<open>Internal\<close>.
\<close>

theorem jsonrpc_call:
  assumes "CHR ''/'' \<notin> set m" "grpcToJSONRPC J g (Some (p @ CHR ''/'' # m)) st w = (out, w')"
  shows "(out = None \<and> (\<exists>f params req body result resp w1 w2.
      RecvMsg st w = (Inr f, w1) \<and> json_Unmarshal J f = Inr params \<and> EncodeClientRequest J m params = Inr req \<and>
      rpc_Do J (passthroughEndpoint g) req w1 = (Inr body, w2) \<and> DecodeClientResponse J body = Inr result \<and>
      json_Marshal J result = Inr resp \<and> SendMsg st resp w2 = (Inr (), w'))) \<or>
    (\<exists>msg. out = Some (StatusErr \<lparr>status_code = codes_Internal, status_message = msg\<rparr>))"
  using assms(2)
  by (auto simp: grpcToJSONRPC_def jsonrpc_request_def jsonrpc_response_def method_name_path [OF assms(1)] status_Errorf_def
      split: prod.splits sum.splits)

definition echo_jsonrpc :: "(bytes, bytes list) jsonrpc" where
  "echo_jsonrpc =
     \<lparr>json_Unmarshal = Inr, EncodeClientRequest = (\<lambda>m params. Inr params), rpc_NewRequest = (\<lambda>_. Inr ()),
      rpc_Do = (\<lambda>_ req w. (Inr req, w)), DecodeClientResponse = Inr, json_Marshal = Inr\<rparr>"

definition echo_stream :: "bytes \<Rightarrow> bytes list ServerStream" where
  "echo_stream f = \<lparr>RecvMsg = (\<lambda>w. (Inr f, w)), SendMsg = (\<lambda>b w. (Inr (), w @ [b]))\<rparr>"

theorem jsonrpc_call_witness:
  "\<exists>w'. grpcToJSONRPC echo_jsonrpc \<lparr>enc = [], passthroughEndpoint = [], executable = []\<rparr> (Some ''/calc/add'') (echo_stream [1]) [] =
     (None, w') \<and> (\<exists>resp. SendMsg (echo_stream [1]) resp [] = (Inr (), w'))"
proof -
  let ?g = "\<lparr>enc = [], passthroughEndpoint = [], executable = []\<rparr>"
  have r: "grpcToJSONRPC echo_jsonrpc ?g (Some (''/calc'' @ CHR ''/'' # ''add'')) (echo_stream [1]) [] = (None, [[1]])"
    by (simp add: grpcToJSONRPC_def jsonrpc_request_def jsonrpc_response_def echo_jsonrpc_def echo_stream_def)
  from jsonrpc_call [OF _ r] show ?thesis using r by (auto simp: echo_stream_def)
qed

end
