(* ===== verification/HttpHandler.thy ===== *)
theory HttpHandler
  imports Config "HOL-Library.Log_Nat" Complex_Main
begin

text \<open>
  The HTTP daemon, \<^verbatim>\<open>handler/httphandler/http.go\<close>, and the settings of the rate limiter, \<^verbatim>\<open>ratelimit/rateLimit.go\<close>.

  The limiter of \<^verbatim>\<open>golang.org/x/time/rate\<close> is not part of the repository: its state is a type variable, and \<open>Allow\<close>, \<open>Every\<close>, \<open>rate_Inf\<close> and
  \<open>NewLimiter\<close> are arguments. The interval between two calls is computed with floating-point numbers; the rounding of a result to a
  double is spelled out on rational numbers.
\<close>

section \<open>Floating-point numbers\<close>

text \<open>Rounding of a positive number to 53 significant bits, to the nearest and to the even one between two.\<close>

definition round_even :: "rat \<Rightarrow> int" where
  "round_even x =
     (let n = \<lfloor>x\<rfloor>; d = x - of_int n in
      if d < 1 / 2 then n else if d > 1 / 2 then n + 1 else if even n then n else n + 1)"

definition exponent :: "rat \<Rightarrow> int" where
  "exponent x =
     (case quotient_of x of (p, q) \<Rightarrow>
        (let k = int (floorlog 2 (nat p)) - int (floorlog 2 (nat q)) in
         if (2 :: rat) powi k \<le> x then k else k - 1))"

definition double :: "rat \<Rightarrow> rat" where
  "double x =
     (if x = 0 then 0
      else let u = 2 powi (exponent \<bar>x\<bar> - 52) in sgn x * (of_int (round_even (\<bar>x\<bar> / u)) * u))"

text \<open>\<^verbatim>\<open>time.Duration(f)\<close> drops the fraction.\<close>

definition trunc :: "rat \<Rightarrow> int" where
  "trunc x = (if x \<ge> 0 then \<lfloor>x\<rfloor> else \<lceil>x\<rceil>)"

section \<open>The limit\<close>

definition interval_msec :: "int \<Rightarrow> int" where
  "interval_msec ratePerMin = trunc (double (double (double (1 / double (of_int ratePerMin)) * 60) * 1000))"

text \<open>A duration is in nanoseconds.\<close>

definition getLimit :: "viper \<Rightarrow> (int \<Rightarrow> 'limit) \<Rightarrow> 'limit \<Rightarrow> 'limit" where
  "getLimit vip Every rate_Inf =
     (let ratePerMin = vip_GetInt vip RateLimitPerMinute in
      if ratePerMin = 0 then rate_Inf else Every (interval_msec ratePerMin * 1000000))"

definition NewRateLimiter ::
  "viper \<Rightarrow> (int \<Rightarrow> 'limit) \<Rightarrow> 'limit \<Rightarrow> ('limit \<Rightarrow> int \<Rightarrow> 'limiter) \<Rightarrow> 'limiter" where
  "NewRateLimiter vip Every rate_Inf NewLimiter =
     (let burstSize = vip_GetInt vip BurstSize;
          burstSize = (if burstSize = 0 then 2 ^ 31 - 1 else burstSize) in
      NewLimiter (getLimit vip Every rate_Inf) burstSize)"

section \<open>The handler\<close>






record 'limiter httpHandler =
  http_passthroughEnabled :: bool
  http_passthroughEndpoint :: string
  rateLimiter :: 'limiter

definition NewHTTPHandler ::
  "viper \<Rightarrow> (int \<Rightarrow> 'limit) \<Rightarrow> 'limit \<Rightarrow> ('limit \<Rightarrow> int \<Rightarrow> 'limiter) \<Rightarrow> 'limiter httpHandler" where
  "NewHTTPHandler vip Every rate_Inf NewLimiter =
     \<lparr>http_passthroughEnabled = vip_GetBool vip ''passthrough_enabled'',
      http_passthroughEndpoint = vip_GetString vip PassthroughEndpointKey,
      rateLimiter = NewRateLimiter vip Every rate_Inf NewLimiter\<rparr>"



section \<open>Facts about rounding\<close>

lemma round_even_error: "\<bar>of_int (round_even x) - x\<bar> \<le> 1 / 2"
proof -
  have "of_int \<lfloor>x\<rfloor> \<le> x" "x < of_int \<lfloor>x\<rfloor> + 1" by linarith+
  moreover have "round_even x = \<lfloor>x\<rfloor> \<and> x - of_int \<lfloor>x\<rfloor> \<le> 1 / 2 \<or> round_even x = \<lfloor>x\<rfloor> + 1 \<and> x - of_int \<lfloor>x\<rfloor> \<ge> 1 / 2"
    by (auto simp: round_even_def Let_def)
  ultimately show ?thesis
    by (elim disjE conjE; simp only: abs_le_iff of_int_add of_int_1; intro conjI; linarith)
qed

lemma round_even_of_int [simp]: "round_even (of_int n) = n"
  by (simp add: round_even_def)

lemma floorlog_2_le: "0 < n \<Longrightarrow> (2 :: rat) powi (int (floorlog 2 n) - 1) \<le> of_nat n"
proof -
  assume n: "0 < n"
  then have "2 ^ (floorlog 2 n - 1) \<le> n" by (metis floorlog_bounds one_less_numeral_iff semiring_norm(76))
  then have "(2 :: rat) ^ (floorlog 2 n - 1) \<le> of_nat n" by (metis of_nat_le_iff of_nat_numeral of_nat_power)
  moreover have "floorlog 2 n \<noteq> 0" using n by (simp add: floorlog_eq_zero_iff)
  then have "int (floorlog 2 n) - 1 = int (floorlog 2 n - 1)" by simp
  ultimately show ?thesis by (metis power_int_of_nat)
qed

lemma less_floorlog_2: "of_nat n < (2 :: rat) powi int (floorlog 2 n)"
proof (cases "n = 0")
  case False
  then have "n < 2 ^ floorlog 2 n" by (metis floorlog_bounds gr0I one_less_numeral_iff semiring_norm(76))
  then show ?thesis by (metis of_nat_less_iff of_nat_numeral of_nat_power power_int_of_nat)
qed simp

lemma exponent_le:
  assumes "0 < x"
  shows "2 powi exponent x \<le> x"
proof -
  obtain p q where pq: "quotient_of x = (p, q)" by (cases "quotient_of x")
  have q: "0 < q" using quotient_of_denom_pos [OF pq] .
  have x: "x = of_int p / of_int q" using quotient_of_div [OF pq] .
  with assms q have p: "0 < p" by (simp add: zero_less_divide_iff)
  let ?k = "int (floorlog 2 (nat p)) - int (floorlog 2 (nat q))"
  have "(2 :: rat) powi (?k - 1) \<le> x"
  proof -
    have "(2 :: rat) powi (?k - 1) * of_int q \<le> 2 powi (?k - 1) * 2 powi int (floorlog 2 (nat q))"
      using less_floorlog_2 [of "nat q"] q by (intro mult_left_mono) simp_all
    also have "\<dots> = 2 powi (int (floorlog 2 (nat p)) - 1)" by (subst power_int_add [symmetric]) simp_all
    also have "\<dots> \<le> of_int p" using floorlog_2_le [of "nat p"] p by simp
    finally show ?thesis using q by (simp add: x pos_le_divide_eq)
  qed
  then show ?thesis by (simp add: exponent_def pq Let_def)
qed

lemma double_error:
  assumes "0 < x"
  shows "\<bar>double x - x\<bar> \<le> x / 2 ^ 53"
proof -
  let ?u = "2 powi (exponent x - 52) :: rat"
  have u: "0 < ?u" by simp
  have "?u * 2 ^ 52 = 2 powi exponent x" by (simp add: power_int_diff)
  then have le: "?u * 2 ^ 52 \<le> x" using exponent_le [OF assms] by simp
  have "double x - x = (of_int (round_even (x / ?u)) - x / ?u) * ?u"
    using assms u by (simp add: double_def Let_def left_diff_distrib)
  then have "\<bar>double x - x\<bar> = \<bar>of_int (round_even (x / ?u)) - x / ?u\<bar> * ?u" using u by (simp add: abs_mult)
  also have "\<dots> \<le> 1 / 2 * ?u" by (intro mult_right_mono round_even_error) simp
  also have "\<dots> \<le> x / 2 ^ 53" using le by simp
  finally show ?thesis .
qed

lemma double_of_int:
  assumes "0 < r" "r < 2 ^ 53"
  shows "double (of_int r) = of_int r"
proof -
  let ?e = "exponent (of_int r)"
  have "(2 :: rat) powi ?e \<le> of_int r" using exponent_le [of "of_int r"] assms by simp
  also have "\<dots> < 2 powi 53" using assms(2) by (metis of_int_less_iff of_int_numeral of_int_power power_int_numeral)
  finally have "?e < 53" by (rule power_int_le_imp_less_exp [rotated]) simp_all
  then have "?e - 52 = - int (nat (52 - ?e))" by simp
  then have u: "(2 :: rat) powi (?e - 52) = inverse (2 ^ nat (52 - ?e))" by (metis power_int_minus power_int_of_nat)
  have "of_int r / (2 :: rat) powi (?e - 52) = of_int (r * 2 ^ nat (52 - ?e))"
    unfolding u by (simp add: divide_inverse)
  then have "double (of_int r) = of_int (r * 2 ^ nat (52 - ?e)) * (2 :: rat) powi (?e - 52)"
    using assms(1) by (simp add: double_def Let_def del: of_int_mult)
  also have "\<dots> = of_int r" unfolding u by simp
  finally show ?thesis .
qed

text \<open>Three roundings change a number by less than one part in 60000.\<close>

lemma abs_diff_bounds: "\<bar>a - b\<bar> \<le> c \<Longrightarrow> b - c \<le> a \<and> a \<le> b + c" for a b c :: rat
  by linarith

lemma double_bounds:
  assumes "0 < x"
  shows "x * (1 - 1 / 2 ^ 53) \<le> double x" "double x \<le> x * (1 + 1 / 2 ^ 53)"
proof -
  have "x * (1 - 1 / 2 ^ 53) = x - x / 2 ^ 53" "x * (1 + 1 / 2 ^ 53) = x + x / 2 ^ 53"
    by (simp_all add: right_diff_distrib distrib_left)
  with abs_diff_bounds [OF double_error [OF assms]]
  show "x * (1 - 1 / 2 ^ 53) \<le> double x" "double x \<le> x * (1 + 1 / 2 ^ 53)" by (simp_all only:)
qed

lemma interval_bounds:
  assumes "0 < r" "r < 2 ^ 53"
  shows "59999 / of_int r < double (double (double (1 / double (of_int r)) * 60) * 1000)"
    and "double (double (double (1 / double (of_int r)) * 60) * 1000) < 60001 / of_int r"
proof -
  let ?lo = "1 - 1 / 2 ^ 53 :: rat" and ?hi = "1 + 1 / 2 ^ 53 :: rat"
  define R where "R = (of_int r :: rat)"
  have R: "0 < R" "double (of_int r) = R" using assms by (simp_all add: R_def double_of_int)
  define a where "a = double (1 / R)"
  have a: "1 / R * ?lo \<le> a" "a \<le> 1 / R * ?hi" using double_bounds [of "1 / R"] R by (simp_all add: a_def)
  have "0 < 1 / R * ?lo" using R by simp
  with a have a0: "0 < a" by linarith
  define b where "b = double (a * 60)"
  have b: "a * 60 * ?lo \<le> b" "b \<le> a * 60 * ?hi" using double_bounds [of "a * 60"] a0 by (simp_all add: b_def)
  have "0 < a * 60 * ?lo" using a0 by simp
  with b have b0: "0 < b" by linarith
  define c where "c = double (b * 1000)"
  have c: "b * 1000 * ?lo \<le> c" "c \<le> b * 1000 * ?hi" using double_bounds [of "b * 1000"] b0 by (simp_all add: c_def)
  have "59999 / R < 1 / R * ?lo * 60 * ?lo * 1000 * ?lo" using R by (simp add: divide_simps)
  also have "\<dots> \<le> a * 60 * ?lo * 1000 * ?lo" by (intro mult_right_mono a) simp_all
  also have "\<dots> \<le> b * 1000 * ?lo" by (intro mult_right_mono b) simp_all
  also note c(1)
  finally show "59999 / of_int r < double (double (double (1 / double (of_int r)) * 60) * 1000)"
    by (simp add: R a_def b_def c_def) (simp add: R_def)
  note c(2)
  also have "b * 1000 * ?hi \<le> a * 60 * ?hi * 1000 * ?hi" by (intro mult_right_mono b) simp_all
  also have "\<dots> \<le> 1 / R * ?hi * 60 * ?hi * 1000 * ?hi" by (intro mult_right_mono a) simp_all
  also have "\<dots> < 60001 / R" using R by (simp add: divide_simps)
  finally show "double (double (double (1 / double (of_int r)) * 60) * 1000) < 60001 / of_int r"
    by (simp add: R a_def b_def c_def) (simp add: R_def)
qed

lemma interval_msec_eq:
  assumes "0 < r" "r < 2 ^ 53"
  shows "interval_msec r = 60000 div r \<or> r dvd 60000 \<and> interval_msec r = 60000 div r - 1"
proof -
  let ?q = "60000 div r" and ?m = "60000 mod r"
  define y where "y = double (double (double (1 / double (of_int r)) * 60) * 1000)"
  have y: "59999 < y * of_int r" "y * of_int r < 60001"
    using interval_bounds [OF assms] assms(1) by (simp_all add: y_def pos_divide_less_eq pos_less_divide_eq)
  have "0 < y" using y(1) assms(1) by (metis less_trans of_int_0_less_iff zero_less_mult_pos2 zero_less_numeral)
  then have i: "interval_msec r = \<lfloor>y\<rfloor>" by (simp add: interval_msec_def trunc_def y_def)
  have qm: "60000 = ?q * r + ?m" "0 \<le> ?m" "?m < r" using assms(1) by simp_all
  have "of_int \<lfloor>y\<rfloor> * of_int r \<le> y * of_int r" using assms(1) by (intro mult_right_mono) simp_all
  with y(2) have "of_int (\<lfloor>y\<rfloor> * r) < (60001 :: rat)" by simp
  then have "\<lfloor>y\<rfloor> * r < 60001" by (metis of_int_less_iff of_int_numeral)
  with qm have "\<lfloor>y\<rfloor> * r < ?q * r + r" by linarith
  then have "\<lfloor>y\<rfloor> * r < (?q + 1) * r" by (simp add: distrib_right)
  then have up: "\<lfloor>y\<rfloor> \<le> ?q" using assms(1) by simp
  have "y * of_int r < (of_int \<lfloor>y\<rfloor> + 1) * of_int r" using assms(1)
    by (intro mult_strict_right_mono) (linarith, simp)
  with y(1) have "(59999 :: rat) < of_int ((\<lfloor>y\<rfloor> + 1) * r)" by simp
  then have "59999 < (\<lfloor>y\<rfloor> + 1) * r" by (metis of_int_less_iff of_int_numeral)
  with qm have low: "?q * r + ?m \<le> (\<lfloor>y\<rfloor> + 1) * r" by simp
  then have "?q * r \<le> (\<lfloor>y\<rfloor> + 1) * r" using qm(2) by linarith
  then have "?q \<le> \<lfloor>y\<rfloor> + 1" using assms(1) by simp
  moreover have "?m = 0" if "?q = \<lfloor>y\<rfloor> + 1" using low that qm(2) by simp
  ultimately show ?thesis using up i by (auto simp: dvd_eq_mod_eq_0)
qed

section \<open>Properties\<close>





text \<open>
  C33. The computation with floating-point numbers gives the interval in whole milliseconds: 60000 divided by the rate and rounded down, except that
  for a divisor of 60000 it may come out one less. The precision of a millisecond has the effect that a limit of more than 60000 calls per
  minute is the interval zero, which is no limit.
\<close>

theorem rate_limit_interval:
  assumes "ratePerMin = vip_GetInt vip RateLimitPerMinute" "0 < ratePerMin" "ratePerMin < 2 ^ 53"
  shows "(getLimit vip Every rate_Inf = Every (60000 div ratePerMin * 1000000) \<or>
      ratePerMin dvd 60000 \<and> getLimit vip Every rate_Inf = Every ((60000 div ratePerMin - 1) * 1000000)) \<and>
    (60000 < ratePerMin \<longrightarrow> getLimit vip Every rate_Inf = Every 0)"
proof -
  have l: "getLimit vip Every rate_Inf = Every (interval_msec ratePerMin * 1000000)" using assms by (simp add: getLimit_def)
  have "interval_msec ratePerMin = 0" if "60000 < ratePerMin"
  proof -
    have "60000 div ratePerMin = 0" "\<not> ratePerMin dvd 60000" using that zdvd_imp_le [of ratePerMin 60000] by (auto simp: div_pos_pos_trivial)
    with interval_msec_eq [OF assms(2,3)] show ?thesis by auto
  qed
  with l interval_msec_eq [OF assms(2,3)] show ?thesis by auto
qed

theorem rate_limit_interval_witness:
  "getLimit \<lparr>vip_GetString = (\<lambda>_. []), vip_GetInt = (\<lambda>_. 100000), vip_GetBool = (\<lambda>_. False)\<rparr> id (- 1) = 0"
  using rate_limit_interval [of 100000 "\<lparr>vip_GetString = (\<lambda>_. []), vip_GetInt = (\<lambda>_. 100000), vip_GetBool = (\<lambda>_. False)\<rparr>" id "- 1"]
  by simp

end
