(* ===== verification/Logger.thy ===== *)
theory Logger
  imports Prelude
begin

text \<open>
  \<^verbatim>\<open>logger/logger.go\<close> and \<^verbatim>\<open>logger/hook.go\<close>: the logger is set up from a section of the configuration, step by step, so that an error leaves
  the steps before it done. logrus, the rotating file writer and the mail hook are arguments; a logger is the settings it was given.
\<close>

section \<open>Configuration sections\<close>

text \<open>
  A section of the configuration: its strings (None when not set), its durations and integers, its lists of strings (None for nil) and its
  subsections. Durations and integers have 64 bits.
\<close>

datatype log_config =
  LogConfig (cfg_strings: "string \<Rightarrow> string option") (GetDuration: "string \<Rightarrow> 64 word") (GetInt: "string \<Rightarrow> 64 word")
    (GetStringSlice: "string \<Rightarrow> string list option") (Sub: "string \<Rightarrow> log_config option")

definition cfg_GetString :: "log_config \<Rightarrow> string \<Rightarrow> string" where
  "cfg_GetString config key = (case cfg_strings config key of None \<Rightarrow> [] | Some v \<Rightarrow> v)"

definition SetDefault :: "string \<Rightarrow> string \<Rightarrow> log_config \<Rightarrow> log_config" where
  "SetDefault key v config =
     (case config of LogConfig strs durs ints slices subs \<Rightarrow>
        LogConfig (if strs key = None then strs(key \<mapsto> v) else strs) durs ints slices subs)"

definition LogLevelKey :: string where "LogLevelKey = ''level''"
definition LogTimezoneKey :: string where "LogTimezoneKey = ''timezone''"
definition LogFormatterKey :: string where "LogFormatterKey = ''formatter''"
definition LogOutputKey :: string where "LogOutputKey = ''output''"
definition LogHooksKey :: string where "LogHooksKey = ''hooks''"
definition LogFormatterTypeKey :: string where "LogFormatterTypeKey = ''type''"
definition LogFormatterTimezoneKey :: string where "LogFormatterTimezoneKey = ''timezone''"
definition LogFormatterTimestampFormat :: string where "LogFormatterTimestampFormat = ''timestamp_format''"
definition LogOutputTypeKey :: string where "LogOutputTypeKey = ''type''"
definition LogOutputFileFilePatternKey :: string where "LogOutputFileFilePatternKey = ''file_pattern''"
definition LogOutputFileCurrentLinkKey :: string where "LogOutputFileCurrentLinkKey = ''current_link''"
definition LogOutputFileClockTimezoneKey :: string where "LogOutputFileClockTimezoneKey = ''clock_timezone''"
definition LogOutputFileRotationTimeInSecKey :: string where "LogOutputFileRotationTimeInSecKey = ''rotation_time_in_sec''"
definition LogOutputFileMaxAgeInSecKey :: string where "LogOutputFileMaxAgeInSecKey = ''max_age_in_sec''"
definition LogOutputFileRotationCountKey :: string where "LogOutputFileRotationCountKey = ''rotation_count''"
definition LogHookTypeKey :: string where "LogHookTypeKey = ''type''"
definition LogHookLevelsKey :: string where "LogHookLevelsKey = ''levels''"
definition LogHookConfigKey :: string where "LogHookConfigKey = ''config''"

lemmas log_keys =
  LogLevelKey_def LogTimezoneKey_def LogFormatterKey_def LogOutputKey_def LogHooksKey_def LogFormatterTypeKey_def
  LogFormatterTimezoneKey_def LogFormatterTimestampFormat_def LogOutputTypeKey_def LogOutputFileFilePatternKey_def
  LogOutputFileCurrentLinkKey_def LogOutputFileClockTimezoneKey_def LogOutputFileRotationTimeInSecKey_def
  LogOutputFileMaxAgeInSecKey_def LogOutputFileRotationCountKey_def LogHookTypeKey_def LogHookLevelsKey_def LogHookConfigKey_def

section \<open>What is configured\<close>

datatype delegate = TextFormatter string | JSONFormatter string

record timezoneFormatter =
  delegate :: delegate
  timestampLocation :: string

record rotatelogs =
  file_pattern :: string
  file_location :: string
  LinkName :: string
  RotationTime :: "64 word"
  MaxAge :: "64 word"
  RotationCount :: "64 word"

datatype log_output = FileOutput rotatelogs | Stdout

text \<open>A level of logrus is its number. A hook is a name for its delegate, with the levels it fires for.\<close>

record Hook =
  Delegate :: string
  ExitHandler :: string

record internalHook =
  hook_delegate :: string
  hook_exitHandler :: string
  hook_levels :: "nat list"

record Logger =
  logger_level :: nat
  logger_formatter :: "timezoneFormatter option"
  logger_output :: "log_output option"
  logger_hooks :: "internalHook list"
  exit_handlers :: "string list"

text \<open>
  \<open>ParseLevel\<close> is logrus's, \<open>LoadLocation\<close> the time package's, \<open>NewRotate\<close> the error of opening the rotating file, \<open>NewMailAuthHook\<close> the mail hook.
\<close>

record log_libs =
  log_ParseLevel :: "string \<Rightarrow> nat result"
  LoadLocation :: "string \<Rightarrow> string result"
  NewRotate :: "rotatelogs \<Rightarrow> error option"
  NewMailAuthHook :: "(string \<Rightarrow> string) \<Rightarrow> 64 word \<Rightarrow> string result"

section \<open>Logging\<close>

text \<open>
  A log entry is formatted in the time zone of the formatter: \<open>In\<close> is \<^verbatim>\<open>time.Time.In\<close>, \<open>Format\<close> logrus's formatter, \<open>Fire\<close> the hook's delegate.
\<close>

record 't Entry =
  entry_Time :: 't
  entry_Message :: string

definition timezoneFormatter_Format ::
  "('t \<Rightarrow> string \<Rightarrow> 't) \<Rightarrow> (delegate \<Rightarrow> 't Entry \<Rightarrow> string result) \<Rightarrow> timezoneFormatter \<Rightarrow> 't Entry \<Rightarrow> string result \<times> 't Entry" where
  "timezoneFormatter_Format In Format formatter entry =
     (let entry = entry\<lparr>entry_Time := In (entry_Time entry) (timestampLocation formatter)\<rparr> in
      (Format (delegate formatter) entry, entry))"

definition internalHook_Fire :: "(string \<Rightarrow> 't Entry \<Rightarrow> error option) \<Rightarrow> internalHook \<Rightarrow> 't Entry \<Rightarrow> error option" where
  "internalHook_Fire Fire hook entry = Fire (hook_delegate hook) entry"

definition internalHook_Levels :: "internalHook \<Rightarrow> nat list" where
  "internalHook_Levels hook = hook_levels hook"

section \<open>Setting up\<close>

definition newFormatterByConfig :: "log_libs \<Rightarrow> log_config \<Rightarrow> timezoneFormatter result" where
  "newFormatterByConfig L config =
     (let timestampFormat = cfg_GetString config LogFormatterTimestampFormat;
          formatterType = cfg_GetString config LogFormatterTypeKey;
          chosen = (if formatterType = ''text'' then Some (TextFormatter timestampFormat)
                    else if formatterType = ''json'' then Some (JSONFormatter timestampFormat) else None) in
      case chosen of
        None \<Rightarrow> Inl (fmt_Errorf ''Unexpected formatter type: %v'' [Lit formatterType])
      | Some d \<Rightarrow>
          (case LoadLocation L (cfg_GetString config LogFormatterTimezoneKey) of
             Inl err \<Rightarrow> Inl err
           | Inr location \<Rightarrow> Inr \<lparr>delegate = d, timestampLocation = location\<rparr>))"

text \<open>\<^verbatim>\<open>time.Second\<close>.\<close>

definition time_Second :: "64 word" where
  "time_Second = 1000000000"

definition newOutputByConfig :: "log_libs \<Rightarrow> log_config \<Rightarrow> log_output result" where
  "newOutputByConfig L config =
     (let outputType = cfg_GetString config LogOutputTypeKey in
      if outputType = ''file'' then
        (case LoadLocation L (cfg_GetString config LogOutputFileClockTimezoneKey) of
           Inl err \<Rightarrow> Inl err
         | Inr location \<Rightarrow>
             (let writer =
                \<lparr>file_pattern = cfg_GetString config LogOutputFileFilePatternKey, file_location = location,
                 LinkName = cfg_GetString config LogOutputFileCurrentLinkKey,
                 RotationTime = GetDuration config LogOutputFileRotationTimeInSecKey * time_Second,
                 MaxAge = GetDuration config LogOutputFileMaxAgeInSecKey * time_Second,
                 RotationCount = GetInt config LogOutputFileRotationCountKey\<rparr> in
              case NewRotate L writer of Some err \<Rightarrow> Inl err | None \<Rightarrow> Inr (FileOutput writer)))
      else if outputType = ''stdout'' then Inr Stdout
      else Inl (fmt_Errorf ''Unexpected output type: %v'' [Lit outputType]))"

definition newMailAuthHook :: "log_libs \<Rightarrow> log_config option \<Rightarrow> Hook result" where
  "newMailAuthHook L config =
     (case config of
        None \<Rightarrow> Inl (errors_New ''Unable to create instance of mail auth hook: no config provided'')
      | Some c \<Rightarrow>
          (case NewMailAuthHook L (cfg_GetString c) (GetInt c ''port'') of
             Inl err \<Rightarrow> Inl (fmt_Errorf ''Unable to create instance of mail auth hook: %v'' [error_text err])
           | Inr hook \<Rightarrow> Inr \<lparr>Delegate = hook, ExitHandler = []\<rparr>))"

text \<open>The factory methods that are registered at start-up.\<close>

definition hookFactoryMethodsByType :: "log_libs \<Rightarrow> string \<rightharpoonup> (log_config option \<Rightarrow> Hook result)" where
  "hookFactoryMethodsByType L = [''mail_auth'' \<mapsto> newMailAuthHook L]"

fun parse_levels :: "log_libs \<Rightarrow> string list \<Rightarrow> nat list result" where
  "parse_levels L [] = Inr []"
| "parse_levels L (levelString # rest) =
     (case log_ParseLevel L levelString of
        Inl err \<Rightarrow> Inl (fmt_Errorf ''Unable parse log level string: \"%v\", err: %v'' [Lit levelString, error_text err])
      | Inr level \<Rightarrow> (case parse_levels L rest of Inl err \<Rightarrow> Inl err | Inr levels \<Rightarrow> Inr (level # levels)))"

definition addHookByConfig ::
  "log_libs \<Rightarrow> (string \<rightharpoonup> (log_config option \<Rightarrow> Hook result)) \<Rightarrow> Logger \<Rightarrow> log_config option \<Rightarrow> error option \<times> Logger" where
  "addHookByConfig L factories logger config =
     (case config of
        None \<Rightarrow> (Some (errors_New ''No hook definition''), logger)
      | Some config \<Rightarrow>
          (let hookType = cfg_GetString config LogHookTypeKey in
           if hookType = [] then (Some (errors_New ''No hook type in hook config''), logger)
           else case factories hookType of
                  None \<Rightarrow> (Some (fmt_Errorf ''Unexpected hook type: \"%v\"'' [Lit hookType]), logger)
                | Some hookFactoryMethod \<Rightarrow>
                    (case hookFactoryMethod (Sub config LogHookConfigKey) of
                       Inl err \<Rightarrow> (Some (fmt_Errorf ''Cannot create hook instance: %v'' [error_text err]), logger)
                     | Inr hook \<Rightarrow>
                         (case GetStringSlice config LogHookLevelsKey of
                            None \<Rightarrow> (Some (errors_New ''No levels in hook config''), logger)
                          | Some levelStrings \<Rightarrow>
                              (case parse_levels L levelStrings of
                                 Inl err \<Rightarrow> (Some err, logger)
                               | Inr levels \<Rightarrow>
                                   (None, logger\<lparr>logger_hooks := logger_hooks logger @
                                       [\<lparr>hook_delegate = Delegate hook, hook_exitHandler = ExitHandler hook, hook_levels = levels\<rparr>],
                                     exit_handlers := exit_handlers logger @ [ExitHandler hook]\<rparr>))))))"

fun add_hooks ::
  "log_libs \<Rightarrow> (string \<rightharpoonup> (log_config option \<Rightarrow> Hook result)) \<Rightarrow> log_config \<Rightarrow> string list \<Rightarrow> Logger \<Rightarrow> error option \<times> Logger" where
  "add_hooks L factories config [] logger = (None, logger)"
| "add_hooks L factories config (hookConfigName # rest) logger =
     (case addHookByConfig L factories logger (Sub config hookConfigName) of
        (Some err, logger') \<Rightarrow>
          (Some (fmt_Errorf ''Unable to add log hook \"%v\", error: %v'' [Lit hookConfigName, error_text err]), logger')
      | (None, logger') \<Rightarrow> add_hooks L factories config rest logger')"

text \<open>A section that is missing is nil, and setting a default in it is a nil dereference.\<close>

definition initLogger ::
  "log_libs \<Rightarrow> (string \<rightharpoonup> (log_config option \<Rightarrow> Hook result)) \<Rightarrow> log_config \<Rightarrow> Logger \<Rightarrow> error option go \<times> Logger" where
  "initLogger L factories config logger =
     (let levelString = cfg_GetString config LogLevelKey; timezone = cfg_GetString config LogTimezoneKey in
      case log_ParseLevel L levelString of
        Inl err \<Rightarrow> (Returns (Some (fmt_Errorf ''Unable parse log level string: %v, err: %v'' [Lit levelString, error_text err])), logger)
      | Inr level \<Rightarrow>
          (let logger = logger\<lparr>logger_level := level\<rparr> in
           case Sub config LogFormatterKey of
             None \<Rightarrow> (Panics nil_dereference, logger)
           | Some formatterConfig \<Rightarrow>
               (case newFormatterByConfig L (SetDefault LogFormatterTimezoneKey timezone formatterConfig) of
                  Inl err \<Rightarrow> (Returns (Some (fmt_Errorf ''Unable initialize log formatter, error: %v'' [error_text err])), logger)
                | Inr formatter \<Rightarrow>
                    (let logger = logger\<lparr>logger_formatter := Some formatter\<rparr> in
                     case Sub config LogOutputKey of
                       None \<Rightarrow> (Panics nil_dereference, logger)
                     | Some outputConfig \<Rightarrow>
                         (case newOutputByConfig L (SetDefault LogOutputFileClockTimezoneKey timezone outputConfig) of
                            Inl err \<Rightarrow> (Returns (Some (fmt_Errorf ''Unable initialize log output, error: %v'' [error_text err])), logger)
                          | Inr output \<Rightarrow>
                              (case add_hooks L factories config
                                      (case GetStringSlice config LogHooksKey of None \<Rightarrow> [] | Some hooks \<Rightarrow> hooks)
                                      (logger\<lparr>logger_output := Some output\<rparr>) of
                                 (err, logger) \<Rightarrow> (Returns err, logger)))))))"

text \<open>\<^verbatim>\<open>InitLogger\<close> sets up the standard logger of the process.\<close>

definition InitLogger ::
  "log_libs \<Rightarrow> (string \<rightharpoonup> (log_config option \<Rightarrow> Hook result)) \<Rightarrow> Logger \<Rightarrow> log_config \<Rightarrow> error option go \<times> Logger" where
  "InitLogger L factories StandardLogger config = initLogger L factories config StandardLogger"

section \<open>Facts\<close>

lemma SetDefault_GetString [simp]:
  "cfg_GetString (SetDefault key v config) k =
     (if k = key \<and> cfg_strings config key = None then v else cfg_GetString config k)"
  by (cases config) (simp add: SetDefault_def cfg_GetString_def)

lemma SetDefault_others [simp]:
  "GetDuration (SetDefault key v config) = GetDuration config" "GetInt (SetDefault key v config) = GetInt config"
  by (cases config; simp add: SetDefault_def)+

text \<open>The seconds of the configuration are nanoseconds without overflow up to 292 years, and wrap around above.\<close>

lemma seconds_no_overflow:
  assumes "0 \<le> n" "n \<le> 9223372036"
  shows "sint (word_of_int n * time_Second) = n * 1000000000"
proof -
  have "word_of_int n * time_Second = word_of_int (n * 1000000000)" by (simp add: time_Second_def)
  also have "sint \<dots> = signed_take_bit (LENGTH(64) - Suc 0) (n * 1000000000)"
    by (subst sint_sbintrunc') simp
  also have "\<dots> = n * 1000000000"
    using assms by (intro signed_take_bit_int_eq_self) simp_all
  finally show ?thesis .
qed

lemma seconds_overflow: "sint (word_of_int 9223372037 * time_Second) < 0"
  by (simp add: time_Second_def sint_sbintrunc')

text \<open>A hook that could be added fires for exactly the levels of its section, parsed in order.\<close>

lemma parse_levels_map: "parse_levels L ls = Inr levels \<longleftrightarrow> map (log_ParseLevel L) ls = map Inr levels"
proof (induction ls arbitrary: levels)
  case (Cons l ls)
  then show ?case by (cases "log_ParseLevel L l"; cases "parse_levels L ls") (force simp: map_eq_Cons_conv)+
qed auto

lemma addHookByConfig_ok:
  assumes "addHookByConfig L factories logger config = (None, logger')"
  obtains c factory hook ls levels where "config = Some c" "factories (cfg_GetString c LogHookTypeKey) = Some factory"
    "factory (Sub c LogHookConfigKey) = Inr hook" "GetStringSlice c LogHookLevelsKey = Some ls"
    "map (log_ParseLevel L) ls = map Inr levels"
    "logger' = logger\<lparr>logger_hooks := logger_hooks logger @
        [\<lparr>hook_delegate = Delegate hook, hook_exitHandler = ExitHandler hook, hook_levels = levels\<rparr>],
      exit_handlers := exit_handlers logger @ [ExitHandler hook]\<rparr>"
  using assms
  by (auto simp: addHookByConfig_def Let_def parse_levels_map split: option.splits sum.splits if_splits)

lemma addHookByConfig_err: "addHookByConfig L factories logger config = (Some err, logger') \<Longrightarrow> logger' = logger"
  by (auto simp: addHookByConfig_def Let_def split: option.splits sum.splits if_splits)

text \<open>Hooks are added in the order of the configuration; the first that fails ends it, and those before it stay.\<close>

lemma add_hooks_count:
  assumes "add_hooks L factories config names logger = (err, logger')"
  shows "\<exists>n \<le> length names. length (logger_hooks logger') = length (logger_hooks logger) + n \<and> (err = None \<longrightarrow> n = length names)"
  using assms
proof (induction names arbitrary: logger)
  case Nil
  then show ?case by simp
next
  case (Cons name names)
  obtain e l where l: "addHookByConfig L factories logger (Sub config name) = (e, l)" by (cases "addHookByConfig L factories logger (Sub config name)")
  show ?case
  proof (cases e)
    case None
    with Cons.prems l have "add_hooks L factories config names l = (err, logger')" by simp
    from Cons.IH [OF this] obtain n where "n \<le> length names" "length (logger_hooks logger') = length (logger_hooks l) + n"
      "err = None \<longrightarrow> n = length names" by blast
    moreover from l None have "length (logger_hooks l) = Suc (length (logger_hooks logger))"
      by (auto elim!: addHookByConfig_ok)
    ultimately show ?thesis by (intro exI [of _ "Suc n"]) simp
  next
    case (Some x)
    with Cons.prems l addHookByConfig_err [of L factories logger "Sub config name" x l] show ?thesis by auto
  qed
qed

text \<open>A set-up that ends without an error has set everything; the time zone of the section is used where no other is given.\<close>

lemma initLogger_ok:
  assumes "initLogger L factories config logger = (Returns None, logger')"
  shows "log_ParseLevel L (cfg_GetString config LogLevelKey) = Inr (logger_level logger')"
    and "\<exists>f. logger_formatter logger' = Some f" "\<exists>out. logger_output logger' = Some out"
    and "length (logger_hooks logger') = length (logger_hooks logger) +
      length (case GetStringSlice config LogHooksKey of None \<Rightarrow> [] | Some hooks \<Rightarrow> hooks)"
proof -
  have keep: "logger_level l' = logger_level l \<and> logger_formatter l' = logger_formatter l \<and> logger_output l' = logger_output l"
    if "add_hooks L factories config names l = (e, l')" for names l e l'
    using that
  proof (induction names arbitrary: l)
    case (Cons name names)
    obtain x l1 where l1: "addHookByConfig L factories l (Sub config name) = (x, l1)"
      by (cases "addHookByConfig L factories l (Sub config name)")
    then have "logger_level l1 = logger_level l \<and> logger_formatter l1 = logger_formatter l \<and> logger_output l1 = logger_output l"
      by (cases x) (auto elim!: addHookByConfig_ok dest: addHookByConfig_err)
    with Cons l1 show ?case by (cases x) auto
  qed simp
  from assms obtain level f out l where
    "log_ParseLevel L (cfg_GetString config LogLevelKey) = Inr level"
    "l = logger\<lparr>logger_level := level, logger_formatter := Some f, logger_output := Some out\<rparr>"
    "add_hooks L factories config (case GetStringSlice config LogHooksKey of None \<Rightarrow> [] | Some hooks \<Rightarrow> hooks) l = (None, logger')"
    by (auto simp: initLogger_def Let_def split: sum.splits option.splits prod.splits)
  with keep [OF this(3)] add_hooks_count [OF this(3)]
  show "log_ParseLevel L (cfg_GetString config LogLevelKey) = Inr (logger_level logger')"
    "\<exists>f. logger_formatter logger' = Some f" "\<exists>out. logger_output logger' = Some out"
    "length (logger_hooks logger') = length (logger_hooks logger) +
      length (case GetStringSlice config LogHooksKey of None \<Rightarrow> [] | Some hooks \<Rightarrow> hooks)"
    by auto
qed

end
