(* ===== verification/Serve.thy ===== *)
theory Serve
  imports Commands Passthrough HttpHandler Logger
begin

text \<open>
  \<^verbatim>\<open>snetd/cmd/serve.go\<close>: the command that runs the daemon. It validates the configuration, binds the listeners, builds the gRPC or the HTTP
  service from the components, waits for a signal and stops. Listening, TLS, the multiplexer of connections and the gRPC server are
  outside of the repository: the listeners are handles, and what is started is a value (\<open>served\<close>) that says what serves what.

  The world is the one of the metrics (\<open>metrics_sys\<close>), whose field \<open>net\<close> holds everything outside.
\<close>

section \<open>State\<close>

definition AutoSSLDomainKey :: string where "AutoSSLDomainKey = ''auto_ssl_domain''"
definition AutoSSLCacheDirKey :: string where "AutoSSLCacheDirKey = ''auto_ssl_cache_dir''"

record daemon =
  autoSSLDomain :: string
  acmeListener :: "nat option"
  grpcServer :: bool
  blockProc :: "Processor option"
  lis :: "nat option"
  sslCert :: "string option"

definition empty_daemon :: daemon where
  "empty_daemon = \<lparr>autoSSLDomain = [], acmeListener = None, grpcServer = False, blockProc = None, lis = None, sslCert = None\<rparr>"

record ('w, 'limit, 'limiter) serve_env =
  sv_url_Parse :: "string \<Rightarrow> (string \<times> string) option"
  sv_network :: "error option go"
  sv_metrics :: metrics_env
  net_Listen :: "string \<Rightarrow> 'w \<Rightarrow> nat result \<times> 'w"
  lis_Close :: "nat \<Rightarrow> 'w \<Rightarrow> 'w"
  GracefulStop :: "'w \<Rightarrow> 'w"
  LoadX509KeyPair :: "string \<Rightarrow> string \<Rightarrow> string result"
  sv_host :: "string \<Rightarrow> string option"
  sv_Dial :: "string \<Rightarrow> bool"
  rate_Every :: "int \<Rightarrow> 'limit"
  rate_Inf :: 'limit
  rate_NewLimiter :: "'limit \<Rightarrow> int \<Rightarrow> 'limiter"

section \<open>newDaemon\<close>

text \<open>\<^verbatim>\<open>errors.Wrap\<close>.\<close>

definition errors_Wrap :: "error \<Rightarrow> string \<Rightarrow> error" where
  "errors_Wrap err m = Error (Concat (Lit (m @ '': '')) (error_text err))"

text \<open>The three checks of the configuration.\<close>

definition check_config ::
  "('w, 'limit, 'limiter) serve_env \<Rightarrow> 'w metrics_sys daemon_env \<Rightarrow> 'w metrics_sys \<Rightarrow> error option go \<times> 'w metrics_sys" where
  "check_config sv env w =
     (case Validate_config (d_vip env) (sv_url_Parse sv) (d_ParseRequestURI env) (sv_network sv) of
        Panics m \<Rightarrow> (Panics m, w)
      | Returns (Some err) \<Rightarrow> (Returns (Some err), w)
      | Returns None \<Rightarrow>
          (case ValidateHeartbeatConfig (sv_metrics sv) (d_ParseRequestURI env) w of
             (Some err, w1) \<Rightarrow> (Returns (Some err), w1)
           | (None, w1) \<Rightarrow>
               (case ValidateNotificationConfig (sv_metrics sv) (d_ParseRequestURI env) w1 of
                  (err, w2) \<Rightarrow> (Returns err, w2))))"

text \<open>The daemon's port, and port 80 for the challenges of LetsEncrypt when a domain is configured.\<close>

definition bind_listeners ::
  "('w, 'limit, 'limiter) serve_env \<Rightarrow> viper \<Rightarrow> daemon \<Rightarrow> 'w \<Rightarrow> error option \<times> daemon \<times> 'w" where
  "bind_listeners sv vip d w =
     (let endpoint = vip_GetString vip DaemonEndPoint in
      case net_Listen sv endpoint w of
        (Inl err, w1) \<Rightarrow>
          (Some (errors_Wrap err (''Expected format of daemon_end_point is <host>:<port>.Error binding to the endpoint:'' @ endpoint)), d, w1)
      | (Inr l, w1) \<Rightarrow>
          (let d = d\<lparr>lis := Some l, autoSSLDomain := vip_GetString vip AutoSSLDomainKey\<rparr> in
           if autoSSLDomain d = [] then (None, d, w1)
           else case net_Listen sv '':80'' w1 of
                  (Inl err, w2) \<Rightarrow> (Some (errors_Wrap err ''unable to bind port 80 for automatic SSL verification''), d, w2)
                | (Inr a, w2) \<Rightarrow> (None, d\<lparr>acmeListener := Some a\<rparr>, w2)))"

definition load_certificate ::
  "('w, 'limit, 'limiter) serve_env \<Rightarrow> viper \<Rightarrow> daemon \<Rightarrow> error option \<times> daemon" where
  "load_certificate sv vip d =
     (let sslKey = vip_GetString vip SSLKeyPathKey in
      if sslKey = [] then (None, d)
      else case LoadX509KeyPair sv (vip_GetString vip SSLCertPathKey) sslKey of
             Inl err \<Rightarrow> (Some (errors_Wrap err ''unable to load specifiec SSL X509 keypair''), d)
           | Inr cert \<Rightarrow> (None, d\<lparr>sslCert := Some cert\<rparr>))"

definition newDaemon ::
  "('w, 'limit, 'limiter) serve_env \<Rightarrow> 'w metrics_sys daemon_env \<Rightarrow> ('w metrics_sys, daemon \<times> error option) build" where
  "newDaemon sv env s =
     (case s of (c, w) \<Rightarrow>
      case check_config sv env w of
        (Panics m, w1) \<Rightarrow> (Panics m, (c, w1))
      | (Returns (Some err), w1) \<Rightarrow> (Returns (empty_daemon, Some err), (c, w1))
      | (Returns None, w1) \<Rightarrow>
          (case bind_listeners sv (d_vip env) empty_daemon (net w1) of
             (Some err, d, n) \<Rightarrow> (Returns (d, Some err), (c, w1\<lparr>net := n\<rparr>))
           | (None, d, n) \<Rightarrow>
               and_then (Components_Blockchain env)
                 (\<lambda>processor. built (case load_certificate sv (d_vip env) (d\<lparr>blockProc := Some processor\<rparr>) of (err, d) \<Rightarrow> (d, err)))
                 (c, w1\<lparr>net := n\<rparr>)))"

section \<open>start\<close>

datatype tls_Config = NoTLS | AutoTLS string string | KeyPairTLS string

text \<open>What is served, and by what.\<close>

record 'w grpc_service =
  UnknownServiceHandler :: grpc_handler
  served_interceptor :: "'w StreamInterceptor"
  MaxRecvMsgSize :: int
  served_state :: "'w lockingPaymentChannelService"
  served_control :: "'w ProviderControlService"
  served_health :: string

datatype ('w, 'limiter) served =
    ServesGrpc tls_Config "'w grpc_service"
  | ServesHttp tls_Config "'limiter httpHandler"

definition tlsConfig :: "viper \<Rightarrow> daemon \<Rightarrow> tls_Config" where
  "tlsConfig vip d =
     (if autoSSLDomain d \<noteq> [] then AutoTLS (autoSSLDomain d) (vip_GetString vip AutoSSLCacheDirKey)
      else case sslCert d of Some cert \<Rightarrow> KeyPairTLS cert | None \<Rightarrow> NoTLS)"

definition daemon_start ::
  "('w, 'limit, 'limiter) serve_env \<Rightarrow> 'w metrics_sys daemon_env \<Rightarrow> daemon \<Rightarrow>
   ('w metrics_sys, daemon \<times> ('w metrics_sys, 'limiter) served) build" where
  "daemon_start sv env d =
     (if vip_GetString (d_vip env) DaemonTypeKey = ''grpc'' then
        and_then (Components_ServiceMetaData env) (\<lambda>metadata.
        and_then (\<lambda>s. (NewGrpcHandler (d_vip env) (sv_host sv) (sv_Dial sv) metadata, s)) (\<lambda>handler.
        and_then (Components_GrpcInterceptor env) (\<lambda>interceptor.
        and_then (Components_PaymentChannelStateService env) (\<lambda>state.
        and_then (Components_ProviderControlService env) (\<lambda>control.
        and_then (Components_DaemonHeartBeat env) (\<lambda>health.
          built (d\<lparr>grpcServer := True\<rparr>, ServesGrpc (tlsConfig (d_vip env) d)
            \<lparr>UnknownServiceHandler = handler, served_interceptor = interceptor,
             MaxRecvMsgSize = vip_GetInt (d_vip env) MaxMessageSizeInMB * 1024 * 1024,
             served_state = state, served_control = control, served_health = health\<rparr>)))))))
      else
        built (d, ServesHttp (tlsConfig (d_vip env) d) (NewHTTPHandler (d_vip env) (rate_Every sv) (rate_Inf sv) (rate_NewLimiter sv))))"

text \<open>
  The HTTP side of the gRPC daemon. \<open>grpc_web\<close> is what the gRPC-Web wrapper says of the request; the second part of the path is taken without
  a look at how many there are.
\<close>

datatype route = GrpcWeb | EncodingRoute | HeartbeatRoute | NotFoundRoute

definition http_route :: "bool \<Rightarrow> string \<Rightarrow> route go" where
  "http_route grpc_web path =
     (if grpc_web then Returns GrpcWeb
      else case strings_Split CHR ''/'' path of
             _ # segment # _ \<Rightarrow>
               Returns (if segment = ''encoding'' then EncodingRoute
                        else if segment = ''heartbeat'' then HeartbeatRoute else NotFoundRoute)
           | _ \<Rightarrow> Panics (Lit ''index out of range''))"

text \<open>\<^verbatim>\<open>HeartbeatHandler\<close>: \<open>encode\<close> is the JSON encoder; the error of the heartbeat is dropped.\<close>

definition HeartbeatHandler ::
  "(DaemonHeartbeat \<Rightarrow> string) \<Rightarrow> (string \<Rightarrow> string \<Rightarrow> string \<Rightarrow> 'w metrics_sys \<Rightarrow> (DaemonHeartbeat \<times> error option) go \<times> 'w metrics_sys)
    \<Rightarrow> viper \<Rightarrow> 'w metrics_sys \<Rightarrow> string go \<times> 'w metrics_sys" where
  "HeartbeatHandler encode getHeartbeat vip s =
     (case getHeartbeat (vip_GetString vip HeartbeatServiceEndpoint) (vip_GetString vip ServiceHeartbeatType) (vip_GetString vip ServiceId) s of
        (Panics m, s') \<Rightarrow> (Panics m, s')
      | (Returns (heartbeat, _), s') \<Rightarrow> (Returns (encode heartbeat), s'))"

section \<open>stop\<close>

definition daemon_stop :: "('w, 'limit, 'limiter) serve_env \<Rightarrow> daemon \<Rightarrow> 'w \<Rightarrow> 'w" where
  "daemon_stop sv d w =
     (let w1 = (if grpcServer d then GracefulStop sv w else w);
          w2 = (case lis d of None \<Rightarrow> w1 | Some l \<Rightarrow> lis_Close sv l w1) in
      case acmeListener d of None \<Rightarrow> w2 | Some a \<Rightarrow> lis_Close sv a w2)"

section \<open>The command\<close>

text \<open>
  \<open>log_setup\<close> is what \<open>initLogger\<close> returned for the section of the log, \<open>waited\<close> what happens until a signal ends the daemon. A fatal error
  ends the process at once: the deferred calls do not run. A panic runs the ones that were deferred before it.
\<close>

datatype ending = Signalled | Fatal message | Panicked message

definition serve ::
  "('w, 'limit, 'limiter) serve_env \<Rightarrow> 'w metrics_sys daemon_env \<Rightarrow> error option go \<Rightarrow>
   (('w metrics_sys, 'limiter) served \<Rightarrow> 'w metrics_sys \<Rightarrow> 'w metrics_sys) \<Rightarrow>
   'w metrics_sys Components \<times> 'w metrics_sys \<Rightarrow> ending \<times> 'w metrics_sys Components \<times> 'w metrics_sys" where
  "serve sv env log_setup waited s =
     (case Components_EtcdServer env s of
        (Panics m, s1) \<Rightarrow> (Panicked m, s1)
      | (Returns _, s1) \<Rightarrow>
          (case log_setup of
             Panics m \<Rightarrow> (Panicked m, s1)
           | Returns (Some err) \<Rightarrow> (Fatal (Lit ''Unable to initialize logger''), s1)
           | Returns None \<Rightarrow>
               (case newDaemon sv env s1 of
                  (Panics m, s2) \<Rightarrow> (Panicked m, s2)
                | (Returns (d, Some err), s2) \<Rightarrow> (Fatal (Lit ''Unable to initialize daemon''), s2)
                | (Returns (d, None), s2) \<Rightarrow>
                    (case daemon_start sv env d s2 of
                       (Panics m, s3) \<Rightarrow> (Panicked m, s3)
                     | (Returns (d, srv), (c, w)) \<Rightarrow>
                         (let w = waited srv w in (Signalled, c, w\<lparr>net := daemon_stop sv d (net w)\<rparr>))))))"

definition ServeCmd_Run ::
  "('w, 'limit, 'limiter) serve_env \<Rightarrow> 'w metrics_sys daemon_env \<Rightarrow> 'w metrics_sys closing \<Rightarrow> error option go \<Rightarrow>
   (('w metrics_sys, 'limiter) served \<Rightarrow> 'w metrics_sys \<Rightarrow> 'w metrics_sys) \<Rightarrow>
   'w metrics_sys Components go \<times> 'w metrics_sys \<Rightarrow> ending \<times> 'w metrics_sys" where
  "ServeCmd_Run sv env cl log_setup waited init =
     (case init of
        (Panics m, w) \<Rightarrow> (Panicked m, w)
      | (Returns components, w) \<Rightarrow>
          (case serve sv env log_setup waited (components, w) of
             (Fatal m, _, w1) \<Rightarrow> (Fatal m, w1)
           | (how, c, w1) \<Rightarrow>
               (case Components_Close cl c w1 of
                  (Panics m, w2) \<Rightarrow> (Panicked m, w2)
                | (Returns _, w2) \<Rightarrow> (how, w2))))"

section \<open>Facts\<close>

lemma strings_Split_segment: "c \<notin> set a \<Longrightarrow> strings_Split c (a @ c # b) = a # strings_Split c b"
  by (induction a) auto

text \<open>A path without a slash is a panic; any other path is routed by what stands between its first and its second slash.\<close>

lemma http_route_panics_iff: "(\<exists>m. http_route False path = Panics m) \<longleftrightarrow> CHR ''/'' \<notin> set path"
proof (cases "CHR ''/'' \<in> set path")
  case True
  then obtain a b where "path = a @ CHR ''/'' # b" "CHR ''/'' \<notin> set a" by (metis split_list_first)
  moreover obtain x xs where "strings_Split CHR ''/'' b = x # xs" by (cases "strings_Split CHR ''/'' b") simp_all
  ultimately show ?thesis using True by (simp add: http_route_def strings_Split_segment)
next
  case False
  then show ?thesis by (simp add: http_route_def strings_Split_none)
qed

lemma http_route_segment:
  assumes "CHR ''/'' \<notin> set seg" "rest = [] \<or> (\<exists>b. rest = CHR ''/'' # b)"
  shows "http_route False (CHR ''/'' # seg @ rest) =
    Returns (if seg = ''encoding'' then EncodingRoute else if seg = ''heartbeat'' then HeartbeatRoute else NotFoundRoute)"
proof -
  have "\<exists>xs. strings_Split CHR ''/'' (seg @ rest) = seg # xs"
    using assms by (auto simp: strings_Split_none strings_Split_segment)
  moreover have "strings_Split CHR ''/'' (CHR ''/'' # seg @ rest) = [] # strings_Split CHR ''/'' (seg @ rest)"
    using strings_Split_segment [of "CHR ''/''" "[]" "seg @ rest"] by simp
  ultimately show ?thesis by (auto simp: http_route_def)
qed

text \<open>
  What the gRPC daemon serves is built over one storage and one metadata: paid calls, the channel state service and the control service see the
  same channels.
\<close>

lemma daemon_start_builds:
  "builds env P (daemon_start sv env d) (\<lambda>x so. \<forall>tls g. snd x = ServesGrpc tls g \<longrightarrow>
     is_interceptor env (served_interceptor g) so \<and> is_service env (served_state g) so \<and> is_control env (served_control g) so)"
proof (cases "vip_GetString (d_vip env) DaemonTypeKey = ''grpc''")
  case True
  have h: "builds env Q (\<lambda>s. (NewGrpcHandler (d_vip env) (sv_host sv) (sv_Dial sv) metadata, s)) (\<lambda>x so. True)" for Q metadata
    by (rule buildsI) (auto simp: same_storage_def)
  show ?thesis
    unfolding daemon_start_def if_P [OF True]
    by (rule builds_pre)
      (intro builds_and_then [OF ServiceMetaData_builds] builds_and_then [OF h] builds_and_then [OF GrpcInterceptor_builds]
        builds_and_then [OF PaymentChannelStateService_builds] builds_and_then [OF ProviderControlService_builds]
        builds_and_then [OF DaemonHeartBeat_builds] builds_built stable, auto)
next
  case False
  then show ?thesis by (auto simp: daemon_start_def intro!: builds_built)
qed

text \<open>
  The listeners of a daemon that was set up are the ones \<open>daemon_stop\<close> closes: with \<open>opened\<close> the listeners that are open outside, a daemon that
  is set up and stopped leaves none of its own. A daemon whose set-up failed keeps its first listener until the process ends.
\<close>

lemma stopped_daemon_leaves_no_listener:
  assumes "\<And>e w l w'. net_Listen sv e w = (Inr l, w') \<Longrightarrow> l \<notin> opened w \<and> opened w' = insert l (opened w)"
    and "\<And>l w. opened (lis_Close sv l w) = opened w - {l}" "\<And>w. opened (GracefulStop sv w) = opened w"
    and "bind_listeners sv vip empty_daemon w = (None, d, w')" "opened v = opened w'"
    and "lis d' = lis d" "acmeListener d' = acmeListener d"
  shows "opened (daemon_stop sv d' v) = opened w"
proof -
  have stop: "opened (daemon_stop sv d' v) = opened w' - set_option (lis d) - set_option (acmeListener d)"
    using assms(2,3,5-7) by (auto simp: daemon_stop_def Let_def split: option.splits)
  from assms(4) obtain l w1 where l: "net_Listen sv (vip_GetString vip DaemonEndPoint) w = (Inr l, w1)" "lis d = Some l"
    "acmeListener d = None \<and> w' = w1 \<or> (\<exists>a. net_Listen sv '':80'' w1 = (Inr a, w') \<and> acmeListener d = Some a)"
    by (auto simp: bind_listeners_def Let_def empty_daemon_def split: prod.splits sum.splits if_splits)
  from l(3) show ?thesis
  proof
    assume "acmeListener d = None \<and> w' = w1"
    with stop l assms(1) [OF l(1)] show ?thesis by auto
  next
    assume "\<exists>a. net_Listen sv '':80'' w1 = (Inr a, w') \<and> acmeListener d = Some a"
    then obtain a where a: "net_Listen sv '':80'' w1 = (Inr a, w')" "acmeListener d = Some a" by blast
    with stop l assms(1) [OF l(1)] assms(1) [OF a(1)] show ?thesis by auto
  qed
qed

text \<open>The size limit of a daemon that was set up is positive and fits into 32 bits.\<close>

lemma message_size_bounds:
  assumes "check_config sv env w = (Returns None, w')"
  shows "0 < vip_GetInt (d_vip env) MaxMessageSizeInMB * 1024 * 1024" "vip_GetInt (d_vip env) MaxMessageSizeInMB * 1024 * 1024 \<le> 2 ^ 31"
proof -
  from assms have "Validate_config (d_vip env) (sv_url_Parse sv) (d_ParseRequestURI env) (sv_network sv) = Returns None"
    by (auto simp: check_config_def split: go.splits option.splits)
  then have "\<not> (vip_GetInt (d_vip env) MaxMessageSizeInMB \<le> 0 \<or> vip_GetInt (d_vip env) MaxMessageSizeInMB > 2048)"
    by (auto simp: Validate_config_def Let_def split: if_splits go.splits option.splits)
  then show "0 < vip_GetInt (d_vip env) MaxMessageSizeInMB * 1024 * 1024"
    "vip_GetInt (d_vip env) MaxMessageSizeInMB * 1024 * 1024 \<le> 2 ^ 31"
    by simp_all
qed

end
