(* ===== verification/Settings.thy ===== *)
theory Settings
  imports Serve "HOL-Library.List_Lexorder" "HOL-Library.Char_ord"
begin

text \<open>
  Where settings come from: the defaults built into the daemon, the configuration file, the environment and
  the command line (\<^verbatim>\<open>config/config.go\<close>, \<^verbatim>\<open>snetd/cmd/flags.go\<close>, \<^verbatim>\<open>snetd/main.go\<close>).

  viper and cobra are not part of the repository. A \<open>viper_pkg\<close> has the methods of viper that the code calls, over
  stores of any type; the locale \<open>viper_store\<close> says what viper's documentation promises of them: a lookup
  takes the first of an explicit setting, a flag that was given, the environment, the file and the default.
\<close>

section \<open>The defaults\<close>

text \<open>Lines of a text, each with the number of tabs it starts with.\<close>

definition text_lines :: "(nat \<times> string) list \<Rightarrow> string" where
  "text_lines ls = concat (map (\<lambda>(n, l). replicate n (CHR 0x09) @ l @ [CHR 0x0A]) ls)"

definition defaultConfigJson :: string where
  "defaultConfigJson = text_lines
     [(0, ''''),
      (0, ''{''),
      (1, ''\"auto_ssl_domain\": \"\",''),
      (1, ''\"auto_ssl_cache_dir\": \".certs\",''),
      (1, ''\"blockchain_enabled\": true,''),
      (1, ''\"blockchain_network_selected\": \"local\",''),
      (1, ''\"daemon_end_point\": \"127.0.0.1:8080\",''),
      (1, ''\"daemon_group_name\":\"default_group\",''),
      (1, ''\"daemon_type\": \"grpc\",''),
      (1, ''\"hdwallet_index\": 0,''),
      (1, ''\"hdwallet_mnemonic\": \"\",''),
      (1, ''\"ipfs_end_point\": \"http://localhost:5002/\", ''),
      (1, ''\"ipfs_timeout\" : 30,''),
      (1, ''\"max_message_size_in_mb\" : 4,''),
      (1, ''\"monitoring_enabled\": true,''),
      (1, ''\"monitoring_svc_end_point\": \"https://n4rzw9pu76.execute-api.us-east-1.amazonaws.com/beta\",''),
      (1, ''\"organization_id\": \"ExampleOrganizationId\", ''),
      (1, ''\"passthrough_enabled\": false,''),
      (1, ''\"service_id\": \"ExampleServiceId\", ''),
      (1, ''\"private_key\": \"\",''),
      (1, ''\"ssl_cert\": \"\",''),
      (1, ''\"ssl_key\": \"\",''),
      (1, ''\"log\":  {''),
      (2, ''\"level\": \"info\",''),
      (2, ''\"timezone\": \"UTC\",''),
      (2, ''\"formatter\": {''),
      (3, ''\"type\": \"text\",''),
      (3, ''\"timestamp_format\": \"2006-01-02T15:04:05.999999999Z07:00\"''),
      (2, ''},''),
      (2, ''\"output\": {''),
      (3, ''\"type\": \"file\",''),
      (3, ''\"file_pattern\": \"./snet-daemon.%Y%m%d.log\",''),
      (3, ''\"current_link\": \"./snet-daemon.log\",''),
      (3, ''\"rotation_time_in_sec\": 86400,''),
      (3, ''\"max_age_in_sec\": 604800,''),
      (3, ''\"rotation_count\": 0''),
      (2, ''},''),
      (2, ''\"hooks\": []''),
      (1, ''},''),
      (1, ''\"payment_channel_storage_type\": \"etcd\",''),
      (1, ''\"payment_channel_storage_client\": {''),
      (2, ''\"connection_timeout\": \"5s\",''),
      (2, ''\"request_timeout\": \"3s\",''),
      (2, ''\"endpoints\": [\"http://127.0.0.1:2379\"]''),
      (1, ''},''),
      (1, ''\"payment_channel_storage_server\": {''),
      (2, ''\"id\": \"storage-1\",''),
      (2, ''\"scheme\": \"http\",''),
      (2, ''\"host\" : \"127.0.0.1\",''),
      (2, ''\"client_port\": 2379,''),
      (2, ''\"peer_port\": 2380,''),
      (2, ''\"token\": \"unique-token\",''),
      (2, ''\"cluster\": \"storage-1=http://127.0.0.1:2380\",''),
      (2, ''\"startup_timeout\": \"1m\",''),
      (2, ''\"data_dir\": \"storage-data-dir-1.etcd\",''),
      (2, ''\"log_level\": \"info\",''),
      (2, ''\"enabled\": true''),
      (1, ''},''),
      (1, ''\"alerts_email\": \"\", ''),
      (1, ''\"service_heartbeat_type\": \"http\",''),
      (1, ''\"heartbeat_svc_end_point\": \"http://demo3208027.mockable.io/heartbeat\",''),
      (1, ''\"notification_svc_end_point\": \"http://demo3208027.mockable.io\"''),
      (0, ''}'')]"

text \<open>What the text says.\<close>

definition default_members :: "(string \<times> json) list" where
  "default_members =
     [(''auto_ssl_domain'', JString ''''),
         (''auto_ssl_cache_dir'', JString ''.certs''),
         (''blockchain_enabled'', JBool True),
         (''blockchain_network_selected'', JString ''local''),
         (''daemon_end_point'', JString ''127.0.0.1:8080''),
         (''daemon_group_name'', JString ''default_group''),
         (''daemon_type'', JString ''grpc''),
         (''hdwallet_index'', JNumber ''0''),
         (''hdwallet_mnemonic'', JString ''''),
         (''ipfs_end_point'', JString ''http://localhost:5002/''),
         (''ipfs_timeout'', JNumber ''30''),
         (''max_message_size_in_mb'', JNumber ''4''),
         (''monitoring_enabled'', JBool True),
         (''monitoring_svc_end_point'', JString ''https://n4rzw9pu76.execute-api.us-east-1.amazonaws.com/beta''),
         (''organization_id'', JString ''ExampleOrganizationId''),
         (''passthrough_enabled'', JBool False),
         (''service_id'', JString ''ExampleServiceId''),
         (''private_key'', JString ''''),
         (''ssl_cert'', JString ''''),
         (''ssl_key'', JString ''''),
         (''log'', JObject
            [(''level'', JString ''info''),
             (''timezone'', JString ''UTC''),
             (''formatter'', JObject
                [(''type'', JString ''text''),
                 (''timestamp_format'', JString ''2006-01-02T15:04:05.999999999Z07:00'')]),
             (''output'', JObject
                [(''type'', JString ''file''),
                 (''file_pattern'', JString ''./snet-daemon.%Y%m%d.log''),
                 (''current_link'', JString ''./snet-daemon.log''),
                 (''rotation_time_in_sec'', JNumber ''86400''),
                 (''max_age_in_sec'', JNumber ''604800''),
                 (''rotation_count'', JNumber ''0'')]),
             (''hooks'', JArray [])]),
         (''payment_channel_storage_type'', JString ''etcd''),
         (''payment_channel_storage_client'', JObject
            [(''connection_timeout'', JString ''5s''),
             (''request_timeout'', JString ''3s''),
             (''endpoints'', JArray [JString ''http://127.0.0.1:2379''])]),
         (''payment_channel_storage_server'', JObject
            [(''id'', JString ''storage-1''),
             (''scheme'', JString ''http''),
             (''host'', JString ''127.0.0.1''),
             (''client_port'', JNumber ''2379''),
             (''peer_port'', JNumber ''2380''),
             (''token'', JString ''unique-token''),
             (''cluster'', JString ''storage-1=http://127.0.0.1:2380''),
             (''startup_timeout'', JString ''1m''),
             (''data_dir'', JString ''storage-data-dir-1.etcd''),
             (''log_level'', JString ''info''),
             (''enabled'', JBool True)]),
         (''alerts_email'', JString ''''),
         (''service_heartbeat_type'', JString ''http''),
         (''heartbeat_svc_end_point'', JString ''http://demo3208027.mockable.io/heartbeat''),
         (''notification_svc_end_point'', JString ''http://demo3208027.mockable.io'')]"

section \<open>viper\<close>

type_synonym files = "string \<Rightarrow> string option"

text \<open>A command line flag: whether the user gave it, and its value (the default otherwise).\<close>

record pflag =
  flag_Changed :: bool
  flag_Value :: json

record 'v viper_pkg =
  viper_New :: 'v
  SetEnvPrefix :: "string \<Rightarrow> 'v \<Rightarrow> 'v"
  AutomaticEnv :: "'v \<Rightarrow> 'v"
  SetConfigType :: "string \<Rightarrow> 'v \<Rightarrow> 'v"
  ReadConfig :: "string \<Rightarrow> 'v \<Rightarrow> error option \<times> 'v"
  AddConfigPath :: "string \<Rightarrow> 'v \<Rightarrow> 'v"
  SetConfigFile :: "string \<Rightarrow> 'v \<Rightarrow> 'v"
  ReadInConfig :: "files \<Rightarrow> 'v \<Rightarrow> error option \<times> 'v"
  viper_WriteConfig :: "'v \<Rightarrow> files \<Rightarrow> error option \<times> files"
  SetDefault :: "string \<Rightarrow> json \<Rightarrow> 'v \<Rightarrow> 'v"
  viper_Set :: "string \<Rightarrow> json \<Rightarrow> 'v \<Rightarrow> 'v"
  BindPFlag :: "string \<Rightarrow> pflag \<Rightarrow> 'v \<Rightarrow> 'v"
  AllSettings :: "'v \<Rightarrow> (string \<times> json) list"
  AllKeys :: "'v \<Rightarrow> string list"
  viper_Get :: "'v \<Rightarrow> string \<Rightarrow> json option"
  cast_ToString :: "json option \<Rightarrow> string"
  cast_ToInt :: "json option \<Rightarrow> int"
  cast_ToBool :: "json option \<Rightarrow> bool"
  cast_ToDuration :: "json option \<Rightarrow> int"
  cast_ToStringMap :: "json \<Rightarrow> (string \<times> json) list"

text \<open>The getters of the package, as the rest of the daemon uses them.\<close>

definition getters :: "'v viper_pkg \<Rightarrow> 'v \<Rightarrow> viper" where
  "getters V vip =
     \<lparr>vip_GetString = (\<lambda>key. cast_ToString V (viper_Get V vip key)),
      vip_GetInt = (\<lambda>key. cast_ToInt V (viper_Get V vip key)),
      vip_GetBool = (\<lambda>key. cast_ToBool V (viper_Get V vip key))\<rparr>"

definition config_GetString :: "'v viper_pkg \<Rightarrow> 'v \<Rightarrow> string \<Rightarrow> string" where
  "config_GetString V vip key = vip_GetString (getters V vip) key"

definition config_GetInt :: "'v viper_pkg \<Rightarrow> 'v \<Rightarrow> string \<Rightarrow> int" where
  "config_GetInt V vip key = vip_GetInt (getters V vip) key"

definition config_GetBool :: "'v viper_pkg \<Rightarrow> 'v \<Rightarrow> string \<Rightarrow> bool" where
  "config_GetBool V vip key = vip_GetBool (getters V vip) key"

definition config_GetDuration :: "'v viper_pkg \<Rightarrow> 'v \<Rightarrow> string \<Rightarrow> int" where
  "config_GetDuration V vip key = cast_ToDuration V (viper_Get V vip key)"

text \<open>Go's \<^verbatim>\<open>int\<close> has 64 bits where the daemon runs, so the conversion to \<^verbatim>\<open>int64\<close> keeps the value.\<close>

definition config_GetBigInt :: "'v viper_pkg \<Rightarrow> 'v \<Rightarrow> string \<Rightarrow> int" where
  "config_GetBigInt V vip key = sint (word_of_int (vip_GetInt (getters V vip) key) :: 64 word)"

definition GetBigIntFromViper :: "'v viper_pkg \<Rightarrow> 'v \<Rightarrow> string \<Rightarrow> int result" where
  "GetBigIntFromViper V config key =
     (case UnmarshalText (cast_ToString V (viper_Get V config key)) of
        None \<Rightarrow> Inl (fmt_Errorf ''math/big: cannot unmarshal %q into a *big.Int'' [Lit (cast_ToString V (viper_Get V config key))])
      | Some value \<Rightarrow> Inr value)"

section \<open>Reading and writing\<close>

definition ReadConfigFromJsonString :: "'v viper_pkg \<Rightarrow> 'v \<Rightarrow> string \<Rightarrow> error option \<times> 'v" where
  "ReadConfigFromJsonString V config text =
     (let config = SetConfigType V ''json'' config in ReadConfig V text config)"

definition SetDefaultFromConfig :: "'v viper_pkg \<Rightarrow> 'v \<Rightarrow> 'v \<Rightarrow> 'v" where
  "SetDefaultFromConfig V config defaults =
     fold (\<lambda>(key, value) config. SetDefault V key value config) (AllSettings V defaults) config"

definition config_init :: "'v viper_pkg \<Rightarrow> 'v go" where
  "config_init V =
     (let vip = viper_New V;
          vip = SetEnvPrefix V ''SNET'' vip;
          vip = AutomaticEnv V vip;
          defaults = viper_New V in
      case ReadConfigFromJsonString V defaults defaultConfigJson of
        (Some err, defaults) \<Rightarrow> Panics (Sprintf (Lit ''Cannot load default config: %v'') [error_text err])
      | (None, defaults) \<Rightarrow>
          (let vip = SetDefaultFromConfig V vip defaults in Returns (AddConfigPath V ''.'' vip)))"



definition SubWithDefault :: "'v viper_pkg \<Rightarrow> 'v \<Rightarrow> string \<Rightarrow> 'v option" where
  "SubWithDefault V config key =
     (case map_of (AllSettings V config) (ToLower key) of
        None \<Rightarrow> None
      | Some allSettingsByKey \<Rightarrow>
          (let subMap = cast_ToStringMap V allSettingsByKey in
           Some (fold (\<lambda>(subKey, value) sub. viper_Set V subKey value sub) subMap (viper_New V))))"

text \<open>The lines that are logged.\<close>

definition LogConfig :: "'v viper_pkg \<Rightarrow> 'v \<Rightarrow> message list" where
  "LogConfig V vip =
     Lit ''Final configuration:'' #
     map (\<lambda>key. Sprintf (Lit ''%v: %v'') [Lit key, Lit (case viper_Get V vip key of None \<Rightarrow> ''<nil>'' | Some v \<Rightarrow> sprint_json v)])
       (sort (AllKeys V vip))"

section \<open>The command line\<close>

text \<open>The flags of the serve command, with their defaults.\<close>

definition serve_flags :: "(string \<times> json) list" where
  "serve_flags =
     [(''auto-ssl-domain'', JString []), (''auto-ssl-cache'', JString ''.certs''), (''type'', JString ''grpc''),
      (''blockchain'', JBool True), (''port'', JNumber ''5000''), (''mnemonic'', JString []),
      (''wallet-index'', JNumber ''0''), (''db-path'', JString ''snetd.db''), (''passthrough'', JBool False),
      (''service-type'', JString ''grpc''), (''ssl-cert'', JString []), (''ssl-key'', JString []),
      (''wire-encoding'', JString ''proto''), (''poll-sleep'', JString ''5s'')]"

text \<open>\<open>given\<close> has the flags the user gave; \<^verbatim>\<open>Lookup\<close> finds each declared flag.\<close>

definition flags_Lookup :: "(string \<Rightarrow> json option) \<Rightarrow> string \<Rightarrow> pflag" where
  "flags_Lookup given name =
     (case given name of
        Some v \<Rightarrow> \<lparr>flag_Changed = True, flag_Value = v\<rparr>
      | None \<Rightarrow> \<lparr>flag_Changed = False, flag_Value = (case map_of serve_flags name of Some v \<Rightarrow> v | None \<Rightarrow> JNull)\<rparr>)"

definition bound_flags :: "(string \<times> string) list" where
  "bound_flags =
     [(AutoSSLDomainKey, ''auto-ssl-domain''), (AutoSSLCacheDirKey, ''auto-ssl-cache''), (DaemonTypeKey, ''type''),
      (BlockchainEnabledKey, ''blockchain''), (PassthroughEnabledKey, ''passthrough''), (SSLCertPathKey, ''ssl-cert''),
      (SSLKeyPathKey, ''ssl-key'')]"

definition flags_init :: "'v viper_pkg \<Rightarrow> (string \<Rightarrow> json option) \<Rightarrow> 'v \<Rightarrow> 'v" where
  "flags_init V given vip = fold (\<lambda>(key, name) vip. BindPFlag V key (flags_Lookup given name) vip) bound_flags vip"

text \<open>
  \<^verbatim>\<open>RootCmd.Run\<close>: \<open>Find\<close> is cobra's search for a subcommand, \<open>Execute\<close> and \<open>Serve\<close> run one. \<^verbatim>\<open>main\<close> ends the process
  when the command line is not understood.
\<close>

definition RootCmd_Run ::
  "(string list \<Rightarrow> 'cmd option \<times> error option) \<Rightarrow> ('cmd \<Rightarrow> 'w \<Rightarrow> 'r \<times> 'w) \<Rightarrow> (string list \<Rightarrow> 'w \<Rightarrow> 'r \<times> 'w) \<Rightarrow> string list \<Rightarrow> 'w \<Rightarrow> 'r \<times> 'w" where
  "RootCmd_Run Find Execute Serve args w =
     (case Find args of
        (Some command, Some err) \<Rightarrow> Execute command w
      | _ \<Rightarrow> Serve args w)"


text \<open>The commands the user can name.\<close>

datatype cobra_command = InitCmd | ServeCmd | ListCmd | ChannelCmd | VersionCmd | ListChannelsCmd | ListClaimsCmd

definition RootCmd_commands :: "(string \<times> cobra_command) list" where
  "RootCmd_commands = [(''init'', InitCmd), (''serve'', ServeCmd), (''list'', ListCmd), (''channel'', ChannelCmd), (''version'', VersionCmd)]"

definition ListCmd_commands :: "(string \<times> cobra_command) list" where
  "ListCmd_commands = [(''channels'', ListChannelsCmd), (''claims'', ListClaimsCmd)]"

text \<open>\<^verbatim>\<open>os.Stat\<close> gives an error that \<^verbatim>\<open>os.IsNotExist\<close> recognises, or anything else.\<close>

definition isFileExist :: "(string \<Rightarrow> error option) \<Rightarrow> (error \<Rightarrow> bool) \<Rightarrow> string \<Rightarrow> bool" where
  "isFileExist os_Stat IsNotExist fileName =
     (let err = os_Stat fileName in \<not> (case err of None \<Rightarrow> False | Some e \<Rightarrow> IsNotExist e))"

section \<open>What viper promises\<close>

record layers =
  set_layer :: "string \<Rightarrow> json option"
  flag_layer :: "string \<Rightarrow> json option"
  env_layer :: "string \<Rightarrow> json option"
  file_layer :: "string \<Rightarrow> json option"
  default_layer :: "string \<Rightarrow> json option"
  flag_default_layer :: "string \<Rightarrow> json option"

definition no_layers :: layers where
  "no_layers = \<lparr>set_layer = Map.empty, flag_layer = Map.empty, env_layer = Map.empty, file_layer = Map.empty,
     default_layer = Map.empty, flag_default_layer = Map.empty\<rparr>"

fun first_of :: "'a option list \<Rightarrow> 'a option" where
  "first_of [] = None"
| "first_of (None # xs) = first_of xs"
| "first_of (Some x # xs) = Some x"

lemma first_of_Cons: "first_of (x # xs) = (case x of None \<Rightarrow> first_of xs | Some y \<Rightarrow> Some y)"
  by (cases x) simp_all

definition lookup :: "layers \<Rightarrow> string \<Rightarrow> json option" where
  "lookup l k = first_of [set_layer l k, flag_layer l k, env_layer l k, file_layer l k, default_layer l k, flag_default_layer l k]"

text \<open>viper folds the case of keys, and \<^verbatim>\<open>AllSettings\<close> leaves out null values and empty objects.\<close>

fun insensitivise :: "json \<Rightarrow> json" where
  "insensitivise (JObject ms) = JObject (map (\<lambda>(k, v). (ToLower k, insensitivise v)) ms)"
| "insensitivise v = v"

abbreviation insensitive_members :: "(string \<times> json) list \<Rightarrow> (string \<times> json) list" where
  "insensitive_members ms \<equiv> map (\<lambda>(k, x). (ToLower k, insensitivise x)) ms"

fun listed :: "json \<Rightarrow> bool" where
  "listed (JObject ms) = (ms \<noteq> [] \<and> list_all (\<lambda>(k, v). listed v) ms)"
| "listed JNull = False"
| "listed v = True"

text \<open>
  What is written to a file as JSON and read back is the same: strings of ASCII characters, numbers of up to 15 digits, which a double holds
  exactly, objects with distinct keys.
\<close>

fun is_ascii :: "char \<Rightarrow> bool" where
  "is_ascii (Char b0 b1 b2 b3 b4 b5 b6 b7) = (\<not> b7)"

fun printable :: "json \<Rightarrow> bool" where
  "printable (JString t) = list_all is_ascii t"
| "printable (JNumber n) = (valid_number n \<and> list_all is_digit n \<and> length n \<le> 15)"
| "printable (JArray xs) = list_all printable xs"
| "printable (JObject ms) = (distinct (map fst ms) \<and> list_all (\<lambda>(k, v). printable v) ms)"
| "printable _ = True"

lemma printable_wf: "printable x \<Longrightarrow> json_wf x"
  by (induction x) (fastforce simp: list_all_iff number_char_def)+

locale viper_store =
  fixes V :: "'v viper_pkg" and layers :: "'v \<Rightarrow> layers" and environ :: "string \<Rightarrow> string option"
  assumes New: "layers (viper_New V) = no_layers"
    and Env: "layers (AutomaticEnv V (SetEnvPrefix V p v)) =
      (layers v)\<lparr>env_layer := (\<lambda>k. map_option JString (environ (ToUpper (p @ ''_'' @ k))))\<rparr>"
    and ReadConfig: "unmarshal_map t = Inr ms \<Longrightarrow>
      \<exists>v'. ReadConfig V t (SetConfigType V ''json'' v) = (None, v') \<and>
        layers v' = (layers v)\<lparr>file_layer := map_of (insensitive_members ms)\<rparr>"
    and AddConfigPath: "layers (AddConfigPath V d v) = layers v"
    and SetDefault: "CHR ''.'' \<notin> set k \<Longrightarrow>
      layers (SetDefault V k x v) = (layers v)\<lparr>default_layer := (default_layer (layers v))(ToLower k \<mapsto> insensitivise x)\<rparr>"
    and Set: "CHR ''.'' \<notin> set k \<Longrightarrow>
      layers (viper_Set V k x v) = (layers v)\<lparr>set_layer := (set_layer (layers v))(ToLower k \<mapsto> insensitivise x)\<rparr>"
    and BindPFlag: "layers (BindPFlag V k f v) = (layers v)
      \<lparr>flag_layer := (flag_layer (layers v))(ToLower k := if flag_Changed f then Some (flag_Value f) else None),
       flag_default_layer := (flag_default_layer (layers v))(ToLower k \<mapsto> flag_Value f)\<rparr>"
    and ReadInConfig: "files file = Some t \<Longrightarrow> unmarshal_map t = Inr ms \<Longrightarrow>
      \<exists>v'. ReadInConfig V files (SetConfigFile V file v) = (None, v') \<and>
        layers v' = (layers v)\<lparr>file_layer := map_of (insensitive_members ms)\<rparr>"
    and AllSettings: "layers v = no_layers\<lparr>file_layer := map_of ms\<rparr> \<Longrightarrow> list_all (\<lambda>(k, x). listed x) ms \<Longrightarrow>
      map_of (AllSettings V v) = map_of ms \<and> distinct (map fst (AllSettings V v))"
    and AllSettings_defaults: "layers v = no_layers\<lparr>default_layer := map_of ms, flag_default_layer := unset\<rparr> \<Longrightarrow>
      dom unset \<subseteq> dom (map_of ms) \<Longrightarrow> list_all (\<lambda>(k, x). listed x) ms \<Longrightarrow>
      map_of (AllSettings V v) = map_of ms \<and> distinct (map fst (AllSettings V v))"
    and WriteConfig: "list_all (\<lambda>(k, x). printable x) (AllSettings V v) \<Longrightarrow> distinct (map fst (AllSettings V v)) \<Longrightarrow>
      viper_WriteConfig V (SetConfigFile V file v) files = (None, files') \<Longrightarrow>
      \<exists>t ms. files' = files(file \<mapsto> t) \<and> unmarshal_map t = Inr ms \<and> distinct (map fst ms) \<and>
        map_of ms = map_of (AllSettings V v)"
    and Get: "viper_Get V v k = lookup (layers v) (ToLower k)"
    and ToStringMap: "distinct (map fst ms) \<Longrightarrow>
      set (cast_ToStringMap V (JObject ms)) = set ms \<and> distinct (map fst (cast_ToStringMap V (JObject ms)))"
    and casts: "cast_ToString V None = []" "cast_ToString V (Some (JString s)) = s" "cast_ToBool V (Some (JBool b)) = b"
      "\<bar>i\<bar> < 2 ^ 63 \<Longrightarrow> cast_ToInt V (Some (JNumber (show_int i))) = i"

begin

lemma SetDefault_fold:
  assumes "\<forall>(k, x) \<in> set xs. CHR ''.'' \<notin> set k \<and> ToLower k = k \<and> insensitivise x = x" "distinct (map fst xs)"
  shows "layers (fold (\<lambda>(k, x) v. SetDefault V k x v) xs v) = (layers v)\<lparr>default_layer := default_layer (layers v) ++ map_of xs\<rparr>"
  using assms
proof (induction xs arbitrary: v)
  case (Cons p xs)
  obtain k x where p: "p = (k, x)" by (cases p)
  define d where "d = (default_layer (layers v))(k \<mapsto> x)"
  have "layers (SetDefault V k x v) = (layers v)\<lparr>default_layer := d\<rparr>"
    unfolding d_def using Cons.prems p SetDefault [of k x v] by simp
  moreover have "map_of xs k = None" using Cons.prems p by (auto simp: map_of_eq_None_iff)
  then have "d ++ map_of xs = default_layer (layers v) ++ map_of (p # xs)"
    by (auto simp: d_def p fun_eq_iff map_add_def split: option.splits)
  ultimately show ?case using Cons p by (simp del: map_of.simps)
qed simp

lemma Set_fold:
  assumes "\<forall>(k, x) \<in> set xs. CHR ''.'' \<notin> set k \<and> ToLower k = k \<and> insensitivise x = x" "distinct (map fst xs)"
  shows "layers (fold (\<lambda>(k, x) v. viper_Set V k x v) xs v) = (layers v)\<lparr>set_layer := set_layer (layers v) ++ map_of xs\<rparr>"
  using assms
proof (induction xs arbitrary: v)
  case (Cons p xs)
  obtain k x where p: "p = (k, x)" by (cases p)
  define d where "d = (set_layer (layers v))(k \<mapsto> x)"
  have "layers (viper_Set V k x v) = (layers v)\<lparr>set_layer := d\<rparr>"
    unfolding d_def using Cons.prems p Set [of k x v] by simp
  moreover have "map_of xs k = None" using Cons.prems p by (auto simp: map_of_eq_None_iff)
  then have "d ++ map_of xs = set_layer (layers v) ++ map_of (p # xs)"
    by (auto simp: d_def p fun_eq_iff map_add_def split: option.splits)
  ultimately show ?case using Cons p by (simp del: map_of.simps)
qed simp

lemma BindPFlag_fold:
  assumes "\<forall>(k, n) \<in> set bs. ToLower k = k" "distinct (map fst bs)"
  shows "flag_layer (layers (fold (\<lambda>(k, n) v. BindPFlag V k (flags_Lookup given n) v) bs v)) k =
      (case map_of bs k of Some n \<Rightarrow> given n | None \<Rightarrow> flag_layer (layers v) k) \<and>
    (map_of bs k = None \<longrightarrow> flag_default_layer (layers (fold (\<lambda>(k, n) v. BindPFlag V k (flags_Lookup given n) v) bs v)) k =
      flag_default_layer (layers v) k) \<and>
    set_layer (layers (fold (\<lambda>(k, n) v. BindPFlag V k (flags_Lookup given n) v) bs v)) = set_layer (layers v) \<and>
    env_layer (layers (fold (\<lambda>(k, n) v. BindPFlag V k (flags_Lookup given n) v) bs v)) = env_layer (layers v) \<and>
    file_layer (layers (fold (\<lambda>(k, n) v. BindPFlag V k (flags_Lookup given n) v) bs v)) = file_layer (layers v) \<and>
    default_layer (layers (fold (\<lambda>(k, n) v. BindPFlag V k (flags_Lookup given n) v) bs v)) = default_layer (layers v)"
  using assms
proof (induction bs arbitrary: v)
  case (Cons p bs)
  obtain l n where p: "p = (l, n)" by (cases p)
  have "map_of bs l = None" using Cons.prems p by (auto simp: map_of_eq_None_iff)
  with Cons p show ?case by (auto simp: BindPFlag flags_Lookup_def split: option.splits)
qed simp

end

section \<open>The defaults in use\<close>

lemma default_parsed: "unmarshal_map defaultConfigJson = Inr default_members"
  by code_simp

lemma default_members_plain:
  "list_all (\<lambda>(k, x). CHR ''.'' \<notin> set k \<and> ToLower k = k \<and> insensitivise x = x \<and> listed x) default_members"
  by code_simp

lemma default_members_printable: "list_all (\<lambda>(k, x). printable x) default_members"
  by code_simp

lemma default_sections:
  "list_all (\<lambda>(s, y). case y of JObject ms \<Rightarrow> distinct (map fst ms) \<and>
     list_all (\<lambda>(k, x). CHR ''.'' \<notin> set k \<and> ToLower k = k \<and> insensitivise x = x) ms | _ \<Rightarrow> True) default_members"
  by code_simp

lemma default_members_insensitive: "insensitive_members default_members = default_members"
  using default_members_plain by (intro map_idI) (auto simp: list_all_iff)

lemma bound_flags_plain: "list_all (\<lambda>(k, n). ToLower k = k \<and> map_of default_members k \<noteq> None) bound_flags \<and> distinct (map fst bound_flags)"
  by code_simp

context viper_store
begin

lemma config_init_layers:
  obtains v where "config_init V = Returns v"
    "layers v = no_layers\<lparr>env_layer := (\<lambda>k. map_option JString (environ (ToUpper (''SNET_'' @ k)))),
       default_layer := map_of default_members\<rparr>"
proof -
  from ReadConfig [OF default_parsed, of "viper_New V"] obtain d where
    d: "ReadConfig V defaultConfigJson (SetConfigType V ''json'' (viper_New V)) = (None, d)"
    "layers d = no_layers\<lparr>file_layer := map_of default_members\<rparr>"
    by (auto simp: New default_members_insensitive)
  let ?xs = "AllSettings V d"
  have "list_all (\<lambda>(k, x). listed x) default_members" using default_members_plain by (auto simp: list_all_iff)
  from AllSettings [OF d(2) this] have xs: "map_of ?xs = map_of default_members" "distinct (map fst ?xs)" by simp_all
  have "(k, x) \<in> set default_members" if "(k, x) \<in> set ?xs" for k x
    using that xs map_of_eq_Some_iff [OF xs(2)] by (metis map_of_SomeD)
  then have plain: "\<forall>(k, x) \<in> set ?xs. CHR ''.'' \<notin> set k \<and> ToLower k = k \<and> insensitivise x = x"
    using default_members_plain by (fastforce simp: list_all_iff)
  show ?thesis
  proof (rule that)
    show "config_init V = Returns (AddConfigPath V ''.'' (SetDefaultFromConfig V
        (AutomaticEnv V (SetEnvPrefix V ''SNET'' (viper_New V))) d))"
      using d(1) by (simp add: config_init_def ReadConfigFromJsonString_def Let_def)
    show "layers (AddConfigPath V ''.'' (SetDefaultFromConfig V (AutomaticEnv V (SetEnvPrefix V ''SNET'' (viper_New V))) d)) =
      no_layers\<lparr>env_layer := (\<lambda>k. map_option JString (environ (ToUpper (''SNET_'' @ k)))),
       default_layer := map_of default_members\<rparr>"
      using SetDefault_fold [OF plain xs(2), of "AutomaticEnv V (SetEnvPrefix V ''SNET'' (viper_New V))"] xs(1)
      by (simp add: SetDefaultFromConfig_def AddConfigPath Env New no_layers_def)
  qed
qed

text \<open>The store the daemon works with: the defaults, the flags and, when a file is read, the file.\<close>

lemma flags_init_layers:
  assumes "config_init V = Returns v"
  shows "lookup (layers (flags_init V given v)) k = first_of
      [Option.bind (map_of bound_flags k) given, map_option JString (environ (ToUpper (''SNET_'' @ k))), map_of default_members k]"
    and "lookup ((layers (flags_init V given v))\<lparr>file_layer := f\<rparr>) k = first_of
      [Option.bind (map_of bound_flags k) given, map_option JString (environ (ToUpper (''SNET_'' @ k))), f k, map_of default_members k]"
proof -
  obtain v0 where "config_init V = Returns v0" and l: "layers v0 = no_layers\<lparr>env_layer :=
      (\<lambda>k. map_option JString (environ (ToUpper (''SNET_'' @ k)))), default_layer := map_of default_members\<rparr>"
    by (rule config_init_layers)
  with assms have v0: "v = v0" by simp
  have b: "\<forall>(k, n) \<in> set bound_flags. ToLower k = k" "distinct (map fst bound_flags)"
    using bound_flags_plain by (auto simp: list_all_iff)
  have bd: "map_of bound_flags k = None \<or> map_of default_members k \<noteq> None"
  proof (cases "map_of bound_flags k")
    case (Some n)
    from map_of_SomeD [OF this] bound_flags_plain show ?thesis by (auto simp: list_all_iff)
  qed simp
  note f = BindPFlag_fold [OF b, of given v k, folded flags_init_def]
  show "lookup (layers (flags_init V given v)) k = first_of
      [Option.bind (map_of bound_flags k) given, map_option JString (environ (ToUpper (''SNET_'' @ k))), map_of default_members k]"
    using f bd l unfolding v0 lookup_def no_layers_def
    by (cases "map_of bound_flags k"; cases "map_of default_members k"; cases "environ (ToUpper (''SNET_'' @ k))")
      (auto simp: first_of_Cons split: option.splits)
  show "lookup ((layers (flags_init V given v))\<lparr>file_layer := f\<rparr>) k = first_of
      [Option.bind (map_of bound_flags k) given, map_option JString (environ (ToUpper (''SNET_'' @ k))), f k, map_of default_members k]"
    using f bd l unfolding v0 lookup_def no_layers_def
    by (cases "map_of bound_flags k"; cases "map_of default_members k"; cases "environ (ToUpper (''SNET_'' @ k))"; cases "f k")
      (auto simp: first_of_Cons split: option.splits)
qed

lemma no_flags_layers:
  assumes "config_init V = Returns v" "environ = (\<lambda>_. None)"
  obtains unset where "layers (flags_init V (\<lambda>_. None) v) = no_layers\<lparr>default_layer := map_of default_members, flag_default_layer := unset\<rparr>"
    "dom unset \<subseteq> dom (map_of default_members)"
proof -
  let ?l = "layers (flags_init V (\<lambda>_. None) v)"
  obtain v0 where "config_init V = Returns v0" and l0: "layers v0 = no_layers\<lparr>env_layer :=
      (\<lambda>k. map_option JString (environ (ToUpper (''SNET_'' @ k)))), default_layer := map_of default_members\<rparr>"
    by (rule config_init_layers)
  with assms have l: "layers v = no_layers\<lparr>env_layer := (\<lambda>k. None), default_layer := map_of default_members\<rparr>" by simp
  have b: "\<forall>(k, n) \<in> set bound_flags. ToLower k = k" "distinct (map fst bound_flags)"
    using bound_flags_plain by (auto simp: list_all_iff)
  note f = BindPFlag_fold [OF b, of "\<lambda>_. None" v, folded flags_init_def]
  have none: "flag_layer ?l = Map.empty"
  proof
    fix k
    show "flag_layer ?l k = None" using f [of k] l by (cases "map_of bound_flags k") (simp_all add: no_layers_def)
  qed
  have "dom (flag_default_layer ?l) \<subseteq> dom (map_of default_members)"
  proof
    fix k
    assume "k \<in> dom (flag_default_layer ?l)"
    then obtain n where "map_of bound_flags k = Some n" using f [of k] l by (cases "map_of bound_flags k") (auto simp: no_layers_def)
    from map_of_SomeD [OF this] bound_flags_plain show "k \<in> dom (map_of default_members)" by (auto simp: list_all_iff)
  qed
  moreover have "?l = no_layers\<lparr>default_layer := map_of default_members, flag_default_layer := flag_default_layer ?l\<rparr>"
    using none f l by (intro layers.equality) (simp_all add: no_layers_def)
  ultimately show ?thesis by (rule that [rotated])
qed

lemma settings_of_defaults:
  assumes "config_init V = Returns v" "environ = (\<lambda>_. None)"
  shows "map_of (AllSettings V (flags_init V (\<lambda>_. None) v)) = map_of default_members"
    and "distinct (map fst (AllSettings V (flags_init V (\<lambda>_. None) v)))"
proof -
  obtain unset where l: "layers (flags_init V (\<lambda>_. None) v) =
      no_layers\<lparr>default_layer := map_of default_members, flag_default_layer := unset\<rparr>" "dom unset \<subseteq> dom (map_of default_members)"
    by (rule no_flags_layers [OF assms])
  have "list_all (\<lambda>(k, x). listed x) default_members" using default_members_plain by (auto simp: list_all_iff)
  from AllSettings_defaults [OF l this] show "map_of (AllSettings V (flags_init V (\<lambda>_. None) v)) = map_of default_members"
    "distinct (map fst (AllSettings V (flags_init V (\<lambda>_. None) v)))"
    by simp_all
qed

text \<open>
  What \<^verbatim>\<open>SubWithDefault\<close> is for: a section of the configuration that the user did not write is the one of the defaults, and a
  section that is nowhere is nil.
\<close>

lemma section_of_defaults:
  assumes "config_init V = Returns v" "environ = (\<lambda>_. None)" "map_of default_members (ToLower key) = Some (JObject ms)"
  obtains sub where "SubWithDefault V (flags_init V (\<lambda>_. None) v) key = Some sub" "\<And>k. viper_Get V sub k = map_of ms (ToLower k)"
proof -
  note all = settings_of_defaults [OF assms(1,2)]
  let ?xs = "cast_ToStringMap V (JObject ms)"
  have sec: "distinct (map fst ms)" "\<forall>(k, x) \<in> set ms. CHR ''.'' \<notin> set k \<and> ToLower k = k \<and> insensitivise x = x"
    using bspec [OF default_sections [unfolded list_all_iff] map_of_SomeD [OF assms(3)]] by simp_all
  note xs = ToStringMap [OF sec(1)]
  define sub where "sub = fold (\<lambda>(k, x) v. viper_Set V k x v) ?xs (viper_New V)"
  have "layers sub = no_layers\<lparr>set_layer := map_of ?xs\<rparr>"
    unfolding sub_def using Set_fold [of ?xs "viper_New V"] sec(2) xs by (simp add: New no_layers_def)
  moreover have "map_of ?xs = map_of ms" using xs sec(1) by (intro map_of_eqI) (auto simp: map_of_eq_Some_iff)
  ultimately have get: "viper_Get V sub k = map_of ms (ToLower k)" for k
    by (cases "map_of ms (ToLower k)") (simp_all add: Get lookup_def no_layers_def)
  have "SubWithDefault V (flags_init V (\<lambda>_. None) v) key = Some sub"
    using all(1) assms(3) by (simp add: SubWithDefault_def sub_def Let_def)
  from that [OF this get] show ?thesis .
qed

lemma missing_section:
  assumes "config_init V = Returns v" "environ = (\<lambda>_. None)" "map_of default_members (ToLower key) = None"
  shows "SubWithDefault V (flags_init V (\<lambda>_. None) v) key = None"
  using settings_of_defaults(1) [OF assms(1,2)] assms(3) by (simp add: SubWithDefault_def)

lemma written_defaults:
  assumes "config_init V = Returns v" "environ = (\<lambda>_. None)"
    and "viper_WriteConfig V (SetConfigFile V file (flags_init V (\<lambda>_. None) v)) files = (None, files')"
  obtains t ms where "files' = files(file \<mapsto> t)" "unmarshal_map t = Inr ms" "map_of (insensitive_members ms) = map_of default_members"
proof -
  let ?v = "flags_init V (\<lambda>_. None) v"
  note all = settings_of_defaults [OF assms(1,2)]
  have same: "set xs \<subseteq> set default_members" if "map_of xs = map_of default_members" "distinct (map fst xs)" for xs
    using that by (metis map_of_SomeD map_of_is_SomeI subrelI)
  have "list_all (\<lambda>(k, x). printable x) (AllSettings V ?v)"
    using same [OF all] default_members_printable by (auto simp: list_all_iff)
  from WriteConfig [OF this all(2) assms(3)] obtain t ms where w: "files' = files(file \<mapsto> t)" "unmarshal_map t = Inr ms"
    "distinct (map fst ms)" "map_of ms = map_of default_members"
    unfolding all(1) by blast
  have "insensitive_members ms = ms"
    using same [OF w(4,3)] default_members_plain by (intro map_idI) (auto simp: list_all_iff)
  with w that show ?thesis by simp
qed

end

section \<open>A store\<close>

text \<open>A store that keeps viper's promises, with each layer as a list of its settings.\<close>

record store =
  st_set :: "(string \<times> json) list"
  st_flags :: "(string \<times> pflag) list"
  st_prefix :: string
  st_env :: bool
  st_file :: "(string \<times> json) list"
  st_defaults :: "(string \<times> json) list"
  st_configFile :: string

definition store_layers :: "(string \<Rightarrow> string option) \<Rightarrow> store \<Rightarrow> layers" where
  "store_layers environ v =
     \<lparr>set_layer = map_of (st_set v),
      flag_layer = (\<lambda>k. Option.bind (map_of (st_flags v) k) (\<lambda>f. if flag_Changed f then Some (flag_Value f) else None)),
      env_layer = (\<lambda>k. if st_env v then map_option JString (environ (ToUpper (st_prefix v @ ''_'' @ k))) else None),
      file_layer = map_of (st_file v), default_layer = map_of (st_defaults v),
      flag_default_layer = (\<lambda>k. map_option flag_Value (map_of (st_flags v) k))\<rparr>"

definition store_read :: "string \<Rightarrow> store \<Rightarrow> error option \<times> store" where
  "store_read t v =
     (case unmarshal_map t of Inl err \<Rightarrow> (Some err, v) | Inr ms \<Rightarrow> (None, v\<lparr>st_file := insensitive_members ms\<rparr>))"

definition store_viper :: "(string \<Rightarrow> string option) \<Rightarrow> store viper_pkg" where
  "store_viper environ =
     \<lparr>viper_New = \<lparr>st_set = [], st_flags = [], st_prefix = [], st_env = False, st_file = [], st_defaults = [], st_configFile = []\<rparr>,
      SetEnvPrefix = (\<lambda>p v. v\<lparr>st_prefix := p\<rparr>), AutomaticEnv = (\<lambda>v. v\<lparr>st_env := True\<rparr>), SetConfigType = (\<lambda>_ v. v),
      ReadConfig = store_read, AddConfigPath = (\<lambda>_ v. v), SetConfigFile = (\<lambda>f v. v\<lparr>st_configFile := f\<rparr>),
      ReadInConfig = (\<lambda>files v. case files (st_configFile v) of
         None \<Rightarrow> (Some (errors_New ''no such file''), v) | Some t \<Rightarrow> store_read t v),
      viper_WriteConfig = (\<lambda>v files. (None, files(st_configFile v \<mapsto> marshal_json (JObject (AList.clearjunk (st_set v @ st_file v @ st_defaults v)))))),
      SetDefault = (\<lambda>k x v. v\<lparr>st_defaults := (ToLower k, insensitivise x) # st_defaults v\<rparr>),
      viper_Set = (\<lambda>k x v. v\<lparr>st_set := (ToLower k, insensitivise x) # st_set v\<rparr>),
      BindPFlag = (\<lambda>k f v. v\<lparr>st_flags := (ToLower k, f) # st_flags v\<rparr>),
      AllSettings = (\<lambda>v. AList.clearjunk (st_set v @ st_file v @ st_defaults v)),
      AllKeys = (\<lambda>v. map fst (AList.clearjunk (st_set v @ st_file v @ st_defaults v))),
      viper_Get = (\<lambda>v k. lookup (store_layers environ v) (ToLower k)),
      cast_ToString = (\<lambda>x. case x of None \<Rightarrow> [] | Some j \<Rightarrow> sprint_json j),
      cast_ToInt = (\<lambda>x. case x of Some (JNumber n) \<Rightarrow> (case UnmarshalText n of Some i \<Rightarrow> i | None \<Rightarrow> 0) | _ \<Rightarrow> 0),
      cast_ToBool = (\<lambda>x. x = Some (JBool True)), cast_ToDuration = (\<lambda>x. case x of Some (JNumber n) \<Rightarrow> (case UnmarshalText n of Some i \<Rightarrow> i | None \<Rightarrow> 0) | _ \<Rightarrow> 0),
      cast_ToStringMap = (\<lambda>j. case j of JObject ms \<Rightarrow> ms | _ \<Rightarrow> [])\<rparr>"

interpretation store: viper_store "store_viper environ" "store_layers environ" environ for environ
proof unfold_locales
  fix v ms
  assume "store_layers environ v = no_layers\<lparr>file_layer := map_of ms\<rparr>"
  then have "map_of (st_set v) = Map.empty" "map_of (st_file v) = map_of ms" "map_of (st_defaults v) = Map.empty"
    by (simp_all add: store_layers_def no_layers_def)
  then show "map_of (AllSettings (store_viper environ) v) = map_of ms \<and> distinct (map fst (AllSettings (store_viper environ) v))"
    by (simp add: store_viper_def map_of_clearjunk)
next
  fix v ms f
  assume "store_layers environ v = no_layers\<lparr>default_layer := map_of ms, flag_default_layer := f\<rparr>"
  then have "map_of (st_set v) = Map.empty" "map_of (st_file v) = Map.empty" "map_of (st_defaults v) = map_of ms"
    by (simp_all add: store_layers_def no_layers_def)
  then show "map_of (AllSettings (store_viper environ) v) = map_of ms \<and> distinct (map fst (AllSettings (store_viper environ) v))"
    by (simp add: store_viper_def map_of_clearjunk)
next
  fix v path files files'
  let ?V = "store_viper environ" and ?ms = "AllSettings (store_viper environ) v"
  assume wf: "list_all (\<lambda>(k, x). printable x) ?ms" "distinct (map fst ?ms)"
    and "viper_WriteConfig ?V (SetConfigFile ?V path v) files = (None, files')"
  then have "files' = files(path \<mapsto> marshal_json (JObject ?ms))" by (simp add: store_viper_def)
  moreover have "json_wf (JObject ?ms)" using wf by (auto simp: list_all_iff intro: printable_wf)
  then have "unmarshal_map (marshal_json (JObject ?ms)) = Inr ?ms" by (simp add: unmarshal_map_def json_roundtrip del: marshal_json.simps json_wf.simps)
  ultimately show "\<exists>t ms. files' = files(path \<mapsto> t) \<and> unmarshal_map t = Inr ms \<and> distinct (map fst ms) \<and> map_of ms = map_of ?ms"
    using wf(2) by blast
qed (auto simp: store_viper_def store_layers_def no_layers_def store_read_def fun_eq_iff UnmarshalText_show_int)




section \<open>Properties\<close>














end
