(* ===== verification/Defaults.thy ===== *)
theory Defaults
  imports Settings
begin

text \<open>
  What the daemon does with the sections of its default configuration: the etcd client and the embedded etcd server
  (\<^verbatim>\<open>etcddb/etcddb_conf.go\<close>) and the log (\<^verbatim>\<open>logger/logger.go\<close>) are set up from sections that \<^verbatim>\<open>config.SubWithDefault\<close> finds.
  Here the sections come from the store of \<open>Settings\<close>, so that the defaults of \<^verbatim>\<open>config/config.go\<close> and their readers meet.
\<close>

section \<open>Decoding a section into a struct\<close>










section \<open>What decoding promises\<close>

lemma numerals_shown:
  "show_int 0 = ''0''" "show_int 1 = ''1''" "show_int 3 = ''3''" "show_int 5 = ''5''" "show_int 2379 = ''2379''" "show_int 2380 = ''2380''"
  "show_int 86400 = ''86400''" "show_int 604800 = ''604800''"
  by (simp_all add: show_int_def show_nat.simps digit_char_def char_of_def bit_0)


section \<open>The default configuration of etcd\<close>






lemma ToLower_fields [simp]:
  "ToLower ''Endpoints'' = ''endpoints''" "ToLower ''request_timeout'' = ''request_timeout''"
  "ToLower ''connection_timeout'' = ''connection_timeout''" "ToLower ''LOG_LEVEL'' = ''log_level''" "ToLower ''DATA_DIR'' = ''data_dir''"
  "ToLower ''Enabled'' = ''enabled''" "ToLower ''startup_timeout'' = ''startup_timeout''" "ToLower ''Cluster'' = ''cluster''"
  "ToLower ''Token'' = ''token''" "ToLower ''PEER_PORT'' = ''peer_port''" "ToLower ''CLIENT_PORT'' = ''client_port''"
  "ToLower ''Host'' = ''host''" "ToLower ''Scheme'' = ''scheme''" "ToLower ''ID'' = ''id''"
  "ToLower ''endpoints'' = ''endpoints''" "ToLower ''log_level'' = ''log_level''" "ToLower ''data_dir'' = ''data_dir''"
  "ToLower ''enabled'' = ''enabled''" "ToLower ''cluster'' = ''cluster''" "ToLower ''token'' = ''token''"
  "ToLower ''peer_port'' = ''peer_port''" "ToLower ''client_port'' = ''client_port''" "ToLower ''host'' = ''host''"
  "ToLower ''scheme'' = ''scheme''" "ToLower ''id'' = ''id''"
  by code_simp+


section \<open>The log\<close>

text \<open>
  A section of the configuration as the log reads it. \<open>to_slice\<close> is \<^verbatim>\<open>cast.ToStringSlice\<close>, None for nil. \<^verbatim>\<open>Sub\<close> makes a viper of its own out of a
  setting that is an object, and gives nil otherwise.
\<close>

fun log_section :: "'v viper_pkg \<Rightarrow> (json option \<Rightarrow> string list option) \<Rightarrow> json \<Rightarrow> log_config option" where
  "log_section V to_slice (JObject ms) =
     (let subs = map (\<lambda>(k, x). (k, log_section V to_slice x)) ms in
      Some (log_config.LogConfig (\<lambda>k. map_option (\<lambda>x. cast_ToString V (Some x)) (map_of ms (ToLower k)))
        (\<lambda>k. word_of_int (cast_ToDuration V (map_of ms (ToLower k)))) (\<lambda>k. word_of_int (cast_ToInt V (map_of ms (ToLower k))))
        (\<lambda>k. to_slice (map_of ms (ToLower k))) (\<lambda>k. Option.bind (map_of subs (ToLower k)) id)))"
| "log_section V to_slice _ = None"

lemma log_section_selectors:
  assumes "log_section V to_slice (JObject ms) = Some config"
  shows "cfg_strings config k = map_option (\<lambda>x. cast_ToString V (Some x)) (map_of ms (ToLower k))"
    and "GetDuration config k = word_of_int (cast_ToDuration V (map_of ms (ToLower k)))"
    and "GetInt config k = word_of_int (cast_ToInt V (map_of ms (ToLower k)))"
  using assms by (auto simp: Let_def simp del: word_of_int_eq_iff)

definition log_config_of :: "'v viper_pkg \<Rightarrow> (json option \<Rightarrow> string list option) \<Rightarrow> 'v \<Rightarrow> log_config" where
  "log_config_of V to_slice vip =
     log_config.LogConfig (\<lambda>k. map_option (\<lambda>x. cast_ToString V (Some x)) (viper_Get V vip k))
       (\<lambda>k. word_of_int (cast_ToDuration V (viper_Get V vip k))) (\<lambda>k. word_of_int (cast_ToInt V (viper_Get V vip k)))
       (\<lambda>k. to_slice (viper_Get V vip k)) (\<lambda>k. Option.bind (viper_Get V vip k) (log_section V to_slice))"

text \<open>The section \<^verbatim>\<open>log\<close> of the defaults.\<close>

abbreviation formatter_section :: "(string \<times> json) list" where
  "formatter_section \<equiv> [(''type'', JString ''text''), (''timestamp_format'', JString ''2006-01-02T15:04:05.999999999Z07:00'')]"

abbreviation output_section :: "(string \<times> json) list" where
  "output_section \<equiv>
     [(''type'', JString ''file''), (''file_pattern'', JString ''./snet-daemon.%Y%m%d.log''), (''current_link'', JString ''./snet-daemon.log''),
      (''rotation_time_in_sec'', JNumber ''86400''), (''max_age_in_sec'', JNumber ''604800''), (''rotation_count'', JNumber ''0'')]"

abbreviation log_settings_section :: "(string \<times> json) list" where
  "log_settings_section \<equiv>
     [(''level'', JString ''info''), (''timezone'', JString ''UTC''), (''formatter'', JObject formatter_section),
      (''output'', JObject output_section), (''hooks'', JArray [])]"

definition default_writer :: "string \<Rightarrow> rotatelogs" where
  "default_writer location =
     \<lparr>file_pattern = ''./snet-daemon.%Y%m%d.log'', file_location = location, LinkName = ''./snet-daemon.log'',
      RotationTime = 86400 * time_Second, MaxAge = 604800 * time_Second, RotationCount = 0\<rparr>"

definition LogKey :: string where "LogKey = ''log''"

lemma log_section_default: "map_of default_members (ToLower LogKey) = Some (JObject log_settings_section)"
  by code_simp

lemma ToLower_log_keys [simp]:
  "ToLower LogLevelKey = ''level''" "ToLower LogTimezoneKey = ''timezone''" "ToLower LogFormatterKey = ''formatter''"
  "ToLower LogOutputKey = ''output''" "ToLower LogHooksKey = ''hooks''" "ToLower LogFormatterTypeKey = ''type''"
  "ToLower LogFormatterTimezoneKey = ''timezone''" "ToLower LogFormatterTimestampFormat = ''timestamp_format''"
  "ToLower LogOutputTypeKey = ''type''" "ToLower LogOutputFileFilePatternKey = ''file_pattern''"
  "ToLower LogOutputFileCurrentLinkKey = ''current_link''" "ToLower LogOutputFileClockTimezoneKey = ''clock_timezone''"
  "ToLower LogOutputFileRotationTimeInSecKey = ''rotation_time_in_sec''" "ToLower LogOutputFileMaxAgeInSecKey = ''max_age_in_sec''"
  "ToLower LogOutputFileRotationCountKey = ''rotation_count''"
  by code_simp+

text \<open>A number is a duration in nanoseconds, and an empty list has no strings.\<close>

locale log_settings = viper_store V layers environ
  for V :: "'v viper_pkg" and layers :: "'v \<Rightarrow> layers" and environ :: "string \<Rightarrow> string option" +
  fixes to_slice :: "json option \<Rightarrow> string list option"
  assumes ToDuration: "\<bar>i\<bar> < 2 ^ 63 \<Longrightarrow> cast_ToDuration V (Some (JNumber (show_int i))) = i"
    and ToStringSlice: "to_slice (Some (JArray (map JString ss))) = Some ss"
begin

lemma default_numbers:
  "cast_ToDuration V (Some (JNumber ''86400'')) = 86400" "cast_ToDuration V (Some (JNumber ''604800'')) = 604800"
  "cast_ToInt V (Some (JNumber ''0'')) = 0"
proof -
  from ToDuration [of 86400] ToDuration [of 604800] casts(4) [of 0]
  show "cast_ToDuration V (Some (JNumber ''86400'')) = 86400" "cast_ToDuration V (Some (JNumber ''604800'')) = 604800"
    "cast_ToInt V (Some (JNumber ''0'')) = 0" by (simp_all add: numerals_shown)
qed

lemma default_formatter:
  assumes "LoadLocation L ''UTC'' = Inr location" "log_section V to_slice (JObject formatter_section) = Some config"
  shows "newFormatterByConfig L (Logger.SetDefault LogFormatterTimezoneKey ''UTC'' config) =
    Inr \<lparr>delegate = TextFormatter ''2006-01-02T15:04:05.999999999Z07:00'', timestampLocation = location\<rparr>"
proof -
  have get: "cfg_GetString config LogFormatterTypeKey = ''text''" "cfg_strings config LogFormatterTimezoneKey = None"
    "cfg_GetString config LogFormatterTimestampFormat = ''2006-01-02T15:04:05.999999999Z07:00''"
    by (simp_all add: cfg_GetString_def log_section_selectors [OF assms(2)] casts)
  have "LogFormatterTypeKey \<noteq> LogFormatterTimezoneKey" "LogFormatterTimestampFormat \<noteq> LogFormatterTimezoneKey" by (simp_all add: log_keys)
  with get assms(1) show ?thesis by (simp add: newFormatterByConfig_def)
qed

lemma default_output:
  assumes "LoadLocation L ''UTC'' = Inr location" "NewRotate L (default_writer location) = None"
    and "log_section V to_slice (JObject output_section) = Some config"
  shows "newOutputByConfig L (Logger.SetDefault LogOutputFileClockTimezoneKey ''UTC'' config) = Inr (FileOutput (default_writer location))"
proof -
  have get: "cfg_GetString config LogOutputTypeKey = ''file''" "cfg_strings config LogOutputFileClockTimezoneKey = None"
    "cfg_GetString config LogOutputFileFilePatternKey = ''./snet-daemon.%Y%m%d.log''"
    "cfg_GetString config LogOutputFileCurrentLinkKey = ''./snet-daemon.log''"
    "GetDuration config LogOutputFileRotationTimeInSecKey = 86400" "GetDuration config LogOutputFileMaxAgeInSecKey = 604800"
    "GetInt config LogOutputFileRotationCountKey = 0"
    by (simp_all add: cfg_GetString_def log_section_selectors [OF assms(3)] casts default_numbers)
  have "LogOutputTypeKey \<noteq> LogOutputFileClockTimezoneKey" "LogOutputFileFilePatternKey \<noteq> LogOutputFileClockTimezoneKey"
    "LogOutputFileCurrentLinkKey \<noteq> LogOutputFileClockTimezoneKey" by (simp_all add: log_keys)
  with get assms(1,2) show ?thesis by (simp add: newOutputByConfig_def default_writer_def)
qed

text \<open>
  The log of a daemon without settings of its own: level info, in UTC, a text in a file that is changed daily and kept for a week, no hooks.
\<close>

lemma default_log:
  assumes "config_init V = Returns v0" "environ = (\<lambda>_. None)"
    and "SubWithDefault V (flags_init V (\<lambda>_. None) v0) LogKey = Some vip"
    and L: "log_ParseLevel L ''info'' = Inr level" "LoadLocation L ''UTC'' = Inr location" "NewRotate L (default_writer location) = None"
  shows "InitLogger L factories logger (log_config_of V to_slice vip) =
    (Returns None, logger\<lparr>logger_level := level, logger_formatter :=
        Some \<lparr>delegate = TextFormatter ''2006-01-02T15:04:05.999999999Z07:00'', timestampLocation = location\<rparr>,
      logger_output := Some (FileOutput (default_writer location))\<rparr>)"
proof -
  let ?config = "log_config_of V to_slice vip"
  obtain sub where "SubWithDefault V (flags_init V (\<lambda>_. None) v0) LogKey = Some sub"
    "\<And>k. viper_Get V sub k = map_of log_settings_section (ToLower k)"
    by (rule section_of_defaults [OF assms(1,2) log_section_default]) (rule that)
  with assms(3) have get: "viper_Get V vip k = map_of log_settings_section (ToLower k)" for k by simp
  obtain f out where subs: "log_section V to_slice (JObject formatter_section) = Some f"
    "log_section V to_slice (JObject output_section) = Some out"
    by (simp add: Let_def)
  have "cfg_GetString ?config LogLevelKey = ''info''" "cfg_GetString ?config LogTimezoneKey = ''UTC''"
    "GetStringSlice ?config LogHooksKey = Some []"
    using ToStringSlice [of "[]"] by (simp_all add: cfg_GetString_def log_config_of_def get casts)
  moreover have "Sub ?config LogFormatterKey = Some f" "Sub ?config LogOutputKey = Some out"
    using subs by (simp_all add: log_config_of_def get del: log_section.simps)
  ultimately show ?thesis
    using L default_formatter [OF L(2) subs(1)] default_output [OF L(2,3) subs(2)] by (simp add: InitLogger_def initLogger_def)
qed

end

section \<open>A decoder\<close>






definition store_slice :: "json option \<Rightarrow> string list option" where
  "store_slice x = (case x of Some (JArray xs) \<Rightarrow> Some (map sprint_json xs) | _ \<Rightarrow> None)"

interpretation store_log: log_settings "store_viper environ" "store_layers environ" environ store_slice for environ
  by unfold_locales (auto simp: store_viper_def store_slice_def UnmarshalText_show_int o_def)

section \<open>The daemon is its own storage\<close>




end
