(* ===== verification/Payloads.thy ===== *)
theory Payloads
  imports Serve
begin

text \<open>
  What the daemon writes on the wire: the payloads of the \<^verbatim>\<open>metrics\<close> package, with the field names of the struct tags, as
  \<^verbatim>\<open>encoding/json\<close> prints them. These are the encodings that \<open>Metrics\<close> and \<open>Serve\<close> take as arguments. \<open>render\<close> is the text of
  an error message, \<open>code_text\<close> the name gRPC gives a code.
\<close>

section \<open>Structs as JSON\<close>

text \<open>\<^verbatim>\<open>None\<close> is a nil payload. Structs of strings and numbers always have an encoding.\<close>

definition ConvertStructToJSON :: "json option \<Rightarrow> string result" where
  "ConvertStructToJSON payLoad =
     (case payLoad of
        None \<Rightarrow> Inl (errors_New ''empty payload passed'')
      | Some v \<Rightarrow> Inr (marshal_json v))"

definition RequestStats_json :: "RequestStats \<Rightarrow> json" where
  "RequestStats_json r = JObject
     [(''type'', JString (rq_Type r)), (''registry_address_key'', JString (rq_RegistryAddressKey r)),
      (''ethereum_json_rpc_endpoint'', JString (rq_EthereumJsonRpcEndpointKey r)), (''request_id'', JString (rq_RequestID r)),
      (''input_data_size'', JString (InputDataSize r)), (''service_method'', JString (rq_ServiceMethod r)),
      (''request_received_time'', JString (rq_RequestReceivedTime r)), (''organization_id'', JString (rq_OrganizationID r)),
      (''service_id'', JString (rq_ServiceID r)), (''group_id'', JString (rq_GroupID r)),
      (''daemon_end_point'', JString (rq_DaemonEndPoint r)), (''version'', JString (rq_Version r))]"

definition ResponseStats_json :: "(message \<Rightarrow> string) \<Rightarrow> (response_code \<Rightarrow> string) \<Rightarrow> ResponseStats \<Rightarrow> json" where
  "ResponseStats_json render code_text r = JObject
     [(''type'', JString (rs_Type r)), (''registry_address_key'', JString (rs_RegistryAddressKey r)),
      (''ethereum_json_rpc_endpoint'', JString (rs_EthereumJsonRpcEndpointKey r)), (''request_id'', JString (rs_RequestID r)),
      (''organization_id'', JString (rs_OrganizationID r)), (''service_id'', JString (rs_ServiceID r)),
      (''group_id'', JString (rs_GroupID r)), (''service_method'', JString (rs_ServiceMethod r)),
      (''response_sent_time'', JString (ResponseSentTime r)), (''request_received_time'', JString (rs_RequestReceivedTime r)),
      (''response_time'', JString (ResponseTime r)), (''response_code'', JString (code_text (ResponseCode r))),
      (''error_message'', JString (render (ErrorMessage r))), (''version'', JString (rs_Version r))]"

definition Notification_json :: "(message \<Rightarrow> string) \<Rightarrow> Notification \<Rightarrow> json" where
  "Notification_json render n = JObject
     [(''component_id'', JString (notification_DaemonID n)), (''timestamp'', JString (notification_Timestamp n)),
      (''recipient'', JString (Recipient_email n)), (''message'', JString (notification_Message n)),
      (''details'', JString (render (Details n))), (''component'', JString (Component n)),
      (''type'', JString (notification_Type n)), (''level'', JString (notification_Level n))]"

text \<open>The network id of a registration is never set.\<close>

definition RegisterDaemonPayload_json :: "string \<Rightarrow> json" where
  "RegisterDaemonPayload_json daemonID = JObject [(''netId'', JNumber ''0''), (''daemonId'', JString daemonID)]"

definition DaemonHeartbeat_json :: "DaemonHeartbeat \<Rightarrow> json" where
  "DaemonHeartbeat_json h = JObject
     [(''daemonID'', JString (heartbeat_DaemonID h)), (''timestamp'', JString (heartbeat_Timestamp h)),
      (''status'', JString (heartbeat_Status h)), (''serviceheartbeat'', JString (ServiceHeartbeat h))]"

text \<open>A byte slice is the base64 text of its bytes.\<close>

definition bytes_json :: "string \<Rightarrow> json" where
  "bytes_json bs = JString (BytesToBase64 (string_bytes bs))"

text \<open>
  \<^verbatim>\<open>json.Unmarshal\<close> into \<^verbatim>\<open>TokenGenerated\<close>: names are compared without case; a value of another type is skipped, and a
  text that is no JSON leaves the struct empty.
\<close>

definition field_of :: "string \<Rightarrow> (string \<times> json) list \<Rightarrow> json option" where
  "field_of name ms = map_of (rev (filter (\<lambda>(k, v). v \<noteq> JNull) (map (\<lambda>(k, v). (ToLower k, v)) ms))) name"

definition TokenGenerated_token :: "string \<Rightarrow> string" where
  "TokenGenerated_token body =
     (case unmarshal_json body of
        Inr (JObject ms) \<Rightarrow>
          (case field_of ''data'' ms of
             Some (JObject ds) \<Rightarrow> (case field_of ''token'' ds of Some (JString token) \<Rightarrow> token | _ \<Rightarrow> [])
           | _ \<Rightarrow> [])
      | _ \<Rightarrow> [])"

definition GetValue :: "(MD \<Rightarrow> string \<Rightarrow> string list) \<Rightarrow> MD \<Rightarrow> string \<Rightarrow> string" where
  "GetValue md_Get md key = (let array = md_Get md key in case array of [] \<Rightarrow> [] | x # _ \<Rightarrow> x)"

text \<open>The package with its own encodings.\<close>

definition json_env :: "metrics_env \<Rightarrow> metrics_env" where
  "json_env env = env\<lparr>register_payload := (\<lambda>d. marshal_json (RegisterDaemonPayload_json d)), token_of_body := TokenGenerated_token\<rparr>"

abbreviation publish_request ::
  "metrics_env \<Rightarrow> 'w http \<Rightarrow> (MD \<Rightarrow> string) \<Rightarrow> CommonStats \<Rightarrow> MD option \<Rightarrow> 'w metrics_sys \<Rightarrow> bool go \<times> 'w metrics_sys" where
  "publish_request env H \<equiv> PublishRequestStats env H (\<lambda>r. ConvertStructToJSON (Some (RequestStats_json r)))"


abbreviation send_notification ::
  "(message \<Rightarrow> string) \<Rightarrow> metrics_env \<Rightarrow> 'w http \<Rightarrow> Notification \<Rightarrow> 'w metrics_sys \<Rightarrow> bool go \<times> 'w metrics_sys" where
  "send_notification render env H \<equiv>
     Notification_Send env H (\<lambda>n. ConvertStructToJSON (Some (Notification_json render n))) (\<lambda>bs. ConvertStructToJSON (Some (bytes_json bs)))"

section \<open>Facts\<close>

lemma payloads_wf [simp]:
  "json_wf (RequestStats_json r)" "json_wf (ResponseStats_json render code_text rs)" "json_wf (Notification_json render n)"
  "json_wf (DaemonHeartbeat_json h)" "json_wf (bytes_json bs)"
  by (simp_all add: RequestStats_json_def ResponseStats_json_def Notification_json_def DaemonHeartbeat_json_def bytes_json_def)

lemma zero_number: "json_wf (JNumber ''0'')"
  by code_simp

lemma registration_wf [simp]: "json_wf (RegisterDaemonPayload_json d)"
  using zero_number by (simp add: RegisterDaemonPayload_json_def del: json_wf.simps(1))

text \<open>The texts the daemon concatenates itself are JSON as long as the service id needs no escapes.\<close>

lemma service_json_reads:
  assumes "concat (map quote_char serviceID) = serviceID" "concat (map quote_char status) = status"
  shows "unmarshal_json (service_json serviceID status) =
    Inr (JObject [(''serviceID'', JString serviceID), (''status'', JString status)])"
proof -
  have "concat (map quote_char ''serviceID'') = ''serviceID''" "concat (map quote_char ''status'') = ''status''" by code_simp+
  with assms have "service_json serviceID status = marshal_json (JObject [(''serviceID'', JString serviceID), (''status'', JString status)])"
    by (simp add: service_json_def quote_def)
  moreover have "unmarshal_json (marshal_json (JObject [(''serviceID'', JString serviceID), (''status'', JString status)])) =
      Inr (JObject [(''serviceID'', JString serviceID), (''status'', JString status)])" by (rule json_roundtrip) simp
  ultimately show ?thesis by simp
qed

text \<open>An answer of the documented form gives its token.\<close>

lemma token_reads:
  "TokenGenerated_token (marshal_json (JObject [(''status'', JString status), (''data'', JObject [(''token'', JString token)])])) = token"
proof -
  have "ToLower ''status'' = ''status''" "ToLower ''data'' = ''data''" "ToLower ''token'' = ''token''" by code_simp+
  moreover have "unmarshal_json (marshal_json (JObject [(''status'', JString status), (''data'', JObject [(''token'', JString token)])])) =
      Inr (JObject [(''status'', JString status), (''data'', JObject [(''token'', JString token)])])" by (rule json_roundtrip) simp
  ultimately show ?thesis by (simp add: TokenGenerated_token_def field_of_def del: marshal_json.simps)
qed

text \<open>The body posted when a call comes in.\<close>

lemma request_event_body:
  "\<exists>body. publish_request env H GetSize stat incoming s =
      publishJson env H body (vip_GetString (env_vip env) MonitoringServiceEndpoint @ ''/event'') True s \<and>
    unmarshal_json body = Inr (JObject
     [(''type'', JString ''request''), (''registry_address_key'', JString (env_RegistryAddress env)),
      (''ethereum_json_rpc_endpoint'', JString (env_BlockChainEndPoint env)), (''request_id'', JString (stats_ID stat)),
      (''input_data_size'', JString (case incoming of None \<Rightarrow> [] | Some md \<Rightarrow> GetSize md)),
      (''service_method'', JString (stats_ServiceMethod stat)),
      (''request_received_time'', JString (stats_RequestReceivedTime stat)),
      (''organization_id'', JString (stats_OrganizationID stat)), (''service_id'', JString (stats_ServiceID stat)),
      (''group_id'', JString (stats_GroupID stat)), (''daemon_end_point'', JString (stats_DaemonEndPoint stat)),
      (''version'', JString (stats_Version stat))])"
  by (intro exI [of _ "marshal_json (RequestStats_json (case incoming of None \<Rightarrow> createRequestStat env stat
        | Some md \<Rightarrow> setDataFromContext GetSize md (createRequestStat env stat)))"] conjI)
    (simp_all add: PublishRequestStats_def Publish_def ConvertStructToJSON_def json_roundtrip Let_def,
      simp add: RequestStats_json_def createRequestStat_def setDataFromContext_def split: option.splits)

section \<open>Properties\<close>


text \<open>
  Alerts are not what the notification service documents: the body that is posted decodes to a string, and only after that string
  is decoded from base64 and parsed once more are there the fields of the alert.
\<close>

theorem notification_encoded_twice:
  assumes "\<not> isNoAlertsConfig s"
  shows "\<exists>body text inner. send_notification render env H alert s =
      publishJson env H body (vip_GetString (env_vip env) NotificationServiceEndpoint) True s \<and>
    unmarshal_json body = Inr (JString text) \<and>
    StdEncoding_DecodeString text = Inr (string_bytes inner) \<and> unmarshal_json inner = Inr (Notification_json render alert)"
proof -
  let ?inner = "marshal_json (Notification_json render alert)"
  have "unmarshal_json (marshal_json (bytes_json ?inner)) = Inr (JString (BytesToBase64 (string_bytes ?inner)))"
    using json_roundtrip [of "bytes_json ?inner"] by (simp add: bytes_json_def)
  moreover have "send_notification render env H alert s =
      publishJson env H (marshal_json (bytes_json ?inner)) (vip_GetString (env_vip env) NotificationServiceEndpoint) True s"
    using assms by (simp add: Notification_Send_def Publish_def ConvertStructToJSON_def Let_def)
  ultimately show ?thesis using base64_roundtrip json_roundtrip [OF payloads_wf(3)] by blast
qed

theorem notification_encoded_twice_witness:
  "\<exists>body text. send_notification (\<lambda>_. ''timeout'') (sample_env []) scripted_http
      \<lparr>notification_DaemonID = ''id'', notification_Timestamp = ''now'', Recipient_email = ''a@b.cd'', notification_Message = ''Problem'',
       Details = Lit ''timeout'', Component = ''Daemon'', notification_Type = [], notification_Level = ''ERROR''\<rparr>
      (sample_sys ([], [])\<lparr>isNoAlertsConfig := False\<rparr>) =
    publishJson (sample_env []) scripted_http body (vip_GetString (env_vip (sample_env [])) NotificationServiceEndpoint) True
      (sample_sys ([], [])\<lparr>isNoAlertsConfig := False\<rparr>) \<and> unmarshal_json body = Inr (JString text)"
proof -
  have "\<not> isNoAlertsConfig (sample_sys ([], [])\<lparr>isNoAlertsConfig := False\<rparr>)" by simp
  from notification_encoded_twice [OF this, where render = "\<lambda>_. ''timeout''" and env = "sample_env []" and H = scripted_http]
  show ?thesis by blast
qed

text \<open>
  The heartbeat of a daemon whose service is not watched is a JSON object that says Online and contains, as a text, another one
  that says the service is serving, whenever the service id has no characters that JSON escapes.
\<close>

theorem unwatched_heartbeat_reply:
  assumes "vip_GetString vip ServiceHeartbeatType \<in> {[], ''none''} \<or> isNoHeartbeatURL s"
    and "concat (map quote_char (vip_GetString vip ServiceId)) = vip_GetString vip ServiceId"
  shows "\<exists>reply inner. HeartbeatHandler (\<lambda>h. marshal_json (DaemonHeartbeat_json h) @ [CHR 0x0A])
        (GetHeartbeat dial check H marshal marshal_bytes env epoch now) vip s = (Returns reply, s) \<and>
    unmarshal_json (butlast reply) = Inr (JObject [(''daemonID'', JString (GetDaemonID env s)), (''timestamp'', JString epoch),
      (''status'', JString ''Online''), (''serviceheartbeat'', JString inner)]) \<and>
    unmarshal_json inner = Inr (JObject [(''serviceID'', JString (vip_GetString vip ServiceId)), (''status'', JString ''SERVING'')])"
proof -
  let ?inner = "service_json (vip_GetString vip ServiceId) ''SERVING''"
  let ?h = "\<lparr>heartbeat_DaemonID = GetDaemonID env s, heartbeat_Timestamp = epoch, heartbeat_Status = ''Online'', ServiceHeartbeat = ?inner\<rparr>"
  have "HeartbeatHandler (\<lambda>h. marshal_json (DaemonHeartbeat_json h) @ [CHR 0x0A])
        (GetHeartbeat dial check H marshal marshal_bytes env epoch now) vip s = (Returns (marshal_json (DaemonHeartbeat_json ?h) @ [CHR 0x0A]), s)"
    using assms(1) by (auto simp: HeartbeatHandler_def GetHeartbeat_def Let_def Status_String_def Offline_def Online_def Critical_def)
  moreover have "unmarshal_json (butlast (marshal_json (DaemonHeartbeat_json ?h) @ [CHR 0x0A])) = Inr (JObject [(''daemonID'', JString (GetDaemonID env s)),
      (''timestamp'', JString epoch), (''status'', JString ''Online''), (''serviceheartbeat'', JString ?inner)])"
    unfolding butlast_snoc json_roundtrip [OF payloads_wf(4), of ?h] by (simp add: DaemonHeartbeat_json_def)
  moreover have "concat (map quote_char ''SERVING'') = ''SERVING''" by code_simp
  from service_json_reads [OF assms(2) this] have "unmarshal_json ?inner =
      Inr (JObject [(''serviceID'', JString (vip_GetString vip ServiceId)), (''status'', JString ''SERVING'')])" .
  ultimately show ?thesis
    by blast
qed

theorem unwatched_heartbeat_reply_witness:
  "\<exists>reply. HeartbeatHandler (\<lambda>h. marshal_json (DaemonHeartbeat_json h) @ [CHR 0x0A])
      (GetHeartbeat (\<lambda>_ n. (Inr (), n)) (\<lambda>_ n. (Inr SERVING, n)) scripted_http (\<lambda>_. Inr []) Inr (sample_env ''none'') ''0'' [])
      (env_vip (sample_env ''none'')) (sample_sys ([], [])) = (Returns reply, sample_sys ([], []))"
proof -
  have "vip_GetString (env_vip (sample_env ''none'')) ServiceHeartbeatType = ''none''"
    "vip_GetString (env_vip (sample_env ''none'')) ServiceId = []"
    by (simp_all add: sample_env_def ServiceHeartbeatType_def ServiceId_def MonitoringServiceEndpoint_def)
  with unwatched_heartbeat_reply [where vip = "env_vip (sample_env ''none'')" and s = "sample_sys ([], [])"]
  show ?thesis by fastforce
qed

end
