(* ===== verification/SimulatedChain.thy ===== *)
theory SimulatedChain
  imports Blockchain
begin

text \<open>
  \<^verbatim>\<open>blockchain/ethereum_test_util.go\<close>: the simulated Ethereum chain with the token and the escrow contract that tests of the daemon run on, and
  \<^verbatim>\<open>resources/installBlockchainDependencies\<close>, which runs npm when the contracts are installed. The simulated node, the
  contracts, the keys and the processes are outside of the repository: \<open>chain_libs\<close> and \<open>exec_libs\<close> have what is called of them.
\<close>

section \<open>The environment\<close>

text \<open>
  A wallet: \<open>opts_Signer\<close> stands for the function that signs; the other fields say how a transaction is sent, and are nil pointers
  or amounts.
\<close>

record 's TransactOpts =
  opts_From :: Address
  opts_Nonce :: "int option"
  opts_Signer :: 's
  opts_Value :: "int option"
  opts_GasPrice :: "int option"
  opts_GasLimit :: "64 word"

text \<open>Contracts are handles of type \<open>nat\<close>; the backend is part of the world.\<close>

record ('w, 'key, 's) chain_libs =
  GenerateKey :: "'w \<Rightarrow> 'key result \<times> 'w"
  NewKeyedTransactor :: "'key \<Rightarrow> 's TransactOpts"
  NewSimulatedBackend :: "(Address \<Rightarrow> int option) \<Rightarrow> 'w \<Rightarrow> 'w"
  Backend_Commit :: "'w \<Rightarrow> 'w"
  DeploySingularityNetToken :: "'s TransactOpts \<Rightarrow> 'w \<Rightarrow> (Address \<times> nat) result \<times> 'w"
  DeployMultiPartyEscrow :: "'s TransactOpts \<Rightarrow> Address \<Rightarrow> 'w \<Rightarrow> (Address \<times> nat) result \<times> 'w"
  TransferTokens :: "nat \<Rightarrow> 's TransactOpts \<Rightarrow> Address \<Rightarrow> int \<Rightarrow> 'w \<Rightarrow> unit result \<times> 'w"
  Approve :: "nat \<Rightarrow> 's TransactOpts \<Rightarrow> Address \<Rightarrow> int \<Rightarrow> 'w \<Rightarrow> unit result \<times> 'w"
  Deposit :: "nat \<Rightarrow> 's TransactOpts \<Rightarrow> int \<Rightarrow> 'w \<Rightarrow> unit result \<times> 'w"
  OpenChannel :: "nat \<Rightarrow> 's TransactOpts \<Rightarrow> Address \<Rightarrow> Address \<Rightarrow> bytes32 \<Rightarrow> int \<Rightarrow> int \<Rightarrow> 'w \<Rightarrow> unit result \<times> 'w"

record ('key, 's) SimulatedEthereumEnvironment =
  SingnetPrivateKey :: 'key
  SingnetWallet :: "'s TransactOpts"
  ClientWallet :: "'s TransactOpts"
  ClientPrivateKey :: 'key
  ServerWallet :: "'s TransactOpts"
  ServerPrivateKey :: 'key
  SingularityNetToken :: nat
  MultiPartyEscrowAddress :: Address
  MultiPartyEscrow :: nat

definition EstimateGas :: "'s TransactOpts \<Rightarrow> 's TransactOpts" where
  "EstimateGas wallet =
     \<lparr>opts_From = opts_From wallet, opts_Nonce = None, opts_Signer = opts_Signer wallet, opts_Value = None, opts_GasPrice = None,
      opts_GasLimit = 0\<rparr>"

definition SetGas :: "'s TransactOpts \<Rightarrow> 64 word \<Rightarrow> 's TransactOpts" where
  "SetGas wallet gasLimit =
     \<lparr>opts_From = opts_From wallet, opts_Nonce = None, opts_Signer = opts_Signer wallet, opts_Value = None, opts_GasPrice = None,
      opts_GasLimit = gasLimit\<rparr>"

section \<open>Operations\<close>

text \<open>An error of a contract is a panic, with the error in its text.\<close>

definition or_fail :: "string \<Rightarrow> 'a result \<times> 'w \<Rightarrow> 'a go \<times> 'w" where
  "or_fail text r = (case r of (Inl err, w) \<Rightarrow> (Panics (Sprintf (Lit text) [error_text err]), w) | (Inr x, w) \<Rightarrow> (Returns x, w))"

text \<open>
  The amounts are \<^verbatim>\<open>int64\<close> and are made into big integers with their sign. Each operation returns the environment it was called on.
\<close>

definition SnetTransferTokens ::
  "('w, 'key, 's) chain_libs \<Rightarrow> ('key, 's) SimulatedEthereumEnvironment \<Rightarrow> 's TransactOpts \<Rightarrow> 64 word \<Rightarrow> 'w
    \<Rightarrow> unit go \<times> 'w" where
  "SnetTransferTokens L env receiver amount w =
     or_fail ''Unable to transfer tokens: %v''
       (TransferTokens L (SingularityNetToken env) (EstimateGas (SingnetWallet env)) (opts_From receiver) (sint amount) w)"

definition SnetApproveMpe ::
  "('w, 'key, 's) chain_libs \<Rightarrow> ('key, 's) SimulatedEthereumEnvironment \<Rightarrow> 's TransactOpts \<Rightarrow> 64 word \<Rightarrow> 'w
    \<Rightarrow> unit go \<times> 'w" where
  "SnetApproveMpe L env sender amount w =
     or_fail ''Unable to aprove tokens transfer to MPE: %v''
       (Approve L (SingularityNetToken env) (EstimateGas sender) (MultiPartyEscrowAddress env) (sint amount) w)"

definition MpeDeposit ::
  "('w, 'key, 's) chain_libs \<Rightarrow> ('key, 's) SimulatedEthereumEnvironment \<Rightarrow> 's TransactOpts \<Rightarrow> 64 word \<Rightarrow> 'w
    \<Rightarrow> unit go \<times> 'w" where
  "MpeDeposit L env sender amount w =
     or_fail ''Unable to deposit tokens to MPE: %v'' (Deposit L (MultiPartyEscrow env) (EstimateGas sender) (sint amount) w)"

definition MpeOpenChannel ::
  "('w, 'key, 's) chain_libs \<Rightarrow> ('key, 's) SimulatedEthereumEnvironment \<Rightarrow> 's TransactOpts \<Rightarrow> 's TransactOpts \<Rightarrow> 64 word \<Rightarrow> 64 word \<Rightarrow>
   bytes32 \<Rightarrow> 'w \<Rightarrow> unit go \<times> 'w" where
  "MpeOpenChannel L env sender receiver amount expiration groupId w =
     or_fail ''Unable to open MPE payment channel: %v''
       (OpenChannel L (MultiPartyEscrow env) (EstimateGas sender) (opts_From sender) (opts_From receiver) groupId
          (sint amount) (sint expiration) w)"

definition env_Commit :: "('w, 'key, 's) chain_libs \<Rightarrow> 'w \<Rightarrow> unit go \<times> 'w" where
  "env_Commit L w = (Returns (), Backend_Commit L w)"

section \<open>Setting up\<close>

definition getTestWallet :: "('w, 'key, 's) chain_libs \<Rightarrow> 'w \<Rightarrow> ('key \<times> 's TransactOpts) go \<times> 'w" where
  "getTestWallet L w =
     (case or_fail ''Unable to generate private key, error: %v'' (GenerateKey L w) of
        (Panics m, w') \<Rightarrow> (Panics m, w')
      | (Returns privateKey, w') \<Rightarrow> (Returns (privateKey, NewKeyedTransactor L privateKey), w'))"

definition deployContracts ::
  "('w, 'key, 's) chain_libs \<Rightarrow> ('key, 's) SimulatedEthereumEnvironment \<Rightarrow> 'w
    \<Rightarrow> ('key, 's) SimulatedEthereumEnvironment go \<times> 'w" where
  "deployContracts L env w =
     (case or_fail ''Unable to deploy SingularityNetToken contract, error: %v''
             (DeploySingularityNetToken L (EstimateGas (SingnetWallet env)) w) of
        (Panics m, w1) \<Rightarrow> (Panics m, w1)
      | (Returns (tokenAddress, token), w1) \<Rightarrow>
          (case or_fail ''Unable to deploy MultiPartyEscrow contract, error: %v''
                  (DeployMultiPartyEscrow L (EstimateGas (SingnetWallet env)) tokenAddress (Backend_Commit L w1)) of
             (Panics m, w2) \<Rightarrow> (Panics m, w2)
           | (Returns (mpeAddress, mpe), w2) \<Rightarrow>
               (Returns (env\<lparr>SingularityNetToken := token, MultiPartyEscrow := mpe, MultiPartyEscrowAddress := mpeAddress\<rparr>),
                Backend_Commit L w2)))"

text \<open>A map literal in which a later entry of the same address replaces an earlier one. Contracts are nil (0) until they are deployed.\<close>

definition GetSimulatedEthereumEnvironment ::
  "('w, 'key, 's) chain_libs \<Rightarrow> 'w \<Rightarrow> ('key, 's) SimulatedEthereumEnvironment go \<times> 'w" where
  "GetSimulatedEthereumEnvironment L w =
     (case getTestWallet L w of
        (Panics m, w1) \<Rightarrow> (Panics m, w1)
      | (Returns (singnetKey, singnet), w1) \<Rightarrow>
     (case getTestWallet L w1 of
        (Panics m, w2) \<Rightarrow> (Panics m, w2)
      | (Returns (clientKey, client), w2) \<Rightarrow>
     (case getTestWallet L w2 of
        (Panics m, w3) \<Rightarrow> (Panics m, w3)
      | (Returns (serverKey, server), w3) \<Rightarrow>
          (let alloc = [opts_From singnet \<mapsto> 1000000000000, opts_From client \<mapsto> 1000000000000, opts_From server \<mapsto> 10000000] in
           deployContracts L
             \<lparr>SingnetPrivateKey = singnetKey, SingnetWallet = singnet, ClientWallet = client, ClientPrivateKey = clientKey,
              ServerWallet = server, ServerPrivateKey = serverKey, SingularityNetToken = 0, MultiPartyEscrowAddress = 0,
              MultiPartyEscrow = 0\<rparr>
             (NewSimulatedBackend L alloc w3)))))"

section \<open>Running a command\<close>

record os_Cmd =
  cmd_Name :: string
  cmd_Args :: "string list"
  cmd_Dir :: string
  cmd_Env :: "string list option"
  cmd_Stderr :: string
  cmd_Stdout :: string

record 'w exec_libs =
  os_Environ :: "string list"
  cmd_Start :: "os_Cmd \<Rightarrow> 'w \<Rightarrow> error option \<times> 'w"
  cmd_Wait :: "os_Cmd \<Rightarrow> 'w \<Rightarrow> error option \<times> 'w"

text \<open>A command that does not start ends the process. Without an environment of its own a command has the one of its
  parent. Its output and its errors go to the standard output.\<close>

definition runCommand :: "'w exec_libs \<Rightarrow> string \<Rightarrow> string list \<Rightarrow> string \<Rightarrow> string list \<Rightarrow> 'w \<Rightarrow> os_Cmd go \<times> 'w" where
  "runCommand X dir env name args w =
     (let cmd = \<lparr>cmd_Name = name, cmd_Args = args, cmd_Dir = [], cmd_Env = None, cmd_Stderr = [], cmd_Stdout = []\<rparr>;
          cmd = (if dir \<noteq> [] then cmd\<lparr>cmd_Dir := dir\<rparr> else cmd);
          cmd = (if length env > 0 then cmd\<lparr>cmd_Env := Some (os_Environ X @ env)\<rparr> else cmd);
          cmd = cmd\<lparr>cmd_Stderr := ''stdout'', cmd_Stdout := ''stdout''\<rparr> in
      case cmd_Start X cmd w of
        (Some err, w') \<Rightarrow> (Panics (error_text err), w')
      | (None, w') \<Rightarrow> (Returns cmd, w'))"

text \<open>The error of \<^verbatim>\<open>Wait\<close> is dropped: an installation that fails looks like one that succeeded.\<close>

definition install_main :: "'w exec_libs \<Rightarrow> 'w \<Rightarrow> unit go \<times> 'w" where
  "install_main X w =
     (case runCommand X ''resources/blockchain'' [] ''npm'' [''install''] w of
        (Panics m, w1) \<Rightarrow> (Panics m, w1)
      | (Returns cmd, w1) \<Rightarrow> (case cmd_Wait X cmd w1 of (_, w2) \<Rightarrow> (Returns (), w2)))"

section \<open>Facts\<close>

lemma EstimateGas_is_SetGas: "EstimateGas wallet = SetGas wallet 0"
  by (simp add: EstimateGas_def SetGas_def)

lemma or_fail_Returns [simp]: "or_fail text r = (Returns x, w) \<longleftrightarrow> r = (Inr x, w)"
  by (cases r; cases "fst r") (auto simp: or_fail_def)

lemma getTestWallet_Returns:
  "getTestWallet L w = (Returns (k, wallet), w') \<longleftrightarrow> GenerateKey L w = (Inr k, w') \<and> wallet = NewKeyedTransactor L k"
  by (auto simp: getTestWallet_def or_fail_def split: prod.splits sum.splits)

lemma deployContracts_Returns:
  assumes "deployContracts L env w = (Returns env', w')"
  obtains tokenAddress token w1 mpeAddress mpe w2 where
    "DeploySingularityNetToken L (EstimateGas (SingnetWallet env)) w = (Inr (tokenAddress, token), w1)"
    "DeployMultiPartyEscrow L (EstimateGas (SingnetWallet env)) tokenAddress (Backend_Commit L w1) = (Inr (mpeAddress, mpe), w2)"
    "env' = env\<lparr>SingularityNetToken := token, MultiPartyEscrow := mpe, MultiPartyEscrowAddress := mpeAddress\<rparr>"
    "w' = Backend_Commit L w2"
  using assms unfolding deployContracts_def by (auto split: prod.splits go.splits)

text \<open>
  An environment that was set up has wallets made of its own keys, and the contracts that were deployed on the chain, the escrow contract for
  the token; both deployments are paid by the wallet that the tokens are sent from later.
\<close>

lemma environment_set_up:
  assumes "GetSimulatedEthereumEnvironment L w = (Returns env, w')"
  obtains tokenAddress w1 w2 w3 where
    "SingnetWallet env = NewKeyedTransactor L (SingnetPrivateKey env)" "ClientWallet env = NewKeyedTransactor L (ClientPrivateKey env)"
    "ServerWallet env = NewKeyedTransactor L (ServerPrivateKey env)"
    "DeploySingularityNetToken L (EstimateGas (SingnetWallet env)) w1 = (Inr (tokenAddress, SingularityNetToken env), w2)"
    "DeployMultiPartyEscrow L (EstimateGas (SingnetWallet env)) tokenAddress (Backend_Commit L w2) =
      (Inr (MultiPartyEscrowAddress env, MultiPartyEscrow env), w3)"
    "w' = Backend_Commit L w3"
proof -
  let ?initial = "\<lambda>k1 s k2 c k3 v. \<lparr>SingnetPrivateKey = k1, SingnetWallet = s, ClientWallet = c, ClientPrivateKey = k2, ServerWallet = v,
    ServerPrivateKey = k3, SingularityNetToken = 0, MultiPartyEscrowAddress = 0, MultiPartyEscrow = 0\<rparr>"
  obtain k1 s wa k2 c wb k3 v wc alloc where
    "getTestWallet L w = (Returns (k1, s), wa)" "getTestWallet L wa = (Returns (k2, c), wb)" "getTestWallet L wb = (Returns (k3, v), wc)"
    and deploy: "deployContracts L (?initial k1 s k2 c k3 v) (NewSimulatedBackend L alloc wc) = (Returns env, w')"
    using assms unfolding GetSimulatedEthereumEnvironment_def Let_def by (auto split: prod.splits go.splits)
  then have wallets: "s = NewKeyedTransactor L k1" "c = NewKeyedTransactor L k2" "v = NewKeyedTransactor L k3"
    by (simp_all add: getTestWallet_Returns)
  from deploy show thesis
    by (rule deployContracts_Returns) (rule that; (simp add: wallets)?)
qed

lemma install_ignores_failure:
  assumes "cmd_Start X \<lparr>cmd_Name = ''npm'', cmd_Args = [''install''], cmd_Dir = ''resources/blockchain'', cmd_Env = None,
      cmd_Stderr = ''stdout'', cmd_Stdout = ''stdout''\<rparr> w = (None, w1)"
  shows "fst (install_main X w) = Returns ()"
  using assms by (simp add: install_main_def runCommand_def split: prod.splits)

end
