(* ===== verification/Spec2Isabelle.thy ===== *)
theory Spec2Isabelle
  imports EtcdDeployment Daemon Ledger Progress Defaults Payloads SimulatedChain
begin

text \<open>
  \<^bold>\<open>The SingularityNET daemon.\<close> The daemon (\<^verbatim>\<open>snetd\<close>, written in Go) stands before an AI service and lets a call through only when it is paid.
  A client opens a channel in the MultiPartyEscrow contract on Ethereum and sends with every call a signed promise of the total amount spent so
  far. The daemon checks the promise, keeps the latest one for each channel in a storage that replicas of the daemon share, forwards the call, and
  hands the stored promises to the service provider, who claims them on the blockchain.

  \<^bold>\<open>Parts and theories.\<close> Paths are relative to \<^verbatim>\<open>src/\<close>.

  \<^item> \<open>Prelude\<close>, \<open>BigInt\<close>: errors, messages, panics, bytes, and the decimal form of \<^verbatim>\<open>math/big\<close> integers.
  \<^item> \<open>AtomicStorage\<close>, \<open>MemoryStorage\<close>, \<open>EtcdClient\<close>: the interface of the shared storage (\<^verbatim>\<open>escrow/atomic_storage.go\<close>) with its prefixed and
    typed adapters, and its two implementations (\<^verbatim>\<open>escrow/memory_storage.go\<close>, \<^verbatim>\<open>etcddb/etcddb_client.go\<close>). The contract is the locale
    \<open>atomic_storage\<close>, over a view of the world as a map from keys to values; writes that fail may or may not have taken effect.
    \<open>EmbeddedEtcd\<close>: the etcd server the daemon can run (\<^verbatim>\<open>etcddb/etcddb_conf.go\<close>, \<^verbatim>\<open>etcddb/etcddb_server.go\<close>).
  \<^item> \<open>Blockchain\<close>, \<open>Metadata\<close>: channels and the current block on Ethereum, the helpers of \<^verbatim>\<open>blockchain/utils.go\<close> (base64 among them), and the
    service metadata from the registry and IPFS (\<^verbatim>\<open>blockchain/\<close>, \<^verbatim>\<open>ipfsutils/\<close>).
  \<^item> \<open>PaymentChannel\<close>, \<open>Locker\<close>, \<open>Validation\<close>: the tables of channels and of payments being claimed, the lock by name, the check of a payment
    (\<^verbatim>\<open>escrow/payment_channel_api.go\<close>, \<^verbatim>\<open>payment_channel_storage.go\<close>, \<^verbatim>\<open>payment_storage.go\<close>, \<^verbatim>\<open>lock.go\<close>, \<^verbatim>\<open>validation.go\<close>, \<^verbatim>\<open>income.go\<close>).
  \<^item> \<open>EscrowService\<close>, \<open>Transactions\<close>: the channel service with its transactions and claims (\<^verbatim>\<open>escrow/escrow.go\<close>), and the interleaving of the requests
    of any number of replicas.
  \<^item> \<open>Interceptors\<close>, \<open>PaymentHandler\<close>, \<open>ControlService\<close>: the gRPC interceptors (\<^verbatim>\<open>handler/interceptors.go\<close>), the handler of escrow payments
    (\<^verbatim>\<open>escrow/payment_handler.go\<close>), the services for providers and for clients (\<^verbatim>\<open>escrow/control_service.go\<close>, \<^verbatim>\<open>state_service.go\<close>).
  \<^item> \<open>Proxy\<close>, \<open>Passthrough\<close>, \<open>HttpHandler\<close>: forwarding to the service: the gRPC proxy as a transition system of its goroutines, JSON-RPC,
    processes, the codecs (\<^verbatim>\<open>handler/grpc.go\<close>, \<^verbatim>\<open>codec/codec.go\<close>), plain HTTP and the rate limit (\<^verbatim>\<open>handler/httphandler/\<close>, \<^verbatim>\<open>ratelimit/\<close>).
  \<^item> \<open>Json\<close>, \<open>Config\<close>, \<open>Metrics\<close>, \<open>Logger\<close>: JSON texts as Go's library reads and writes them; validation of the configuration, choice of the network, version check
    (\<^verbatim>\<open>config/\<close>); registration, statistics, heartbeat and alerts (\<^verbatim>\<open>metrics/\<close>); set-up of the log (\<^verbatim>\<open>logger/\<close>).
  \<^item> \<open>Settings\<close>, \<open>Payloads\<close>: the built-in defaults, files, environment and flags, over viper as an interface (\<^verbatim>\<open>config/config.go\<close>,
    \<^verbatim>\<open>snetd/cmd/flags.go\<close>, \<^verbatim>\<open>snetd/main.go\<close>); the texts that are posted to the monitoring and notification services (\<^verbatim>\<open>metrics/\<close>).
    \<open>Defaults\<close>: the sections of the default configuration decoded into the structs of etcd and of the log that are set up from them.
  \<^item> \<open>Components\<close>, \<open>Commands\<close>, \<open>Serve\<close>: how the parts are built and kept (\<^verbatim>\<open>snetd/cmd/components.go\<close>), the commands that end, and the one that serves.
  \<^item> \<open>SimulatedChain\<close>: the simulated chain with its contracts that tests run on (\<^verbatim>\<open>blockchain/ethereum_test_util.go\<close>) and the program that installs the
    contracts (\<^verbatim>\<open>resources/installBlockchainDependencies\<close>).
  \<^item> \<open>Deployment\<close>, \<open>EtcdDeployment\<close>, \<open>Daemon\<close>: the contracts interpreted on the model's own storages, the assembled daemon, and the examples of the witnesses.
    \<open>Ledger\<close>: an abstract account per channel, and that every run of the payment handler and of claims is a run of it. \<open>Progress\<close>: that correct
    payments and claims succeed while the storage answers.

  \<^bold>\<open>How the code is translated.\<close> A struct is a record, an interface the record of its methods, an enumeration a datatype. An operation that changes
  something outside (storage, network) takes the world \<open>'w\<close> and returns it. Results are \<open>Inl err\<close> or \<open>Inr v\<close>; Go's value-ok-error triple is
  \<open>Inr None\<close> for a false ok. A panic is a value of the type \<open>go\<close>, so that deferred functions and recovered panics are branches. Goroutines
  and replicas are step relations: \<open>lock_step\<close>, \<open>escrow_step\<close>, \<open>put_step\<close>, and the three relations of \<open>Proxy\<close>. Numbers are integers where Go has \<^verbatim>\<open>big.Int\<close>,
  words where the width matters, and rationals rounded to doubles for the rate limit. Numbers in JSON texts are kept as they are written. Messages are kept as format and arguments.

  \<^bold>\<open>What is assumed.\<close> Code outside of the repository is an argument. What is relied on is a named hypothesis or a locale: \<open>etcd_cluster\<close> (requests and transactions of
  etcd are atomic, a failed request may have been applied, mutexes exclude), \<open>gob_codec\<close> (decoding inverts encoding), \<open>map_range\<close> (Go
  iterates over a map once, in some order), \<open>BigToHash_crops\<close> (go-ethereum pads and crops to 32 bytes), \<open>chain_order\<close> (the first interceptor of a
  chain is the outermost), \<open>viper_store\<close> (which of flag, environment, file and default a lookup takes; what is written is read back), \<open>etcd_settings\<close> and \<open>log_settings\<close> (how
  settings are decoded). Each is shown to hold of a concrete instance, on which the witnesses run.

  \<^bold>\<open>What is proved.\<close> C1 to C3: a call that succeeds is charged exactly the price, any other is not charged and leaves no lock. C4, C5: the
  payment machinery refines the ledger, for any interleaving of calls, failures and claims, so that what is handed out and what may still be claimed cover every
  call that was served. C6, C7, C13: honest parties get what they ask for: a client who pays correctly is served, call after call, and a correct claim
  is granted. C8 to C11: mutual exclusion of replicas, no lost update, solvency and well-typedness of stored channels (each amount backed by a
  signature), as invariants over interleavings. C12, C14 to C17, C21, C22: claims and the services of providers and clients. C18 to C20: signed
  messages, headers, error codes. C23 to C26: the two storages implement the contract. C27: the properties of the payment handler hold of the daemon as
  \<^verbatim>\<open>components.go\<close> assembles it. C28: the unlock command. C29: the metadata is authentic. C30 to C33: forwarding, order and termination
  of the proxy, rate limits. C34 to C38: which setting is in use, the defaults are accepted and set up a daemon with a storage of its own, \<^verbatim>\<open>init\<close> writes a
  file that is read back, what validation accepts. C39, C40: metrics. The theories hold further theorems of the same kind: the round trips of JSON in \<open>Json\<close> and of base64 in \<open>Blockchain\<close>,
  endpoints, the e-mail pattern and the version check in \<open>Config\<close>, heartbeats in \<open>Metrics\<close> and \<open>Payloads\<close>, alerts in \<open>Payloads\<close>, routing and listeners in \<open>Serve\<close>,
  start and cleanup in \<open>EmbeddedEtcd\<close> and \<open>Components\<close>, hooks and the range of durations in \<open>Logger\<close>, the log of the defaults in \<open>Defaults\<close>, JSON-RPC in \<open>Passthrough\<close>, renewed tokens and
  monitored calls in \<open>Metrics\<close>.

  \<^bold>\<open>Bounds.\<close> Loops are recursion over lists and end; the only unbounded process, the proxy, has the measure \<open>remaining_work\<close>, which bounds its own
  steps between two events outside. No fuel is used.

  \<^bold>\<open>Not modelled.\<close> TLS, the multiplexing of connections, the gRPC and HTTP servers, the formatting of log entries and the parsing of the command line are
  calls of libraries. \<^verbatim>\<open>String\<close> methods that only logging uses are left out. Generated protocol code and contract bindings are arguments
  where they are used. Timeouts appear as errors of a call.
\<close>

section \<open>Paid calls\<close>

text \<open>
  C1. A call that ends without an error was paid, once and for exactly the price: the headers held a
  payment that is signed by the channel's signer for the channel's nonce, does not exceed its value and
  is the previously authorised amount plus the price; the only change of the channel table since the
  service handled the call is that the channel stores this amount and signature. The service and
  whatever runs meanwhile may change the storage, except for releasing a lock they do not hold.
\<close>

theorem paid_call_charges_price:
  assumes "payment_service st view G h"
    and "escrow_intercept E md_Get h addr income incoming info handler w = (Returns None, w')"
    and "\<And>n w1 r w2. handler w1 = (r, w2) \<Longrightarrow> lock_table (view w1) n = Some locked \<Longrightarrow>
      lock_table (view w2) n = Some locked"
  shows "\<exists>md p c w1 w2. incoming = Some md \<and>
    getPaymentFromContext md_Get \<lparr>service = h, mpeContractAddress = addr, handler_incomeValidator = income\<rparr>
      \<lparr>context_MD = md, context_Info = info\<rparr> = Inr p \<and>
    latest_channel (fst (replicaGroupID h)) (channel_table G (view w) (payment_key p))
      (GetChannelStateFromBlockchain (blockchainReader h) (payment_key p) w1) = Inr (Some c) \<and>
    ChannelNonce p = Nonce c \<and> getSignerAddressFromPayment E p = Inr (Signer c) \<and>
    Amount p = AuthorizedAmount c + priceInCogs income \<and> Amount p \<le> FullAmount c \<and>
    handler w1 = (Returns None, w2) \<and>
    channel_table G (view w') = (channel_table G (view w2))
      (payment_key p \<mapsto> c\<lparr>AuthorizedAmount := Amount p, Signature := payment_Signature p\<rparr>)"
  using payment_service.paid_call [OF assms(1) assms(2)] assms(3) by (auto simp: Validate_ok_iff) metis

theorem paid_call_charges_price_witness:
  "sample_call (sample_md 1 0 3) (Returns None) NewMemStorage = (Returns None, sample_charged) \<and>
   (\<exists>c. 3 = AuthorizedAmount c + 3 \<and> 3 \<le> FullAmount c \<and>
      channel_table ints_gob (memory_view sample_charged) \<lparr>ID = 1\<rparr> =
        Some (c\<lparr>AuthorizedAmount := 3, Signature := Some (sample_signature 7)\<rparr>))"
  using sample_call_paid
    paid_call_charges_price [OF sample_payment_service, of sample_eth sample_md_Get 11 "NewIncomeValidator 3"
      "Some (sample_md 1 0 3)" "''call''" "\<lambda>w. (Returns None, w)" NewMemStorage sample_charged]
  by (auto simp: sample_call_def sample_handler_def NewIncomeValidator_def sample_parse)



text \<open>
  C3. No lock is left behind. On a storage whose conditional writes do not fail, every lock that was
  free when a call came in is free again when it has ended, however it ended: paid, refused, failed, or
  by a panic.
\<close>

theorem call_releases_locks:
  assumes "payment_service st view G h" "reliable st"
    and "escrow_intercept E md_Get h addr income incoming info handler w = (out, w')"
    and "\<And>w1 r w2. handler w1 = (r, w2) \<Longrightarrow> lock_table (view w2) = lock_table (view w1)"
    and "lock_free (view w) n"
  shows "lock_free (view w') n"
  using payment_service.intercept_locks [OF assms(1,3,2)] assms(4,5) by blast

theorem call_releases_locks_witness:
  "lock_free (memory_view sample_charged) (PaymentChannelKey_String \<lparr>ID = 1\<rparr>)"
  using call_releases_locks [OF sample_payment_service memory_reliable, of sample_eth sample_md_Get 11
      "NewIncomeValidator 3" "Some (sample_md 1 0 3)" "''call''" "\<lambda>w. (Returns None, w)" NewMemStorage
      "Returns None" sample_charged "PaymentChannelKey_String \<lparr>ID = 1\<rparr>"] sample_call_paid
  by (simp add: sample_call_def sample_handler_def lock_free_def lock_table_def strip_def memory_view_def NewMemStorage_def)

section \<open>Concurrent requests\<close>

text \<open>
  C8. Any number of replicas compete for a lock, with their storage requests interleaved in any order and
  any of them failing: at no time do two of them hold it, and while one does the storage says so.
\<close>

theorem lock_mutual_exclusion:
  assumes "atomic_storage st view" "lock_reachable st view name s"
  shows "(pc s i = Holds \<and> pc s j = Holds \<longrightarrow> i = j) \<and>
    (pc s i = Holds \<longrightarrow> lock_table (view (world s)) name = Some locked)"
  using etcd_lock.lock_reachable_inv [OF etcd_lock.intro [OF assms(1)] assms(2)] by (auto simp: lock_inv_def)

theorem lock_mutual_exclusion_witness:
  "lock_table (memory_view \<lparr>data = fmupd (lock_key ''a'') locked fmempty\<rparr>) ''a'' = Some locked"
proof -
  let ?st = "memory_AtomicStorage key_order :: memoryStorage AtomicStorage"
  let ?s0 = "\<lparr>world = NewMemStorage, pc = \<lambda>_. Idle\<rparr>"
  let ?s1 = "\<lparr>world = NewMemStorage, pc = (\<lambda>_. Idle)(0 := HasRead None)\<rparr>"
  let ?s2 = "\<lparr>world = \<lparr>data = fmupd (lock_key ''a'') locked fmempty\<rparr>, pc = (\<lambda>_. Idle)(0 := Holds)\<rparr>"
  have "lock_step ?st memory_view ''a'' ?s0 ?s1"
    using lock_step.read [where s = ?s0 and i = 0 and v = None and st = ?st and name = "''a''" and w' = NewMemStorage]
    by (simp add: storage_run_defs NewMemStorage_def)
  moreover have "lock_step ?st memory_view ''a'' ?s1 ?s2"
    using lock_step.acquired [where s = ?s1 and i = 0 and v = None and st = ?st and name = "''a''" and w' = "world ?s2"]
    by (simp add: storage_run_defs NewMemStorage_def)
  moreover have "lock_reachable ?st memory_view ''a'' ?s0" by (rule lock_reachable.start) simp
  ultimately have "lock_reachable ?st memory_view ''a'' ?s2" by (blast intro: lock_reachable.step)
  from lock_mutual_exclusion [OF by_key.mem.atomic_storage_axioms this, of 0 0] show ?thesis by simp
qed

text \<open>
  C9. No update is lost. Replicas start, commit and roll back payment transactions and start and finish
  claims in any order, with any storage request failing or failing after it took effect. When a
  transaction commits, its channel is still in the state it was validated against, the commit replaces
  that state by itself with the amount and signature of the payment, and nothing else changes; no other
  open transaction is on the same channel.
\<close>

theorem commit_overwrites_what_was_validated:
  assumes "payment_service st view G h" "sys_open s0 = []"
    and "escrow_reachable E h (\<lambda>w. channel_table G (view w)) (\<lambda>w w'. view w' = view w) U s0 s"
    and "sys_open s = xs @ (tx, c) # ys" "Commit tx (sys_world s) = (Inr (), w')"
  shows "channel_table G (view (sys_world s)) (payment_key (tx_payment tx)) = c \<and>
    (\<exists>w. latest_channel (fst (replicaGroupID h)) c
       (GetChannelStateFromBlockchain (blockchainReader h) (payment_key (tx_payment tx)) w) = Inr (Some (tx_channel tx)) \<and>
       ChannelPaymentValidator_Validate E (validator h) (tx_payment tx) (tx_channel tx) w = None) \<and>
    channel_table G (view w') =
      (channel_table G (view (sys_world s)))(payment_key (tx_payment tx) \<mapsto> committed_channel tx) \<and>
    payment_table G (view w') = payment_table G (view (sys_world s)) \<and>
    payment_key (tx_payment tx) \<notin> open_key ` set (xs @ ys)"
proof -
  have inv: "escrow_inv E st view G h s" by (rule payment_service.escrow_reachable_inv [OF assms(1,3,2)])
  then have ok: "open_ok E st G h (view (sys_world s)) (tx, c)" and d: "distinct (map open_key (xs @ (tx, c) # ys))"
    using assms(4) by (auto simp: escrow_inv_def)
  from ok have tx: "transaction_of st h tx" by (simp add: open_ok_def)
  from d have "payment_key (tx_payment tx) \<notin> open_key ` set (xs @ ys)" by auto
  with ok show ?thesis
    using payment_service.Commit_ok [OF assms(1,5) tx] payment_service.Commit_frame(1) [OF assms(1,5) tx]
    by (simp add: open_ok_def)
qed

theorem commit_overwrites_what_was_validated_witness:
  "channel_table ints_gob (memory_view sample_charged) =
     (channel_table ints_gob (memory_view sample_locked))(\<lparr>ID = 1\<rparr> \<mapsto> committed_channel sample_tx)"
  using commit_overwrites_what_was_validated [OF sample_payment_service _ sample_started, where xs = "[]" and ys = "[]"]
    sample_commit
  by (simp add: sample_tx_def)

text \<open>
  C10. Whatever happens, the provider can claim what was authorised: starting from channels whose
  authorised amount is covered by their value, every channel in the storage stays covered, in every
  state that requests can reach, failed requests included.
\<close>

theorem stored_channels_stay_solvent:
  assumes "payment_service st view G h" "sys_open s0 = []"
    and "\<And>key c. channel_table G (view (sys_world s0)) key = Some c \<Longrightarrow> AuthorizedAmount c \<le> FullAmount c"
    and "escrow_reachable E h (\<lambda>w. channel_table G (view w)) (\<lambda>w w'. view w' = view w) {IncrementChannelNonce} s0 s"
    and "channel_table G (view (sys_world s)) key = Some c"
  shows "AuthorizedAmount c \<le> FullAmount c"
  using payment_service.escrow_reachable_solvent [OF assms(1,4,2)] assms(3,5) by (auto simp: sys_solvent_def solvent_def)

theorem stored_channels_stay_solvent_witness:
  "\<exists>c. channel_table ints_gob (memory_view sample_charged) \<lparr>ID = 1\<rparr> = Some c \<and> AuthorizedAmount c \<le> FullAmount c"
proof -
  let ?c = "sample_channel\<lparr>AuthorizedAmount := 3, Signature := Some (sample_signature 7)\<rparr>"
  have "channel_table ints_gob (memory_view sample_charged) \<lparr>ID = 1\<rparr> = Some ?c"
    by (simp add: sample_charged_table)
  with stored_channels_stay_solvent [OF sample_payment_service _ _ sample_reached, of "\<lparr>ID = 1\<rparr>" ?c] show ?thesis
    by simp
qed

section \<open>Claims\<close>



text \<open>
  C14. A payment leaves the table of claims only after it was claimed on the blockchain, that is when the
  nonce of its channel there has passed it; this holds for every way a provider's request can end.
\<close>

theorem only_claimed_payments_removed:
  assumes "payment_service st view G h" "channelService svc = h" "payments_keyed G (view w)"
    and "\<And>key w. GetChannelStateFromBlockchain (blockchainReader h) key w = chain key"
    and "removeClaimedPayments svc w = (r, w')"
    and "payment_table G (view w) i = Some p" "payment_table G (view w') i \<noteq> Some p"
  shows "\<exists>c. chain (payment_key p) = Inr (Some c) \<and> ChannelNonce p < Nonce c"
  using payment_service.removeClaimedPayments_table [OF assms(1,5,2,3,4), of i] assms(6,7)
  by (auto simp: claimed_on_chain_def)

theorem only_claimed_payments_removed_witness:
  "\<exists>c. settled_chain \<lparr>ID = 1\<rparr> = Inr (Some c) \<and> ChannelNonce sample_payment < Nonce c"
  using only_claimed_payments_removed [OF memory_payment_service [of settled_reader sample_validator 9] _ sample_claimed_keyed _ settled_removes,
      where chain = settled_chain and i = "Payment_ID sample_payment" and p = sample_payment]
  by (simp add: settled_from_chain sample_claimed_table settled_removed_table)

text \<open>
  C15. When every channel with a claim in progress is found on the blockchain, a successful clean-up
  removes exactly the payments that were claimed there.
\<close>

theorem claimed_payments_removed:
  assumes "payment_service st view G h" "channelService svc = h" "payments_keyed G (view w)"
    and "\<And>key w. GetChannelStateFromBlockchain (blockchainReader h) key w = chain key"
    and "removeClaimedPayments svc w = (Inr (), w')"
    and "\<And>p. p \<in> ran (payment_table G (view w)) \<Longrightarrow> \<exists>c. chain (payment_key p) = Inr (Some c)"
  shows "payment_table G (view w') i =
    (case payment_table G (view w) i of
       Some p \<Rightarrow> if (\<exists>c. chain (payment_key p) = Inr (Some c) \<and> ChannelNonce p < Nonce c) then None else Some p
     | None \<Rightarrow> None)"
  using payment_service.removeClaimedPayments_all [OF assms(1,5,2-4,6)] unfolding claimed_on_chain_def by simp

theorem claimed_payments_removed_witness:
  "payment_table ints_gob (memory_view (sample_claimed\<lparr>data := fmempty\<rparr>)) (Payment_ID sample_payment) = None"
  using claimed_payments_removed [OF memory_payment_service [of settled_reader sample_validator 9] _ sample_claimed_keyed _ settled_removes,
      where chain = settled_chain and i = "Payment_ID sample_payment"]
  by (simp add: settled_from_chain sample_claimed_table settled_chain_def)

text \<open>
  The list of claims in progress has every payment of the table once.
\<close>

theorem claims_listed_once:
  assumes "payment_service st view G h" "payments_keyed G (view w)" "ListClaims h w = (Inr claims, w')"
  shows "view w' = view w \<and> set (map claimImpl_Payment claims) = ran (payment_table G (view w)) \<and>
    distinct (map (Payment_ID \<circ> claimImpl_Payment) claims)"
proof (rule payment_service.ListClaims_ok [OF assms(1,3,2)])
  fix ps
  assume "claims = map (claim_of h) ps" "view w' = view w" "set ps = ran (payment_table G (view w))"
    "distinct (map Payment_ID ps)"
  then show ?thesis by (simp add: o_def claimImpl_Payment_def)
qed

theorem claims_listed_once_witness:
  "set (map claimImpl_Payment [claim_of settled_service sample_payment]) =
     ran (payment_table ints_gob (memory_view sample_claimed))"
  using claims_listed_once [OF memory_payment_service [of settled_reader sample_validator 9] sample_claimed_keyed settled_lists]
  by simp

section \<open>Channel state\<close>

text \<open>
  C16. \<^verbatim>\<open>PaymentChannel\<close> returns what its specification \<open>latest_channel\<close> says of the stored channel and
  the channel on the blockchain, and reading changes nothing.
\<close>

theorem payment_channel_is_latest:
  assumes "payment_service st view G h" "PaymentChannel h key w = (Inr x, w')"
  shows "latest_channel (fst (replicaGroupID h)) (channel_table G (view w) key)
      (GetChannelStateFromBlockchain (blockchainReader h) key w') = Inr x \<and> view w' = view w"
  using payment_service.PaymentChannel_latest [OF assms] payment_service.PaymentChannel_view [OF assms] by simp

theorem payment_channel_is_latest_witness:
  "latest_channel 9 (channel_table ints_gob (memory_view sample_charged) \<lparr>ID = 1\<rparr>) (Inr (Some sample_channel)) =
     Inr (Some (sample_channel\<lparr>AuthorizedAmount := 3, Signature := Some (sample_signature 7)\<rparr>))"
  using payment_channel_is_latest [OF sample_payment_service sample_charged_channel] by (simp add: sample_from_chain)

text \<open>
  C17. The state of a channel is told to its signer only, and it is the current one: the nonce, and the
  last amount and signature when a payment was made with this nonce.
\<close>

theorem channel_state_for_signer:
  assumes "payment_service st view G h" "GetChannelState E h req w = (Inr reply, w')"
  shows "\<exists>c. latest_channel (fst (replicaGroupID h))
      (channel_table G (view w) \<lparr>ID = bytesToBigInt (state_ChannelId req)\<rparr>)
      (GetChannelStateFromBlockchain (blockchainReader h) \<lparr>ID = bytesToBigInt (state_ChannelId req)\<rparr> w') = Inr (Some c) \<and>
    getSignerAddressFromMessage E (bigIntToBytes E (bytesToBigInt (state_ChannelId req))) (state_Signature req) = Inr (Signer c) \<and>
    CurrentNonce reply = bigIntToBytes E (Nonce c) \<and> CurrentSignature reply = Signature c \<and>
    CurrentSignedAmount reply = (if Signature c = None then None else Some (bigIntToBytes E (AuthorizedAmount c)))"
proof -
  from assms(2) obtain c where c: "PaymentChannel h \<lparr>ID = bytesToBigInt (state_ChannelId req)\<rparr> w = (Inr (Some c), w')"
    "getSignerAddressFromMessage E (bigIntToBytes E (bytesToBigInt (state_ChannelId req))) (state_Signature req) = Inr (Signer c)"
    "reply = \<lparr>CurrentNonce = bigIntToBytes E (Nonce c),
       CurrentSignedAmount = (if Signature c = None then None else Some (bigIntToBytes E (AuthorizedAmount c))),
       CurrentSignature = Signature c\<rparr>"
    by (auto simp: GetChannelState_def Let_def split: sum.splits prod.splits option.splits if_splits)
  with payment_service.PaymentChannel_latest [OF assms(1) c(1)] show ?thesis by auto
qed

theorem channel_state_for_signer_witness:
  "CurrentSignature \<lparr>CurrentNonce = bigIntToBytes sample_eth 0,
     CurrentSignedAmount = Some (bigIntToBytes sample_eth 3), CurrentSignature = Some (sample_signature 7)\<rparr> =
   Signature (sample_channel\<lparr>AuthorizedAmount := 3, Signature := Some (sample_signature 7)\<rparr>)"
  using channel_state_for_signer [OF sample_payment_service sample_state] sample_from_chain [of 1]
  by (simp add: sample_charged_table)

section \<open>Payments\<close>

text \<open>
  C18. The message a client signs determines the payment: contract, channel, nonce and amount, for
  numbers of the contract's 256-bit range. A signature for one payment is no signature of another one
  unless the signature scheme itself gives the same signer for two messages.
\<close>

theorem signed_message_determines_payment:
  assumes "BigToHash_crops E"
    and "0 \<le> payment_ChannelID p" "payment_ChannelID p < 2 ^ 256" "0 \<le> payment_ChannelID q" "payment_ChannelID q < 2 ^ 256"
    and "0 \<le> ChannelNonce p" "ChannelNonce p < 2 ^ 256" "0 \<le> ChannelNonce q" "ChannelNonce q < 2 ^ 256"
    and "0 \<le> Amount p" "Amount p < 2 ^ 256" "0 \<le> Amount q" "Amount q < 2 ^ 256"
    and "payment_message E p = payment_message E q"
  shows "MpeContractAddress p = MpeContractAddress q \<and> payment_ChannelID p = payment_ChannelID q \<and>
    ChannelNonce p = ChannelNonce q \<and> Amount p = Amount q"
  using payment_message_inject [OF assms(1), of p q] assms(2-) by simp

theorem signed_message_determines_payment_witness:
  "Amount sample_payment = Amount (sample_payment\<lparr>payment_Signature := None\<rparr>)"
  using signed_message_determines_payment [of sample_eth sample_payment "sample_payment\<lparr>payment_Signature := None\<rparr>"]
  by (simp add: BigToHash_crops_def sample_eth_def payment_message_def)

text \<open>
  C19. What a client writes into the headers is what the daemon reads: numbers in decimal and the raw
  signature come back as the payment, for the daemon's own contract address.
\<close>

theorem payment_headers_roundtrip:
  assumes "md_Get (context_MD ctx) PaymentChannelIDHeader = [show_int i]"
    and "md_Get (context_MD ctx) PaymentChannelNonceHeader = [show_int n]"
    and "md_Get (context_MD ctx) PaymentChannelAmountHeader = [show_int a]"
    and "md_Get (context_MD ctx) PaymentChannelSignatureHeader = [s]"
  shows "getPaymentFromContext md_Get hp ctx =
    Inr \<lparr>MpeContractAddress = mpeContractAddress hp, payment_ChannelID = i, ChannelNonce = n, Amount = a,
         payment_Signature = Some (string_bytes s)\<rparr>"
  using assms
  by (simp add: getPaymentFromContext_def GetBigInt_def GetBytes_def GetSingleValue_def Let_def UnmarshalText_show_int)
    (simp add: PaymentChannelSignatureHeader_def suffix_def)

theorem payment_headers_roundtrip_witness:
  "getPaymentFromContext sample_md_Get \<lparr>service = sample_service, mpeContractAddress = 11,
       handler_incomeValidator = NewIncomeValidator 3\<rparr> \<lparr>context_MD = sample_md 4 5 6, context_Info = []\<rparr> =
     Inr \<lparr>MpeContractAddress = 11, payment_ChannelID = 4, ChannelNonce = 5, Amount = 6,
       payment_Signature = Some (string_bytes (map (\<lambda>b. char_of (unat b)) (sample_signature 7)))\<rparr>"
  using payment_headers_roundtrip [of sample_md_Get "\<lparr>context_MD = sample_md 4 5 6, context_Info = []\<rparr>" 4 5 6
      "map (\<lambda>b. char_of (unat b)) (sample_signature 7)"
      "\<lparr>service = sample_service, mpeContractAddress = 11, handler_incomeValidator = NewIncomeValidator 3\<rparr>"]
  by (simp add: sample_md_Get_def sample_md_def PaymentChannelIDHeader_def PaymentChannelNonceHeader_def
      PaymentChannelAmountHeader_def PaymentChannelSignatureHeader_def)

text \<open>
  C20. The validator refuses a payment with the code that lets a client recover: code 1000 exactly when the
  nonce is not the current one, \<^verbatim>\<open>Internal\<close> exactly when the signature is right but the blockchain gives
  no block number, and \<^verbatim>\<open>Unauthenticated\<close> otherwise.
\<close>

theorem refused_payment_codes:
  assumes "ChannelPaymentValidator_Validate E v p c w = Some err"
  shows "\<exists>m. grpcErrorOf err = \<lparr>error_Status = Some \<lparr>status_code =
      (if ChannelNonce p \<noteq> Nonce c then Code 1000
       else if getSignerAddressFromPayment E p = Inr (Signer c) \<and> (\<exists>e. currentBlock v w = Inl e) then codes_Internal
       else codes_Unauthenticated), status_message = m\<rparr>\<rparr>"
  using assms
  by (auto simp: ChannelPaymentValidator_Validate_def grpcErrorOf_def NewPaymentError_def NewGrpcErrorf_def Let_def
      payment_error_codes handler_IncorrectNonce_def split: sum.splits if_splits)

theorem refused_payment_codes_witness:
  "\<exists>m err. ChannelPaymentValidator_Validate sample_eth sample_validator sample_payment (sample_channel\<lparr>Nonce := 2\<rparr>) NewMemStorage
      = Some err \<and> grpcErrorOf err = \<lparr>error_Status = Some \<lparr>status_code = Code 1000, status_message = m\<rparr>\<rparr>"
proof -
  obtain err where "ChannelPaymentValidator_Validate sample_eth sample_validator sample_payment
      (sample_channel\<lparr>Nonce := 2\<rparr>) NewMemStorage = Some err"
    by (simp add: ChannelPaymentValidator_Validate_def)
  with refused_payment_codes [OF this] show ?thesis by simp
qed

section \<open>Provider requests\<close>

text \<open>
  C21. The lists a provider gets: of the channels in the storage, those whose authorised amount is not a
  multiple of $2^{64}$ (the code tests the low 64 bits), without signatures; and only if the request
  named the contract and was signed by the payment address.
\<close>

theorem unclaimed_list:
  assumes "GetListUnclaimed E ethClient eth_blockNumber svc req w = (Inr replies, w')"
  shows "\<exists>cs. ListChannels (channelService svc) w = (Inr cs, w') \<and>
    replies = map (\<lambda>c. \<lparr>reply_ChannelId = bigIntToBytes E (ChannelID c), reply_ChannelNonce = bigIntToBytes E (Nonce c),
        reply_SignedAmount = bigIntToBytes E (AuthorizedAmount c), reply_Signature = None\<rparr>)
      (filter (\<lambda>c. \<not> 2 ^ 64 dvd AuthorizedAmount c) cs) \<and>
    request_MpeAddress req = MpeAddress (serviceMetaData svc) \<and>
    getSignerAddressFromMessage E (getMessageBytes E svc ''__list_unclaimed'' req) (request_Signature req) =
      Inr (GetPaymentAddress (serviceMetaData svc))"
  using assms
  by (auto simp: GetListUnclaimed_def listChannels_def checkMpeAddress_def verifySignerForListUnclaimed_def verifySigner_def
      verifyPaymentAddress_def Int64_eq_0_iff split: option.splits sum.splits prod.splits if_splits)

theorem unclaimed_list_witness:
  "\<exists>cs. ListChannels sample_service NewMemStorage = (Inr cs, NewMemStorage) \<and>
     filter (\<lambda>c. \<not> 2 ^ 64 dvd AuthorizedAmount c) cs = []"
  using unclaimed_list [OF sample_unclaimed] by auto

text \<open>
  The check that the block number of a request is near the current one refuses no request: whatever
  number is passed and whatever the current block is, it succeeds when the current block can be read.
\<close>

theorem block_number_never_refused:
  "compareWithLatestBlockNumber (Inr latest) blockNumberPassed = None"
  by (simp add: compareWithLatestBlockNumber_def Let_def big_Cmp_def)

text \<open>
  C22. A claim for a channel that is neither stored nor on the blockchain ends in a nil dereference, and
  no signature is asked for: the request only has to name the contract.
\<close>

theorem claim_on_unknown_channel_panics:
  assumes "claim_MpeAddress req = MpeAddress (serviceMetaData svc)"
    and "PaymentChannel (channelService svc) \<lparr>ID = bytesToBigInt (claim_ChannelId req)\<rparr> w = (Inr None, w1)"
    and "removeClaimedPayments svc w1 = (Inr (), w2)"
    and "PaymentChannel (channelService svc) \<lparr>ID = bytesToBigInt (claim_ChannelId req)\<rparr> w2 = (Inr None, w3)"
  shows "ProviderControlService_StartClaim E svc req w = (Panics nil_dereference, w3)"
  using assms
  by (simp add: ProviderControlService_StartClaim_def checkMpeAddress_def verifySignerForStartClaim_def beginClaimOnChannel_def Let_def)

theorem claim_on_unknown_channel_panics_witness:
  "ProviderControlService_StartClaim sample_eth sample_control
     \<lparr>claim_MpeAddress = ''0x0b'', claim_ChannelId = [2], claim_Signature = []\<rparr> NewMemStorage =
   (Panics nil_dereference, NewMemStorage)"
  using claim_on_unknown_channel_panics [of "\<lparr>claim_MpeAddress = ''0x0b'', claim_ChannelId = [2], claim_Signature = []\<rparr>"
      sample_control NewMemStorage NewMemStorage NewMemStorage NewMemStorage]
  by (simp add: bytesToBigInt_def SetBytes_def of_be_bytes_def missing_channel removeClaimedPayments_def empty_lists)

section \<open>Storage\<close>





text \<open>
  C25. What is written to the table of channels is read back, and nothing else changes: after a successful \<open>Put\<close>, a \<open>Get\<close> that succeeds returns
  the written channel for its key and what was there before for every other key, and payments and locks are as before.
\<close>

theorem channel_storage_roundtrip:
  assumes "escrow_storage st view G" "channel_storable c"
    and "PaymentChannelStorage_Put (NewPaymentChannelStorage G st) key c w = (Inr (), w1)"
    and "PaymentChannelStorage_Get (NewPaymentChannelStorage G st) key' w1 = (Inr x, w2)"
  shows "x = (if key' = key then Some c else channel_table G (view w) key') \<and>
    payment_table G (view w2) = payment_table G (view w) \<and> lock_table (view w2) = lock_table (view w)"
  using escrow_storage.channel_Get_ok [OF assms(1,4)] escrow_storage.channel_Get_view [OF assms(1,4)]
    escrow_storage.channel_Put_ok [OF assms(1,3,2)] escrow_storage.channel_Put_other_tables [OF assms(1,3)]
  by (auto split: if_splits)

theorem channel_storage_roundtrip_witness:
  "\<exists>w1. PaymentChannelStorage_Put (NewPaymentChannelStorage ints_gob (memory_AtomicStorage key_order)) \<lparr>ID = 1\<rparr> sample_channel
      NewMemStorage = (Inr (), w1) \<and>
    PaymentChannelStorage_Get (NewPaymentChannelStorage ints_gob (memory_AtomicStorage key_order)) \<lparr>ID = 1\<rparr> w1 =
      (Inr (Some sample_channel), w1)"
proof -
  obtain w1 where put: "PaymentChannelStorage_Put (NewPaymentChannelStorage ints_gob (memory_AtomicStorage key_order)) \<lparr>ID = 1\<rparr>
      sample_channel NewMemStorage = (Inr (), w1)"
    by (simp add: storage_run_defs ints_gob_def)
  obtain x where get: "PaymentChannelStorage_Get (NewPaymentChannelStorage ints_gob (memory_AtomicStorage key_order)) \<lparr>ID = 1\<rparr> w1 =
      (Inr x, w1)"
    using put by (auto simp: storage_run_defs ints_gob_def decoded_def)
  have "channel_storable sample_channel" by (simp add: channel_storable_def sample_channel_def)
  from channel_storage_roundtrip [OF memory.escrow_storage_axioms this put get] put get show ?thesis by auto
qed

end
